(* ===== verification/Prelude.thy ===== *)
theory Prelude
  imports Main
begin

text \<open>
  Shared vocabulary of the development.

  \<^item> Results: a Go function returning \<open>(value, error)\<close> is a value of a sum type, \<open>Inl\<close> the
    error and \<open>Inr\<close> the value; \<open>bindE\<close> is the \<open>if err != nil { return err }\<close> idiom and \<open>mapE\<close>
    the loop that stops at the first error.
  \<^item> Reasons: an error message is kept as the pieces \<open>fmt.Sprintf\<close> glues together (literal
    text, \<open>%s\<close>, \<open>%d\<close>, \<open>%q\<close>, \<open>%v\<close>), so that two branches with different messages stay
    different values; the rendering of the verbs themselves is not modelled. The ellipsis
    character of some messages is written as three dots.
  \<^item> Strings: a Go string is a byte string, here a \<open>string\<close> whose characters are the bytes;
    the functions of package \<open>strings\<close> the source uses are defined on it, Unicode white
    space through its UTF-8 encodings.
\<close>

named_theorems consumes \<open>what a parser step leaves of its token list\<close>
named_theorems tri_simps \<open>evaluation of the three-valued connectives\<close>

subsection \<open>Results\<close>

definition bindE :: "'e + 'a \<Rightarrow> ('a \<Rightarrow> 'e + 'b) \<Rightarrow> 'e + 'b" where
  "bindE m f = (case m of Inl e \<Rightarrow> Inl e | Inr x \<Rightarrow> f x)"

lemma bindE_Inl [simp]: "bindE (Inl e) f = Inl e"
  by (simp add: bindE_def)

lemma bindE_Inr [simp]: "bindE (Inr x) f = f x"
  by (simp add: bindE_def)

lemma bindE_eq_Inr: "bindE m f = Inr y \<longleftrightarrow> (\<exists>x. m = Inr x \<and> f x = Inr y)"
  by (auto simp: bindE_def split: sum.splits)

lemma bindE_eq_Inl: "bindE m f = Inl e \<longleftrightarrow> m = Inl e \<or> (\<exists>x. m = Inr x \<and> f x = Inl e)"
  by (auto simp: bindE_def split: sum.splits)

lemma bindE_cong [fundef_cong]:
  "m = m' \<Longrightarrow> (\<And>x. m' = Inr x \<Longrightarrow> f x = g x) \<Longrightarrow> bindE m f = bindE m' g"
  by (auto simp: bindE_def split: sum.splits)

lemma bindE_split:
  "P (bindE m f) \<longleftrightarrow> (\<forall>e. m = Inl e \<longrightarrow> P (Inl e)) \<and> (\<forall>x. m = Inr x \<longrightarrow> P (f x))"
  by (auto simp: bindE_def split: sum.splits)

lemma bindE_assoc: "bindE (bindE m f) g = bindE m (\<lambda>x. bindE (f x) g)"
  by (simp add: bindE_def split: sum.splits)

fun mapE :: "('a \<Rightarrow> 'e + 'b) \<Rightarrow> 'a list \<Rightarrow> 'e + 'b list" where
  "mapE f [] = Inr []"
| "mapE f (x # xs) = bindE (f x) (\<lambda>y. bindE (mapE f xs) (\<lambda>ys. Inr (y # ys)))"

lemma mapE_cong [fundef_cong]:
  "xs = ys \<Longrightarrow> (\<And>x. x \<in> set ys \<Longrightarrow> f x = g x) \<Longrightarrow> mapE f xs = mapE g ys"
proof (induction ys arbitrary: xs)
  case (Cons y ys)
  then show ?case by (auto intro!: bindE_cong)
qed simp

lemma mapE_eq_Inr: "mapE f xs = Inr ys \<longleftrightarrow> list_all2 (\<lambda>x y. f x = Inr y) xs ys"
  by (induction xs arbitrary: ys)
    (auto simp: bindE_eq_Inr list_all2_Cons1)

lemma mapE_Inr_length: "mapE f xs = Inr ys \<Longrightarrow> length ys = length xs"
  by (auto simp: mapE_eq_Inr dest: list_all2_lengthD)

lemma mapE_eq_Inl: "mapE f xs = Inl e \<Longrightarrow> \<exists>x \<in> set xs. f x = Inl e"
  by (induction xs) (auto simp: bindE_eq_Inl)

lemma mapE_InrD: "mapE f xs = Inr ys \<Longrightarrow> x \<in> set xs \<Longrightarrow> \<exists>y \<in> set ys. f x = Inr y"
  by (induction xs arbitrary: ys) (auto simp: bindE_eq_Inr)

lemma mapE_set: "mapE f xs = Inr ys \<Longrightarrow> y \<in> set ys \<Longrightarrow> \<exists>x \<in> set xs. f x = Inr y"
  by (induction xs arbitrary: ys) (auto simp: bindE_eq_Inr)

text \<open>Pieces of a formatted message.\<close>

datatype piece =
    T string   \<comment> \<open>literal text of the format\<close>
  | S string   \<comment> \<open>a string argument of \<open>%s\<close>\<close>
  | D int      \<comment> \<open>an integer argument of \<open>%d\<close>\<close>
  | Q string   \<comment> \<open>a quoted argument of \<open>%q\<close>\<close>
  | V string   \<comment> \<open>an argument of \<open>%v\<close>, \<open>%c\<close> or \<open>%T\<close>, named by what it is\<close>

type_synonym reason = "piece list"

abbreviation sq :: piece where "sq \<equiv> T [CHR 39]"   \<comment> \<open>a single quote in a message\<close>

subsection \<open>Bytes and strings\<close>

definition byte :: "char \<Rightarrow> nat" where
  "byte c = of_char c"

lemma byte_Char [simp]:
  "byte (Char b0 b1 b2 b3 b4 b5 b6 b7) = of_char (Char b0 b1 b2 b3 b4 b5 b6 b7)"
  by (simp add: byte_def)

definition isDigit :: "char \<Rightarrow> bool" where
  "isDigit c \<longleftrightarrow> 48 \<le> byte c \<and> byte c \<le> 57"

definition isLetter :: "char \<Rightarrow> bool" where
  "isLetter c \<longleftrightarrow> 97 \<le> byte c \<and> byte c \<le> 122 \<or> 65 \<le> byte c \<and> byte c \<le> 90"

definition lowerChar :: "char \<Rightarrow> char" where
  "lowerChar c = (if 65 \<le> byte c \<and> byte c \<le> 90 then char_of (byte c + 32) else c)"

definition upperChar :: "char \<Rightarrow> char" where
  "upperChar c = (if 97 \<le> byte c \<and> byte c \<le> 122 then char_of (byte c - 32) else c)"

definition hasPrefix :: "string \<Rightarrow> string \<Rightarrow> bool" where
  "hasPrefix s p \<longleftrightarrow> take (length p) s = p"

definition hasSuffix :: "string \<Rightarrow> string \<Rightarrow> bool" where
  "hasSuffix s p \<longleftrightarrow> length p \<le> length s \<and> drop (length s - length p) s = p"

definition trimPrefix :: "string \<Rightarrow> string \<Rightarrow> string" where
  "trimPrefix s p = (if hasPrefix s p then drop (length p) s else s)"

definition trimSuffix :: "string \<Rightarrow> string \<Rightarrow> string" where
  "trimSuffix s p = (if hasSuffix s p then take (length s - length p) s else s)"

fun containsStr :: "string \<Rightarrow> string \<Rightarrow> bool" where
  "containsStr [] p \<longleftrightarrow> p = []"
| "containsStr (c # s) p \<longleftrightarrow> hasPrefix (c # s) p \<or> containsStr s p"

text \<open>\<open>strings.Cut\<close> at one character: the part before, the part after, and whether it was there.\<close>

fun cutAt :: "char \<Rightarrow> string \<Rightarrow> (string \<times> string) option" where
  "cutAt c [] = None"
| "cutAt c (x # s) =
     (if x = c then Some ([], s)
      else (case cutAt c s of None \<Rightarrow> None | Some (a, b) \<Rightarrow> Some (x # a, b)))"

fun splitOn :: "char \<Rightarrow> string \<Rightarrow> string list" where
  "splitOn c [] = [[]]"
| "splitOn c (x # s) =
     (if x = c then [] # splitOn c s
      else (case splitOn c s of [] \<Rightarrow> [[x]] | p # ps \<Rightarrow> (x # p) # ps))"

fun joinStr :: "string \<Rightarrow> string list \<Rightarrow> string" where
  "joinStr sep [] = []"
| "joinStr sep [s] = s"
| "joinStr sep (s # ss) = s @ sep @ joinStr sep ss"

lemma hasPrefix_append [simp]: "hasPrefix (p @ s) p"
  by (simp add: hasPrefix_def)

lemma hasSuffix_append [simp]: "hasSuffix (s @ p) p"
  by (simp add: hasSuffix_def)

lemma hasSuffix_iff: "hasSuffix s p \<longleftrightarrow> (\<exists>r. s = r @ p)"
  by (auto simp: hasSuffix_def) (metis append_take_drop_id)

lemma hasPrefix_iff: "hasPrefix s p \<longleftrightarrow> (\<exists>r. s = p @ r)"
  by (auto simp: hasPrefix_def) (metis append_take_drop_id)

lemma trimSuffix_append [simp]: "trimSuffix (s @ p) p = s"
  by (simp add: trimSuffix_def)

lemma cutAt_Some: "cutAt c s = Some (a, b) \<Longrightarrow> s = a @ c # b \<and> c \<notin> set a"
  by (induction s arbitrary: a) (auto split: if_splits option.splits)

lemma cutAt_None: "cutAt c s = None \<longleftrightarrow> c \<notin> set s"
  by (induction s) (auto split: option.splits)

lemma cutAt_append: "c \<notin> set a \<Longrightarrow> cutAt c (a @ c # b) = Some (a, b)"
  by (induction a) auto

lemma splitOn_nonempty [simp]: "splitOn c s \<noteq> []"
  by (induction s) (auto split: list.splits)

subsection \<open>Unicode white space\<close>

text \<open>
  \<open>spaceLen s\<close> is the length of the white-space character (\<open>unicode.IsSpace\<close>) at the start
  of \<open>s\<close>, 0 when there is none. The multi-byte ones are U+0085, U+00A0, U+1680, U+2000 to
  U+200A, U+2028, U+2029, U+202F, U+205F and U+3000. Every such encoding starts with a lead
  byte, so looking at each byte position finds exactly the runes Go decodes.
\<close>

definition asciiSpace :: "char \<Rightarrow> bool" where
  "asciiSpace c \<longleftrightarrow> byte c = 32 \<or> 9 \<le> byte c \<and> byte c \<le> 13"

definition space2 :: "char \<Rightarrow> char \<Rightarrow> bool" where
  "space2 a b \<longleftrightarrow> byte a = 0xC2 \<and> (byte b = 0x85 \<or> byte b = 0xA0)"

definition space3 :: "char \<Rightarrow> char \<Rightarrow> char \<Rightarrow> bool" where
  "space3 a b c \<longleftrightarrow>
     byte a = 0xE1 \<and> byte b = 0x9A \<and> byte c = 0x80 \<or>
     byte a = 0xE2 \<and> byte b = 0x80 \<and>
       (0x80 \<le> byte c \<and> byte c \<le> 0x8A \<or> byte c = 0xA8 \<or> byte c = 0xA9 \<or> byte c = 0xAF) \<or>
     byte a = 0xE2 \<and> byte b = 0x81 \<and> byte c = 0x9F \<or>
     byte a = 0xE3 \<and> byte b = 0x80 \<and> byte c = 0x80"

definition spaceLen :: "string \<Rightarrow> nat" where
  "spaceLen s = (case s of
      [] \<Rightarrow> 0
    | a # s1 \<Rightarrow> if asciiSpace a then 1 else
        (case s1 of
           [] \<Rightarrow> 0
         | b # s2 \<Rightarrow> if space2 a b then 2 else
             (case s2 of [] \<Rightarrow> 0 | c # _ \<Rightarrow> if space3 a b c then 3 else 0)))"

definition spaceLenRev :: "string \<Rightarrow> nat" where
  \<comment> \<open>the same at the end of a string, given in reverse\<close>
  "spaceLenRev s = (case s of
      [] \<Rightarrow> 0
    | c # s1 \<Rightarrow> if asciiSpace c then 1 else
        (case s1 of
           [] \<Rightarrow> 0
         | b # s2 \<Rightarrow> if space2 b c then 2 else
             (case s2 of [] \<Rightarrow> 0 | a # _ \<Rightarrow> if space3 a b c then 3 else 0)))"

lemma spaceLen_le: "spaceLen s \<le> length s"
  by (auto simp: spaceLen_def split: list.splits)

lemma spaceLenRev_le: "spaceLenRev s \<le> length s"
  by (auto simp: spaceLenRev_def split: list.splits)

function trimLeft :: "string \<Rightarrow> string" where
  "trimLeft s = (if spaceLen s = 0 then s else trimLeft (drop (spaceLen s) s))"
  by pat_completeness auto
termination
proof (relation "measure length")
  fix s :: string
  assume "spaceLen s \<noteq> 0"
  with spaceLen_le[of s] show "(drop (spaceLen s) s, s) \<in> measure length" by simp
qed simp

function trimRightRev :: "string \<Rightarrow> string" where
  "trimRightRev s = (if spaceLenRev s = 0 then s else trimRightRev (drop (spaceLenRev s) s))"
  by pat_completeness auto
termination
proof (relation "measure length")
  fix s :: string
  assume "spaceLenRev s \<noteq> 0"
  with spaceLenRev_le[of s] show "(drop (spaceLenRev s) s, s) \<in> measure length" by simp
qed simp

declare trimLeft.simps [simp del] trimRightRev.simps [simp del]

definition trimSpace :: "string \<Rightarrow> string" where
  "trimSpace s = rev (trimRightRev (rev (trimLeft s)))"

text \<open>\<open>strings.FieldsFunc(s, unicode.IsSpace)\<close>: the maximal runs without white space.\<close>

function fieldsAcc :: "string \<Rightarrow> string \<Rightarrow> string list" where
  "fieldsAcc acc s =
     (if s = [] then (if acc = [] then [] else [rev acc])
      else if spaceLen s = 0 then fieldsAcc (hd s # acc) (tl s)
      else (if acc = [] then [] else [rev acc]) @ fieldsAcc [] (drop (spaceLen s) s))"
  by pat_completeness auto
termination
proof (relation "measure (\<lambda>(acc, s). length s)")
  fix acc s :: string
  assume "s \<noteq> []" "spaceLen s \<noteq> 0"
  with spaceLen_le[of s] show "(([], drop (spaceLen s) s), (acc, s)) \<in> measure (\<lambda>(acc, s). length s)"
    by simp
qed auto

declare fieldsAcc.simps [simp del]

definition fieldsSpace :: "string \<Rightarrow> string list" where
  "fieldsSpace s = fieldsAcc [] s"

lemma fieldsAcc_nonempty: "[] \<notin> set (fieldsAcc acc s)"
proof (induction acc s rule: fieldsAcc.induct)
  case (1 acc s)
  then show ?case by (subst fieldsAcc.simps) auto
qed

lemma fieldsSpace_nonempty: "t \<in> set (fieldsSpace s) \<Longrightarrow> t \<noteq> []"
  unfolding fieldsSpace_def using fieldsAcc_nonempty[of "[]" s] by metis

text \<open>
  \<open>strings.EqualFold\<close> against an ASCII lower-case word: besides the letters' two cases, Unicode
  simple folding identifies \<open>s\<close> with U+017F and \<open>k\<close> with U+212A.
\<close>

fun foldAscii :: "string \<Rightarrow> string" where
  "foldAscii (a # b # c # s) =
     (if byte a = 0xC5 \<and> byte b = 0xBF then CHR ''s'' # foldAscii (c # s)
      else if byte a = 0xE2 \<and> byte b = 0x84 \<and> byte c = 0xAA then CHR ''k'' # foldAscii s
      else lowerChar a # foldAscii (b # c # s))"
| "foldAscii [a, b] =
     (if byte a = 0xC5 \<and> byte b = 0xBF then ''s'' else [lowerChar a, lowerChar b])"
| "foldAscii s = map lowerChar s"

definition equalFoldWord :: "string \<Rightarrow> string \<Rightarrow> bool" where
  "equalFoldWord s w \<longleftrightarrow> foldAscii s = w"

end
