(* ===== verification/GoStrconv.thy ===== *)
theory GoStrconv
  imports Prelude "HOL-Library.Word"
begin

text \<open>
  The parts of Go's runtime and of package \<open>strconv\<close> the program's numbers go through.

  \<^item> \<open>int\<close> and \<open>int64\<close> values are HOL integers; a sum the code computes on them is written
    with \<open>wrap64\<close>, which is the two's complement reading of a 64-bit word
    (\<open>wrap64_word\<close>). \<open>ParseInt\<close> and \<open>FormatInt\<close> are base 10, size 64.
  \<^item> \<open>float64\<close> values are \<open>NaN\<close>, an infinity, or a sign with a number of units of
    \<open>2 ^ -1074\<close>, the distance between subnormals: every finite double is such a multiple, so
    comparisons and roundings are exact integer arithmetic. A \<open>float32\<close> is a float64 whose
    value fits 24 significant bits.
  \<^item> \<open>ParseFloat\<close> reads the syntax of Go's \<open>readFloat\<close> (sign, decimal or hexadecimal
    mantissa, exponent, underscores between digits, \<open>inf\<close>, \<open>infinity\<close>, \<open>nan\<close>) and rounds to
    nearest, ties to even; a value that overflows is the range error (\<open>None\<close>).
  \<^item> \<open>FormatFloat\<close> is the \<open>'f', -1\<close> form: the shortest decimal that parses back.
\<close>

subsection \<open>64-bit integers\<close>

definition maxInt64 :: int where "maxInt64 = 9223372036854775807"
definition minInt64 :: int where "minInt64 = -9223372036854775808"

definition in64 :: "int \<Rightarrow> bool" where
  "in64 i \<longleftrightarrow> minInt64 \<le> i \<and> i \<le> maxInt64"

definition wrap64 :: "int \<Rightarrow> int" where
  "wrap64 i = (i + 9223372036854775808) mod 18446744073709551616 - 9223372036854775808"

lemma wrap64_id: "in64 i \<Longrightarrow> wrap64 i = i"
  by (simp add: wrap64_def in64_def minInt64_def maxInt64_def)

lemma wrap64_in64 [simp]: "in64 (wrap64 i)"
proof -
  have "0 \<le> (i + 9223372036854775808) mod 18446744073709551616"
    and "(i + 9223372036854775808) mod 18446744073709551616 < 18446744073709551616" by simp_all
  then show ?thesis by (simp add: wrap64_def in64_def minInt64_def maxInt64_def)
qed

lemma wrap64_word: "wrap64 i = sint (word_of_int i :: 64 word)"
  by (simp add: wrap64_def sint_sbintrunc' signed_take_bit_eq_take_bit_shift take_bit_eq_mod)

subsection \<open>Decimal integers\<close>

definition digitVal :: "char \<Rightarrow> nat" where
  "digitVal c = byte c - 48"

definition digitChar :: "nat \<Rightarrow> char" where
  "digitChar d = char_of (48 + d)"

definition natOfDigits :: "string \<Rightarrow> nat" where
  "natOfDigits s = foldl (\<lambda>n c. 10 * n + digitVal c) 0 s"

fun showNat :: "nat \<Rightarrow> string" where
  "showNat n = (if n < 10 then [digitChar n] else showNat (n div 10) @ [digitChar (n mod 10)])"

declare showNat.simps [simp del]

lemma byte_digitChar: "d < 10 \<Longrightarrow> byte (digitChar d) = 48 + d"
  by (simp add: byte_def digitChar_def)

lemma digitVal_digitChar [simp]: "d < 10 \<Longrightarrow> digitVal (digitChar d) = d"
  by (simp add: digitVal_def byte_digitChar)

lemma isDigit_digitChar [simp]: "d < 10 \<Longrightarrow> isDigit (digitChar d)"
  by (simp add: isDigit_def byte_digitChar)

lemma natOfDigits_snoc [simp]: "natOfDigits (s @ [c]) = 10 * natOfDigits s + digitVal c"
  by (simp add: natOfDigits_def)

lemma showNat_digits: "c \<in> set (showNat n) \<Longrightarrow> isDigit c"
proof (induction n arbitrary: c rule: showNat.induct)
  case (1 n)
  from "1.prems" have "c \<in> set (if n < 10 then [digitChar n] else showNat (n div 10) @ [digitChar (n mod 10)])"
    by (simp only: showNat.simps[of n])
  then show ?case using "1.IH" by (auto split: if_splits)
qed

lemma showNat_nonempty [simp]: "showNat n \<noteq> []"
  by (subst showNat.simps) simp

lemma natOfDigits_showNat [simp]: "natOfDigits (showNat n) = n"
proof (induction n rule: showNat.induct)
  case (1 n)
  show ?case
  proof (cases "n < 10")
    case True
    then show ?thesis by (subst showNat.simps) (simp add: natOfDigits_def)
  next
    case False
    then have "natOfDigits (showNat n) = 10 * natOfDigits (showNat (n div 10)) + n mod 10"
      by (subst showNat.simps) simp
    with "1.IH" False show ?thesis by simp
  qed
qed

definition FormatInt :: "int \<Rightarrow> string" where
  "FormatInt i = (if i < 0 then CHR ''-'' # showNat (nat (- i)) else showNat (nat i))"

text \<open>The optional sign of a number: whether it is negative, and the rest.\<close>

definition takeSign :: "string \<Rightarrow> bool \<times> string" where
  "takeSign s = (case s of
      [] \<Rightarrow> (False, [])
    | c # r \<Rightarrow> if c = CHR ''-'' then (True, r) else if c = CHR ''+'' then (False, r) else (False, s))"

definition ParseInt :: "string \<Rightarrow> int option" where
  "ParseInt s = (let (neg, ds) = takeSign s in
     if ds = [] \<or> \<not> list_all isDigit ds then None
     else let n = int (natOfDigits ds); v = (if neg then - n else n)
          in if in64 v then Some v else None)"

lemma ParseInt_in64: "ParseInt s = Some i \<Longrightarrow> in64 i"
  by (auto simp: ParseInt_def Let_def split: prod.splits if_splits)

lemma takeSign_digits: "s \<noteq> [] \<Longrightarrow> isDigit (hd s) \<Longrightarrow> takeSign s = (False, s)"
  by (cases s) (auto simp: takeSign_def isDigit_def byte_def)

lemma hd_showNat_digit: "isDigit (hd (showNat n))"
  using showNat_digits[of "hd (showNat n)" n] by simp

lemma ParseInt_FormatInt: "in64 i \<Longrightarrow> ParseInt (FormatInt i) = Some i"
proof -
  assume i: "in64 i"
  have digits: "list_all isDigit (showNat n)" for n
    by (auto simp: list_all_iff dest: showNat_digits)
  show ?thesis
  proof (cases "i < 0")
    case True
    then show ?thesis using i digits
      by (simp add: FormatInt_def ParseInt_def takeSign_def)
  next
    case False
    then show ?thesis using i digits
      by (simp add: FormatInt_def ParseInt_def takeSign_digits hd_showNat_digit)
  qed
qed

subsection \<open>Floating-point values\<close>

datatype gofloat = NaN | Inf bool | Fin bool nat

text \<open>One, in units; and the factor that turns units into a decimal with 1074 places.\<close>

definition unitsPerOne :: nat where "unitsPerOne = 2 ^ 1074"
definition exactScale :: nat where "exactScale = 5 ^ 1074"

text \<open>\<open>roundHalfEven n d\<close> is the integer nearest to \<open>n / d\<close>, ties to the even one.\<close>

definition roundHalfEven :: "nat \<Rightarrow> nat \<Rightarrow> nat" where
  "roundHalfEven n d =
     (let q = n div d; r = n mod d
      in if 2 * r > d \<or> 2 * r = d \<and> odd q then q + 1 else q)"

fun bitLen :: "nat \<Rightarrow> nat" where
  "bitLen n = (if n = 0 then 0 else Suc (bitLen (n div 2)))"

declare bitLen.simps [simp del]

text \<open>
  \<open>roundUnits p q0 lim n d\<close>: the value \<open>n / d\<close>, in units, rounded to \<open>p\<close> significant bits but
  no finer than \<open>2 ^ q0\<close> units; \<open>None\<close> when the rounded value reaches \<open>2 ^ lim\<close> units.
\<close>

definition roundUnits :: "nat \<Rightarrow> nat \<Rightarrow> nat \<Rightarrow> nat \<Rightarrow> nat \<Rightarrow> nat option" where
  "roundUnits p q0 lim n d =
     (let k = max q0 (bitLen (n div d) - p);
          v = roundHalfEven n (d * 2 ^ k) * 2 ^ k
      in if v < 2 ^ lim then Some v else None)"

definition round64 :: "nat \<Rightarrow> nat \<Rightarrow> nat option" where
  "round64 n d = roundUnits 53 0 2098 n d"

definition round32 :: "nat \<Rightarrow> nat \<Rightarrow> nat option" where
  "round32 n d = roundUnits 24 925 1202 n d"

text \<open>\<open>float32(f)\<close>: no error, an overflow is an infinity.\<close>

fun toFloat32 :: "gofloat \<Rightarrow> gofloat" where
  "toFloat32 NaN = NaN"
| "toFloat32 (Inf s) = Inf s"
| "toFloat32 (Fin s u) = (case round32 u 1 of None \<Rightarrow> Inf s | Some v \<Rightarrow> Fin s v)"

text \<open>\<open>float64(i)\<close> of an integer.\<close>

definition floatOfInt :: "int \<Rightarrow> gofloat" where
  "floatOfInt i = (case round64 (nat \<bar>i\<bar> * unitsPerOne) 1 of
      None \<Rightarrow> Inf (i < 0)
    | Some v \<Rightarrow> Fin (i < 0) v)"

definition isNaN :: "gofloat \<Rightarrow> bool" where "isNaN f \<longleftrightarrow> f = NaN"
definition isInf :: "gofloat \<Rightarrow> bool" where "isInf f \<longleftrightarrow> f = Inf True \<or> f = Inf False"

text \<open>Signed units of a finite value; the IEEE order (false when a side is NaN) and equality.\<close>

definition units :: "bool \<Rightarrow> nat \<Rightarrow> int" where
  "units s u = (if s then - int u else int u)"

fun fless :: "gofloat \<Rightarrow> gofloat \<Rightarrow> bool" where
  "fless NaN _ = False"
| "fless _ NaN = False"
| "fless (Inf s) (Inf t) = (s \<and> \<not> t)"
| "fless (Inf s) (Fin _ _) = s"
| "fless (Fin _ _) (Inf t) = (\<not> t)"
| "fless (Fin s u) (Fin t v) = (units s u < units t v)"

fun feq :: "gofloat \<Rightarrow> gofloat \<Rightarrow> bool" where
  "feq NaN _ = False"
| "feq _ NaN = False"
| "feq (Inf s) (Inf t) = (s = t)"
| "feq (Inf _) (Fin _ _) = False"
| "feq (Fin _ _) (Inf _) = False"
| "feq (Fin s u) (Fin t v) = (units s u = units t v)"

text \<open>\<open>math.Trunc(f) == f\<close> and the integer value of such an \<open>f\<close>.\<close>

fun isIntegral :: "gofloat \<Rightarrow> bool" where
  "isIntegral NaN = False"
| "isIntegral (Inf _) = True"
| "isIntegral (Fin _ u) = (u mod unitsPerOne = 0)"

fun truncInt :: "gofloat \<Rightarrow> int" where
  "truncInt (Fin s u) = (if s then - int (u div unitsPerOne) else int (u div unitsPerOne))"
| "truncInt _ = 0"

subsection \<open>Reading floating-point numbers\<close>

definition isHexLetter :: "char \<Rightarrow> bool" where
  "isHexLetter c \<longleftrightarrow> 97 \<le> byte (lowerChar c) \<and> byte (lowerChar c) \<le> 102"

definition hexVal :: "char \<Rightarrow> nat" where
  "hexVal c = (if isDigit c then digitVal c else byte (lowerChar c) - 87)"

text \<open>\<open>underscoreOK\<close>: the character last seen is \<open>'^'\<close>, \<open>'0'\<close>, \<open>'_'\<close> or \<open>'!'\<close>.\<close>

fun underscoreScan :: "bool \<Rightarrow> char \<Rightarrow> string \<Rightarrow> bool" where
  "underscoreScan hex saw [] \<longleftrightarrow> saw \<noteq> CHR ''_''"
| "underscoreScan hex saw (c # s) \<longleftrightarrow>
     (if isDigit c \<or> hex \<and> isHexLetter c then underscoreScan hex (CHR ''0'') s
      else if c = CHR ''_'' then saw = CHR ''0'' \<and> underscoreScan hex (CHR ''_'') s
      else saw \<noteq> CHR ''_'' \<and> underscoreScan hex (CHR ''!'') s)"

definition underscoreOK :: "string \<Rightarrow> bool" where
  "underscoreOK s = (let r = snd (takeSign s) in
     case r of
       z # x # r2 \<Rightarrow>
         if z = CHR ''0'' \<and> lowerChar x \<in> set ''box''
         then underscoreScan (lowerChar x = CHR ''x'') (CHR ''0'') r2
         else underscoreScan False (CHR ''^'') r
     | _ \<Rightarrow> underscoreScan False (CHR ''^'') r)"

text \<open>
  The mantissa: digits read, digits behind the point, whether a digit and a point were seen,
  and the rest. Underscores are skipped here and checked by \<open>underscoreOK\<close>.
\<close>

fun readMantissa :: "bool \<Rightarrow> bool \<Rightarrow> bool \<Rightarrow> nat \<Rightarrow> nat \<Rightarrow> string \<Rightarrow> bool \<times> nat \<times> nat \<times> string" where
  "readMantissa hex dot sawd m frac [] = (sawd, m, frac, [])"
| "readMantissa hex dot sawd m frac (c # s) =
     (if c = CHR ''_'' then readMantissa hex dot sawd m frac s
      else if c = CHR ''.'' then
        (if dot then (sawd, m, frac, c # s) else readMantissa hex True sawd m frac s)
      else if isDigit c \<or> hex \<and> isHexLetter c then
        readMantissa hex dot True ((if hex then 16 else 10) * m + hexVal c)
          (if dot then frac + 1 else frac) s
      else (sawd, m, frac, c # s))"

text \<open>The exponent's digits, capped the way \<open>readFloat\<close> caps them.\<close>

fun readExpDigits :: "nat \<Rightarrow> string \<Rightarrow> nat \<times> string" where
  "readExpDigits e [] = (e, [])"
| "readExpDigits e (c # s) =
     (if c = CHR ''_'' then readExpDigits e s
      else if isDigit c then readExpDigits (if e < 10000 then 10 * e + digitVal c else e) s
      else (e, c # s))"

text \<open>The exponent after its letter: \<open>None\<close> when no digit follows.\<close>

definition readExponent :: "string \<Rightarrow> (int \<times> string) option" where
  "readExponent s = (let (neg, r) = takeSign s in
     case r of
       [] \<Rightarrow> None
     | c # _ \<Rightarrow> if isDigit c
                then (let (e, r2) = readExpDigits 0 r in Some (if neg then - int e else int e, r2))
                else None)"

text \<open>A parsed number: sign, and the fraction \<open>n / d\<close> it denotes.\<close>

definition decFraction :: "nat \<Rightarrow> nat \<Rightarrow> int \<Rightarrow> nat \<times> nat" where
  "decFraction m frac e =
     (let x = e - int frac in
      if 0 \<le> x then (m * 10 ^ nat x, 1) else (m, 10 ^ nat (- x)))"

definition hexFraction :: "nat \<Rightarrow> nat \<Rightarrow> int \<Rightarrow> nat \<times> nat" where
  "hexFraction m frac e =
     (let x = e - 4 * int frac in
      if 0 \<le> x then (m * 2 ^ nat x, 1) else (m, 2 ^ nat (- x)))"

definition readFloat :: "string \<Rightarrow> (bool \<times> nat \<times> nat) option" where
  "readFloat s =
     (let (neg, r) = takeSign s;
          hex = (case r of z # x # _ # _ \<Rightarrow> z = CHR ''0'' \<and> lowerChar x = CHR ''x'' | _ \<Rightarrow> False);
          body = (if hex then drop 2 r else r);
          (sawd, m, frac, r2) = readMantissa hex False False 0 0 body;
          frd = (if hex then hexFraction m frac else decFraction m frac)
      in if \<not> sawd \<or> (CHR ''_'' \<in> set s \<and> \<not> underscoreOK s) then None
         else case r2 of
             [] \<Rightarrow> if hex then None else Some (neg, frd 0)
           | c # r3 \<Rightarrow>
               if lowerChar c = (if hex then CHR ''p'' else CHR ''e'')
               then (case readExponent r3 of
                       Some (e, []) \<Rightarrow> Some (neg, frd e)
                     | _ \<Rightarrow> None)
               else None)"

definition special :: "string \<Rightarrow> gofloat option" where
  "special s = (let (neg, r) = takeSign s; w = map lowerChar r in
     if w = ''inf'' \<or> w = ''infinity'' then Some (Inf neg)
     else if map lowerChar s = ''nan'' then Some NaN else None)"

definition ParseFloat64 :: "string \<Rightarrow> gofloat option" where
  "ParseFloat64 s = (case special s of
      Some f \<Rightarrow> Some f
    | None \<Rightarrow> (case readFloat s of
         None \<Rightarrow> None
       | Some (neg, n, d) \<Rightarrow> map_option (Fin neg) (round64 (n * unitsPerOne) d)))"

definition ParseFloat32 :: "string \<Rightarrow> gofloat option" where
  "ParseFloat32 s = (case special s of
      Some f \<Rightarrow> Some f
    | None \<Rightarrow> (case readFloat s of
         None \<Rightarrow> None
       | Some (neg, n, d) \<Rightarrow> map_option (Fin neg) (round32 (n * unitsPerOne) d)))"

subsection \<open>Writing floating-point numbers\<close>

text \<open>
  The decimal \<open>m * 10 ^ k\<close> in positional form, and the exact one: a multiple of
  \<open>2 ^ -1074\<close> has at most 1074 decimals.
\<close>

definition positional :: "nat \<Rightarrow> int \<Rightarrow> string" where
  "positional m k =
     (if 0 \<le> k then showNat (m * 10 ^ nat k)
      else let f = nat (- k); ds = showNat m;
               ps = replicate (f + 1 - length ds) (CHR ''0'') @ ds
           in take (length ps - f) ps @ ''.'' @ drop (length ps - f) ps)"

text \<open>The decimal exponent of the leading digit of \<open>u\<close> units, searched downwards.\<close>

fun leadExp :: "nat \<Rightarrow> int \<Rightarrow> nat \<Rightarrow> int" where
  "leadExp 0 e u = e"
| "leadExp (Suc n) e u =
     (if (if 0 \<le> e then 10 ^ nat e * unitsPerOne \<le> u else unitsPerOne \<le> u * 10 ^ nat (- e))
      then e else leadExp n (e - 1) u)"

text \<open>
  The candidates with \<open>n\<close> significant digits are the two decimals around the value; the
  nearer one that rounds back is taken.
\<close>

definition digitsAt :: "nat \<Rightarrow> int \<Rightarrow> nat \<Rightarrow> (nat \<times> int) option" where
  "digitsAt u e n =
     (let k = e - int n + 1;
          num = (if 0 \<le> k then u else u * 10 ^ nat (- k));
          den = (if 0 \<le> k then unitsPerOne * 10 ^ nat k else unitsPerOne);
          lo = num div den;
          back = (\<lambda>m. if 0 \<le> k then round64 (m * 10 ^ nat k * unitsPerOne) 1
                       else round64 (m * unitsPerOne) (10 ^ nat (- k)));
          near = roundHalfEven num den;
          far = (if near = lo then lo + 1 else lo)
      in if back near = Some u then Some (near, k)
         else if back far = Some u then Some (far, k) else None)"

fun shortest :: "nat \<Rightarrow> int \<Rightarrow> nat list \<Rightarrow> nat \<times> int" where
  "shortest u e [] = (u * exactScale, - 1074)"
| "shortest u e (n # ns) = (case digitsAt u e n of Some r \<Rightarrow> r | None \<Rightarrow> shortest u e ns)"

fun FormatFloat :: "gofloat \<Rightarrow> string" where
  "FormatFloat NaN = ''NaN''"
| "FormatFloat (Inf s) = (if s then ''-Inf'' else ''+Inf'')"
| "FormatFloat (Fin s u) =
     (if s then ''-'' else '''') @
     (if u = 0 then ''0''
      else let (m, k) = shortest u (leadExp 640 309 u) [1..<18] in positional m k)"

end
