(* ===== verification/Quoting.thy ===== *)
theory Quoting
  imports Prelude
begin

text \<open>
  The interface of quoted text: a writer that escapes each character of a text, a closing
  character, and a reader that undoes it. The laws are what one character costs the reader;
  the theorems are for whole texts. Provided by the literals of the rendered Milvus
  expression (theory Expr) and by the two SQL quotes of the statement lexer (theory PgLexer).
\<close>

locale quoted_text =
  fixes esc :: "char \<Rightarrow> string"
    and close :: char
    and read :: "string \<Rightarrow> (string \<times> string) option"
    and follows :: "string \<Rightarrow> bool"
  assumes read_esc: "read (esc c @ s) = map_option (\<lambda>(t, r). (c # t, r)) (read s)"
    and read_close: "follows s \<Longrightarrow> read (close # s) = Some ([], s)"
begin

definition enclose :: "string \<Rightarrow> string" where
  "enclose t = concat (map esc t) @ [close]"

lemma read_enclose: "follows s \<Longrightarrow> read (enclose t @ s) = Some (t, s)"
proof (induction t)
  case Nil
  then show ?case using read_close[of s] by (simp add: enclose_def)
next
  case (Cons c t)
  then have "read (enclose t @ s) = Some (t, s)" by blast
  then show ?case using read_esc[of c "enclose t @ s"] by (simp add: enclose_def)
qed

text \<open>A written text is a prefix code: what follows it is never read as part of it.\<close>

lemma enclose_prefix_free:
  assumes "follows s" "follows r" "enclose t @ s = enclose u @ r"
  shows "t = u \<and> s = r"
proof -
  have "Some (t, s) = read (enclose t @ s)" by (rule read_enclose[OF assms(1), symmetric])
  also have "\<dots> = read (enclose u @ r)" by (rule arg_cong[OF assms(3)])
  also have "\<dots> = Some (u, r)" by (rule read_enclose[OF assms(2)])
  finally show ?thesis by blast
qed

lemma enclose_inject:
  assumes "follows []" "enclose t = enclose u"
  shows "t = u"
  using enclose_prefix_free[OF assms(1) assms(1) arg_cong[OF assms(2), of "\<lambda>x. x @ []"]] by blast

end

end
