(* ===== verification/Expr.thy ===== *)
theory Expr
  imports GoStrconv Quoting
begin

text \<open>
  The Milvus boolean-expression tree of \<open>internal/translate/expr.go\<close> and its rendering.

  \<open>expr\<close> has one constructor per node type of the source, and \<open>NilE\<close> for the nil interface
  value ("match everything"). \<open>Render\<close> keeps the source's checks: the operator table, the
  field-name alphabet and the literal kinds. The lemmas characterise exactly when rendering
  succeeds, and show that the text of a literal or of a field can neither end its literal nor
  open or close a group of the expression.
\<close>

subsection \<open>Values and nodes\<close>

datatype val =
    InvalidValue
  | StringValue string
  | IntValue int
  | FloatValue gofloat
  | BoolValue bool

type_synonym compareOp = string

abbreviation Eq :: compareOp where "Eq \<equiv> ''==''"
abbreviation Ne :: compareOp where "Ne \<equiv> ''!=''"
abbreviation Gt :: compareOp where "Gt \<equiv> ''>''"
abbreviation Ge :: compareOp where "Ge \<equiv> ''>=''"
abbreviation Lt :: compareOp where "Lt \<equiv> ''<''"
abbreviation Le :: compareOp where "Le \<equiv> ''<=''"

definition compareOps :: "compareOp list" where
  "compareOps = [Eq, Ne, Gt, Ge, Lt, Le]"

datatype expr =
    NilE
  | Compare compareOp string val
  | InList string "val list"
  | TextMatch string string
  | NotNull string
  | IsNull string
  | NotE expr
  | AndE "expr list"
  | OrE "expr list"
  | Never

subsection \<open>Rendering\<close>

definition identStart :: "char \<Rightarrow> bool" where
  "identStart c \<longleftrightarrow> isLetter c \<or> c = CHR ''_''"

definition identPart :: "char \<Rightarrow> bool" where
  "identPart c \<longleftrightarrow> identStart c \<or> isDigit c"

definition renderField :: "string \<Rightarrow> reason + string" where
  "renderField f = (case f of
      [] \<Rightarrow> Inl [T ''empty field name'']
    | c # r \<Rightarrow>
        if identStart c \<and> list_all identPart r then Inr f
        else Inl [T ''invalid field name '', Q f, T '': must match [A-Za-z_][A-Za-z0-9_]*''])"

definition escapeChar :: "char \<Rightarrow> string" where
  "escapeChar c = (if c = CHR 92 then [CHR 92, CHR 92]
                   else if c = CHR 34 then [CHR 92, CHR 34] else [c])"

definition quoteLiteral :: "string \<Rightarrow> string" where
  "quoteLiteral s = CHR 34 # concat (map escapeChar s) @ [CHR 34]"

definition FormatBool :: "bool \<Rightarrow> string" where
  "FormatBool b = (if b then ''true'' else ''false'')"

fun renderLiteral :: "val \<Rightarrow> reason + string" where
  "renderLiteral (StringValue s) = Inr (quoteLiteral s)"
| "renderLiteral (IntValue i) = Inr (FormatInt i)"
| "renderLiteral (FloatValue f) = Inr (FormatFloat f)"
| "renderLiteral (BoolValue b) = Inr (FormatBool b)"
| "renderLiteral InvalidValue = Inl [T ''literal has no kind set (got '', D 0, T '')'']"

definition paren :: "string \<Rightarrow> string" where
  "paren s = ''('' @ s @ '')''"

fun renderExpr :: "expr \<Rightarrow> reason + string"
and renderJoin :: "string \<Rightarrow> expr list \<Rightarrow> reason + string" where
  "renderExpr NilE = Inr []"
| "renderExpr (Compare op f v) =
     (if op \<notin> set compareOps then Inl [T ''invalid comparison operator '', Q op]
      else bindE (renderField f) (\<lambda>field. bindE (renderLiteral v) (\<lambda>lit.
        Inr (field @ '' '' @ op @ '' '' @ lit))))"
| "renderExpr (InList f vs) =
     bindE (renderField f) (\<lambda>field. bindE (mapE renderLiteral vs) (\<lambda>vals.
       Inr (field @ '' in ['' @ joinStr '', '' vals @ '']'')))"
| "renderExpr (TextMatch f q) =
     bindE (renderField f) (\<lambda>field. Inr (''TEXT_MATCH('' @ field @ '', '' @ quoteLiteral q @ '')''))"
| "renderExpr (NotNull f) = bindE (renderField f) (\<lambda>field. Inr (field @ '' is not null''))"
| "renderExpr (IsNull f) = bindE (renderField f) (\<lambda>field. Inr (field @ '' is null''))"
| "renderExpr (NotE c) =
     (case c of
        NotNull f \<Rightarrow> bindE (renderField f) (\<lambda>field. Inr (field @ '' is null''))
      | _ \<Rightarrow> bindE (renderExpr c) (\<lambda>s. Inr (''not ('' @ s @ '')'')))"
| "renderExpr (AndE cs) = renderJoin '' and '' cs"
| "renderExpr (OrE cs) = renderJoin '' or '' cs"
| "renderExpr Never = Inr ''1 != 1''"
| "renderJoin op cs =
     (case cs of
        [] \<Rightarrow> Inr []
      | [c] \<Rightarrow> renderExpr c
      | _ \<Rightarrow> bindE (mapE renderExpr cs) (\<lambda>ss. Inr (joinStr op (map paren ss))))"

declare renderJoin.simps [simp del]

definition Render :: "expr \<Rightarrow> reason + string" where
  "Render e = renderExpr e"

subsection \<open>Which trees render\<close>

definition validField :: "string \<Rightarrow> bool" where
  "validField f \<longleftrightarrow> f \<noteq> [] \<and> identStart (hd f) \<and> list_all identPart (tl f)"

fun renderable :: "expr \<Rightarrow> bool" where
  "renderable NilE \<longleftrightarrow> True"
| "renderable (Compare op f v) \<longleftrightarrow> op \<in> set compareOps \<and> validField f \<and> v \<noteq> InvalidValue"
| "renderable (InList f vs) \<longleftrightarrow> validField f \<and> InvalidValue \<notin> set vs"
| "renderable (TextMatch f q) \<longleftrightarrow> validField f"
| "renderable (NotNull f) \<longleftrightarrow> validField f"
| "renderable (IsNull f) \<longleftrightarrow> validField f"
| "renderable (NotE c) \<longleftrightarrow> renderable c"
| "renderable (AndE cs) \<longleftrightarrow> (\<forall>c \<in> set cs. renderable c)"
| "renderable (OrE cs) \<longleftrightarrow> (\<forall>c \<in> set cs. renderable c)"
| "renderable Never \<longleftrightarrow> True"

lemma renderField_Inr: "renderField f = Inr g \<longleftrightarrow> g = f \<and> validField f"
  by (auto simp: renderField_def validField_def split: list.splits if_splits)

lemma renderLiteral_Inr: "(\<exists>s. renderLiteral v = Inr s) \<longleftrightarrow> v \<noteq> InvalidValue"
  by (cases v) auto

lemma mapE_total: "(\<exists>ys. mapE f xs = Inr ys) \<longleftrightarrow> (\<forall>x \<in> set xs. \<exists>y. f x = Inr y)"
  by (induction xs) (auto simp: bindE_eq_Inr)

lemma bindE_total: "(\<exists>y. bindE m (\<lambda>x. Inr (f x)) = Inr y) \<longleftrightarrow> (\<exists>x. m = Inr x)"
  by (auto simp: bindE_eq_Inr)

lemma renderJoin_total:
  "(\<exists>s. renderJoin op cs = Inr s) \<longleftrightarrow> (\<forall>c \<in> set cs. \<exists>s. renderExpr c = Inr s)"
proof (cases cs)
  case (Cons c r)
  then show ?thesis
    by (cases r) (auto simp: renderJoin.simps bindE_eq_Inr simp flip: mapE_total)
qed (simp add: renderJoin.simps)

lemma renderExpr_total: "(\<exists>s. renderExpr e = Inr s) \<longleftrightarrow> renderable e"
proof (induction e)
  case (InList f vs)
  then show ?case
    by (auto simp: bindE_eq_Inr renderField_Inr mapE_total renderLiteral_Inr)
next
  case (NotE c)
  then show ?case by (cases c) (auto simp: bindE_eq_Inr renderField_Inr)
qed (auto simp: bindE_eq_Inr renderField_Inr renderLiteral_Inr renderJoin_total)

subsection \<open>Reading a rendered literal back\<close>

text \<open>The dialect's string reader: a backslash takes the next character as it is.\<close>

fun readLiteral :: "string \<Rightarrow> (string \<times> string) option" where
  "readLiteral [] = None"
| "readLiteral [c] = (if c = CHR 34 then Some ([], []) else None)"
| "readLiteral (c # d # s) =
     (if c = CHR 34 then Some ([], d # s)
      else if c = CHR 92 then map_option (\<lambda>(t, r). (d # t, r)) (readLiteral s)
      else map_option (\<lambda>(t, r). (c # t, r)) (readLiteral (d # s)))"

lemma readLiteral_esc:
  "readLiteral (escapeChar c @ s) = map_option (\<lambda>(t, r). (c # t, r)) (readLiteral s)"
  by (cases s) (auto simp: escapeChar_def)

interpretation literal: quoted_text escapeChar "CHR 34" readLiteral "\<lambda>_. True"
proof
  show "readLiteral (CHR 34 # s) = Some ([], s)" for s
    by (cases s) auto
qed (rule readLiteral_esc)

lemma quoteLiteral_enclose: "quoteLiteral s = CHR 34 # literal.enclose s"
  by (simp add: quoteLiteral_def literal.enclose_def)

subsection \<open>Groups of a rendered expression\<close>

text \<open>
  A scan of the rendered text the way a reader of the dialect tracks its structure: the
  nesting depth outside literals, \<open>None\<close> once a group is closed that was never opened.
\<close>

datatype scanState = Out nat | InLit nat | Esc nat | Bad

fun scanStep :: "scanState \<Rightarrow> char \<Rightarrow> scanState" where
  "scanStep (Out d) c =
     (if c = CHR 34 then InLit d
      else if c = CHR ''('' then Out (Suc d)
      else if c = CHR '')'' then (case d of 0 \<Rightarrow> Bad | Suc n \<Rightarrow> Out n)
      else Out d)"
| "scanStep (InLit d) c = (if c = CHR 92 then Esc d else if c = CHR 34 then Out d else InLit d)"
| "scanStep (Esc d) c = InLit d"
| "scanStep Bad c = Bad"

definition scan :: "scanState \<Rightarrow> string \<Rightarrow> scanState" where
  "scan = foldl scanStep"

definition balanced :: "string \<Rightarrow> bool" where
  "balanced s \<longleftrightarrow> (\<forall>d. scan (Out d) s = Out d)"

lemma scan_Nil [simp]: "scan st [] = st"
  by (simp add: scan_def)

lemma scan_Cons [simp]: "scan st (c # s) = scan (scanStep st c) s"
  by (simp add: scan_def)

lemma scan_append [simp]: "scan st (s @ t) = scan (scan st s) t"
  by (simp add: scan_def)

lemma balanced_scan: "balanced s \<Longrightarrow> scan (Out d) s = Out d"
  by (simp add: balanced_def)

lemma balanced_append: "balanced s \<Longrightarrow> balanced t \<Longrightarrow> balanced (s @ t)"
  by (simp add: balanced_def)

lemma balanced_paren: "balanced s \<Longrightarrow> balanced (paren s)"
  by (simp add: balanced_def paren_def)

definition plainChar :: "char \<Rightarrow> bool" where
  "plainChar c \<longleftrightarrow> c \<noteq> CHR 34 \<and> c \<noteq> CHR ''('' \<and> c \<noteq> CHR '')''"

lemma balanced_plain: "list_all plainChar s \<Longrightarrow> balanced s"
  by (induction s) (auto simp: balanced_def plainChar_def)

lemma scan_escaped: "scan (InLit d) (concat (map escapeChar s)) = InLit d"
  by (induction s) (auto simp: escapeChar_def)

lemma balanced_quoteLiteral: "balanced (quoteLiteral s)"
  by (simp add: balanced_def quoteLiteral_def scan_escaped)

lemma balanced_joinStr:
  "balanced sep \<Longrightarrow> (\<forall>s \<in> set ss. balanced s) \<Longrightarrow> balanced (joinStr sep ss)"
  by (induction sep ss rule: joinStr.induct) (auto simp: balanced_append balanced_def)

lemma plainChar_identPart: "identPart c \<Longrightarrow> plainChar c"
  by (auto simp: identPart_def identStart_def plainChar_def isLetter_def isDigit_def byte_def)

lemma plainChar_identStart: "identStart c \<Longrightarrow> plainChar c"
  by (rule plainChar_identPart) (simp add: identPart_def)

lemma plainChar_digit: "isDigit c \<Longrightarrow> plainChar c"
  by (rule plainChar_identPart) (simp add: identPart_def)

lemma validField_plain: "validField f \<Longrightarrow> list_all plainChar f"
  by (cases f) (auto simp: validField_def list_all_iff plainChar_identPart plainChar_identStart)

lemma showNat_plain: "list_all plainChar (showNat n)"
  by (auto simp: list_all_iff dest: showNat_digits plainChar_digit)

lemma FormatInt_plain: "list_all plainChar (FormatInt i)"
  using showNat_plain by (auto simp: FormatInt_def) (simp add: plainChar_def)

lemma plainChar_consts:
  "plainChar (CHR ''0'')" "plainChar (CHR ''.'')" "plainChar (CHR ''-'')"
  by (simp_all add: plainChar_def)

lemma positional_plain: "list_all plainChar (positional m k)"
  using showNat_plain
  by (auto simp: positional_def Let_def plainChar_consts list_all_iff
      dest!: in_set_takeD in_set_dropD)

lemma FormatFloat_plain: "list_all plainChar (FormatFloat f)"
  by (cases f) (auto simp: positional_plain plainChar_consts split: prod.splits,
      simp_all add: plainChar_def)

lemma renderLiteral_balanced: "renderLiteral v = Inr s \<Longrightarrow> balanced s"
  by (cases v)
    (auto simp: balanced_quoteLiteral FormatBool_def
      intro: balanced_plain[OF FormatInt_plain] balanced_plain[OF FormatFloat_plain],
      simp_all add: balanced_def)

lemma balanced_field: "renderField f = Inr g \<Longrightarrow> balanced g"
  by (auto simp: renderField_Inr intro: balanced_plain validField_plain)

lemma renderJoin_balanced:
  assumes "renderJoin op cs = Inr s" "balanced op"
    and "\<And>c t. c \<in> set cs \<Longrightarrow> renderExpr c = Inr t \<Longrightarrow> balanced t"
  shows "balanced s"
proof -
  have sep: "\<forall>t \<in> set ts. balanced t" if "mapE renderExpr cs = Inr ts" for ts
    using that assms(3) by (auto dest: mapE_set)
  consider "cs = []" | c where "cs = [c]" | c d r where "cs = c # d # r"
    by (cases cs rule: remdups_adj.cases) auto
  then show ?thesis
  proof cases
    case 3
    with assms(1) obtain ts where ts: "mapE renderExpr cs = Inr ts" "s = joinStr op (map paren ts)"
      by (auto simp: renderJoin.simps bindE_eq_Inr)
    then show ?thesis using sep[OF ts(1)] assms(2)
      by (auto intro!: balanced_joinStr balanced_paren)
  qed (use assms in \<open>auto simp: renderJoin.simps balanced_def\<close>)
qed

lemma balanced_words:
  "balanced '' and ''" "balanced '' or ''" "balanced '' is null''" "balanced '' is not null''"
  "balanced ''1 != 1''" "balanced '' in [''" "balanced '']''" "balanced '', ''" "balanced []"
  by (simp_all add: balanced_def)

lemma balanced_op: "op \<in> set compareOps \<Longrightarrow> balanced ('' '' @ op @ '' '')"
  by (auto simp: compareOps_def balanced_def)

lemma balanced_infix: "balanced f \<Longrightarrow> balanced m \<Longrightarrow> balanced v \<Longrightarrow> balanced (f @ m @ v)"
  by (simp add: balanced_append)

lemma renderExpr_NotE:
  "\<forall>f. c \<noteq> NotNull f \<Longrightarrow>
   renderExpr (NotE c) = bindE (renderExpr c) (\<lambda>s. Inr (''not ('' @ s @ '')''))"
  by (cases c) simp_all

lemma balanced_not: "balanced t \<Longrightarrow> balanced (''not ('' @ t @ '')'')"
  by (simp add: balanced_def)

lemma renderExpr_balanced: "renderExpr e = Inr s \<Longrightarrow> balanced s"
proof (induction e arbitrary: s)
  case (Compare op f v)
  then obtain g l where g: "renderField f = Inr g" "renderLiteral v = Inr l" "op \<in> set compareOps"
    and s: "s = g @ ('' '' @ op @ '' '') @ l"
    by (auto simp: bindE_eq_Inr split: if_splits)
  from s show ?case
    using balanced_infix[OF balanced_field[OF g(1)] balanced_op[OF g(3)] renderLiteral_balanced[OF g(2)]]
    by simp
next
  case (InList f vs)
  then obtain g ls where g: "renderField f = Inr g" "mapE renderLiteral vs = Inr ls"
    and s: "s = g @ '' in ['' @ joinStr '', '' ls @ '']''"
    by (auto simp: bindE_eq_Inr)
  from g(2) have "\<forall>l \<in> set ls. balanced l"
    by (auto dest: mapE_set intro: renderLiteral_balanced)
  then show ?case unfolding s
    by (intro balanced_append balanced_joinStr balanced_words balanced_field[OF g(1)])
next
  case (TextMatch f q)
  then obtain g where g: "renderField f = Inr g"
    and s: "s = ''TEXT_MATCH('' @ g @ '', '' @ quoteLiteral q @ '')''"
    by (auto simp: bindE_eq_Inr)
  show ?case unfolding s balanced_def
    by (simp add: balanced_scan[OF balanced_field[OF g]] balanced_scan[OF balanced_quoteLiteral])
next
  case (NotE c)
  show ?case
  proof (cases "\<exists>f. c = NotNull f")
    case True
    with NotE.prems show ?thesis
      by (auto simp: bindE_eq_Inr dest!: balanced_field intro!: balanced_append balanced_words)
  next
    case False
    then have "bindE (renderExpr c) (\<lambda>s. Inr (''not ('' @ s @ '')'')) = Inr s"
      using NotE.prems renderExpr_NotE[of c] by simp
    then obtain t where t: "renderExpr c = Inr t" "s = ''not ('' @ t @ '')''"
      by (auto simp: bindE_eq_Inr)
    show ?thesis unfolding t(2) by (rule balanced_not[OF NotE.IH[OF t(1)]])
  qed
next
  case (AndE cs)
  then show ?case
    using renderJoin_balanced[of "'' and ''" cs s] by (auto simp: balanced_words)
next
  case (OrE cs)
  then show ?case
    using renderJoin_balanced[of "'' or ''" cs s] by (auto simp: balanced_words)
qed (auto simp: bindE_eq_Inr balanced_words dest!: balanced_field intro!: balanced_append)

subsection \<open>Properties\<close>

text \<open>Rendering is total on well-formed trees and nothing else: \<open>Render\<close> returns a text
  exactly when every operator is one of the six, every field name is an identifier and every
  literal has a kind.\<close>

theorem render_iff_renderable: "(\<exists>s. Render e = Inr s) \<longleftrightarrow> renderable e"
  by (simp add: Render_def renderExpr_total)



text \<open>A quoted literal is a prefix code: the dialect's string reader, started after the
  opening quote of a rendered literal, gets back exactly the client's text and exactly the rest
  of the expression.\<close>

theorem quoteLiteral_roundtrip: "readLiteral (tl (quoteLiteral s @ rest)) = Some (s, rest)"
  using literal.read_enclose[of s rest] by (simp add: quoteLiteral_enclose)

end
