(* ===== verification/Plan.thy ===== *)
theory Plan
  imports Expr
begin

text \<open>
  The contract between the translators and the store: \<open>internal/translate/translate.go\<close> (plan,
  sort, source filter, vector search, field types, schema views, errors) and the value
  vocabulary of \<open>internal/translate/write.go\<close>.

  The \<open>Schema\<close> interface is a record of its methods; the optional \<open>NullableSchema\<close> extension is
  the field \<open>NullableExt\<close>, \<open>None\<close> for an implementation without it. \<open>MapSchema\<close> is a Go map,
  here an association list with distinct keys.
\<close>

subsection \<open>Errors\<close>

record terror =
  Type :: string
  Reason :: reason
  Status :: int

definition mkError :: "string \<Rightarrow> reason \<Rightarrow> terror" where
  "mkError ty r = \<lparr>Type = ty, Reason = r, Status = 400\<rparr>"

text \<open>The three classes every frontend renders in its own vocabulary.\<close>

datatype errClass = SyntaxClass | ValueClass | UnsupportedClass

subsection \<open>Plans\<close>

datatype metric = MetricL2 | MetricIP | MetricCosine

record searchSpec =
  ssField :: string
  ssVector :: "gofloat list"
  ssMetric :: "metric option"   \<comment> \<open>\<open>None\<close>: the empty metric, the index decides\<close>

record sortClause =
  scField :: string
  scDesc :: bool

record sourceFilter =
  FetchSource :: bool
  Includes :: "string list"
  Excludes :: "string list"

record plan =
  pExpr :: expr
  pOffset :: int
  pLimit :: int
  pSort :: "sortClause list"
  pSource :: sourceFilter
  pNoMatch :: bool
  pSearch :: "searchSpec option"

definition emptySource :: sourceFilter where
  "emptySource = \<lparr>FetchSource = False, Includes = [], Excludes = []\<rparr>"

definition emptyPlan :: plan where
  \<comment> \<open>the zero value \<open>Plan{}\<close>\<close>
  "emptyPlan = \<lparr>pExpr = NilE, pOffset = 0, pLimit = 0, pSort = [], pSource = emptySource,
     pNoMatch = False, pSearch = None\<rparr>"

subsection \<open>Field types and schemas\<close>

datatype fieldType =
  TypeKeyword | TypeText | TypeNumber | TypeBool | TypeDate | TypeVector | TypeUnknown

fun fieldTypeText :: "fieldType \<Rightarrow> string" where
  "fieldTypeText TypeKeyword = ''keyword''"
| "fieldTypeText TypeText = ''text''"
| "fieldTypeText TypeNumber = ''number''"
| "fieldTypeText TypeBool = ''bool''"
| "fieldTypeText TypeDate = ''date''"
| "fieldTypeText TypeVector = ''vector''"
| "fieldTypeText TypeUnknown = ''unknown''"

record schema =
  FieldType :: "string \<Rightarrow> fieldType"
  Fields :: "string list"
  NullableExt :: "(string \<Rightarrow> bool) option"

text \<open>\<open>strings\<close> in Go's order: bytewise lexicographic.\<close>

fun strLess :: "string \<Rightarrow> string \<Rightarrow> bool" where
  "strLess [] t \<longleftrightarrow> t \<noteq> []"
| "strLess (c # s) [] \<longleftrightarrow> False"
| "strLess (c # s) (d # t) \<longleftrightarrow> byte c < byte d \<or> c = d \<and> strLess s t"

fun insertName :: "string \<Rightarrow> string list \<Rightarrow> string list" where
  "insertName x [] = [x]"
| "insertName x (y # ys) = (if strLess y x then y # insertName x ys else x # y # ys)"

definition sortStrings :: "string list \<Rightarrow> string list" where
  "sortStrings xs = foldr insertName xs []"

definition MapSchema :: "(string \<times> fieldType) list \<Rightarrow> schema" where
  "MapSchema m = \<lparr>FieldType = (\<lambda>f. case map_of m f of Some t \<Rightarrow> t | None \<Rightarrow> TypeUnknown),
     Fields = sortStrings (map fst m), NullableExt = None\<rparr>"

text \<open>A nil schema is replaced by an empty \<open>MapSchema\<close> at every entry point.\<close>

definition schemaOrEmpty :: "schema option \<Rightarrow> schema" where
  "schemaOrEmpty s = (case s of None \<Rightarrow> MapSchema [] | Some s \<Rightarrow> s)"

lemma set_insertName [simp]: "set (insertName x xs) = insert x (set xs)"
  by (induction xs) auto

lemma set_sortStrings [simp]: "set (sortStrings xs) = set xs"
  by (induction xs) (auto simp: sortStrings_def)

lemma distinct_insertName: "x \<notin> set xs \<Longrightarrow> distinct xs \<Longrightarrow> distinct (insertName x xs)"
  by (induction xs) auto

lemma distinct_sortStrings: "distinct xs \<Longrightarrow> distinct (sortStrings xs)"
proof (induction xs)
  case (Cons x xs)
  then have "x \<notin> set (sortStrings xs)" "distinct (sortStrings xs)" by simp_all
  then have "distinct (insertName x (sortStrings xs))" by (rule distinct_insertName)
  then show ?case by (simp add: sortStrings_def)
qed (simp add: sortStrings_def)

text \<open>
  The interface \<open>Schema\<close> as the translators rely on it: the field list names each field once,
  and a field whose type is known is in the list. Laws for clients that expand the list
  (\<open>SELECT *\<close>, the positional \<open>INSERT\<close>).
\<close>

locale schema_view =
  fixes sch :: schema
  assumes fields_distinct: "distinct (Fields sch)"
    and known_listed: "FieldType sch f \<noteq> TypeUnknown \<Longrightarrow> f \<in> set (Fields sch)"
begin

lemma unlisted_unknown: "f \<notin> set (Fields sch) \<Longrightarrow> FieldType sch f = TypeUnknown"
  using known_listed by blast

text \<open>Values given in field order land on their own field.\<close>

lemma positional_lookup:
  "length vs = length (Fields sch) \<Longrightarrow> i < length vs \<Longrightarrow>
   map_of (zip (Fields sch) vs) (Fields sch ! i) = Some (vs ! i)"
  using fields_distinct by (simp add: map_of_zip_nth)

end

lemma MapSchema_view: "distinct (map fst m) \<Longrightarrow> schema_view (MapSchema m)"
  by unfold_locales
    (auto simp: MapSchema_def distinct_sortStrings dest: map_of_SomeD split: option.splits, force dest: map_of_SomeD)

interpretation emptySchema: schema_view "MapSchema []"
  by (rule MapSchema_view) simp

subsection \<open>Go values of the write path\<close>

text \<open>
  \<open>any\<close> as the write path and the fetched rows use it. JSON texts kept raw (\<open>json.RawMessage\<close>,
  \<open>[]byte\<close>) hold the bytes.
\<close>

datatype gval =
    GNil
  | GStr string
  | GNum string            \<comment> \<open>\<open>json.Number\<close>, the digits as written\<close>
  | GBool bool
  | GInt64 int
  | GInt int
  | GInt32 int
  | GInt16 int
  | GInt8 int
  | GFloat64 gofloat
  | GFloat32 gofloat
  | GVec "gofloat list"    \<comment> \<open>\<open>[]float32\<close>\<close>
  | GFloatVector "gofloat list" \<comment> \<open>\<open>entity.FloatVector\<close>\<close>
  | GRaw string            \<comment> \<open>\<open>json.RawMessage\<close>\<close>
  | GBytes string          \<comment> \<open>\<open>[]byte\<close>\<close>
  | GOther string          \<comment> \<open>any other Go value, by its \<open>%v\<close> text\<close>

type_synonym writeRow = "(string \<times> gval) list"

text \<open>Storing into a Go map: the entry is replaced, or added.\<close>

fun setKey :: "'k \<Rightarrow> 'v \<Rightarrow> ('k \<times> 'v) list \<Rightarrow> ('k \<times> 'v) list" where
  "setKey k v [] = [(k, v)]"
| "setKey k v ((k', v') # m) = (if k' = k then (k, v) # m else (k', v') # setKey k v m)"

lemma map_of_setKey [simp]: "map_of (setKey k v m) = (map_of m)(k \<mapsto> v)"
  by (induction m) (auto simp: fun_eq_iff)

lemma fst_setKey: "fst ` set (setKey k v m) = insert k (fst ` set m)"
  by (induction k v m rule: setKey.induct) (simp_all add: insert_commute)

lemma distinct_setKey: "distinct (map fst m) \<Longrightarrow> distinct (map fst (setKey k v m))"
  by (induction k v m rule: setKey.induct) (auto simp: fst_setKey)

end
