(* ===== verification/PgLexer.thy ===== *)
theory PgLexer
  imports Plan Quoting
begin

text \<open>
  The SQL lexer of \<open>internal/translate/pg/lexer.go\<close> and the error constructors of
  \<open>internal/translate/pg/translate.go\<close>.

  The source walks an index over the statement; the model walks the remaining characters and
  carries the offset, so \<open>src[i:]\<close> is the argument and a slice past the end cannot arise. The
  lemmas give what the parser relies on: the stream ends with its only end token, every
  token is of its kind's shape, offsets increase, and quoted text is read back as written.
\<close>

subsection \<open>Errors of the frontend\<close>

definition errSyntax :: string where "errSyntax = ''42601''"
definition errBadValue :: string where "errBadValue = ''22023''"
definition errUnsupported :: string where "errUnsupported = ''0A000''"

definition pg_parseErrf :: "reason \<Rightarrow> terror" where
  "pg_parseErrf r = mkError errSyntax r"

definition pg_illegalErrf :: "reason \<Rightarrow> terror" where
  "pg_illegalErrf r = mkError errBadValue r"

definition pg_unsupportedErrf :: "reason \<Rightarrow> terror" where
  "pg_unsupportedErrf r = mkError errUnsupported r"

text \<open>An error every client sees as one of the three SQLSTATE classes.\<close>

definition classified :: "terror \<Rightarrow> bool" where
  "classified e \<longleftrightarrow> Type e \<in> {errSyntax, errBadValue, errUnsupported} \<and> Status e = 400"

lemma classified_simps [simp]:
  "classified (pg_parseErrf r)" "classified (pg_illegalErrf r)" "classified (pg_unsupportedErrf r)"
  by (simp_all add: classified_def pg_parseErrf_def pg_illegalErrf_def pg_unsupportedErrf_def mkError_def)

subsection \<open>Tokens\<close>

datatype tokenKind = TkEOF | TkKeyword | TkIdent | TkString | TkNumber | TkOp | TkParam

record token =
  tkKind :: tokenKind
  tkText :: string
  tkPos :: nat
  tkQuoted :: bool

definition mkToken :: "tokenKind \<Rightarrow> string \<Rightarrow> nat \<Rightarrow> token" where
  "mkToken k t i = \<lparr>tkKind = k, tkText = t, tkPos = i, tkQuoted = False\<rparr>"

definition pg_keywords :: "string list" where
  "pg_keywords =
    [''SELECT'', ''FROM'', ''WHERE'', ''AND'', ''OR'', ''NOT'', ''IN'', ''IS'', ''NULL'',
     ''BETWEEN'', ''AS'', ''ASC'', ''DESC'', ''DISTINCT'', ''LIMIT'', ''OFFSET'', ''TRUE'',
     ''FALSE'', ''ORDER'', ''BY'', ''ALL'', ''LIKE'', ''ILIKE'',
     ''GROUP'', ''HAVING'', ''WINDOW'', ''UNION'', ''INTERSECT'', ''EXCEPT'', ''FOR'',
     ''FETCH'', ''INTO'', ''WITH'', ''JOIN'', ''INNER'', ''LEFT'', ''RIGHT'', ''FULL'',
     ''OUTER'', ''CROSS'', ''ON'', ''USING'',
     ''INSERT'', ''UPDATE'', ''DELETE'', ''MERGE'', ''CREATE'', ''DROP'', ''ALTER'',
     ''TRUNCATE'', ''BEGIN'', ''COMMIT'', ''ROLLBACK'', ''SET'', ''SHOW'', ''RESET'',
     ''PREPARE'', ''EXECUTE'', ''EXPLAIN'', ''ANALYZE'', ''VACUUM'', ''COPY'', ''GRANT'',
     ''REVOKE'', ''VALUES'', ''TABLE'', ''CALL'', ''LOCK'', ''DEFAULT'', ''RETURNING'']"

definition pg_operators :: "string list" where
  "pg_operators =
    [''<=>'', ''<->'', ''<#>'', ''<+>'', ''::'', ''<='', ''>='', ''<>'', ''!='',
     ''='', ''<'', ''>'', ''*'', ''('', '')'', '','', ''.'', '';'', ''+'', ''-'']"

subsection \<open>Pieces of the scan\<close>

definition isIdentStart :: "char \<Rightarrow> bool" where
  "isIdentStart c \<longleftrightarrow> isLetter c \<or> c = CHR ''_''"

definition isIdentPart :: "char \<Rightarrow> bool" where
  "isIdentPart c \<longleftrightarrow> isIdentStart c \<or> isDigit c"

definition sqlSpace :: "char \<Rightarrow> bool" where
  "sqlSpace c \<longleftrightarrow> c = CHR '' '' \<or> byte c = 9 \<or> byte c = 10 \<or> byte c = 13"

text \<open>The rest behind a nesting block comment, started behind its opening with depth 1.\<close>

fun lexBlockComment :: "nat \<Rightarrow> string \<Rightarrow> string option" where
  "lexBlockComment 0 s = Some s"
| "lexBlockComment (Suc d) (a # b # s) =
     (if a = CHR ''/'' \<and> b = CHR ''*'' then lexBlockComment (Suc (Suc d)) s
      else if a = CHR ''*'' \<and> b = CHR ''/'' then lexBlockComment d s
      else lexBlockComment (Suc d) (b # s))"
| "lexBlockComment (Suc d) _ = None"

text \<open>The text of a quoted literal and the rest, started behind the opening quote.\<close>

fun lexQuoted :: "char \<Rightarrow> string \<Rightarrow> (string \<times> string) option" where
  "lexQuoted q [] = None"
| "lexQuoted q [c] = (if c = q then Some ([], []) else None)"
| "lexQuoted q (c # d # s) =
     (if c = q then
        (if d = q then map_option (\<lambda>(t, r). (q # t, r)) (lexQuoted q s) else Some ([], d # s))
      else map_option (\<lambda>(t, r). (c # t, r)) (lexQuoted q (d # s)))"

definition startsWith :: "(char \<Rightarrow> bool) \<Rightarrow> string \<Rightarrow> bool" where
  "startsWith P s = (case s of [] \<Rightarrow> False | c # _ \<Rightarrow> P c)"

text \<open>The digits and fraction of a number, then with its exponent.\<close>

definition mantissaLength :: "string \<Rightarrow> nat" where
  "mantissaLength s =
     (let j = length (takeWhile isDigit s)
      in if startsWith (\<lambda>c. c = CHR ''.'') (drop j s)
         then j + 1 + length (takeWhile isDigit (drop (j + 1) s)) else j)"

definition numberLength :: "string \<Rightarrow> nat" where
  "numberLength s =
     (let j = mantissaLength s
      in if startsWith (\<lambda>c. c = CHR ''e'' \<or> c = CHR ''E'') (drop j s) then
           (let k = j + 1;
                k' = (if startsWith (\<lambda>c. c = CHR ''+'' \<or> c = CHR ''-'') (drop k s) then k + 1 else k)
            in if startsWith isDigit (drop k' s)
               then k' + length (takeWhile isDigit (drop k' s)) else j)
         else j)"

lemma lexBlockComment_length: "lexBlockComment d s = Some r \<Longrightarrow> length r \<le> length s"
  by (induction d s rule: lexBlockComment.induct) (auto split: if_splits)

lemma lexQuoted_length: "lexQuoted q s = Some (t, r) \<Longrightarrow> length r < length s"
proof (induction q s arbitrary: t r rule: lexQuoted.induct)
  case (3 q c d s)
  consider "c \<noteq> q" | "c = q" "d = q" | "c = q" "d \<noteq> q" by blast
  then show ?case
  proof cases
    case 1
    with "3.prems" obtain t' where "lexQuoted q (d # s) = Some (t', r)" by auto
    with "3.IH"(2)[OF 1] show ?thesis by fastforce
  next
    case 2
    with "3.prems" obtain t' where "lexQuoted q s = Some (t', r)" by auto
    with "3.IH"(1)[OF 2] show ?thesis by fastforce
  qed (use "3.prems" in auto)
qed (auto split: if_splits)

lemma mantissaLength_le: "mantissaLength s \<le> numberLength s"
  unfolding numberLength_def Let_def by simp

lemma mantissaLength_digit: "isDigit c \<Longrightarrow> 0 < mantissaLength (c # r)"
  unfolding mantissaLength_def Let_def by simp

lemma mantissaLength_dot: "0 < mantissaLength (CHR ''.'' # r)"
  unfolding mantissaLength_def Let_def
  by (cases "isDigit (CHR ''.'')") (simp_all add: startsWith_def)

lemma numberLength_pos: "isDigit c \<or> c = CHR ''.'' \<Longrightarrow> 0 < numberLength (c # r)"
  using mantissaLength_digit[of c r] mantissaLength_dot[of r] mantissaLength_le[of "c # r"]
  by auto

lemma isDigit_dot [simp]: "\<not> isDigit (CHR ''.'')"
  by (simp add: isDigit_def byte_def)

lemma find_operator: "find (hasPrefix s) pg_operators = Some op \<Longrightarrow> op \<noteq> [] \<and> op \<in> set pg_operators"
  by (auto simp: find_Some_iff in_set_conv_nth) (auto simp: pg_operators_def nth_Cons split: nat.splits)

subsection \<open>The lexer\<close>

text \<open>
  One round of the loop of \<open>lex\<close> at offset \<open>i\<close>, on the non-empty rest of the statement: the
  token it appends, if any, and the number of bytes it consumes.
\<close>

definition lexStep :: "nat \<Rightarrow> string \<Rightarrow> terror + token option \<times> nat" where
  "lexStep i s =
     (let c = hd s; r = tl s in
      if sqlSpace c then Inr (None, 1)
      else if hasPrefix s ''--'' then Inr (None, length (takeWhile (\<lambda>x. byte x \<noteq> 10) s))
      else if hasPrefix s ''/*'' then
        (case lexBlockComment 1 (drop 2 s) of
           None \<Rightarrow> Inl (pg_parseErrf [T ''unterminated /* comment''])
         | Some e \<Rightarrow> Inr (None, length s - length e))
      else if byte c = 39 then
        (case lexQuoted c r of
           None \<Rightarrow> Inl (pg_parseErrf [T ''unterminated '', V [c], T ''-quoted literal''])
         | Some (t, e) \<Rightarrow> Inr (Some (mkToken TkString t i), length s - length e))
      else if byte c = 34 then
        (case lexQuoted c r of
           None \<Rightarrow> Inl (pg_parseErrf [T ''unterminated '', V [c], T ''-quoted literal''])
         | Some (t, e) \<Rightarrow>
             Inr (Some \<lparr>tkKind = TkIdent, tkText = t, tkPos = i, tkQuoted = True\<rparr>, length s - length e))
      else if isDigit c \<or> c = CHR ''.'' \<and> startsWith isDigit r then
        (let n = numberLength s in Inr (Some (mkToken TkNumber (take n s) i), n))
      else if isIdentStart c then
        (let word = takeWhile isIdentPart s; upper = map upperChar word
         in Inr (Some (if upper \<in> set pg_keywords then mkToken TkKeyword upper i
                       else mkToken TkIdent word i), length word))
      else if c = CHR ''$'' \<and> startsWith isDigit r then
        (let n = 1 + length (takeWhile isDigit r) in Inr (Some (mkToken TkParam (take n s) i), n))
      else if c = CHR ''$'' then
        Inl (pg_parseErrf [T ''dollar-quoted strings are not supported: use single quotes''])
      else
        (case find (hasPrefix s) pg_operators of
           None \<Rightarrow> Inl (pg_parseErrf [T ''unexpected character '', Q [c], T '' at offset '', D (int i)])
         | Some op \<Rightarrow> Inr (Some (mkToken TkOp op i), length op)))"

text \<open>What a token of each kind looks like.\<close>

fun tokenShape :: "tokenKind \<Rightarrow> string \<Rightarrow> bool \<Rightarrow> bool" where
  "tokenShape TkEOF t q = False"
| "tokenShape TkKeyword t q = (t \<in> set pg_keywords \<and> \<not> q)"
| "tokenShape TkIdent t q = (q \<or> t \<noteq> [] \<and> isIdentStart (hd t) \<and> list_all isIdentPart t \<and>
     map upperChar t \<notin> set pg_keywords)"
| "tokenShape TkString t q = (\<not> q)"
| "tokenShape TkNumber t q = (t \<noteq> [] \<and> (isDigit (hd t) \<or> hd t = CHR ''.'') \<and> \<not> q)"
| "tokenShape TkOp t q = (t \<in> set pg_operators \<and> \<not> q)"
| "tokenShape TkParam t q = (\<exists>ds. t = CHR ''$'' # ds \<and> ds \<noteq> [] \<and> list_all isDigit ds \<and> \<not> q)"

definition wfToken :: "token \<Rightarrow> bool" where
  "wfToken t \<longleftrightarrow> tokenShape (tkKind t) (tkText t) (tkQuoted t)"

lemma wfToken_mkToken [simp]: "wfToken (mkToken k t i) \<longleftrightarrow> tokenShape k t False"
  by (simp add: wfToken_def mkToken_def)

lemma mkToken_sel [simp]:
  "tkKind (mkToken k t i) = k" "tkText (mkToken k t i) = t" "tkPos (mkToken k t i) = i"
  "tkQuoted (mkToken k t i) = False"
  by (simp_all add: mkToken_def)

lemma wfToken_quoted [simp]: "wfToken \<lparr>tkKind = TkIdent, tkText = t, tkPos = i, tkQuoted = True\<rparr>"
  by (simp add: wfToken_def)

lemma list_all_takeWhile [simp]: "list_all P (takeWhile P s)"
  by (simp add: list_all_iff) (blast dest: set_takeWhileD)

lemma takeWhile_startsWith: "startsWith P s \<Longrightarrow> takeWhile P s \<noteq> []"
  by (simp add: startsWith_def split: list.splits)

lemma isIdentStart_part: "isIdentStart c \<Longrightarrow> isIdentPart c"
  by (simp add: isIdentPart_def)

lemma lexStep_progress:
  assumes "lexStep i (c # r) = Inr (t, n)"
  shows "0 < n \<and> (\<forall>k. t = Some k \<longrightarrow> wfToken k \<and> tkPos k = i)"
proof -
  have comment: "0 < length (takeWhile (\<lambda>x. byte x \<noteq> 10) (c # r))" if "hasPrefix (c # r) ''--''"
    using that by (simp add: hasPrefix_def)
  have block: "0 < length (c # r) - length e" if "lexBlockComment 1 (drop 2 (c # r)) = Some e" for e
    using lexBlockComment_length[OF that] by simp
  have quoted: "0 < length (c # r) - length e" if "lexQuoted c r = Some (x, e)" for x e
    using lexQuoted_length[OF that] by simp
  show ?thesis
    using assms comment block quoted numberLength_pos[of c r]
    unfolding lexStep_def Let_def
    by (auto split: if_splits option.splits dest!: find_operator
          simp: isIdentStart_part takeWhile_startsWith take_Cons' takeWhile_eq_take[symmetric])
qed

function lexFrom :: "nat \<Rightarrow> string \<Rightarrow> terror + token list" where
  "lexFrom i [] = Inr [mkToken TkEOF [] i]"
| "lexFrom i (c # r) =
     bindE (lexStep i (c # r)) (\<lambda>(t, n).
     bindE (lexFrom (i + n) (drop n (c # r))) (\<lambda>ts.
     Inr (case t of None \<Rightarrow> ts | Some k \<Rightarrow> k # ts)))"
  by pat_completeness auto
termination by (relation "measure (\<lambda>(i, s). length s)") (auto dest: lexStep_progress)

declare lexFrom.simps(2) [simp del]

definition pg_lex :: "string \<Rightarrow> terror + token list" where
  "pg_lex src = lexFrom 0 src"

subsection \<open>The token stream\<close>

lemma mantissaLength_bound: "mantissaLength s \<le> length s"
proof -
  have fraction: "j < length s \<Longrightarrow> j + 1 + length (takeWhile isDigit (drop (j + 1) s)) \<le> length s" for j
    using length_takeWhile_le[of isDigit "drop (j + 1) s"] by simp
  have dot: "startsWith P (drop j s) \<Longrightarrow> j < length s" for P j
    by (cases "j < length s") (auto simp: startsWith_def)
  show ?thesis
    unfolding mantissaLength_def Let_def
    by (simp add: length_takeWhile_le fraction[OF dot, simplified])
qed

lemma numberLength_bound: "numberLength s \<le> length s"
proof -
  have "k \<le> length s \<Longrightarrow> k + length (takeWhile isDigit (drop k s)) \<le> length s" for k
    using length_takeWhile_le[of isDigit "drop k s"] by simp
  moreover have "startsWith P (drop k s) \<Longrightarrow> k \<le> length s" for P k
    by (cases "k < length s") (auto simp: startsWith_def)
  ultimately show ?thesis
    unfolding numberLength_def Let_def using mantissaLength_bound[of s] by auto
qed

lemma find_operator_length: "find (hasPrefix s) pg_operators = Some op \<Longrightarrow> length op \<le> length s"
  by (auto simp: find_Some_iff hasPrefix_iff)

lemma lexStep_bound: "lexStep i (c # r) = Inr (t, n) \<Longrightarrow> n \<le> length (c # r)"
  using numberLength_bound[of "c # r"] length_takeWhile_le[of "\<lambda>x. byte x \<noteq> 10" "c # r"]
    length_takeWhile_le[of isIdentPart "c # r"] length_takeWhile_le[of isDigit r]
  unfolding lexStep_def Let_def
  by (auto split: if_splits option.splits dest!: find_operator_length)

text \<open>
  A lexer is a loop over one step. The locale states what a step owes the loop, whatever the
  dialect: it consumes at least one byte and not more than there are, and the token it appends
  is well-formed and sits where the step began. The stream's shape follows once for all.
\<close>

locale scanner =
  fixes step :: "nat \<Rightarrow> string \<Rightarrow> 'e + token option \<times> nat"
    and scan :: "nat \<Rightarrow> string \<Rightarrow> 'e + token list"
    and wf :: "token \<Rightarrow> bool"
  assumes scan_end: "scan i [] = Inr [mkToken TkEOF [] i]"
    and scan_step: "scan i (c # r) = bindE (step i (c # r)) (\<lambda>(t, n).
          bindE (scan (i + n) (drop n (c # r))) (\<lambda>ts. Inr (case t of None \<Rightarrow> ts | Some k \<Rightarrow> k # ts)))"
    and progress: "step i (c # r) = Inr (t, n) \<Longrightarrow> 0 < n \<and> (\<forall>k. t = Some k \<longrightarrow> wf k \<and> tkPos k = i)"
    and bound: "step i (c # r) = Inr (t, n) \<Longrightarrow> n \<le> length (c # r)"
begin

lemma scan_cases:
  assumes "scan i (c # r) = Inr ts"
  obtains t n us where "step i (c # r) = Inr (t, n)" "scan (i + n) (drop n (c # r)) = Inr us"
    "ts = (case t of None \<Rightarrow> us | Some k \<Rightarrow> k # us)" "0 < n" "n \<le> length (c # r)"
  using assms progress bound by (fastforce simp: scan_step bindE_eq_Inr)

lemma stream:
  "scan i s = Inr ts \<Longrightarrow>
   \<exists>us. ts = us @ [mkToken TkEOF [] (i + length s)] \<and> list_all wf us \<and>
     sorted_wrt (<) (map tkPos us) \<and> (\<forall>u \<in> set us. i \<le> tkPos u \<and> tkPos u < i + length s)"
proof (induction s arbitrary: i ts rule: length_induct)
  case (1 s)
  show ?case
  proof (cases s)
    case Nil
    with "1.prems" show ?thesis by (simp add: scan_end)
  next
    case (Cons c r)
    from "1.prems"[unfolded Cons] obtain t n vs
      where step: "step i (c # r) = Inr (t, n)" and rest: "scan (i + n) (drop n (c # r)) = Inr vs"
        and ts: "ts = (case t of None \<Rightarrow> vs | Some k \<Rightarrow> k # vs)" and n: "0 < n" "n \<le> length (c # r)"
      by (rule scan_cases)
    from n Cons have "length (drop n (c # r)) < length s" by simp
    from "1.IH"[rule_format, OF this rest] n obtain us
      where us: "vs = us @ [mkToken TkEOF [] (i + length (c # r))]" "list_all wf us"
        "sorted_wrt (<) (map tkPos us)" "\<forall>u \<in> set us. i + n \<le> tkPos u \<and> tkPos u < i + length (c # r)"
      by auto
    show ?thesis
    proof (cases t)
      case None
      with ts us n Cons show ?thesis by (intro exI[of _ us]) auto
    next
      case (Some k)
      with ts us n Cons progress[OF step] show ?thesis by (intro exI[of _ "k # us"]) auto
    qed
  qed
qed

lemma scan_error: "scan i s = Inl e \<Longrightarrow> \<exists>j c r. step j (c # r) = Inl e"
proof (induction s arbitrary: i rule: length_induct)
  case (1 s)
  then obtain c r where s: "s = c # r" by (cases s) (auto simp: scan_end)
  show ?case
  proof (cases "step i (c # r)")
    case (Inr tn)
    then obtain t n where step: "step i (c # r) = Inr (t, n)" by (cases tn) auto
    with "1.prems" s have "scan (i + n) (drop n (c # r)) = Inl e" by (auto simp: scan_step bindE_eq_Inl)
    moreover have "length (drop n (c # r)) < length s" using progress[OF step] s by simp
    ultimately show ?thesis using "1.IH" by blast
  qed (use "1.prems" s in \<open>auto simp: scan_step\<close>)
qed

end

interpretation pg_scanner: scanner lexStep lexFrom wfToken
  by unfold_locales (simp_all only: lexFrom.simps, (blast dest: lexStep_progress lexStep_bound)+)

lemma lexStep_classified: "lexStep i s = Inl e \<Longrightarrow> classified e"
  unfolding lexStep_def Let_def by (auto split: if_splits option.splits)

lemma lexFrom_classified: "lexFrom i s = Inl e \<Longrightarrow> classified e"
  by (drule pg_scanner.scan_error) (auto dest: lexStep_classified)

subsection \<open>Quoted SQL text\<close>

text \<open>How a client writes a literal or a quoted identifier: the quote inside is doubled.\<close>

definition doubleQuote :: "char \<Rightarrow> char \<Rightarrow> string" where
  "doubleQuote q c = (if c = q then [q, q] else [c])"

definition sqlQuoted :: "char \<Rightarrow> string \<Rightarrow> string" where
  "sqlQuoted q t = q # concat (map (doubleQuote q) t) @ [q]"

interpretation sqlText: quoted_text "doubleQuote q" q "lexQuoted q" "\<lambda>s. \<not> startsWith (\<lambda>c. c = q) s"
  for q
proof
  show "lexQuoted q (doubleQuote q c @ s) = map_option (\<lambda>(t, r). (c # t, r)) (lexQuoted q s)" for c s
    by (cases s) (auto simp: doubleQuote_def)
  show "\<not> startsWith (\<lambda>c. c = q) s \<Longrightarrow> lexQuoted q (q # s) = Some ([], s)" for s
    by (cases s) (auto simp: startsWith_def)
qed

lemma sqlQuoted_enclose: "sqlQuoted q t = q # sqlText.enclose q t"
  by (simp add: sqlQuoted_def sqlText.enclose_def)

lemma lexQuoted_sqlQuoted:
  "\<not> startsWith (\<lambda>c. c = q) s \<Longrightarrow> lexQuoted q (sqlText.enclose q t @ s) = Some (t, s)"
  by (rule sqlText.read_enclose)

lemma lexStep_string:
  assumes "\<not> startsWith (\<lambda>c. c = CHR 39) s"
  shows "lexStep i (sqlQuoted (CHR 39) t @ s) =
         Inr (Some (mkToken TkString t i), length (sqlQuoted (CHR 39) t))"
proof -
  have "\<not> sqlSpace (CHR 39)" by (simp add: sqlSpace_def)
  moreover have "\<not> hasPrefix (CHR 39 # u) ''--''" "\<not> hasPrefix (CHR 39 # u) ''/*''" for u
    by (simp_all add: hasPrefix_def)
  ultimately show ?thesis
    using lexQuoted_sqlQuoted[OF assms, of t]
    by (simp add: lexStep_def sqlQuoted_enclose Let_def)
qed

subsection \<open>Properties\<close>

text \<open>The token stream of every statement the lexer accepts ends with its only end token,
  which sits at the length of the statement; each token before it has the shape of its kind
  (a keyword is one of the reserved words in upper case, a bare identifier is none of them,
  a number starts with a digit or a point, an operator is one of the table), and the tokens'
  offsets are strictly increasing and inside the statement.\<close>

theorem pg_lex_stream:
  assumes "pg_lex src = Inr ts"
  shows "\<exists>us. ts = us @ [mkToken TkEOF [] (length src)] \<and> list_all wfToken us \<and>
    sorted_wrt (<) (map tkPos us) \<and> (\<forall>u \<in> set us. tkPos u < length src)"
  using pg_scanner.stream[of 0 src ts] assms by (auto simp: pg_lex_def)

text \<open>A string value written as an SQL literal, its quotes doubled, is lexed back as one
  string token holding exactly that value, whatever bytes it contains and whatever follows
  it (unless a quote follows, which would be part of it).\<close>

theorem lex_sqlQuoted:
  assumes "\<not> startsWith (\<lambda>c. c = CHR 39) rest"
  shows "lexFrom i (sqlQuoted (CHR 39) v @ rest) =
    bindE (lexFrom (i + length (sqlQuoted (CHR 39) v)) rest) (\<lambda>ts.
      Inr (mkToken TkString v i # ts))"
  using lexStep_string[OF assms, of i v]
  by (simp add: lexFrom.simps(2) sqlQuoted_def)

lemma pg_lex_stream_witness:
  "\<exists>us. [mkToken TkKeyword ''SELECT'' 0, mkToken TkOp ''*'' 7, mkToken TkEOF [] 8] =
     us @ [mkToken TkEOF [] (length ''SELECT *'')] \<and> list_all wfToken us \<and>
     sorted_wrt (<) (map tkPos us) \<and> (\<forall>u \<in> set us. tkPos u < length ''SELECT *'')"
  by (rule pg_lex_stream) code_simp

lemma lex_sqlQuoted_witness:
  "lexFrom 0 (sqlQuoted (CHR 39) [CHR ''a'', CHR 39] @ '' x'') =
    bindE (lexFrom 5 '' x'') (\<lambda>ts. Inr (mkToken TkString [CHR ''a'', CHR 39] 0 # ts))"
  using lex_sqlQuoted[of "'' x''" 0 "[CHR ''a'', CHR 39]"]
  by (simp add: startsWith_def sqlQuoted_def doubleQuote_def eval_nat_numeral)

end
