(* ===== verification/GoTime.thy ===== *)
theory GoTime
  imports GoStrconv
begin

text \<open>
  \<open>time.Parse\<close> on the reference layouts of the two translators and \<open>Time.UnixMilli\<close>: the walk of
  the layout's chunks over the value, with the standard library's lenience (a one-digit hour,
  a fraction after the seconds whether or not the layout has one, runs of spaces), its range
  checks, and milliseconds since 1970 rounded down.
\<close>

subsection \<open>Layout chunks\<close>

datatype chunk =
    Lit char          \<comment> \<open>a character of the layout that stands for itself\<close>
  | LongYear          \<comment> \<open>\<open>2006\<close>\<close>
  | ZeroMonth         \<comment> \<open>\<open>01\<close>\<close>
  | ZeroDay           \<comment> \<open>\<open>02\<close>\<close>
  | Hour              \<comment> \<open>\<open>15\<close>\<close>
  | ZeroMinute        \<comment> \<open>\<open>04\<close>\<close>
  | ZeroSecond        \<comment> \<open>\<open>05\<close>, with the optional fraction that may follow\<close>
  | ColonTZ           \<comment> \<open>\<open>Z07:00\<close>\<close>

record dateParts =
  year :: int
  month :: int
  day :: int
  hour :: int
  minute :: int
  second :: int
  nanos :: int
  zoneSec :: int

definition zeroDate :: dateParts where
  "zeroDate = \<lparr>year = 0, month = -1, day = -1, hour = 0, minute = 0, second = 0, nanos = 0, zoneSec = 0\<rparr>"

definition layoutDate :: "chunk list" where
  "layoutDate = [LongYear, Lit (CHR ''-''), ZeroMonth, Lit (CHR ''-''), ZeroDay]"

definition layoutClock :: "chunk list" where
  "layoutClock = [Hour, Lit (CHR '':''), ZeroMinute, Lit (CHR '':''), ZeroSecond]"

definition RFC3339Nano :: "chunk list" where
  "RFC3339Nano = layoutDate @ Lit (CHR ''T'') # layoutClock @ [ColonTZ]"

definition layoutDateTime :: "chunk list" where
  "layoutDateTime = layoutDate @ Lit (CHR ''T'') # layoutClock"

definition layoutDateTimeSpace :: "chunk list" where
  "layoutDateTimeSpace = layoutDate @ Lit (CHR '' '') # layoutClock"

subsection \<open>Reading the chunks\<close>

text \<open>One or two digits, exactly two when \<open>fixed\<close>.\<close>

fun getnum :: "bool \<Rightarrow> string \<Rightarrow> (int \<times> string) option" where
  "getnum fixed (a # b # s) =
     (if \<not> isDigit a then None
      else if isDigit b then Some (int (10 * digitVal a + digitVal b), s)
      else if fixed then None else Some (int (digitVal a), b # s))"
| "getnum fixed [a] = (if isDigit a \<and> \<not> fixed then Some (int (digitVal a), []) else None)"
| "getnum fixed [] = None"

definition getRange :: "bool \<Rightarrow> int \<Rightarrow> int \<Rightarrow> string \<Rightarrow> (int \<times> string) option" where
  "getRange fixed lo hi s = (case getnum fixed s of
      None \<Rightarrow> None
    | Some (n, r) \<Rightarrow> if lo \<le> n \<and> n \<le> hi then Some (n, r) else None)"

text \<open>The fraction behind the seconds, in nanoseconds: its first nine digits count.\<close>

definition fraction :: "string \<Rightarrow> int \<times> string" where
  "fraction s = (case s of
      c # d # r \<Rightarrow>
        if (c = CHR ''.'' \<or> c = CHR '','') \<and> isDigit d then
          (let ds = takeWhile isDigit (d # r); k = take 9 ds
           in (int (natOfDigits k * 10 ^ (9 - length k)), drop (length ds) (d # r)))
        else (0, s)
    | _ \<Rightarrow> (0, s))"

definition zone :: "string \<Rightarrow> (int \<times> string) option" where
  "zone s = (if hasPrefix s ''Z'' then Some (0, tl s)
     else (case s of
        sg # a # b # c # d # e # r \<Rightarrow>
          if c \<noteq> CHR '':'' then None
          else (case (getnum True [a, b], getnum True [d, e]) of
             (Some (hh, _), Some (mm, _)) \<Rightarrow>
               if hh > 24 \<or> mm > 60 then None
               else if sg = CHR ''+'' then Some ((hh * 60 + mm) * 60, r)
               else if sg = CHR ''-'' then Some (- ((hh * 60 + mm) * 60), r)
               else None
           | _ \<Rightarrow> None)
      | _ \<Rightarrow> None))"

definition skipChar :: "char \<Rightarrow> string \<Rightarrow> string option" where
  "skipChar c s =
     (if c = CHR '' '' then
        (if s \<noteq> [] \<and> hd s \<noteq> CHR '' '' then None else Some (dropWhile (\<lambda>x. x = CHR '' '') s))
      else if s \<noteq> [] \<and> hd s = c then Some (tl s) else None)"

fun walkLayout :: "chunk list \<Rightarrow> dateParts \<Rightarrow> string \<Rightarrow> dateParts option" where
  "walkLayout [] d s = (if s = [] then Some d else None)"
| "walkLayout (Lit c # l) d s =
     (case skipChar c s of None \<Rightarrow> None | Some r \<Rightarrow> walkLayout l d r)"
| "walkLayout (LongYear # l) d s =
     (if length s < 4 \<or> \<not> list_all isDigit (take 4 s) then None
      else walkLayout l (d\<lparr>year := int (natOfDigits (take 4 s))\<rparr>) (drop 4 s))"
| "walkLayout (ZeroMonth # l) d s =
     (case getRange True 1 12 s of None \<Rightarrow> None | Some (n, r) \<Rightarrow> walkLayout l (d\<lparr>month := n\<rparr>) r)"
| "walkLayout (ZeroDay # l) d s =
     (case getnum True s of None \<Rightarrow> None | Some (n, r) \<Rightarrow> walkLayout l (d\<lparr>day := n\<rparr>) r)"
| "walkLayout (Hour # l) d s =
     (case getRange False 0 23 s of None \<Rightarrow> None | Some (n, r) \<Rightarrow> walkLayout l (d\<lparr>hour := n\<rparr>) r)"
| "walkLayout (ZeroMinute # l) d s =
     (case getRange True 0 59 s of None \<Rightarrow> None | Some (n, r) \<Rightarrow> walkLayout l (d\<lparr>minute := n\<rparr>) r)"
| "walkLayout (ZeroSecond # l) d s =
     (case getRange True 0 59 s of None \<Rightarrow> None
      | Some (n, r) \<Rightarrow> (let (ns, r') = fraction r in walkLayout l (d\<lparr>second := n, nanos := ns\<rparr>) r'))"
| "walkLayout (ColonTZ # l) d s =
     (case zone s of None \<Rightarrow> None | Some (z, r) \<Rightarrow> walkLayout l (d\<lparr>zoneSec := z\<rparr>) r)"

subsection \<open>The calendar\<close>

definition isLeap :: "int \<Rightarrow> bool" where
  "isLeap y \<longleftrightarrow> y mod 4 = 0 \<and> (y mod 100 \<noteq> 0 \<or> y mod 400 = 0)"

definition monthLengths :: "int list" where
  "monthLengths = [31, 28, 31, 30, 31, 30, 31, 31, 30, 31, 30, 31]"

definition daysIn :: "int \<Rightarrow> int \<Rightarrow> int" where
  "daysIn m y = (if m = 2 \<and> isLeap y then 29 else monthLengths ! nat (m - 1))"

definition daysBeforeMonth :: "int \<Rightarrow> int \<Rightarrow> int" where
  "daysBeforeMonth m y =
     sum_list (take (nat (m - 1)) monthLengths) + (if m > 2 \<and> isLeap y then 1 else 0)"

definition daysBeforeYear :: "int \<Rightarrow> int" where
  \<comment> \<open>days from 0001-01-01 to the first of January of the year\<close>
  "daysBeforeYear y = (let p = y - 1 in 365 * p + p div 4 - p div 100 + p div 400)"

definition dayNumber :: "int \<Rightarrow> int \<Rightarrow> int \<Rightarrow> int" where
  \<comment> \<open>days since 1970-01-01\<close>
  "dayNumber y m d = daysBeforeYear y + daysBeforeMonth m y + d - 1 - 719162"

definition unixSeconds :: "dateParts \<Rightarrow> int" where
  "unixSeconds d = dayNumber (year d) (month d) (day d) * 86400 +
     hour d * 3600 + minute d * 60 + second d - zoneSec d"

definition unixMilli :: "dateParts \<Rightarrow> int" where
  "unixMilli d = unixSeconds d * 1000 + nanos d div 1000000"

definition parseTime :: "chunk list \<Rightarrow> string \<Rightarrow> dateParts option" where
  "parseTime l s = (case walkLayout l zeroDate s of
      None \<Rightarrow> None
    | Some d \<Rightarrow> if day d < 1 \<or> daysIn (month d) (year d) < day d then None else Some d)"

text \<open>The first layout of a list that reads the value.\<close>

fun firstTime :: "chunk list list \<Rightarrow> string \<Rightarrow> int option" where
  "firstTime [] s = None"
| "firstTime (l # ls) s = (case parseTime l s of Some d \<Rightarrow> Some (unixMilli d) | None \<Rightarrow> firstTime ls s)"

subsection \<open>Lemmas\<close>

lemma div_step:
  assumes "0 < (k::int)"
  shows "y div k = (y - 1) div k + (if y mod k = 0 then 1 else 0)"
proof (cases "y mod k = 0")
  case True
  then have "y = k * (y div k)" by (simp add: mult.commute minus_mod_eq_mult_div [symmetric])
  then have "(y - 1) div k = y div k - 1"
    using assms by (intro int_div_pos_eq[of _ _ _ "k - 1"]) (auto simp: right_diff_distrib)
  with True show ?thesis by simp
next
  case False
  then have "0 < y mod k" "y mod k < k"
    using assms pos_mod_bound[of k y] pos_mod_sign[of k y] by linarith+
  then have "(y - 1) div k = y div k"
    by (intro int_div_pos_eq[of _ _ _ "y mod k - 1"]) auto
  with False show ?thesis by simp
qed

lemma leap_count:
  fixes a b c :: int
  assumes "a = a' + (if p then 1 else 0)" "b = b' + (if q then 1 else 0)"
    "c = c' + (if r then 1 else 0)" "r \<Longrightarrow> q" "q \<Longrightarrow> p"
  shows "365 * n + a - b + c = 365 * (n - 1) + a' - b' + c' + (if p \<and> (\<not> q \<or> r) then 366 else 365)"
  using assms by (cases p; cases q; cases r) auto

lemma daysBeforeYear_Suc: "daysBeforeYear (y + 1) = daysBeforeYear y + (if isLeap y then 366 else 365)"
proof -
  have "y mod 400 = 0 \<Longrightarrow> y mod 100 = 0" "y mod 100 = 0 \<Longrightarrow> y mod 4 = 0"
    using dvd_trans[of 100 400 y] dvd_trans[of 4 100 y] by (simp_all add: mod_eq_0_iff_dvd)
  from leap_count[OF div_step[of 4 y] div_step[of 100 y] div_step[of 400 y] this, of y]
  show ?thesis
    unfolding daysBeforeYear_def isLeap_def Let_def by (simp only: add_diff_cancel_right' zero_less_numeral HOL.simp_thms)
qed

lemma month_cases:
  assumes "1 \<le> (m::int)" "m \<le> 12"
  obtains "m = 1" | "m = 2" | "m = 3" | "m = 4" | "m = 5" | "m = 6" | "m = 7" | "m = 8"
    | "m = 9" | "m = 10" | "m = 11" | "m = 12"
proof -
  have "m \<in> set [1..12]" using assms by simp
  then show ?thesis using that by (auto simp: upto_rec1)
qed

text \<open>The day number counts days: the next day of a month, the first of the next month and
  the first of the next year each follow their predecessor.\<close>

lemma dayNumber_next_day: "dayNumber y m (d + 1) = dayNumber y m d + 1"
  by (simp add: dayNumber_def)

lemma dayNumber_next_month:
  assumes "1 \<le> m" "m < 12"
  shows "dayNumber y (m + 1) 1 = dayNumber y m (daysIn m y) + 1"
  using assms
  by (elim month_cases[of m, OF _ less_imp_le])
    (auto simp: dayNumber_def daysBeforeMonth_def daysIn_def monthLengths_def)

lemma dayNumber_next_year: "dayNumber (y + 1) 1 1 = dayNumber y 12 31 + 1"
  by (auto simp: dayNumber_def daysBeforeMonth_def monthLengths_def daysBeforeYear_Suc)

lemma dayNumber_epoch: "dayNumber 1970 1 1 = 0"
  by code_simp

subsection \<open>Written dates\<close>

definition pad2 :: "nat \<Rightarrow> string" where
  "pad2 n = [digitChar (n div 10), digitChar (n mod 10)]"

definition pad3 :: "nat \<Rightarrow> string" where
  "pad3 n = [digitChar (n div 100), digitChar (n div 10 mod 10), digitChar (n mod 10)]"

definition pad4 :: "nat \<Rightarrow> string" where
  "pad4 n = [digitChar (n div 1000), digitChar (n div 100 mod 10), digitChar (n div 10 mod 10),
     digitChar (n mod 10)]"

definition showDate :: "nat \<Rightarrow> nat \<Rightarrow> nat \<Rightarrow> string" where
  "showDate y m d = pad4 y @ ''-'' @ pad2 m @ ''-'' @ pad2 d"

definition showTime :: "nat \<Rightarrow> nat \<Rightarrow> nat \<Rightarrow> nat \<Rightarrow> string" where
  "showTime h mi s ms = pad2 h @ '':'' @ pad2 mi @ '':'' @ pad2 s @ ''.'' @ pad3 ms"

definition validDate :: "nat \<Rightarrow> nat \<Rightarrow> nat \<Rightarrow> bool" where
  "validDate y m d \<longleftrightarrow> y < 10000 \<and> 1 \<le> m \<and> m \<le> 12 \<and> 1 \<le> d \<and> int d \<le> daysIn (int m) (int y)"

lemma daysIn_le: "1 \<le> m \<Longrightarrow> m \<le> 12 \<Longrightarrow> daysIn m y \<le> 31"
  by (erule (1) month_cases) (auto simp: daysIn_def monthLengths_def)

lemma getnum_pad2: "n < 100 \<Longrightarrow> getnum b (pad2 n @ r) = Some (int n, r)"
  by (simp add: pad2_def)

lemma getRange_pad2: "n < 100 \<Longrightarrow> lo \<le> int n \<Longrightarrow> int n \<le> hi \<Longrightarrow> getRange b lo hi (pad2 n @ r) = Some (int n, r)"
  by (simp add: getRange_def getnum_pad2)

lemma year_pad4:
  assumes "n < 10000"
  shows "natOfDigits (take 4 (pad4 n @ r)) = n" "list_all isDigit (take 4 (pad4 n @ r))"
    "\<not> length (pad4 n @ r) < 4" "drop 4 (pad4 n @ r) = r"
proof -
  have "n div 1000 < 10" using assms by (simp add: less_mult_imp_div_less)
  then have digits: "natOfDigits (pad4 n) =
      10 * (10 * (10 * (n div 1000) + n div 100 mod 10) + n div 10 mod 10) + n mod 10"
    by (simp add: natOfDigits_def pad4_def)
  have "10 * (n div 1000) + n div 100 mod 10 = n div 100"
    using div_mult_mod_eq[of "n div 100" 10] by (simp add: div_mult2_eq[symmetric])
  moreover have "10 * (n div 100) + n div 10 mod 10 = n div 10"
    using div_mult_mod_eq[of "n div 10" 10] by (simp add: div_mult2_eq[symmetric])
  ultimately have "natOfDigits (pad4 n) = n" using digits by simp
  then show "natOfDigits (take 4 (pad4 n @ r)) = n" by (simp add: pad4_def)
  show "list_all isDigit (take 4 (pad4 n @ r))"
    using \<open>n div 1000 < 10\<close> by (simp add: pad4_def)
  show "\<not> length (pad4 n @ r) < 4" "drop 4 (pad4 n @ r) = r" by (simp_all add: pad4_def)
qed

lemma walk_year: "n < 10000 \<Longrightarrow>
  walkLayout (LongYear # l) p (pad4 n @ r) = walkLayout l (p\<lparr>year := int n\<rparr>) r"
  by (simp only: walkLayout.simps year_pad4) simp

lemma natOfDigits_pad3: "n < 1000 \<Longrightarrow> natOfDigits (pad3 n) = n"
proof -
  assume "n < 1000"
  then have "natOfDigits (pad3 n) = 10 * (10 * (n div 100) + n div 10 mod 10) + n mod 10"
    by (simp add: natOfDigits_def pad3_def less_mult_imp_div_less)
  moreover have "10 * (n div 100) + n div 10 mod 10 = n div 10"
    using div_mult_mod_eq[of "n div 10" 10] by (simp add: div_mult2_eq[symmetric])
  ultimately show ?thesis by simp
qed

lemma fraction_pad3:
  assumes "n < 1000" "\<not> isDigit c"
  shows "fraction (CHR ''.'' # pad3 n @ c # r) = (int n * 1000000, c # r)"
proof -
  have "list_all isDigit (pad3 n)" using assms(1) by (simp add: pad3_def less_mult_imp_div_less)
  then have "takeWhile isDigit (pad3 n @ c # r) = pad3 n"
    using assms(2) by (simp add: takeWhile_append2 list_all_iff)
  moreover obtain a b where "pad3 n = a # b" by (simp add: pad3_def)
  moreover have "isDigit (hd (pad3 n))" using assms(1) by (simp add: pad3_def less_mult_imp_div_less)
  moreover have "length (pad3 n) = 3" by (simp add: pad3_def)
  ultimately show ?thesis using natOfDigits_pad3[OF assms(1)]
    by (auto simp: fraction_def Let_def)
qed

lemma walk_date:
  assumes "y < 10000" "1 \<le> m" "m \<le> 12" "d < 100"
  shows "walkLayout (layoutDate @ l) p (showDate y m d @ r) =
    walkLayout l (p\<lparr>year := int y, month := int m, day := int d\<rparr>) r"
  using assms
  by (simp add: layoutDate_def showDate_def walk_year skipChar_def getRange_pad2 getnum_pad2
      del: walkLayout.simps(3))

lemma walk_clock:
  assumes "h < 24" "mi < 60" "s < 60" "ms < 1000" "\<not> isDigit c"
  shows "walkLayout (layoutClock @ l) p (showTime h mi s ms @ c # r) =
    walkLayout l (p\<lparr>hour := int h, minute := int mi, second := int s, nanos := int ms * 1000000\<rparr>) (c # r)"
  using assms fraction_pad3[OF assms(4,5), of r]
  by (simp add: layoutClock_def showTime_def skipChar_def getRange_pad2)

lemma parse_date:
  assumes "validDate y m d"
  shows "parseTime layoutDate (showDate y m d) =
    Some (zeroDate\<lparr>year := int y, month := int m, day := int d\<rparr>)"
proof -
  have "d < 100" using assms daysIn_le[of "int m" "int y"] by (auto simp: validDate_def)
  then show ?thesis using assms walk_date[of y m d "[]" zeroDate "[]"]
    by (simp add: parseTime_def validDate_def)
qed

lemma parse_date_other:
  assumes "validDate y m d" "c = CHR ''T'' \<or> c = CHR '' ''"
  shows "parseTime (layoutDate @ Lit c # Hour # l) (showDate y m d) = None"
proof -
  have "d < 100" using assms daysIn_le[of "int m" "int y"] by (auto simp: validDate_def)
  then show ?thesis using assms walk_date[of y m d "Lit c # Hour # l" zeroDate "[]"]
    by (auto simp: parseTime_def validDate_def skipChar_def getRange_def)
qed

lemma parse_rfc3339:
  assumes "validDate y m d" "h < 24" "mi < 60" "s < 60" "ms < 1000"
  shows "parseTime RFC3339Nano (showDate y m d @ ''T'' @ showTime h mi s ms @ ''Z'') =
    Some (zeroDate\<lparr>year := int y, month := int m, day := int d, hour := int h, minute := int mi,
      second := int s, nanos := int ms * 1000000, zoneSec := 0\<rparr>)"
proof -
  have "d < 100" using assms daysIn_le[of "int m" "int y"] by (auto simp: validDate_def)
  moreover have "\<not> isDigit (CHR ''Z'')" by (simp add: isDigit_def)
  ultimately show ?thesis
    using assms walk_date[of y m d _ zeroDate "CHR ''T'' # showTime h mi s ms @ ''Z''"]
      walk_clock[of h mi s ms "CHR ''Z''" "[ColonTZ]" _ "[]"]
    by (simp add: parseTime_def validDate_def RFC3339Nano_def skipChar_def zone_def hasPrefix_def)
qed

end
