(* ===== verification/Tri.thy ===== *)
theory Tri
  imports Plan
begin

text \<open>
  The three-valued logic Milvus evaluates a filter in, as the comments of
  \<open>internal/translate/expr.go\<close> state it: a comparison over a null field is unknown, \<open>not\<close> of
  unknown is unknown, the null checks are total, and only rows whose verdict is true pass.

  \<open>meval atom row e\<close> is the specification the two translators are verified against. A row
  gives each field a cell or null; \<open>atom\<close> is the verdict of a comparison, membership or text
  match on a cell that is not null. It is a parameter: what a token match means is Milvus's
  own matter, and no theorem depends on it. A conjunction or disjunction of no children is
  "match everything", as the source documents for both.
\<close>

type_synonym tri = "bool option"

definition tri_not :: "tri \<Rightarrow> tri" where
  "tri_not = map_option Not"

definition tri_and :: "tri \<Rightarrow> tri \<Rightarrow> tri" where
  "tri_and a b = (if a = Some False \<or> b = Some False then Some False
                  else if a = None \<or> b = None then None else Some True)"

definition tri_or :: "tri \<Rightarrow> tri \<Rightarrow> tri" where
  "tri_or a b = (if a = Some True \<or> b = Some True then Some True
                 else if a = None \<or> b = None then None else Some False)"

definition tri_all :: "tri list \<Rightarrow> tri" where
  "tri_all xs = foldr tri_and xs (Some True)"

definition tri_any :: "tri list \<Rightarrow> tri" where
  "tri_any xs = foldr tri_or xs (Some False)"

lemma tri_not_simps [simp, tri_simps]:
  "tri_not None = None" "tri_not (Some b) = Some (\<not> b)"
  by (simp_all add: tri_not_def)

lemma tri_not_not [simp]: "tri_not (tri_not a) = a"
  by (cases a) auto

lemma tri_not_eq [simp]:
  "tri_not a = Some b \<longleftrightarrow> a = Some (\<not> b)" "tri_not a = None \<longleftrightarrow> a = None"
  by (cases a; auto)+

lemma tri_all_simps [simp, tri_simps]:
  "tri_all [] = Some True" "tri_all (x # xs) = tri_and x (tri_all xs)"
  by (simp_all add: tri_all_def)

lemma tri_any_simps [simp, tri_simps]:
  "tri_any [] = Some False" "tri_any (x # xs) = tri_or x (tri_any xs)"
  by (simp_all add: tri_any_def)

lemma tri_and_unit [simp]:
  "tri_and (Some True) a = a" "tri_and a (Some True) = a"
  "tri_and (Some False) a = Some False" "tri_and a (Some False) = Some False"
  by (cases a; auto simp: tri_and_def)+

lemma tri_or_unit [simp]:
  "tri_or (Some False) a = a" "tri_or a (Some False) = a"
  "tri_or (Some True) a = Some True" "tri_or a (Some True) = Some True"
  by (cases a; auto simp: tri_or_def)+

lemma tri_and_assoc: "tri_and (tri_and a b) c = tri_and a (tri_and b c)"
  by (auto simp: tri_and_def)

lemma tri_or_assoc: "tri_or (tri_or a b) c = tri_or a (tri_or b c)"
  by (auto simp: tri_or_def)

lemma tri_all_append [simp]: "tri_all (xs @ ys) = tri_and (tri_all xs) (tri_all ys)"
  by (induction xs) (auto simp: tri_and_assoc)

lemma tri_all_True: "tri_all xs = Some True \<longleftrightarrow> (\<forall>x \<in> set xs. x = Some True)"
  by (induction xs) (auto simp: tri_and_def)

lemma tri_all_False: "tri_all xs = Some False \<longleftrightarrow> Some False \<in> set xs"
  by (induction xs) (auto simp: tri_and_def)

lemma tri_any_True: "tri_any xs = Some True \<longleftrightarrow> Some True \<in> set xs"
  by (induction xs) (auto simp: tri_or_def)

lemma tri_any_False: "tri_any xs = Some False \<longleftrightarrow> (\<forall>x \<in> set xs. x = Some False)"
  by (induction xs) (auto simp: tri_or_def)

lemma tri_not_and: "tri_not (tri_and a b) = tri_or (tri_not a) (tri_not b)"
  by (cases a; cases b) (auto simp: tri_and_def tri_or_def)

lemma tri_not_or: "tri_not (tri_or a b) = tri_and (tri_not a) (tri_not b)"
  by (cases a; cases b) (auto simp: tri_and_def tri_or_def)

lemma tri_not_all: "tri_not (tri_all xs) = tri_any (map tri_not xs)"
  by (induction xs) (simp_all add: tri_not_and)

lemma tri_not_any: "tri_not (tri_any xs) = tri_all (map tri_not xs)"
  by (induction xs) (simp_all add: tri_not_or)

subsection \<open>The filter's verdict on a row\<close>

fun leafField :: "expr \<Rightarrow> string" where
  "leafField (Compare op f v) = f"
| "leafField (InList f vs) = f"
| "leafField (TextMatch f q) = f"
| "leafField _ = []"

definition leafVerdict :: "(expr \<Rightarrow> 'c \<Rightarrow> bool) \<Rightarrow> (string \<Rightarrow> 'c option) \<Rightarrow> expr \<Rightarrow> tri" where
  "leafVerdict atom row e = map_option (atom e) (row (leafField e))"

fun meval :: "(expr \<Rightarrow> 'c \<Rightarrow> bool) \<Rightarrow> (string \<Rightarrow> 'c option) \<Rightarrow> expr \<Rightarrow> tri" where
  "meval atom row NilE = Some True"
| "meval atom row (Compare op f v) = leafVerdict atom row (Compare op f v)"
| "meval atom row (InList f vs) = leafVerdict atom row (InList f vs)"
| "meval atom row (TextMatch f q) = leafVerdict atom row (TextMatch f q)"
| "meval atom row (NotNull f) = Some (row f \<noteq> None)"
| "meval atom row (IsNull f) = Some (row f = None)"
| "meval atom row (NotE c) = tri_not (meval atom row c)"
| "meval atom row (AndE cs) = tri_all (map (meval atom row) cs)"
| "meval atom row (OrE cs) = (if cs = [] then Some True else tri_any (map (meval atom row) cs))"
| "meval atom row Never = Some False"

definition passes :: "(expr \<Rightarrow> 'c \<Rightarrow> bool) \<Rightarrow> (string \<Rightarrow> 'c option) \<Rightarrow> expr \<Rightarrow> bool" where
  "passes atom row e \<longleftrightarrow> meval atom row e = Some True"

text \<open>A row fits a schema when only its nullable fields are null.\<close>

definition fitsSchema :: "(string \<Rightarrow> bool) \<Rightarrow> (string \<Rightarrow> 'c option) \<Rightarrow> bool" where
  "fitsSchema nullable row \<longleftrightarrow> (\<forall>f. row f = None \<longrightarrow> nullable f)"

text \<open>The rows a plan admits, before its window: none when it is marked as matching nothing.\<close>

definition planAdmits :: "(expr \<Rightarrow> 'c \<Rightarrow> bool) \<Rightarrow> (string \<Rightarrow> 'c option) \<Rightarrow> plan \<Rightarrow> bool" where
  "planAdmits atom row p \<longleftrightarrow> \<not> pNoMatch p \<and> passes atom row (pExpr p)"

text \<open>Everything of a plan but its filter.\<close>

definition sameWindow :: "plan \<Rightarrow> plan \<Rightarrow> bool" where
  "sameWindow p q \<longleftrightarrow> pOffset p = pOffset q \<and> pLimit p = pLimit q \<and> pSort p = pSort q \<and>
     pSource p = pSource q \<and> pSearch p = pSearch q"

end
