(* ===== verification/PgWhere.thy ===== *)
theory PgWhere
  imports PgLexer GoTime Tri
begin

text \<open>
  The WHERE tree of \<open>internal/translate/pg/expr.go\<close>: constant folding, lowering to the Milvus
  expression, literal coercion, date values and the pgvector search specification.

  \<open>sqlEval\<close> is the specification: SQL's three-valued verdict of a WHERE tree on a row, each
  comparison being the verdict of the comparison it denotes on the stored value. The theorems
  state that folding is exact for it and that the lowered filter has the same verdict.
\<close>

subsection \<open>The tree\<close>

datatype litKind = LitNumber | LitString | LitBool | LitNull

record literal =
  litK :: litKind
  litText :: string

definition mkLit :: "litKind \<Rightarrow> string \<Rightarrow> literal" where
  "mkLit k t = \<lparr>litK = k, litText = t\<rparr>"

datatype whereExpr =
    WNil                                    \<comment> \<open>the nil interface value: constant true\<close>
  | WFalse
  | WCol string
  | WNot whereExpr
  | WAnd "whereExpr list"
  | WOr "whereExpr list"
  | WCmp string string literal
  | WIn string "literal list" bool
  | WBetw string literal literal bool
  | WNull string bool

record valueNode =
  vnCol :: string                           \<comment> \<open>empty when a literal\<close>
  vnLit :: literal

definition zeroLit :: literal where "zeroLit = mkLit LitNumber []"

definition colNode :: "string \<Rightarrow> valueNode" where
  "colNode c = \<lparr>vnCol = c, vnLit = zeroLit\<rparr>"

definition litNode :: "literal \<Rightarrow> valueNode" where
  "litNode l = \<lparr>vnCol = [], vnLit = l\<rparr>"

definition pg_columnOf :: "valueNode \<Rightarrow> string \<Rightarrow> terror + string" where
  "pg_columnOf v clause =
     (if vnCol v = [] then Inl (pg_parseErrf [T ''['', S clause, T ''] applies to a column, not a literal''])
      else Inr (vnCol v))"

subsection \<open>Constant folding\<close>

definition isFalse :: "whereExpr \<Rightarrow> bool" where
  "isFalse w \<longleftrightarrow> w = WFalse"

text \<open>What is left of a connective's parts: its unit, the only part, or the connective again.\<close>

definition regroup :: "'w \<Rightarrow> ('w list \<Rightarrow> 'w) \<Rightarrow> 'w list \<Rightarrow> 'w" where
  "regroup unit mk keep = (case keep of [] \<Rightarrow> unit | [w] \<Rightarrow> w | _ \<Rightarrow> mk keep)"

fun pg_fold :: "whereExpr \<Rightarrow> whereExpr" where
  "pg_fold (WAnd parts) =
     (let fs = map pg_fold parts in
      if list_ex isFalse fs then WFalse
      else regroup WNil WAnd (filter (\<lambda>f. f \<noteq> WNil) fs))"
| "pg_fold (WOr parts) =
     (let fs = map pg_fold parts in
      if list_ex (\<lambda>f. f = WNil) fs then WNil
      else regroup WFalse WOr (filter (\<lambda>f. \<not> isFalse f) fs))"
| "pg_fold (WNot c) =
     (let child = pg_fold c in
      if isFalse child then WNil
      else if child = WNil then WFalse
      else (case child of WNull col n \<Rightarrow> WNull col (\<not> n) | _ \<Rightarrow> WNot child))"
| "pg_fold w = w"

subsection \<open>Literal coercion\<close>

definition pg_dateLayouts :: "chunk list list" where
  "pg_dateLayouts = [RFC3339Nano, layoutDateTime, layoutDateTimeSpace, layoutDate]"

definition pg_dateValue :: "string \<Rightarrow> string \<Rightarrow> terror + val" where
  "pg_dateValue f s =
     (case firstTime pg_dateLayouts s of
        Some ms \<Rightarrow> Inr (IntValue ms)
      | None \<Rightarrow> Inl (pg_illegalErrf [T ''cannot parse date ['', S s, T ''] for field ['', S f,
          T '']: use yyyy-MM-dd, yyyy-MM-dd HH:MM:SS or RFC-3339'']))"

definition notNumeric :: "string \<Rightarrow> string \<Rightarrow> terror" where
  "notNumeric f t = pg_illegalErrf [T ''field ['', S f, T ''] is numeric but ['', S t,
     T ''] does not parse as a number'']"

definition pg_coerceValue :: "string \<Rightarrow> literal \<Rightarrow> schema \<Rightarrow> terror + val" where
  "pg_coerceValue f l sch = (let t = litText l in
     case litK l of
       LitNumber \<Rightarrow>
         (case FieldType sch f of
            TypeKeyword \<Rightarrow> Inr (StringValue t)
          | TypeBool \<Rightarrow> Inl (pg_illegalErrf [T ''field ['', S f, T ''] is boolean but ['', S t, T ''] is a number''])
          | _ \<Rightarrow>
            (case ParseInt t of
               Some i \<Rightarrow> Inr (IntValue i)
             | None \<Rightarrow>
               (case ParseFloat64 t of
                  Some x \<Rightarrow> Inr (FloatValue x)
                | None \<Rightarrow> Inl (notNumeric f t))))
     | LitString \<Rightarrow>
         (case FieldType sch f of
            TypeDate \<Rightarrow> pg_dateValue f t
          | TypeNumber \<Rightarrow>
              (case ParseFloat64 t of
                 Some x \<Rightarrow> Inr (FloatValue x)
               | None \<Rightarrow> Inl (notNumeric f t))
          | TypeBool \<Rightarrow>
              if t \<noteq> ''true'' \<and> t \<noteq> ''false''
              then Inl (pg_illegalErrf [T ''field ['', S f, T ''] is boolean but ['', S t, T ''] is not true/false''])
              else Inr (BoolValue (t = ''true''))
          | _ \<Rightarrow> Inr (StringValue t))
     | LitBool \<Rightarrow>
         (if FieldType sch f = TypeBool \<or> FieldType sch f = TypeUnknown
          then Inr (BoolValue (t = ''true''))
          else Inl (pg_illegalErrf [T ''field ['', S f, T ''] does not compare against a boolean literal'']))
     | LitNull \<Rightarrow> Inl (pg_parseErrf [T ''NULL is not a comparable value for field ['', S f, T '']'']))"

subsection \<open>Lowering\<close>

definition compareMilvusOps :: "string \<Rightarrow> compareOp option" where
  "compareMilvusOps = map_of
    [(''='', Eq), (''<>'', Ne), (''!='', Ne), (''<'', Lt), (''<='', Le), (''>'', Gt), (''>='', Ge)]"

definition internalErrf :: "reason \<Rightarrow> terror" where
  \<comment> \<open>a plain error, outside the classes of \<open>translate.Error\<close>\<close>
  "internalErrf r = \<lparr>Type = [], Reason = r, Status = 0\<rparr>"

fun buildWhere :: "schema \<Rightarrow> whereExpr \<Rightarrow> terror + expr" where
  "buildWhere sch WNil = Inr NilE"
| "buildWhere sch WFalse = Inr Never"
| "buildWhere sch (WCol c) = Inr (Compare Eq c (BoolValue True))"
| "buildWhere sch (WNot w) = bindE (buildWhere sch w) (\<lambda>child. Inr (NotE child))"
| "buildWhere sch (WAnd parts) = bindE (mapE (buildWhere sch) parts) (\<lambda>cs. Inr (AndE cs))"
| "buildWhere sch (WOr parts) = bindE (mapE (buildWhere sch) parts) (\<lambda>cs. Inr (OrE cs))"
| "buildWhere sch (WCmp op c l) =
     bindE (pg_coerceValue c l sch) (\<lambda>v.
       case compareMilvusOps op of
         Some mop \<Rightarrow> Inr (Compare mop c v)
       | None \<Rightarrow> Inl (internalErrf [T ''internal: unknown comparison operator '', Q op]))"
| "buildWhere sch (WIn c ls neg) =
     bindE (mapE (\<lambda>l. pg_coerceValue c l sch) ls) (\<lambda>vs.
       Inr (if neg then NotE (InList c vs) else InList c vs))"
| "buildWhere sch (WBetw c lo hi neg) =
     bindE (pg_coerceValue c lo sch) (\<lambda>l. bindE (pg_coerceValue c hi sch) (\<lambda>h.
       let bounds = AndE [Compare Ge c l, Compare Le c h]
       in Inr (if neg then NotE bounds else bounds)))"
| "buildWhere sch (WNull c neg) = Inr (if neg then NotNull c else IsNull c)"

subsection \<open>Vector search\<close>

record orderDistance =
  odColumn :: string
  odOp :: string
  odVector :: string

definition distanceMetrics :: "string \<Rightarrow> metric option" where
  "distanceMetrics = map_of [(''<->'', MetricL2), (''<=>'', MetricCosine), (''<#>'', MetricIP)]"

fun vecEntries :: "nat \<Rightarrow> nat \<Rightarrow> string list \<Rightarrow> terror + gofloat list" where
  "vecEntries n i [] = Inr []"
| "vecEntries n i (p # ps) =
     (case ParseFloat32 (trimSpace p) of
        None \<Rightarrow> Inl (pg_illegalErrf [T ''vector literal is '', D (int n),
            T '' comma-separated numbers, e.g. '', sq, T ''[0.1, 0.2, 0.3]'', sq, T '': entry '', D (int i + 1),
            T '' (['', S (trimSpace p), T '']) does not parse as a number''])
      | Some x \<Rightarrow> bindE (vecEntries n (i + 1) ps) (\<lambda>xs. Inr (x # xs)))"

definition parseVector :: "string \<Rightarrow> terror + gofloat list" where
  "parseVector s =
     (let body = trimSuffix (trimPrefix (trimSpace s) ''['') '']'' in
      if trimSpace body = []
      then Inl (pg_illegalErrf [T ''vector literal is empty: write the query vector as comma-separated numbers in brackets, e.g. '', sq,
             T ''[0.1, 0.2, 0.3]'', sq])
      else let parts = splitOn (CHR '','') body in vecEntries (length parts) 0 parts)"

definition pg_searchSpec :: "orderDistance \<Rightarrow> schema \<Rightarrow> terror + searchSpec" where
  "pg_searchSpec d sch =
     (case distanceMetrics (odOp d) of
        None \<Rightarrow> Inl (pg_unsupportedErrf [T ''distance operator ['', S (odOp d),
          T ''] has no Milvus metric: use <-> (L2), <=> (cosine) or <#> (inner product)''])
      | Some m \<Rightarrow>
          (let ft = FieldType sch (odColumn d) in
           if ft \<noteq> TypeVector then
             if ft = TypeUnknown
             then Inl (pg_illegalErrf [T ''field ['', S (odColumn d), T ''] is not a vector field of this collection''])
             else Inl (pg_illegalErrf [T ''field ['', S (odColumn d), T ''] is a '', S (fieldTypeText ft),
                    T '' field: distance operators order on vector fields''])
           else bindE (parseVector (odVector d)) (\<lambda>vec.
             Inr \<lparr>ssField = odColumn d, ssVector = vec, ssMetric = Some m\<rparr>)))"

subsection \<open>The meaning of a WHERE tree\<close>

text \<open>The verdict of one comparison: of the comparison of the stored cell with the literal
  in storage form; a literal without one has no verdict.\<close>

definition cmpVerdict ::
  "(expr \<Rightarrow> 'c \<Rightarrow> bool) \<Rightarrow> (string \<Rightarrow> 'c option) \<Rightarrow> schema \<Rightarrow> compareOp \<Rightarrow> string \<Rightarrow> literal \<Rightarrow> tri" where
  "cmpVerdict atom row sch op c l =
     (case pg_coerceValue c l sch of
        Inl _ \<Rightarrow> None
      | Inr v \<Rightarrow> leafVerdict atom row (Compare op c v))"

definition inVerdict ::
  "(expr \<Rightarrow> 'c \<Rightarrow> bool) \<Rightarrow> (string \<Rightarrow> 'c option) \<Rightarrow> schema \<Rightarrow> string \<Rightarrow> literal list \<Rightarrow> tri" where
  "inVerdict atom row sch c ls =
     (case mapE (\<lambda>l. pg_coerceValue c l sch) ls of
        Inl _ \<Rightarrow> None
      | Inr vs \<Rightarrow> leafVerdict atom row (InList c vs))"

fun sqlEval :: "(expr \<Rightarrow> 'c \<Rightarrow> bool) \<Rightarrow> (string \<Rightarrow> 'c option) \<Rightarrow> schema \<Rightarrow> whereExpr \<Rightarrow> tri" where
  "sqlEval atom row sch WNil = Some True"
| "sqlEval atom row sch WFalse = Some False"
| "sqlEval atom row sch (WCol c) = leafVerdict atom row (Compare Eq c (BoolValue True))"
| "sqlEval atom row sch (WNot w) = tri_not (sqlEval atom row sch w)"
| "sqlEval atom row sch (WAnd ws) = tri_all (map (sqlEval atom row sch) ws)"
| "sqlEval atom row sch (WOr ws) = tri_any (map (sqlEval atom row sch) ws)"
| "sqlEval atom row sch (WCmp op c l) =
     (case compareMilvusOps op of
        None \<Rightarrow> None
      | Some mop \<Rightarrow> cmpVerdict atom row sch mop c l)"
| "sqlEval atom row sch (WIn c ls neg) =
     (if neg then tri_not (inVerdict atom row sch c ls) else inVerdict atom row sch c ls)"
| "sqlEval atom row sch (WBetw c lo hi neg) =
     (let b = tri_and (cmpVerdict atom row sch Ge c lo) (cmpVerdict atom row sch Le c hi)
      in if neg then tri_not b else b)"
| "sqlEval atom row sch (WNull c neg) = Some ((row c = None) \<noteq> neg)"

subsection \<open>Folding\<close>

text \<open>Folded trees: no constant below the root, no connective of fewer than two parts, no
  negated null check.\<close>

fun foldedPart :: "whereExpr \<Rightarrow> bool" where
  "foldedPart WNil = False"
| "foldedPart WFalse = False"
| "foldedPart (WNot w) = (foldedPart w \<and> (\<forall>c n. w \<noteq> WNull c n))"
| "foldedPart (WAnd ws) = (2 \<le> length ws \<and> (\<forall>w \<in> set ws. foldedPart w))"
| "foldedPart (WOr ws) = (2 \<le> length ws \<and> (\<forall>w \<in> set ws. foldedPart w))"
| "foldedPart _ = True"

definition folded :: "whereExpr \<Rightarrow> bool" where
  "folded w \<longleftrightarrow> w = WNil \<or> w = WFalse \<or> foldedPart w"

lemma foldedI: "foldedPart w \<Longrightarrow> folded w"
  by (simp add: folded_def)

lemma folded_part: "folded w \<Longrightarrow> w \<noteq> WNil \<Longrightarrow> \<not> isFalse w \<Longrightarrow> foldedPart w"
  by (auto simp: folded_def isFalse_def)

lemma regroup_cases:
  obtains "keep = []" "regroup unit mk keep = unit"
  | w where "keep = [w]" "regroup unit mk keep = w"
  | "2 \<le> length keep" "regroup unit mk keep = mk keep"
proof (cases keep)
  case (Cons a r)
  then show ?thesis using that by (cases r) (auto simp: regroup_def)
qed (use that in \<open>simp add: regroup_def\<close>)

lemma folded_And: "(\<And>w. w \<in> set ws \<Longrightarrow> foldedPart w) \<Longrightarrow> folded (regroup WNil WAnd ws)"
  by (cases rule: regroup_cases[of ws WNil WAnd]) (auto simp: folded_def)

lemma folded_Or: "(\<And>w. w \<in> set ws \<Longrightarrow> foldedPart w) \<Longrightarrow> folded (regroup WFalse WOr ws)"
  by (cases rule: regroup_cases[of ws WFalse WOr]) (auto simp: folded_def)

lemma pg_fold_folded: "folded (pg_fold w)"
proof (induction w)
  case (WNot w)
  then show ?case by (cases "pg_fold w") (auto simp: folded_def isFalse_def Let_def)
next
  case (WAnd ws)
  show ?case
  proof (cases "list_ex isFalse (map pg_fold ws)")
    case False
    with WAnd have parts: "foldedPart f" if "f \<in> set (filter (\<lambda>f. f \<noteq> WNil) (map pg_fold ws))" for f
      using that by (force simp: list_ex_iff intro: folded_part)
    have "folded (regroup WNil WAnd (filter (\<lambda>f. f \<noteq> WNil) (map pg_fold ws)))"
      by (rule folded_And) (rule parts)
    with False show ?thesis by (simp add: Let_def)
  qed (simp add: Let_def folded_def)
next
  case (WOr ws)
  show ?case
  proof (cases "list_ex (\<lambda>f. f = WNil) (map pg_fold ws)")
    case False
    with WOr have parts: "foldedPart f" if "f \<in> set (filter (\<lambda>f. \<not> isFalse f) (map pg_fold ws))" for f
      using that by (force simp: list_ex_iff intro: folded_part)
    have "folded (regroup WFalse WOr (filter (\<lambda>f. \<not> isFalse f) (map pg_fold ws)))"
      by (rule folded_Or) (rule parts)
    with False show ?thesis by (simp add: Let_def)
  qed (simp add: Let_def folded_def)
qed (simp_all add: folded_def)

lemma sqlEval_And_keep:
  "tri_all (map (sqlEval atom row sch) (filter (\<lambda>f. f \<noteq> WNil) ws)) = tri_all (map (sqlEval atom row sch) ws)"
  by (induction ws) auto

lemma sqlEval_Or_keep:
  "tri_any (map (sqlEval atom row sch) (filter (\<lambda>f. \<not> isFalse f) ws)) = tri_any (map (sqlEval atom row sch) ws)"
  by (induction ws) (auto simp: isFalse_def)

lemma sqlEval_regroup_And:
  "sqlEval atom row sch (regroup WNil WAnd ws) = tri_all (map (sqlEval atom row sch) ws)"
  by (cases rule: regroup_cases[of ws WNil WAnd]) auto

lemma sqlEval_regroup_Or:
  "sqlEval atom row sch (regroup WFalse WOr ws) = tri_any (map (sqlEval atom row sch) ws)"
  by (cases rule: regroup_cases[of ws WFalse WOr]) auto

lemma sqlEval_fold: "sqlEval atom row sch (pg_fold w) = sqlEval atom row sch w"
proof (induction w)
  case (WNot w)
  show ?case
    by (cases "pg_fold w") (simp_all add: isFalse_def Let_def WNot.IH[symmetric])
next
  case (WAnd ws)
  then have parts: "map (sqlEval atom row sch) (map pg_fold ws) = map (sqlEval atom row sch) ws" by simp
  have "tri_all (map (sqlEval atom row sch) (map pg_fold ws)) = Some False"
    if "list_ex isFalse (map pg_fold ws)"
    unfolding tri_all_False using that by (force simp: list_ex_iff isFalse_def)
  then show ?case
    by (simp add: Let_def sqlEval_regroup_And sqlEval_And_keep parts del: map_map)
next
  case (WOr ws)
  then have parts: "map (sqlEval atom row sch) (map pg_fold ws) = map (sqlEval atom row sch) ws" by simp
  have "tri_any (map (sqlEval atom row sch) (map pg_fold ws)) = Some True"
    if "list_ex (\<lambda>f. f = WNil) (map pg_fold ws)"
    unfolding tri_any_True using that by (force simp: list_ex_iff)
  then show ?case
    by (simp add: Let_def sqlEval_regroup_Or sqlEval_Or_keep parts del: map_map)
qed simp_all

subsection \<open>Lowering\<close>

lemma buildWhere_eval:
  "buildWhere sch w = Inr e \<Longrightarrow> folded w \<Longrightarrow> meval atom row e = sqlEval atom row sch w"
proof (induction w arbitrary: e)
  case (WNot w)
  then show ?case by (auto simp: bindE_eq_Inr folded_def)
next
  case (WAnd ws)
  then obtain es where es: "mapE (buildWhere sch) ws = Inr es" "e = AndE es"
    by (auto simp: bindE_eq_Inr)
  have "map (meval atom row) es = map (sqlEval atom row sch) ws"
    using es(1) WAnd.IH WAnd.prems(2)
    by (auto simp: mapE_eq_Inr folded_def list_all2_conv_all_nth intro!: nth_equalityI)
  then show ?case by (simp add: es)
next
  case (WOr ws)
  then obtain es where es: "mapE (buildWhere sch) ws = Inr es" "e = OrE es"
    by (auto simp: bindE_eq_Inr)
  have "map (meval atom row) es = map (sqlEval atom row sch) ws"
    using es(1) WOr.IH WOr.prems(2)
    by (auto simp: mapE_eq_Inr folded_def list_all2_conv_all_nth intro!: nth_equalityI)
  moreover have "es \<noteq> []"
    using es(1) WOr.prems(2) by (auto dest!: mapE_Inr_length simp: folded_def)
  ultimately show ?case by (simp add: es)
qed (auto simp: bindE_eq_Inr cmpVerdict_def inVerdict_def Let_def split: option.splits sum.splits)

subsection \<open>Errors\<close>

lemma pg_dateValue_classified: "pg_dateValue f s = Inl e \<Longrightarrow> classified e"
  by (auto simp: pg_dateValue_def split: option.splits)

lemma pg_coerce_classified: "pg_coerceValue f l sch = Inl e \<Longrightarrow> classified e"
  by (cases "litK l"; cases "FieldType sch f")
    (auto simp: pg_coerceValue_def Let_def notNumeric_def split: if_splits option.splits
      dest: pg_dateValue_classified)

fun knownOps :: "whereExpr \<Rightarrow> bool" where
  "knownOps (WNot w) = knownOps w"
| "knownOps (WAnd ws) = (\<forall>w \<in> set ws. knownOps w)"
| "knownOps (WOr ws) = (\<forall>w \<in> set ws. knownOps w)"
| "knownOps (WCmp op c l) = (compareMilvusOps op \<noteq> None)"
| "knownOps _ = True"

lemma buildWhere_classified: "buildWhere sch w = Inl e \<Longrightarrow> knownOps w \<Longrightarrow> classified e"
proof (induction w arbitrary: e)
  case (WAnd ws)
  then show ?case by (auto simp: bindE_eq_Inl dest!: mapE_eq_Inl)
next
  case (WOr ws)
  then show ?case by (auto simp: bindE_eq_Inl dest!: mapE_eq_Inl)
next
  case (WIn c ls n)
  then show ?case by (auto simp: bindE_eq_Inl dest!: mapE_eq_Inl pg_coerce_classified)
qed (auto simp: bindE_eq_Inl Let_def dest: pg_coerce_classified)

lemma knownOps_regroup:
  "(\<And>w. w \<in> set ws \<Longrightarrow> knownOps w) \<Longrightarrow> knownOps (regroup WNil WAnd ws)"
  "(\<And>w. w \<in> set ws \<Longrightarrow> knownOps w) \<Longrightarrow> knownOps (regroup WFalse WOr ws)"
  by (cases rule: regroup_cases[of ws WNil WAnd], auto)
    (cases rule: regroup_cases[of ws WFalse WOr], auto)

lemma knownOps_fold: "knownOps w \<Longrightarrow> knownOps (pg_fold w)"
proof (induction w)
  case (WNot w)
  then show ?case by (cases "pg_fold w") (auto simp: Let_def isFalse_def)
next
  case (WAnd ws)
  then have parts: "knownOps f" if "f \<in> set (filter (\<lambda>f. f \<noteq> WNil) (map pg_fold ws))" for f
    using that by auto
  have "knownOps (regroup WNil WAnd (filter (\<lambda>f. f \<noteq> WNil) (map pg_fold ws)))"
    by (rule knownOps_regroup) (rule parts)
  then show ?case by (simp add: Let_def)
next
  case (WOr ws)
  then have parts: "knownOps f" if "f \<in> set (filter (\<lambda>f. \<not> isFalse f) (map pg_fold ws))" for f
    using that by auto
  have "knownOps (regroup WFalse WOr (filter (\<lambda>f. \<not> isFalse f) (map pg_fold ws)))"
    by (rule knownOps_regroup) (rule parts)
  then show ?case by (simp add: Let_def)
qed auto

lemma vecEntries_classified: "vecEntries n i ps = Inl e \<Longrightarrow> classified e"
  by (induction ps arbitrary: i e) (auto simp: bindE_eq_Inl split: option.splits)

lemma pg_searchSpec_classified: "pg_searchSpec d sch = Inl e \<Longrightarrow> classified e"
  by (auto simp: pg_searchSpec_def parseVector_def Let_def bindE_eq_Inl
      split: option.splits if_splits dest: vecEntries_classified)

subsection \<open>Coerced literals\<close>

text \<open>The storage kinds a literal of a field type may take.\<close>

fun storageKind :: "fieldType \<Rightarrow> val \<Rightarrow> bool" where
  "storageKind TypeKeyword (StringValue _) = True"
| "storageKind TypeNumber (IntValue _) = True"
| "storageKind TypeNumber (FloatValue _) = True"
| "storageKind TypeDate (IntValue _) = True"
| "storageKind TypeDate (FloatValue _) = True"
| "storageKind TypeBool (BoolValue _) = True"
| "storageKind TypeText v = (v \<noteq> InvalidValue \<and> (\<forall>b. v \<noteq> BoolValue b))"
| "storageKind TypeVector v = (v \<noteq> InvalidValue \<and> (\<forall>b. v \<noteq> BoolValue b))"
| "storageKind TypeUnknown v = (v \<noteq> InvalidValue)"
| "storageKind _ _ = False"

lemma pg_coerce_kind: "pg_coerceValue f l sch = Inr v \<Longrightarrow> storageKind (FieldType sch f) v"
  by (cases "FieldType sch f")
    (auto simp: pg_coerceValue_def pg_dateValue_def Let_def
      split: litKind.splits if_splits option.splits)

lemma pg_coerce_valid: "pg_coerceValue f l sch = Inr v \<Longrightarrow> v \<noteq> InvalidValue"
  by (cases "FieldType sch f") (auto dest!: pg_coerce_kind)

fun whereFields :: "whereExpr \<Rightarrow> string set" where
  "whereFields (WCol c) = {c}"
| "whereFields (WNot w) = whereFields w"
| "whereFields (WAnd ws) = (\<Union>w \<in> set ws. whereFields w)"
| "whereFields (WOr ws) = (\<Union>w \<in> set ws. whereFields w)"
| "whereFields (WCmp op c l) = {c}"
| "whereFields (WIn c ls n) = {c}"
| "whereFields (WBetw c lo hi n) = {c}"
| "whereFields (WNull c n) = {c}"
| "whereFields _ = {}"

lemma compareMilvusOps_valid: "compareMilvusOps op = Some mop \<Longrightarrow> mop \<in> set compareOps"
  by (auto simp: compareMilvusOps_def compareOps_def split: if_splits)

text \<open>A lowered filter renders unless a field's name does not.\<close>

lemma buildWhere_renderable:
  "buildWhere sch w = Inr e \<Longrightarrow> (\<forall>f \<in> whereFields w. validField f) \<Longrightarrow> renderable e"
proof (induction w arbitrary: e)
  case (WNot w)
  then show ?case by (auto simp: bindE_eq_Inr)
next
  case (WAnd ws)
  then show ?case by (fastforce simp: bindE_eq_Inr dest: mapE_set)
next
  case (WOr ws)
  then show ?case by (fastforce simp: bindE_eq_Inr dest: mapE_set)
next
  case (WCmp op c l)
  then obtain v mop where "pg_coerceValue c l sch = Inr v" "compareMilvusOps op = Some mop"
    "e = Compare mop c v"
    by (auto simp: bindE_eq_Inr split: option.splits)
  with WCmp.prems show ?case
    using compareMilvusOps_valid[of op mop] pg_coerce_valid[of c l sch v] by simp
qed (auto simp: bindE_eq_Inr compareOps_def Let_def dest!: pg_coerce_valid dest: mapE_set)

subsection \<open>Vector literals\<close>

lemma vecEntries_Inr:
  "vecEntries n i ps = Inr vs \<longleftrightarrow> list_all2 (\<lambda>p v. ParseFloat32 (trimSpace p) = Some v) ps vs"
proof (induction ps arbitrary: i vs)
  case (Cons p ps)
  then show ?case by (auto simp: list_all2_Cons1 bindE_eq_Inr split: option.splits)
qed auto

subsection \<open>Properties\<close>

text \<open>Folding a WHERE tree is exact under SQL's three-valued logic: on every row the folded
  tree has the verdict of the tree as written (true, false or unknown), and the result is in
  normal form, with no constant below its root, no connective of fewer than two parts and no
  negation around a null check.\<close>

theorem pg_fold_exact:
  "sqlEval atom row sch (pg_fold w) = sqlEval atom row sch w \<and> folded (pg_fold w)"
  by (simp add: sqlEval_fold pg_fold_folded)

text \<open>C17. The filter a WHERE clause lowers to has, on every row and for every meaning of the
  atomic comparisons, the three-valued verdict of the clause, so Milvus passes exactly the
  rows for which the clause is true.\<close>

theorem pg_where_exact:
  assumes "buildWhere sch (pg_fold w) = Inr e"
  shows "meval atom row e = sqlEval atom row sch w \<and>
    (passes atom row e \<longleftrightarrow> sqlEval atom row sch w = Some True)"
  using buildWhere_eval[OF assms pg_fold_folded, of atom row] sqlEval_fold[of atom row sch w]
  by (simp add: passes_def)

text \<open>A statement whose folded WHERE is the constant false has no matching row, so marking
  its plan as matching nothing loses none.\<close>

theorem pg_noMatch_sound:
  assumes "isFalse (pg_fold w)"
  shows "sqlEval atom row sch w = Some False"
  using assms sqlEval_fold[of atom row sch w] by (simp add: isFalse_def)

text \<open>A literal accepted for a field is in the field's storage kind: text for a keyword
  field, a number for number and date fields, a boolean for a boolean field (and a boolean
  for no field of another known type).\<close>

theorem pg_coerceValue_kind:
  assumes "pg_coerceValue f l sch = Inr v"
  shows "storageKind (FieldType sch f) v"
  using assms by (rule pg_coerce_kind)

text \<open>Written timestamps lower to the epoch milliseconds they denote: every valid calendar
  date, and every RFC 3339 timestamp with milliseconds, of the years 0 to 9999.\<close>

theorem pg_dateValue_written:
  assumes "validDate y m d" "h < 24" "mi < 60" "s < 60" "ms < 1000"
  shows "pg_dateValue f (showDate y m d) = Inr (IntValue (dayNumber (int y) (int m) (int d) * 86400000)) \<and>
    pg_dateValue f (showDate y m d @ ''T'' @ showTime h mi s ms @ ''Z'') =
      Inr (IntValue ((((dayNumber (int y) (int m) (int d) * 24 + int h) * 60 + int mi) * 60 + int s)
        * 1000 + int ms))"
  using parse_date[OF assms(1)] parse_rfc3339[OF assms]
    parse_date_other[OF assms(1), of "CHR ''T''"] parse_date_other[OF assms(1), of "CHR '' ''"]
  by (simp add: pg_dateValue_def pg_dateLayouts_def RFC3339Nano_def layoutDateTime_def
      layoutDateTimeSpace_def layoutClock_def unixMilli_def unixSeconds_def zeroDate_def)

text \<open>A vector literal is accepted exactly when its body, without the optional brackets, is
  not blank and every comma-separated entry reads as a 32-bit float, and its value is those
  floats in order.\<close>

theorem parseVector_spec:
  "parseVector s = Inr v \<longleftrightarrow>
   (let body = trimSuffix (trimPrefix (trimSpace s) ''['') '']'' in
    trimSpace body \<noteq> [] \<and>
    list_all2 (\<lambda>p x. ParseFloat32 (trimSpace p) = Some x) (splitOn (CHR '','') body) v)"
  by (simp add: parseVector_def Let_def vecEntries_Inr)

lemma pg_where_exact_witness:
  "let w = WNot (WAnd [WNil, WCmp ''<'' ''views'' (mkLit LitNumber ''7''), WNot (WNull ''tag'' False)]);
       sch = MapSchema [(''views'', TypeNumber)];
       e = NotE (AndE [Compare Lt ''views'' (IntValue 7), NotNull ''tag''])
   in meval (\<lambda>_ c. c) ((\<lambda>_. None)(''tag'' \<mapsto> True)) e
        = sqlEval (\<lambda>_ c. c) ((\<lambda>_. None)(''tag'' \<mapsto> True)) sch w \<and>
      passes (\<lambda>_ c. c) ((\<lambda>_. None)(''views'' \<mapsto> False)) e"
proof -
  let ?w = "WNot (WAnd [WNil, WCmp ''<'' ''views'' (mkLit LitNumber ''7''), WNot (WNull ''tag'' False)])"
  let ?sch = "MapSchema [(''views'', TypeNumber)]"
  have "buildWhere ?sch (pg_fold ?w) =
      Inr (NotE (AndE [Compare Lt ''views'' (IntValue 7), NotNull ''tag'']))"
    by code_simp
  from pg_where_exact[OF this, of "\<lambda>_ c. c" "(\<lambda>_. None)(''tag'' \<mapsto> True)"]
    pg_where_exact[OF this, of "\<lambda>_ c. c" "(\<lambda>_. None)(''views'' \<mapsto> False)"]
  show ?thesis by (simp add: Let_def passes_def leafVerdict_def)
qed

lemma pg_noMatch_sound_witness:
  "sqlEval (\<lambda>_ c. c) (\<lambda>_. None :: bool option) (MapSchema [])
     (WAnd [WCol ''a'', WOr [WFalse, WNot WNil]]) = Some False"
  by (rule pg_noMatch_sound) code_simp

lemma pg_coerceValue_kind_witness:
  "storageKind (FieldType (MapSchema [(''k'', TypeKeyword)]) ''k'') (StringValue ''12'')"
  by (rule pg_coerceValue_kind[of _ "mkLit LitNumber ''12''"]) code_simp

lemma pg_dateValue_written_witness:
  "pg_dateValue ''d'' ''2024-02-29'' = Inr (IntValue 1709164800000) \<and>
   pg_dateValue ''d'' ''2024-02-29T10:00:00.250Z'' = Inr (IntValue 1709200800250)"
proof -
  have "showDate 2024 2 29 = ''2024-02-29''" "showTime 10 0 0 250 = ''10:00:00.250''"
    "validDate 2024 2 29" "dayNumber 2024 2 29 = 19782"
    by code_simp+
  with pg_dateValue_written[of 2024 2 29 10 0 0 250 "''d''"] show ?thesis by simp
qed

end
