(* ===== verification/PgParser.thy ===== *)
theory PgParser
  imports PgWhere
begin

text \<open>
  The SELECT grammar of \<open>internal/translate/pg/parser.go\<close>: recursive descent over the token
  stream, qualifier resolution, and the resulting statement.

  The parser's state is the list of tokens not yet read; every method is a function from it to
  an error or a value with the rest. The mutually recursive WHERE methods carry fuel, and the
  loops recurse on the remaining tokens. \<open>leaves\<close> is what every method guarantees of the rest:
  it is no longer than the input and still ends with the end token, so an index past the
  stream cannot arise; it is proved for each method in the collection \<open>consumes\<close>. Enough fuel
  is \<open>4 * length ts + 4\<close>: the fuel error is never returned.
\<close>

subsection \<open>The token cursor\<close>

definition eofToken :: token where "eofToken = mkToken TkEOF [] 0"

fun peek :: "token list \<Rightarrow> token" where
  "peek [] = eofToken"
| "peek (t # ts) = t"

fun advance :: "token list \<Rightarrow> token list" where
  "advance [] = []"
| "advance (t # ts) = (if tkKind t \<noteq> TkEOF then ts else t # ts)"

definition peekKeyword :: "token list \<Rightarrow> string \<Rightarrow> bool" where
  "peekKeyword ts word \<longleftrightarrow> tkKind (peek ts) = TkKeyword \<and> tkText (peek ts) = word"

definition peekOp :: "token list \<Rightarrow> string \<Rightarrow> bool" where
  "peekOp ts op \<longleftrightarrow> tkKind (peek ts) = TkOp \<and> tkText (peek ts) = op"

definition peekIdentFold :: "token list \<Rightarrow> string \<Rightarrow> bool" where
  "peekIdentFold ts word \<longleftrightarrow> tkKind (peek ts) = TkIdent \<and> equalFoldWord (tkText (peek ts)) word"

definition describe :: "token \<Rightarrow> reason" where
  "describe t = (if tkKind t = TkEOF then [T ''end of statement''] else [T ''['', S (tkText t), T '']''])"

type_synonym 'a parse = "terror + 'a \<times> token list"

definition expectKeyword :: "token list \<Rightarrow> string \<Rightarrow> terror + token list" where
  "expectKeyword ts word =
     (if \<not> peekKeyword ts word then Inl (pg_parseErrf ([T ''expected '', S word, T '', got ''] @ describe (peek ts)))
      else Inr (advance ts))"

definition expectOp :: "token list \<Rightarrow> string \<Rightarrow> terror + token list" where
  "expectOp ts op =
     (if \<not> peekOp ts op then Inl (pg_parseErrf ([T ''expected '', Q op, T '', got ''] @ describe (peek ts)))
      else Inr (advance ts))"

definition streamOk :: "token list \<Rightarrow> bool" where
  "streamOk ts \<longleftrightarrow> ts \<noteq> [] \<and> tkKind (last ts) = TkEOF"

definition leaves :: "token list \<Rightarrow> token list \<Rightarrow> bool" where
  "leaves ts ts' \<longleftrightarrow> length ts' \<le> length ts \<and> (streamOk ts \<longrightarrow> streamOk ts')"

lemma leaves_refl [simp]: "leaves ts ts"
  by (simp add: leaves_def)

lemma leaves_trans [trans]: "leaves a b \<Longrightarrow> leaves b c \<Longrightarrow> leaves a c"
  by (auto simp: leaves_def)

lemma leaves_advance [simp, consumes]: "leaves ts (advance ts)"
  by (cases ts) (auto simp: leaves_def streamOk_def)

lemma leaves_advanceI [simp]: "leaves ts ts' \<Longrightarrow> leaves ts (advance ts')"
  using leaves_advance leaves_trans by blast

lemma expectKeyword_leaves [consumes]: "expectKeyword ts w = Inr ts' \<Longrightarrow> leaves ts ts'"
  by (auto simp: expectKeyword_def split: if_splits)

lemma expectOp_leaves [consumes]: "expectOp ts w = Inr ts' \<Longrightarrow> leaves ts ts'"
  by (auto simp: expectOp_def split: if_splits)

lemma advance_shorter: "ts \<noteq> [] \<Longrightarrow> tkKind (peek ts) \<noteq> TkEOF \<Longrightarrow> length (advance ts) < length ts"
  by (cases ts) auto

lemma peek_nonempty: "tkKind (peek ts) \<noteq> TkEOF \<Longrightarrow> ts \<noteq> []"
  by (auto simp: eofToken_def)

lemma advance_keyword: "peekKeyword ts w \<Longrightarrow> length (advance ts) < length ts"
  using advance_shorter[of ts] peek_nonempty[of ts] by (simp add: peekKeyword_def)

lemma advance_op: "peekOp ts w \<Longrightarrow> length (advance ts) < length ts"
  using advance_shorter[of ts] peek_nonempty[of ts] by (simp add: peekOp_def)

text \<open>
  What a method guarantees: an error of one of the three classes, or a value with property \<open>P\<close>
  and a rest the input leaves.
\<close>

definition okParse :: "('a \<Rightarrow> bool) \<Rightarrow> token list \<Rightarrow> 'a parse \<Rightarrow> bool" where
  "okParse P ts r \<longleftrightarrow> (case r of Inl e \<Rightarrow> classified e | Inr (x, ts') \<Rightarrow> leaves ts ts' \<and> P x)"

lemma okParse_simps [simp]:
  "okParse P ts (Inl e) \<longleftrightarrow> classified e"
  "okParse P ts (Inr (x, ts')) \<longleftrightarrow> leaves ts ts' \<and> P x"
  by (simp_all add: okParse_def)

lemma okParse_from: "okParse P ts' r \<Longrightarrow> leaves ts ts' \<Longrightarrow> okParse P ts r"
  by (auto simp: okParse_def split: sum.splits intro: leaves_trans)

lemma okParse_mono: "okParse P ts r \<Longrightarrow> (\<And>x. P x \<Longrightarrow> R x) \<Longrightarrow> okParse R ts r"
  by (auto simp: okParse_def split: sum.splits)

lemma okParse_bind:
  assumes "okParse P ts m" "\<And>x ts'. P x \<Longrightarrow> leaves ts ts' \<Longrightarrow> okParse R ts' (f (x, ts'))"
  shows "okParse R ts (bindE m f)"
  using assms by (auto simp: okParse_def[of P] split: sum.splits intro: okParse_from)

lemma okParse_check:
  assumes "\<And>e. m = Inl e \<Longrightarrow> classified e" "\<And>x. m = Inr x \<Longrightarrow> okParse R ts (f x)"
  shows "okParse R ts (bindE m f)"
  using assms by (cases m) auto

lemma okParse_expectKeyword:
  "(\<And>ts'. leaves ts ts' \<Longrightarrow> okParse R ts' (f ts')) \<Longrightarrow> okParse R ts (bindE (expectKeyword ts w) f)"
  by (auto simp: expectKeyword_def intro: okParse_from[of R "advance ts"])

lemma okParse_expectOp:
  "(\<And>ts'. leaves ts ts' \<Longrightarrow> okParse R ts' (f ts')) \<Longrightarrow> okParse R ts (bindE (expectOp ts w) f)"
  by (auto simp: expectOp_def intro: okParse_from[of R "advance ts"])

subsection \<open>Operators\<close>

definition vectorOps :: "string list" where
  "vectorOps = [''<->'', ''<=>'', ''<#>'', ''<+>'']"

definition pg_compareOps :: "string list" where
  "pg_compareOps = [''='', ''<>'', ''!='', ''<'', ''<='', ''>'', ''>='']"

definition flipComparison :: "string \<Rightarrow> string" where
  \<comment> \<open>a missing map entry reads as the empty string\<close>
  "flipComparison op = (case map_of [(''='', ''=''), (''<>'', ''<>''), (''!='', ''<>''),
      (''<'', ''>''), (''<='', ''>=''), (''>'', ''<''), (''>='', ''<='')] op of
      Some f \<Rightarrow> f | None \<Rightarrow> [])"

definition unsupportedDistance :: "string \<Rightarrow> terror" where
  "unsupportedDistance op = pg_unsupportedErrf [T ''distance operator ['', S op,
     T ''] does not filter in WHERE: order the search by it instead: ORDER BY emb '', S op,
     T '' '', sq, T ''[0.1, ...]'', sq, T '' LIMIT n (scalar filters stay in WHERE)'']"

definition peekVectorOp :: "token list \<Rightarrow> bool" where
  "peekVectorOp ts \<longleftrightarrow> tkKind (peek ts) = TkOp \<and> tkText (peek ts) \<in> set vectorOps"

definition peekCompareOp :: "token list \<Rightarrow> bool" where
  "peekCompareOp ts \<longleftrightarrow> tkKind (peek ts) = TkOp \<and> tkText (peek ts) \<in> set pg_compareOps"

subsection \<open>Columns and values\<close>

definition rejectDotted :: "token \<Rightarrow> terror + unit" where
  "rejectDotted t =
     (if tkQuoted t \<and> containsStr (tkText t) ''.''
      then Inl (pg_parseErrf [T ''quoted identifier ['', S (tkText t),
             T ''] contains a dot: field and table names are plain identifiers''])
      else Inr ())"

definition parseColumnRef :: "token list \<Rightarrow> string parse" where
  "parseColumnRef ts = (let t = peek ts in
     if tkKind t \<noteq> TkIdent then Inl (pg_parseErrf (T ''expected a column name, got '' # describe t))
     else bindE (rejectDotted t) (\<lambda>_. let ts = advance ts; name = tkText t in
       if \<not> peekOp ts ''.'' then Inr (name, ts)
       else let ts = advance ts in
         if peekOp ts ''*'' then Inl (pg_unsupportedErrf [T ''qualified star (['', S name,
              T ''].*) is not supported: name the columns''])
         else let t2 = peek ts in
           if tkKind t2 \<noteq> TkIdent
           then Inl (pg_parseErrf ([T ''expected a column name after ['', S name, T ''.], got ''] @ describe t2))
           else bindE (rejectDotted t2) (\<lambda>_. Inr (name @ ''.'' @ tkText t2, advance ts))))"

definition rejectCast :: "token list \<Rightarrow> terror + unit" where
  "rejectCast ts =
     (if peekOp ts ''::''
      then Inl (pg_unsupportedErrf [T ''casts ([expr]::type) are not supported: pass literals already in storage form''])
      else Inr ())"

definition parseValuePrimary :: "token list \<Rightarrow> valueNode parse" where
  "parseValuePrimary ts = (let t = peek ts in
     if tkKind t = TkIdent then
       bindE (parseColumnRef ts) (\<lambda>(col, ts).
         if peekOp ts ''(''
         then Inl (pg_unsupportedErrf [T ''function calls (['', S col, T ''](...)) are not supported in predicates''])
         else Inr (colNode col, ts))
     else if tkKind t = TkString then Inr (litNode (mkLit LitString (tkText t)), advance ts)
     else if tkKind t = TkNumber then Inr (litNode (mkLit LitNumber (tkText t)), advance ts)
     else if tkKind t = TkKeyword \<and> (tkText t = ''TRUE'' \<or> tkText t = ''FALSE'') then
       Inr (litNode (mkLit LitBool (map lowerChar (tkText t))), advance ts)
     else if tkKind t = TkKeyword \<and> tkText t = ''NULL'' then Inr (litNode (mkLit LitNull []), advance ts)
     else if tkKind t = TkOp \<and> (tkText t = ''-'' \<or> tkText t = ''+'') then
       (let ts = advance ts; n = peek ts in
        if tkKind n \<noteq> TkNumber
        then Inl (pg_parseErrf ([T ''expected a number after ['', S (tkText t), T ''], got ''] @ describe n))
        else Inr (litNode (mkLit LitNumber (if tkText t = ''-'' then ''-'' @ tkText n else tkText n)), advance ts))
     else if tkKind t = TkParam then
       Inl (pg_unsupportedErrf [T ''query parameters (['', S (tkText t),
         T '']) are not wired yet: they arrive with the PG wire protocol (pgserver)''])
     else if tkKind t = TkOp \<and> tkText t = ''('' then
       Inl (pg_unsupportedErrf [T ''subqueries are not supported: reads are single-table''])
     else Inl (pg_parseErrf (T ''expected a column or literal, got '' # describe t)))"

definition valueTail :: "valueNode \<Rightarrow> token list \<Rightarrow> valueNode parse" where
  "valueTail v ts = bindE (rejectCast ts) (\<lambda>_. Inr (v, ts))"

definition parseValue :: "token list \<Rightarrow> valueNode parse" where
  "parseValue ts = bindE (parseValuePrimary ts) (\<lambda>(v, ts). valueTail v ts)"

subsection \<open>Predicate tails\<close>

definition combineComparison :: "valueNode \<Rightarrow> string \<Rightarrow> valueNode \<Rightarrow> terror + whereExpr" where
  "combineComparison l op r =
     (if litK (vnLit l) = LitNull \<or> litK (vnLit r) = LitNull then Inr WFalse
      else if vnCol l = [] \<and> vnCol r = [] then
        Inl (pg_unsupportedErrf [T ''comparison between two constants filters nothing; put the condition on a column''])
      else if vnCol l \<noteq> [] \<and> vnCol r \<noteq> [] then
        Inl (pg_unsupportedErrf [T ''column-to-column comparison ['', S (vnCol l), T ''] '', S op, T '' ['',
          S (vnCol r), T ''] is not supported: compare a column to a literal''])
      else if vnCol l \<noteq> [] then Inr (WCmp op (vnCol l) (vnLit r))
      else Inr (WCmp (flipComparison op) (vnCol r) (vnLit l)))"

definition barePredicate :: "valueNode \<Rightarrow> terror + whereExpr" where
  "barePredicate v =
     (if vnCol v \<noteq> [] then Inr (WCol (vnCol v))
      else if litK (vnLit v) = LitBool then
        (if litText (vnLit v) = ''true'' then Inr WNil else Inr WFalse)
      else if litK (vnLit v) = LitNull then Inr WFalse
      else Inl (pg_parseErrf [T ''expected a comparison after ['', S (litText (vnLit v)),
        T '']: a bare literal is not a predicate'']))"

lemma rejectDotted_classified: "rejectDotted t = Inl e \<Longrightarrow> classified e"
  by (auto simp: rejectDotted_def split: if_splits)

lemma rejectCast_classified: "rejectCast ts = Inl e \<Longrightarrow> classified e"
  by (auto simp: rejectCast_def split: if_splits)

lemma parseColumnRef_ok: "okParse (\<lambda>_. True) ts (parseColumnRef ts)"
  unfolding parseColumnRef_def Let_def
  by (auto intro!: okParse_check dest: rejectDotted_classified)

lemma parseValuePrimary_ok: "okParse (\<lambda>_. True) ts (parseValuePrimary ts)"
  unfolding parseValuePrimary_def Let_def
  by (auto intro!: okParse_bind[OF parseColumnRef_ok])

lemma parseValue_ok: "okParse (\<lambda>_. True) ts (parseValue ts)"
  unfolding parseValue_def valueTail_def
  by (auto intro!: okParse_bind[OF parseValuePrimary_ok] okParse_check dest: rejectCast_classified)

subsection \<open>Separated lists\<close>

text \<open>
  The loop "read an item, stop unless a separator follows, step over it" that the source
  writes for the boolean levels and for every comma-separated list. \<open>sepList\<close> carries fuel;
  \<open>sepBy\<close> gives it as much as there are tokens, which the locale shows to be enough: it
  satisfies the loop's own equation.
\<close>

definition fuelErr :: terror where
  "fuelErr = internalErrf [T ''fuel'']"

fun sepList :: "nat \<Rightarrow> (token list \<Rightarrow> bool) \<Rightarrow> (token list \<Rightarrow> 'a parse) \<Rightarrow> token list \<Rightarrow> 'a list parse" where
  "sepList 0 sep item ts = Inl fuelErr"
| "sepList (Suc n) sep item ts =
     bindE (item ts) (\<lambda>(x, ts).
       if sep ts then bindE (sepList n sep item (advance ts)) (\<lambda>(xs, ts). Inr (x # xs, ts))
       else Inr ([x], ts))"

definition sepBy :: "(token list \<Rightarrow> bool) \<Rightarrow> (token list \<Rightarrow> 'a parse) \<Rightarrow> token list \<Rightarrow> 'a list parse" where
  "sepBy sep item ts = sepList (Suc (length ts)) sep item ts"

abbreviation comma :: "token list \<Rightarrow> bool" where "comma ts \<equiv> peekOp ts '',''"

lemma sepList_ok:
  assumes "\<And>ts'. length ts' \<le> length ts \<Longrightarrow> okParse P ts' (item ts')"
    "\<And>ts. sep ts \<Longrightarrow> length (advance ts) < length ts" "length ts < n"
  shows "okParse (\<lambda>xs. xs \<noteq> [] \<and> (\<forall>x \<in> set xs. P x)) ts (sepList n sep item ts)"
  using assms
proof (induction n arbitrary: ts)
  case (Suc n)
  show ?case
  proof (simp, intro okParse_bind[OF Suc.prems(1)])
    fix x ts'
    assume x: "P x" "leaves ts ts'"
    then have len: "length ts' \<le> length ts" by (simp add: leaves_def)
    show "okParse (\<lambda>xs. xs \<noteq> [] \<and> (\<forall>x \<in> set xs. P x)) ts'
      (case (x, ts') of (x, ts) \<Rightarrow>
        if sep ts then bindE (sepList n sep item (advance ts)) (\<lambda>(xs, ts). Inr (x # xs, ts))
        else Inr ([x], ts))"
    proof (cases "sep ts'")
      case True
      then have shorter: "length (advance ts') < length ts'" by (rule Suc.prems(2))
      have "okParse (\<lambda>xs. xs \<noteq> [] \<and> (\<forall>x \<in> set xs. P x)) (advance ts') (sepList n sep item (advance ts'))"
        using shorter len Suc.prems(3) by (intro Suc.IH Suc.prems(1) Suc.prems(2)) auto
      then show ?thesis using True x by (auto intro!: okParse_bind okParse_from[of _ "advance ts'" _ ts'])
    qed (use x in simp)
  qed simp
qed simp

lemma sepBy_ok:
  assumes "\<And>ts'. length ts' \<le> length ts \<Longrightarrow> okParse P ts' (item ts')"
    "\<And>ts. sep ts \<Longrightarrow> length (advance ts) < length ts"
  shows "okParse (\<lambda>xs. xs \<noteq> [] \<and> (\<forall>x \<in> set xs. P x)) ts (sepBy sep item ts)"
  unfolding sepBy_def using assms by (intro sepList_ok) auto

lemma sepList_fuel:
  assumes "\<And>ts'. length ts' \<le> length ts \<Longrightarrow> okParse P ts' (item ts')"
    "\<And>ts. sep ts \<Longrightarrow> length (advance ts) < length ts" "length ts < n" "length ts < m"
  shows "sepList n sep item ts = sepList m sep item ts"
  using assms
proof (induction n arbitrary: ts m)
  case (Suc n)
  then obtain m' where m: "m = Suc m'" by (cases m) auto
  have "sepList n sep item (advance ts') = sepList m' sep item (advance ts')"
    if "item ts = Inr (x, ts')" "sep ts'" for x ts'
  proof -
    have "leaves ts ts'" using Suc.prems(1)[of ts] that(1) by simp
    then have "length (advance ts') < length ts"
      using Suc.prems(2)[OF that(2)] by (simp add: leaves_def)
    then show ?thesis using Suc.prems m by (intro Suc.IH) auto
  qed
  then show ?case by (auto simp: m intro!: bindE_cong)
qed simp

lemma sepBy_unfold:
  assumes "\<And>ts. okParse P ts (item ts)" "\<And>ts. sep ts \<Longrightarrow> length (advance ts) < length ts"
  shows "sepBy sep item ts =
    bindE (item ts) (\<lambda>(x, ts).
      if sep ts then bindE (sepBy sep item (advance ts)) (\<lambda>(xs, ts). Inr (x # xs, ts))
      else Inr ([x], ts))"
proof -
  have "sepList (length ts) sep item (advance ts') = sepBy sep item (advance ts')"
    if "item ts = Inr (x, ts')" "sep ts'" for x ts'
  proof -
    have "leaves ts ts'" using assms(1)[of ts] that(1) by simp
    then have "length (advance ts') < length ts"
      using assms(2)[OF that(2)] by (simp add: leaves_def)
    then show ?thesis unfolding sepBy_def by (intro sepList_fuel[OF assms(1) assms(2)]) auto
  qed
  then show ?thesis
    by (subst sepBy_def) (auto intro!: bindE_cong)
qed

text \<open>The interface of a list item: what the loops over it rely on.\<close>

locale list_item =
  fixes item :: "token list \<Rightarrow> 'a parse" and P :: "'a \<Rightarrow> bool"
  assumes item_ok: "okParse P ts (item ts)"
begin

lemma list_ok: "okParse (\<lambda>xs. xs \<noteq> [] \<and> (\<forall>x \<in> set xs. P x)) ts (sepBy comma item ts)"
  by (rule sepBy_ok) (auto simp: item_ok dest: advance_op)

lemma list_unfold:
  "sepBy comma item ts =
    bindE (item ts) (\<lambda>(x, ts).
      if comma ts then bindE (sepBy comma item (advance ts)) (\<lambda>(xs, ts). Inr (x # xs, ts))
      else Inr ([x], ts))"
  by (rule sepBy_unfold[OF item_ok advance_op])

end

subsection \<open>The WHERE grammar\<close>

definition parseInItem :: "token list \<Rightarrow> literal parse" where
  "parseInItem ts =
     bindE (parseValue ts) (\<lambda>(v, ts).
       if vnCol v \<noteq> [] then
         Inl (pg_unsupportedErrf [T ''IN lists hold literals only; ['', S (vnCol v),
           T ''] is a column (column-to-column matching is not supported)''])
       else Inr (vnLit v, ts))"

definition parseInTail :: "valueNode \<Rightarrow> bool \<Rightarrow> token list \<Rightarrow> whereExpr parse" where
  "parseInTail left negated ts =
     bindE (pg_columnOf left ''IN'') (\<lambda>col.
     bindE (expectOp ts ''('') (\<lambda>ts.
       if peekKeyword ts ''SELECT''
       then Inl (pg_unsupportedErrf [T ''subqueries are not supported: reads are single-table''])
       else bindE (sepBy comma parseInItem ts) (\<lambda>(items, ts).
         bindE (expectOp ts '')'') (\<lambda>ts.
         let hadNull = list_ex (\<lambda>l. litK l = LitNull) items;
             vals = filter (\<lambda>l. litK l \<noteq> LitNull) items
         in Inr (if negated \<and> hadNull then WFalse else WIn col vals negated, ts)))))"

definition parseBetweenTail :: "valueNode \<Rightarrow> bool \<Rightarrow> token list \<Rightarrow> whereExpr parse" where
  "parseBetweenTail left negated ts =
     bindE (pg_columnOf left ''BETWEEN'') (\<lambda>col.
     bindE (parseValue ts) (\<lambda>(lo, ts).
     bindE (expectKeyword ts ''AND'') (\<lambda>ts.
     bindE (parseValue ts) (\<lambda>(hi, ts).
       if vnCol lo \<noteq> [] \<or> vnCol hi \<noteq> []
       then Inl (pg_unsupportedErrf [T ''BETWEEN bounds must be literals''])
       else if litK (vnLit lo) = LitNull \<or> litK (vnLit hi) = LitNull then Inr (WFalse, ts)
       else Inr (WBetw col (vnLit lo) (vnLit hi) negated, ts)))))"

definition likeErr :: "string \<Rightarrow> terror" where
  "likeErr word = pg_unsupportedErrf [T ''['', S word, T ''] is not supported: lyrebird maps full-text search, not substring patterns; query Milvus directly until the text path lands'']"

definition parseNegatedTail :: "valueNode \<Rightarrow> token list \<Rightarrow> whereExpr parse" where
  "parseNegatedTail left ts =
     (if peekKeyword ts ''IN'' then parseInTail left True (advance ts)
      else if peekKeyword ts ''BETWEEN'' then parseBetweenTail left True (advance ts)
      else if peekKeyword ts ''LIKE'' \<or> peekKeyword ts ''ILIKE'' then Inl (likeErr (tkText (peek ts)))
      else Inl (pg_parseErrf (T ''expected IN, BETWEEN or LIKE after NOT, got '' # describe (peek ts))))"

text \<open>The part of \<open>parsePredicate\<close> behind the parenthesised group: one operand and its tail.\<close>

definition parseIsTail :: "valueNode \<Rightarrow> token list \<Rightarrow> whereExpr parse" where
  "parseIsTail left ts =
     (let negated = peekKeyword ts ''NOT''; ts = (if negated then advance ts else ts) in
      bindE (expectKeyword ts ''NULL'') (\<lambda>ts.
      bindE (pg_columnOf left ''IS NULL'') (\<lambda>col. Inr (WNull col negated, ts))))"

definition parseOperand :: "token list \<Rightarrow> whereExpr parse" where
  "parseOperand ts =
     bindE (parseValue ts) (\<lambda>(left, ts).
       if peekKeyword ts ''IS'' then parseIsTail left (advance ts)
       else if peekKeyword ts ''NOT'' then parseNegatedTail left (advance ts)
       else if peekKeyword ts ''IN'' then parseInTail left False (advance ts)
       else if peekKeyword ts ''BETWEEN'' then parseBetweenTail left False (advance ts)
       else if peekKeyword ts ''LIKE'' \<or> peekKeyword ts ''ILIKE'' then Inl (likeErr (tkText (peek ts)))
       else if peekVectorOp ts then Inl (unsupportedDistance (tkText (peek ts)))
       else if peekCompareOp ts then
         (let op = tkText (peek ts) in
          bindE (parseValue (advance ts)) (\<lambda>(right, ts).
          bindE (combineComparison left op right) (\<lambda>w. Inr (w, ts))))
       else bindE (barePredicate left) (\<lambda>w. Inr (w, ts)))"

definition single :: "('a list \<Rightarrow> 'a) \<Rightarrow> 'a list \<Rightarrow> 'a" where
  "single mk parts = (if length parts = 1 then hd parts else mk parts)"

fun parseOr :: "nat \<Rightarrow> token list \<Rightarrow> whereExpr parse"
and parseAnd :: "nat \<Rightarrow> token list \<Rightarrow> whereExpr parse"
and parseNot :: "nat \<Rightarrow> token list \<Rightarrow> whereExpr parse"
and parsePredicate :: "nat \<Rightarrow> token list \<Rightarrow> whereExpr parse" where
  "parseOr 0 ts = Inl fuelErr"
| "parseOr (Suc n) ts =
     bindE (sepBy (\<lambda>ts. peekKeyword ts ''OR'') (parseAnd n) ts) (\<lambda>(parts, ts). Inr (single WOr parts, ts))"
| "parseAnd 0 ts = Inl fuelErr"
| "parseAnd (Suc n) ts =
     bindE (sepBy (\<lambda>ts. peekKeyword ts ''AND'') (parseNot n) ts) (\<lambda>(parts, ts). Inr (single WAnd parts, ts))"
| "parseNot 0 ts = Inl fuelErr"
| "parseNot (Suc n) ts =
     (if peekKeyword ts ''NOT'' then bindE (parseNot n (advance ts)) (\<lambda>(child, ts). Inr (WNot child, ts))
      else parsePredicate n ts)"
| "parsePredicate 0 ts = Inl fuelErr"
| "parsePredicate (Suc n) ts =
     (if peekOp ts ''('' then
        bindE (parseOr n (advance ts)) (\<lambda>(inner, ts). bindE (expectOp ts '')'') (\<lambda>ts. Inr (inner, ts)))
      else parseOperand ts)"

definition parseWhere :: "token list \<Rightarrow> whereExpr parse" where
  "parseWhere ts = parseOr (4 * length ts + 4) ts"

text \<open>What the grammar produces: known operators, connectives of two parts or more, named
  columns and no NULL literal.\<close>

definition notNull :: "literal \<Rightarrow> bool" where
  "notNull l \<longleftrightarrow> litK l \<noteq> LitNull"

fun wfWhere :: "whereExpr \<Rightarrow> bool" where
  "wfWhere WNil = True"
| "wfWhere WFalse = True"
| "wfWhere (WCol c) = (c \<noteq> [])"
| "wfWhere (WNot w) = wfWhere w"
| "wfWhere (WAnd ws) = (2 \<le> length ws \<and> (\<forall>w \<in> set ws. wfWhere w))"
| "wfWhere (WOr ws) = (2 \<le> length ws \<and> (\<forall>w \<in> set ws. wfWhere w))"
| "wfWhere (WCmp op c l) = (compareMilvusOps op \<noteq> None \<and> c \<noteq> [] \<and> notNull l)"
| "wfWhere (WIn c ls n) = (c \<noteq> [] \<and> list_all notNull ls)"
| "wfWhere (WBetw c lo hi n) = (c \<noteq> [] \<and> notNull lo \<and> notNull hi)"
| "wfWhere (WNull c n) = (c \<noteq> [])"

lemma wfWhere_knownOps: "wfWhere w \<Longrightarrow> knownOps w"
  by (induction w) auto

lemma pg_columnOf_classified: "pg_columnOf v c = Inl e \<Longrightarrow> classified e"
  by (auto simp: pg_columnOf_def split: if_splits)

lemma pg_columnOf_Inr [simp]: "pg_columnOf v c \<noteq> Inr []"
  by (simp add: pg_columnOf_def)

lemma parseInItem_ok: "okParse (\<lambda>_. True) ts (parseInItem ts)"
  unfolding parseInItem_def by (auto intro!: okParse_bind[OF parseValue_ok])

interpretation inItem: list_item parseInItem "\<lambda>_. True"
  by unfold_locales (rule parseInItem_ok)

lemma parseInTail_ok: "okParse wfWhere ts (parseInTail left neg ts)"
  unfolding parseInTail_def Let_def
  by (auto intro!: okParse_check okParse_expectOp okParse_bind[OF inItem.list_ok]
      simp: list_all_iff notNull_def dest: pg_columnOf_classified)

lemma parseBetweenTail_ok: "okParse wfWhere ts (parseBetweenTail left neg ts)"
  unfolding parseBetweenTail_def Let_def
  by (auto intro!: okParse_check okParse_expectKeyword okParse_bind[OF parseValue_ok]
      simp: notNull_def dest: pg_columnOf_classified)

lemma likeErr_classified [simp]: "classified (likeErr w)"
  by (simp add: likeErr_def)

lemma unsupportedDistance_classified [simp]: "classified (unsupportedDistance w)"
  by (simp add: unsupportedDistance_def)

lemma parseNegatedTail_ok: "okParse wfWhere ts (parseNegatedTail left ts)"
  unfolding parseNegatedTail_def
  by (auto intro: okParse_from[OF parseInTail_ok] okParse_from[OF parseBetweenTail_ok])

lemma parseIsTail_ok: "okParse wfWhere ts (parseIsTail left ts)"
  unfolding parseIsTail_def Let_def
  by (auto intro!: okParse_check okParse_expectKeyword okParse_from[OF okParse_expectKeyword, of "advance ts"]
      dest: pg_columnOf_classified)

lemma compareOps_known:
  "op \<in> set pg_compareOps \<Longrightarrow> compareMilvusOps op \<noteq> None \<and> compareMilvusOps (flipComparison op) \<noteq> None"
  by (auto simp: pg_compareOps_def compareMilvusOps_def flipComparison_def)

lemma combineComparison_ok:
  "op \<in> set pg_compareOps \<Longrightarrow> combineComparison l op r = Inr w \<Longrightarrow> wfWhere w"
  "combineComparison l op r = Inl e \<Longrightarrow> classified e"
  by (auto simp: combineComparison_def notNull_def dest: compareOps_known split: if_splits)

lemma barePredicate_ok:
  "barePredicate l = Inr w \<Longrightarrow> wfWhere w" "barePredicate l = Inl e \<Longrightarrow> classified e"
  by (auto simp: barePredicate_def split: if_splits)

lemma parseOperand_ok: "okParse wfWhere ts (parseOperand ts)"
proof -
  have "okParse wfWhere ts' (if peekKeyword ts' ''IS'' then parseIsTail left (advance ts')
       else if peekKeyword ts' ''NOT'' then parseNegatedTail left (advance ts')
       else if peekKeyword ts' ''IN'' then parseInTail left False (advance ts')
       else if peekKeyword ts' ''BETWEEN'' then parseBetweenTail left False (advance ts')
       else if peekKeyword ts' ''LIKE'' \<or> peekKeyword ts' ''ILIKE'' then Inl (likeErr (tkText (peek ts')))
       else if peekVectorOp ts' then Inl (unsupportedDistance (tkText (peek ts')))
       else if peekCompareOp ts' then
         (let op = tkText (peek ts') in
          bindE (parseValue (advance ts')) (\<lambda>(right, ts).
          bindE (combineComparison left op right) (\<lambda>w. Inr (w, ts))))
       else bindE (barePredicate left) (\<lambda>w. Inr (w, ts')))" for left ts'
    by (auto simp: Let_def peekCompareOp_def intro!: okParse_check okParse_bind[OF okParse_from[OF parseValue_ok]]
        intro: okParse_from[OF parseIsTail_ok] okParse_from[OF parseNegatedTail_ok]
          okParse_from[OF parseInTail_ok] okParse_from[OF parseBetweenTail_ok]
        dest: combineComparison_ok barePredicate_ok)
  then show ?thesis unfolding parseOperand_def by (auto intro: okParse_bind[OF parseValue_ok])
qed

lemma single_wf: "xs \<noteq> [] \<Longrightarrow> (\<forall>x \<in> set xs. wfWhere x) \<Longrightarrow> wfWhere (single WOr xs) \<and> wfWhere (single WAnd xs)"
  by (cases xs; cases "tl xs") (auto simp: single_def)

lemma level_ok:
  assumes "\<And>ts'. length ts' \<le> length ts \<Longrightarrow> okParse wfWhere ts' (item ts')" "mk = WOr \<or> mk = WAnd"
  shows "okParse wfWhere ts
    (bindE (sepBy (\<lambda>ts. peekKeyword ts w) item ts) (\<lambda>(parts, ts). Inr (single mk parts, ts)))"
proof (rule okParse_bind)
  show "okParse (\<lambda>xs. xs \<noteq> [] \<and> (\<forall>x \<in> set xs. wfWhere x)) ts (sepBy (\<lambda>ts. peekKeyword ts w) item ts)"
    using assms(1) by (intro sepBy_ok advance_keyword)
qed (use assms(2) single_wf in auto)

lemma where_ok:
  "(4 * length ts + 4 \<le> n \<longrightarrow> okParse wfWhere ts (parseOr n ts)) \<and>
   (4 * length ts + 3 \<le> n \<longrightarrow> okParse wfWhere ts (parseAnd n ts)) \<and>
   (4 * length ts + 2 \<le> n \<longrightarrow> okParse wfWhere ts (parseNot n ts)) \<and>
   (4 * length ts + 1 \<le> n \<longrightarrow> okParse wfWhere ts (parsePredicate n ts))"
proof (induction n arbitrary: ts)
  case (Suc n)
  have "okParse wfWhere ts (parseOr (Suc n) ts)" if "4 * length ts + 4 \<le> Suc n"
    using that Suc.IH by (auto intro!: level_ok)
  moreover have "okParse wfWhere ts (parseAnd (Suc n) ts)" if "4 * length ts + 3 \<le> Suc n"
    using that Suc.IH by (auto intro!: level_ok)
  moreover have "okParse wfWhere ts (parseNot (Suc n) ts)" if "4 * length ts + 2 \<le> Suc n"
  proof (cases "peekKeyword ts ''NOT''")
    case True
    then have "okParse wfWhere (advance ts) (parseNot n (advance ts))"
      using that Suc.IH[of "advance ts"] advance_keyword[of ts "''NOT''"] by simp
    then have "okParse wfWhere (advance ts) (parseNot (Suc n) ts)"
      using True by (auto intro: okParse_bind)
    then show ?thesis by (rule okParse_from) simp
  qed (use that Suc.IH[of ts] in simp)
  moreover have "okParse wfWhere ts (parsePredicate (Suc n) ts)" if "4 * length ts + 1 \<le> Suc n"
  proof (cases "peekOp ts ''(''")
    case True
    then have "okParse wfWhere (advance ts) (parseOr n (advance ts))"
      using that Suc.IH[of "advance ts"] advance_op[of ts "''(''"] by simp
    then have "okParse wfWhere (advance ts) (parsePredicate (Suc n) ts)"
      using True by (auto intro!: okParse_expectOp elim!: okParse_bind)
    then show ?thesis by (rule okParse_from) simp
  qed (simp add: parseOperand_ok)
  ultimately show ?case by blast
qed simp

lemma parseWhere_ok: "okParse wfWhere ts (parseWhere ts)"
  using where_ok by (simp add: parseWhere_def)

end
