(* ===== verification/PgSelect.thy ===== *)
theory PgSelect
  imports PgParser
begin

text \<open>
  The SELECT statement: the clause parsers of \<open>internal/translate/pg/parser.go\<close>, \<open>Parse\<close>, \<open>Columns\<close>
  and \<open>Plan\<close> of \<open>internal/translate/pg/translate.go\<close>.

  A Go \<open>int\<close> is 64 bits wide here; \<open>offset + limit\<close> wraps as the machine's sum does. The plan
  theorems compose the folding and lowering of theory PgWhere with the statement's paging,
  sort and projection.
\<close>

subsection \<open>Statements\<close>

record orderItem =
  oiColumn :: string
  oiDesc :: bool

record selectStmt =
  selTable :: string
  selAlias :: string
  selColumns :: "string list"
  selStar :: bool
  selWhere :: whereExpr
  selOrder :: "orderItem list"
  selLimit :: int
  selOffset :: int
  selDistance :: "orderDistance option"
  selHasLimit :: bool

definition emptySelect :: selectStmt where
  "emptySelect = \<lparr>selTable = [], selAlias = [], selColumns = [], selStar = False, selWhere = WNil,
     selOrder = [], selLimit = 0, selOffset = 0, selDistance = None, selHasLimit = False\<rparr>"

definition pg_maxResultWindow :: int where "pg_maxResultWindow = 10000"

subsection \<open>The select list\<close>

definition parseSelectItem :: "token list \<Rightarrow> string parse" where
  "parseSelectItem ts = (let t = peek ts in
     if tkKind t = TkIdent then
       bindE (parseColumnRef ts) (\<lambda>(name, ts).
         if peekOp ts ''(''
         then Inl (pg_unsupportedErrf [T ''functions in the SELECT list (count(*), ...) are not supported: aggregates are beyond the read path''])
         else bindE (rejectCast ts) (\<lambda>_.
           if peekKeyword ts ''AS'' \<or> tkKind (peek ts) = TkIdent
           then Inl (pg_unsupportedErrf [T ''SELECT aliases are not supported: rename on the client side''])
           else if peekVectorOp ts
           then Inl (pg_unsupportedErrf [T ''distance expressions in the SELECT list are not supported: order by the distance (ORDER BY '',
                  S name, T '' '', S (tkText (peek ts)), T '' '', sq, T ''[0.1, ...]'', sq, T '') and project plain columns''])
           else if tkKind (peek ts) = TkOp \<and> \<not> comma ts
           then Inl (pg_unsupportedErrf [T ''expressions in the SELECT list (['', S name, T ''] ...) are not supported: project plain columns''])
           else Inr (name, ts)))
     else if tkKind t = TkKeyword then Inl (pg_parseErrf (T ''expected a column or *, got '' # describe t))
     else Inl (pg_unsupportedErrf ([T ''SELECT supports plain columns only; ''] @ describe t @ [T '' starts an expression or computed value''])))"

definition parseSelectList :: "token list \<Rightarrow> (string list \<times> bool) parse" where
  "parseSelectList ts =
     (if peekOp ts ''*'' then
        (let ts = advance ts in
         if comma ts then Inl (pg_unsupportedErrf [T ''SELECT * cannot be combined with other items: name the columns instead''])
         else Inr (([], True), ts))
      else bindE (sepBy comma parseSelectItem ts) (\<lambda>(cols, ts). Inr ((cols, False), ts)))"

lemma parseSelectItem_ok: "okParse (\<lambda>_. True) ts (parseSelectItem ts)"
  unfolding parseSelectItem_def Let_def
  by (auto intro!: okParse_bind[OF parseColumnRef_ok] okParse_check dest: rejectCast_classified)

interpretation selectItem: list_item parseSelectItem "\<lambda>_. True"
  by unfold_locales (rule parseSelectItem_ok)

lemma parseSelectList_ok: "okParse (\<lambda>_. True) ts (parseSelectList ts)"
  unfolding parseSelectList_def Let_def
  by (auto intro!: okParse_bind[OF selectItem.list_ok])

subsection \<open>FROM\<close>

definition joinWords :: "string list" where
  "joinWords = [''JOIN'', ''INNER'', ''LEFT'', ''RIGHT'', ''FULL'', ''CROSS'', ''OUTER'']"

definition tableEnd :: "string \<times> string \<Rightarrow> token list \<Rightarrow> (string \<times> string) parse" where
  "tableEnd r ts =
     (if comma ts then Inl (pg_unsupportedErrf [T ''multiple tables in FROM are not supported: reads are single-table (no joins)''])
      else if list_ex (peekKeyword ts) joinWords
      then Inl (pg_unsupportedErrf [T ''joins are not supported: reads are single-table''])
      else Inr (r, ts))"

text \<open>The table and its alias, empty when there is none.\<close>

definition parseTableRef :: "token list \<Rightarrow> (string \<times> string) parse" where
  "parseTableRef ts = (let t = peek ts in
     if tkKind t \<noteq> TkIdent then Inl (pg_parseErrf (T ''expected a table name, got '' # describe t))
     else let ts = advance ts; table = tkText t in
       if peekOp ts ''.'' then Inl (pg_unsupportedErrf [T ''schema-qualified table names are not supported: use the bare collection name''])
       else if peekOp ts ''('' then Inl (pg_unsupportedErrf [T ''FROM functions and subqueries are not supported: reads are single-table''])
       else if peekKeyword ts ''AS'' then
         (let ts = advance ts; a = peek ts in
          if tkKind a \<noteq> TkIdent then Inl (pg_parseErrf (T ''expected an alias after AS, got '' # describe a))
          else tableEnd (table, tkText a) (advance ts))
       else if tkKind (peek ts) = TkIdent then tableEnd (table, tkText (peek ts)) (advance ts)
       else tableEnd (table, []) ts)"

lemma tableEnd_ok: "leaves ts ts' \<Longrightarrow> okParse (\<lambda>_. True) ts (tableEnd r ts')"
  by (simp add: tableEnd_def)

lemma parseTableRef_ok: "okParse (\<lambda>_. True) ts (parseTableRef ts)"
  unfolding parseTableRef_def Let_def by (simp add: tableEnd_ok)

subsection \<open>ORDER BY\<close>

datatype orderTerm = PlainTerm orderItem | DistanceTerm orderDistance

definition parseDistanceTail :: "string \<Rightarrow> string \<Rightarrow> token list \<Rightarrow> orderDistance parse" where
  "parseDistanceTail col op ts = (let t = peek ts in
     if tkKind t \<noteq> TkString
     then Inl (pg_parseErrf ([T ''distance operator ['', S op, T ''] takes a vector literal in single quotes, got ''] @ describe t))
     else let ts = advance ts; d = \<lparr>odColumn = col, odOp = op, odVector = tkText t\<rparr> in
       if peekKeyword ts ''ASC'' then Inr (d, advance ts)
       else if peekKeyword ts ''DESC''
       then Inl (pg_unsupportedErrf [T ''DESC on a distance ordering means farthest-first, which no vector index answers: ANN search returns nearest-first''])
       else Inr (d, ts))"

definition parseOrderItem :: "token list \<Rightarrow> orderTerm parse" where
  "parseOrderItem ts =
     bindE (parseColumnRef ts) (\<lambda>(col, ts).
       if peekOp ts ''('' then Inl (pg_unsupportedErrf [T ''ORDER BY functions and expressions are not supported: order by a column''])
       else bindE (rejectCast ts) (\<lambda>_.
         if peekVectorOp ts then
           bindE (parseDistanceTail col (tkText (peek ts)) (advance ts)) (\<lambda>(d, ts). Inr (DistanceTerm d, ts))
         else if peekKeyword ts ''ASC'' then Inr (PlainTerm \<lparr>oiColumn = col, oiDesc = False\<rparr>, advance ts)
         else if peekKeyword ts ''DESC'' then Inr (PlainTerm \<lparr>oiColumn = col, oiDesc = True\<rparr>, advance ts)
         else Inr (PlainTerm \<lparr>oiColumn = col, oiDesc = False\<rparr>, ts)))"

lemma parseDistanceTail_ok: "okParse (\<lambda>_. True) ts (parseDistanceTail col op ts)"
  unfolding parseDistanceTail_def Let_def by simp

lemma parseOrderItem_ok: "okParse (\<lambda>_. True) ts (parseOrderItem ts)"
  unfolding parseOrderItem_def
  by (auto intro!: okParse_bind[OF parseColumnRef_ok] okParse_check
      okParse_bind[OF okParse_from[OF parseDistanceTail_ok]] dest: rejectCast_classified)

lemma parseOrderItem_leaves: "parseOrderItem ts = Inr (x, ts') \<Longrightarrow> leaves ts ts'"
  using parseOrderItem_ok[of ts] by simp

definition distanceAlone :: terror where
  "distanceAlone = pg_unsupportedErrf [T ''a distance ORDER BY is the whole sort (the ANN top-k): no second ordering term'']"

text \<open>The loop of \<open>parseOrderBy\<close> over the terms read so far.\<close>

function parseOrderBy :: "orderItem list \<Rightarrow> token list \<Rightarrow> (orderItem list \<times> orderDistance option) parse" where
  "parseOrderBy order ts =
     bindE (parseOrderItem ts) (\<lambda>(term, ts').
       case term of
         DistanceTerm d \<Rightarrow>
           if order \<noteq> [] \<or> comma ts' then Inl distanceAlone else Inr ((order, Some d), ts')
       | PlainTerm item \<Rightarrow>
           if \<not> comma ts' then Inr ((order @ [item], None), ts')
           else parseOrderBy (order @ [item]) (advance ts'))"
  by pat_completeness auto
termination
  by (relation "measure (\<lambda>(order, ts). length ts)")
    (auto dest!: advance_op parseOrderItem_leaves simp: leaves_def)

declare parseOrderBy.simps [simp del]

lemma parseOrderBy_ok:
  "okParse (\<lambda>(order', d). d \<noteq> None \<longrightarrow> order' = []) ts (parseOrderBy order ts)"
proof (induction order ts rule: parseOrderBy.induct)
  case (1 order ts)
  show ?case
  proof (subst parseOrderBy.simps, rule okParse_check)
    fix e
    assume "parseOrderItem ts = Inl e"
    then show "classified e" using parseOrderItem_ok[of ts] by simp
  next
    fix x
    assume x: "parseOrderItem ts = Inr x"
    obtain t ts' where x': "x = (t, ts')" by force
    have l: "leaves ts ts'" using x x' parseOrderItem_leaves by blast
    show "okParse (\<lambda>(order', d). d \<noteq> None \<longrightarrow> order' = []) ts (case x of (term, ts') \<Rightarrow>
       case term of
         PlainTerm item \<Rightarrow>
           if \<not> comma ts' then Inr ((order @ [item], None), ts')
           else parseOrderBy (order @ [item]) (advance ts')
       | DistanceTerm d \<Rightarrow>
           if order \<noteq> [] \<or> comma ts' then Inl distanceAlone else Inr ((order, Some d), ts'))"
      using l 1[OF x x'[symmetric]]
      by (auto simp: x' distanceAlone_def split: orderTerm.split intro: okParse_from)
  qed
qed

subsection \<open>LIMIT and OFFSET\<close>

definition parseIntCount :: "string \<Rightarrow> token list \<Rightarrow> int parse" where
  "parseIntCount clause ts =
     (let negative = peekOp ts ''-''; ts = (if negative then advance ts else ts); t = peek ts in
      if tkKind t \<noteq> TkNumber
      then Inl (pg_parseErrf ([S clause, T '' must be an integer, got ''] @ describe t))
      else (case ParseInt (tkText t) of
              None \<Rightarrow> Inl (pg_parseErrf [S clause, T '' must be an integer, got ['', S (tkText t), T '']''])
            | Some n \<Rightarrow> Inr (if negative then wrap64 (- n) else n, advance ts)))"

definition uncappedErr :: terror where
  "uncappedErr = pg_unsupportedErrf [T ''SELECT without a row cap is not supported: it would stream the whole collection; add LIMIT'']"

definition limitClause :: "selectStmt \<Rightarrow> token list \<Rightarrow> selectStmt parse" where
  "limitClause sel ts =
     (if peekKeyword ts ''ALL'' then Inl uncappedErr
      else bindE (parseIntCount ''LIMIT'' ts) (\<lambda>(n, ts).
        if n < 0 then Inl (pg_illegalErrf [T ''LIMIT must not be negative, got '', D n])
        else Inr (sel\<lparr>selLimit := n, selHasLimit := True\<rparr>, ts)))"

definition offsetClause :: "selectStmt \<Rightarrow> token list \<Rightarrow> selectStmt parse" where
  "offsetClause sel ts =
     bindE (parseIntCount ''OFFSET'' ts) (\<lambda>(n, ts).
       if n < 0 then Inl (pg_illegalErrf [T ''OFFSET must not be negative, got '', D n])
       else Inr (sel\<lparr>selOffset := n\<rparr>,
         if peekIdentFold ts ''row'' \<or> peekIdentFold ts ''rows'' then advance ts else ts))"

text \<open>The loop over the two clauses; each may appear once, in either order.\<close>

function parsePaging :: "bool \<Rightarrow> bool \<Rightarrow> selectStmt \<Rightarrow> token list \<Rightarrow> selectStmt parse" where
  "parsePaging limitSeen offsetSeen sel ts =
     (if peekKeyword ts ''LIMIT'' then
        if limitSeen then Inl (pg_parseErrf [T ''duplicate LIMIT clause''])
        else bindE (limitClause sel (advance ts)) (\<lambda>(sel, ts). parsePaging True offsetSeen sel ts)
      else if peekKeyword ts ''OFFSET'' then
        if offsetSeen then Inl (pg_parseErrf [T ''duplicate OFFSET clause''])
        else bindE (offsetClause sel (advance ts)) (\<lambda>(sel, ts). parsePaging limitSeen True sel ts)
      else Inr (sel, ts))"
  by pat_completeness auto
termination
  by (relation "measure (\<lambda>(l, off, sel, ts). of_bool (\<not> l) + of_bool (\<not> off))") auto

declare parsePaging.simps [simp del]

text \<open>Paging touches nothing but the paging of the statement, and stays in the range of \<open>int\<close>.\<close>

definition pagingOk :: "selectStmt \<Rightarrow> selectStmt \<Rightarrow> bool" where
  "pagingOk sel0 sel \<longleftrightarrow> 0 \<le> selLimit sel \<and> 0 \<le> selOffset sel \<and> in64 (selLimit sel) \<and> in64 (selOffset sel) \<and>
     selTable sel = selTable sel0 \<and> selAlias sel = selAlias sel0 \<and> selColumns sel = selColumns sel0 \<and>
     selStar sel = selStar sel0 \<and> selWhere sel = selWhere sel0 \<and> selOrder sel = selOrder sel0 \<and>
     selDistance sel = selDistance sel0"

lemma parseIntCount_ok: "okParse in64 ts (parseIntCount clause ts)"
  unfolding parseIntCount_def Let_def by (auto split: option.splits dest: ParseInt_in64)

lemma limitClause_ok: "pagingOk sel0 sel \<Longrightarrow> okParse (pagingOk sel0) ts (limitClause sel ts)"
  unfolding limitClause_def
  by (auto intro!: okParse_bind[OF parseIntCount_ok] simp: uncappedErr_def pagingOk_def)

lemma offsetClause_ok: "pagingOk sel0 sel \<Longrightarrow> okParse (pagingOk sel0) ts (offsetClause sel ts)"
  unfolding offsetClause_def
  by (auto intro!: okParse_bind[OF parseIntCount_ok] simp: pagingOk_def)

lemma parsePaging_step:
  assumes "\<And>sel ts. \<not> l \<Longrightarrow> pagingOk sel0 sel \<Longrightarrow> okParse (pagingOk sel0) ts (parsePaging True off sel ts)"
    "\<And>sel ts. \<not> off \<Longrightarrow> pagingOk sel0 sel \<Longrightarrow> okParse (pagingOk sel0) ts (parsePaging l True sel ts)"
    "pagingOk sel0 sel"
  shows "okParse (pagingOk sel0) ts (parsePaging l off sel ts)"
  using assms
  by (subst parsePaging.simps)
    (auto intro!: okParse_bind[OF okParse_from[OF limitClause_ok]] okParse_bind[OF okParse_from[OF offsetClause_ok]])

lemma parsePaging_ok: "pagingOk sel0 sel \<Longrightarrow> okParse (pagingOk sel0) ts (parsePaging l off sel ts)"
proof -
  have both: "pagingOk sel0 sel \<Longrightarrow> okParse (pagingOk sel0) ts (parsePaging True True sel ts)" for sel ts
    by (rule parsePaging_step) auto
  have one: "pagingOk sel0 sel \<Longrightarrow> okParse (pagingOk sel0) ts (parsePaging True False sel ts)"
    "pagingOk sel0 sel \<Longrightarrow> okParse (pagingOk sel0) ts (parsePaging False True sel ts)" for sel ts
    by (rule parsePaging_step; simp add: both)+
  show "pagingOk sel0 sel \<Longrightarrow> okParse (pagingOk sel0) ts (parsePaging l off sel ts)"
    by (rule parsePaging_step; cases l; cases off; simp add: both one)
qed

subsection \<open>The statement\<close>

definition optWhere :: "token list \<Rightarrow> whereExpr parse" where
  "optWhere ts = (if peekKeyword ts ''WHERE'' then parseWhere (advance ts) else Inr (WNil, ts))"

definition optOrderBy :: "token list \<Rightarrow> (orderItem list \<times> orderDistance option) parse" where
  "optOrderBy ts =
     (if peekKeyword ts ''ORDER''
      then bindE (expectKeyword (advance ts) ''BY'') (\<lambda>ts. parseOrderBy [] ts)
      else Inr (([], None), ts))"

definition parseSelect :: "token list \<Rightarrow> selectStmt parse" where
  "parseSelect ts =
     (if peekKeyword ts ''DISTINCT''
      then Inl (pg_unsupportedErrf [T ''SELECT DISTINCT is not supported: no dedup step exists yet''])
      else let ts = (if peekKeyword ts ''ALL'' then advance ts else ts) in
        bindE (parseSelectList ts) (\<lambda>((cols, star), ts).
        bindE (expectKeyword ts ''FROM'') (\<lambda>ts.
        bindE (parseTableRef ts) (\<lambda>((table, alias), ts).
        bindE (optWhere ts) (\<lambda>(w, ts).
        bindE (optOrderBy ts) (\<lambda>((order, distance), ts).
          parsePaging False False
            \<lparr>selTable = table, selAlias = alias, selColumns = cols, selStar = star, selWhere = w,
             selOrder = order, selLimit = 0, selOffset = 0, selDistance = distance, selHasLimit = False\<rparr> ts))))))"

text \<open>Qualifiers: \<open>strip\<close> is the function the source passes down.\<close>

definition stripColumn :: "string list \<Rightarrow> string \<Rightarrow> string \<Rightarrow> terror + string" where
  "stripColumn tables what col =
     (case cutAt (CHR ''.'') col of
        None \<Rightarrow> Inr col
      | Some (qual, name) \<Rightarrow>
          if qual \<in> set tables then Inr name
          else Inl (pg_unsupportedErrf [T ''column reference ['', S col, T ''] names another table: '',
                 S what, T '' are single-table'']))"

fun stripWhereQualifiers :: "(string \<Rightarrow> terror + string) \<Rightarrow> whereExpr \<Rightarrow> terror + whereExpr" where
  "stripWhereQualifiers strip (WCol c) = bindE (strip c) (\<lambda>c. Inr (WCol c))"
| "stripWhereQualifiers strip (WCmp op c l) = bindE (strip c) (\<lambda>c. Inr (WCmp op c l))"
| "stripWhereQualifiers strip (WIn c ls n) = bindE (strip c) (\<lambda>c. Inr (WIn c ls n))"
| "stripWhereQualifiers strip (WBetw c lo hi n) = bindE (strip c) (\<lambda>c. Inr (WBetw c lo hi n))"
| "stripWhereQualifiers strip (WNull c n) = bindE (strip c) (\<lambda>c. Inr (WNull c n))"
| "stripWhereQualifiers strip (WNot w) = bindE (stripWhereQualifiers strip w) (\<lambda>w. Inr (WNot w))"
| "stripWhereQualifiers strip (WAnd ws) = bindE (mapE (stripWhereQualifiers strip) ws) (\<lambda>ws. Inr (WAnd ws))"
| "stripWhereQualifiers strip (WOr ws) = bindE (mapE (stripWhereQualifiers strip) ws) (\<lambda>ws. Inr (WOr ws))"
| "stripWhereQualifiers strip w = Inr w"

definition stripOrder :: "(string \<Rightarrow> terror + string) \<Rightarrow> orderItem \<Rightarrow> terror + orderItem" where
  "stripOrder strip item = bindE (strip (oiColumn item)) (\<lambda>c. Inr (item\<lparr>oiColumn := c\<rparr>))"

definition resolveQualifiers :: "selectStmt \<Rightarrow> terror + selectStmt" where
  "resolveQualifiers sel =
     (let strip = stripColumn [selTable sel, selAlias sel] ''reads'' in
      bindE (mapE strip (selColumns sel)) (\<lambda>cols.
      bindE (stripWhereQualifiers strip (selWhere sel)) (\<lambda>w.
      bindE (mapE (stripOrder strip) (selOrder sel)) (\<lambda>order.
      bindE (case selDistance sel of
               None \<Rightarrow> Inr None
             | Some d \<Rightarrow> bindE (strip (odColumn d)) (\<lambda>c. Inr (Some (d\<lparr>odColumn := c\<rparr>)))) (\<lambda>distance.
        Inr (sel\<lparr>selColumns := cols, selWhere := w, selOrder := order, selDistance := distance\<rparr>))))))"

definition schemaStatements :: "string list" where
  "schemaStatements = [''CREATE'', ''ALTER'', ''DROP'', ''TRUNCATE'']"

definition unsupportedClauses :: "string list" where
  "unsupportedClauses = [''GROUP'', ''HAVING'', ''WINDOW'', ''UNION'', ''INTERSECT'', ''EXCEPT'',
     ''FOR'', ''FETCH'', ''INTO'']"

definition oneStatementErr :: terror where
  "oneStatementErr = pg_parseErrf [T ''one statement at a time: unexpected content after the first '', sq, T '';'', sq]"

definition statementEnd :: "token list \<Rightarrow> terror + unit" where
  "statementEnd ts =
     (if peekOp ts '';'' then
        (if tkKind (peek (advance ts)) \<noteq> TkEOF then Inl oneStatementErr else Inr ())
      else let t = peek ts in
        if tkKind t = TkEOF then Inr ()
        else if tkKind t = TkKeyword \<and> tkText t \<in> set unsupportedClauses
        then Inl (pg_unsupportedErrf [T ''clause ['', S (tkText t), T ''] is beyond the lyrebird SELECT subset: single-table scalar reads only''])
        else if tkKind t = TkKeyword \<and> tkText t \<in> set [''LIMIT'', ''OFFSET'', ''ORDER'', ''WHERE'', ''FROM'']
        then Inl (pg_parseErrf [T ''unexpected ['', S (tkText t), T '']: each clause may appear once''])
        else Inl (pg_parseErrf ([T ''unexpected ''] @ describe t @ [T '' after the statement''])))"

definition statementHead :: "token list \<Rightarrow> terror + token list" where
  "statementHead ts = (let first = peek ts in
     if tkKind first = TkEOF then Inl (pg_parseErrf [T ''empty statement''])
     else if tkKind first \<noteq> TkKeyword then Inl (pg_parseErrf (T ''expected a SQL statement, got '' # describe first))
     else if tkText first = ''SELECT'' then Inr (advance ts)
     else if tkText first \<in> set schemaStatements
     then Inl (pg_unsupportedErrf [T ''['', S (tkText first), T ''] changes schema: lyrebird creates collections through its control plane, not through SQL DDL (create-table mapping is Phase 3b)''])
     else Inl (pg_unsupportedErrf [T ''only SELECT statements are supported; ['', S (tkText first), T ''] is beyond lyrebird'', sq, T ''s read path'']))"

definition pg_Parse :: "string \<Rightarrow> terror + selectStmt" where
  "pg_Parse sql =
     bindE (pg_lex sql) (\<lambda>toks.
     bindE (statementHead toks) (\<lambda>ts.
     bindE (parseSelect ts) (\<lambda>(sel, ts).
     bindE (resolveQualifiers sel) (\<lambda>sel.
     bindE (statementEnd ts) (\<lambda>_.
       if \<not> selHasLimit sel then Inl uncappedErr else Inr sel)))))"

subsection \<open>Lowering the statement\<close>

definition selectedColumns :: "selectStmt \<Rightarrow> schema option \<Rightarrow> string list" where
  \<comment> \<open>the method \<open>Columns\<close>\<close>
  "selectedColumns s sch =
     (if \<not> selStar s then selColumns s
      else case sch of None \<Rightarrow> [] | Some v \<Rightarrow> Fields v)"

text \<open>The filter of a WHERE clause, as \<open>Plan\<close> and \<open>Lower\<close> both end.\<close>

definition whereFilter :: "schema \<Rightarrow> whereExpr \<Rightarrow> plan \<Rightarrow> terror + plan" where
  "whereFilter sch w0 p =
     (let w = pg_fold w0 in
      if isFalse w then Inr (p\<lparr>pNoMatch := True\<rparr>)
      else bindE (buildWhere sch w) (\<lambda>e. Inr (p\<lparr>pExpr := e\<rparr>)))"

definition selectPlan :: "selectStmt \<Rightarrow> schema option \<Rightarrow> terror + plan" where
  \<comment> \<open>the method \<open>Plan\<close>\<close>
  "selectPlan s schema =
     (let sch = schemaOrEmpty schema in
      if wrap64 (selOffset s + selLimit s) > pg_maxResultWindow
      then Inl (pg_illegalErrf [T ''result window too large: OFFSET '', D (selOffset s), T '' + LIMIT '', D (selLimit s),
             T '' must not exceed '', D pg_maxResultWindow, T '' (the store sorts client-side within one window)''])
      else let p = emptyPlan\<lparr>pOffset := selOffset s, pLimit := selLimit s,
               pSource := \<lparr>FetchSource = True, Includes = selColumns s, Excludes = []\<rparr>,
               pSort := map (\<lambda>i. \<lparr>scField = oiColumn i, scDesc = oiDesc i\<rparr>) (selOrder s)\<rparr>
        in case selDistance s of
             None \<Rightarrow> whereFilter sch (selWhere s) p
           | Some d \<Rightarrow> bindE (pg_searchSpec d sch) (\<lambda>spec. whereFilter sch (selWhere s) (p\<lparr>pSearch := Some spec\<rparr>)))"

subsection \<open>What a parsed statement looks like\<close>

definition stmtShape :: "selectStmt \<Rightarrow> bool" where
  "stmtShape s \<longleftrightarrow> wfWhere (selWhere s) \<and> (selStar s \<longleftrightarrow> selColumns s = []) \<and>
     (selDistance s \<noteq> None \<longrightarrow> selOrder s = []) \<and>
     0 \<le> selLimit s \<and> 0 \<le> selOffset s \<and> in64 (selLimit s) \<and> in64 (selOffset s)"

lemma optWhere_ok: "okParse wfWhere ts (optWhere ts)"
  by (simp add: optWhere_def okParse_from[OF parseWhere_ok])

lemma optOrderBy_ok: "okParse (\<lambda>(order, d). d \<noteq> None \<longrightarrow> order = []) ts (optOrderBy ts)"
proof -
  have "okParse (\<lambda>(order, d). d \<noteq> None \<longrightarrow> order = []) (advance ts)
      (bindE (expectKeyword (advance ts) ''BY'') (parseOrderBy []))"
    by (intro okParse_expectKeyword parseOrderBy_ok)
  then show ?thesis by (auto simp: optOrderBy_def intro: okParse_from)
qed

lemma selectList_shape: "okParse (\<lambda>(cols, star). star \<longleftrightarrow> cols = []) ts (parseSelectList ts)"
  unfolding parseSelectList_def Let_def
  by (auto intro!: okParse_bind[OF selectItem.list_ok])

lemma parsePaging_shape:
  "stmtShape s \<Longrightarrow> okParse stmtShape ts (parsePaging l off s ts)"
  by (rule okParse_mono[OF parsePaging_ok[of s s]]) (auto simp: stmtShape_def pagingOk_def)

lemma parseSelect_shape: "okParse stmtShape ts (parseSelect ts)"
proof -
  let ?ts = "if peekKeyword ts ''ALL'' then advance ts else ts"
  have "okParse stmtShape ?ts
      (bindE (parseSelectList ?ts) (\<lambda>((cols, star), ts).
        bindE (expectKeyword ts ''FROM'') (\<lambda>ts.
        bindE (parseTableRef ts) (\<lambda>((table, alias), ts).
        bindE (optWhere ts) (\<lambda>(w, ts).
        bindE (optOrderBy ts) (\<lambda>((order, distance), ts).
          parsePaging False False
            \<lparr>selTable = table, selAlias = alias, selColumns = cols, selStar = star, selWhere = w,
             selOrder = order, selLimit = 0, selOffset = 0, selDistance = distance, selHasLimit = False\<rparr> ts))))))"
    by (auto intro!: okParse_bind[OF selectList_shape] okParse_expectKeyword okParse_bind[OF parseTableRef_ok]
        okParse_bind[OF optWhere_ok] okParse_bind[OF optOrderBy_ok] parsePaging_shape
        simp: stmtShape_def in64_def minInt64_def maxInt64_def)
  then have "okParse stmtShape ?ts (parseSelect ts)" if "\<not> peekKeyword ts ''DISTINCT''"
    using that by (simp add: parseSelect_def Let_def)
  then show ?thesis
    by (cases "peekKeyword ts ''DISTINCT''") (simp add: parseSelect_def, auto intro: okParse_from split: if_splits)
qed

subsection \<open>Qualifier resolution keeps the statement's shape\<close>

text \<open>Resolving a qualifier can leave an empty name only where the source wrote one
  (\<open>t.""\<close>), so the shape it keeps speaks of operators, arity and literals.\<close>

fun whereShape :: "whereExpr \<Rightarrow> bool" where
  "whereShape WNil = True"
| "whereShape WFalse = True"
| "whereShape (WCol c) = True"
| "whereShape (WNot w) = whereShape w"
| "whereShape (WAnd ws) = (2 \<le> length ws \<and> (\<forall>w \<in> set ws. whereShape w))"
| "whereShape (WOr ws) = (2 \<le> length ws \<and> (\<forall>w \<in> set ws. whereShape w))"
| "whereShape (WCmp op c l) = (compareMilvusOps op \<noteq> None \<and> notNull l)"
| "whereShape (WIn c ls n) = list_all notNull ls"
| "whereShape (WBetw c lo hi n) = (notNull lo \<and> notNull hi)"
| "whereShape (WNull c n) = True"

lemma wfWhere_shape: "wfWhere w \<Longrightarrow> whereShape w"
  by (induction w) auto

lemma whereShape_knownOps: "whereShape w \<Longrightarrow> knownOps w"
  by (induction w) auto

lemma stripWhere_shape:
  "stripWhereQualifiers strip w = Inr w' \<Longrightarrow> whereShape w \<Longrightarrow> whereShape w'"
proof (induction w arbitrary: w')
  case (WAnd ws)
  then show ?case by (fastforce simp: bindE_eq_Inr dest: mapE_set mapE_Inr_length)
next
  case (WOr ws)
  then show ?case by (fastforce simp: bindE_eq_Inr dest: mapE_set mapE_Inr_length)
qed (auto simp: bindE_eq_Inr)

lemma stripColumn_classified: "stripColumn tables what col = Inl e \<Longrightarrow> classified e"
  by (auto simp: stripColumn_def split: option.splits if_splits)

lemma stripWhere_classified:
  "(\<And>c e. strip c = Inl e \<Longrightarrow> classified e) \<Longrightarrow> stripWhereQualifiers strip w = Inl e \<Longrightarrow> classified e"
proof (induction w arbitrary: e)
  case (WAnd ws)
  then show ?case by (auto simp: bindE_eq_Inl dest!: mapE_eq_Inl)
next
  case (WOr ws)
  then show ?case by (auto simp: bindE_eq_Inl dest!: mapE_eq_Inl)
qed (auto simp: bindE_eq_Inl)

lemma stripWhere_plain:
  "(\<And>c d. strip c = Inr d \<Longrightarrow> R d) \<Longrightarrow> stripWhereQualifiers strip w = Inr w' \<Longrightarrow> f \<in> whereFields w' \<Longrightarrow> R f"
proof (induction w arbitrary: w')
  case (WAnd ws)
  then show ?case by (fastforce simp: bindE_eq_Inr dest: mapE_set)
next
  case (WOr ws)
  then show ?case by (fastforce simp: bindE_eq_Inr dest: mapE_set)
qed (auto simp: bindE_eq_Inr)

definition resolvedShape :: "selectStmt \<Rightarrow> bool" where
  "resolvedShape s \<longleftrightarrow> whereShape (selWhere s) \<and> (selStar s \<longleftrightarrow> selColumns s = []) \<and>
     (selDistance s \<noteq> None \<longrightarrow> selOrder s = []) \<and>
     0 \<le> selLimit s \<and> 0 \<le> selOffset s \<and> in64 (selLimit s) \<and> in64 (selOffset s)"

lemma resolveQualifiers_shape:
  assumes "resolveQualifiers s = Inr s'" "stmtShape s"
  shows "resolvedShape s' \<and> selHasLimit s' = selHasLimit s"
proof -
  let ?strip = "stripColumn [selTable s, selAlias s] ''reads''"
  from assms(1) obtain cols w order d
    where cols: "mapE ?strip (selColumns s) = Inr cols"
      and w: "stripWhereQualifiers ?strip (selWhere s) = Inr w"
      and order: "mapE (stripOrder ?strip) (selOrder s) = Inr order"
      and d: "(case selDistance s of None \<Rightarrow> Inr None
           | Some d \<Rightarrow> bindE (?strip (odColumn d)) (\<lambda>c. Inr (Some (d\<lparr>odColumn := c\<rparr>)))) = Inr d"
      and s': "s' = s\<lparr>selColumns := cols, selWhere := w, selOrder := order, selDistance := d\<rparr>"
    by (auto simp: resolveQualifiers_def Let_def bindE_eq_Inr)
  have "cols = [] \<longleftrightarrow> selColumns s = []" "order = [] \<longleftrightarrow> selOrder s = []"
    using mapE_Inr_length[OF cols] mapE_Inr_length[OF order] by auto
  moreover have "d \<noteq> None \<longrightarrow> selDistance s \<noteq> None"
    using d by (cases "selDistance s") auto
  moreover have "whereShape w"
    using assms(2) stripWhere_shape[OF w] wfWhere_shape by (auto simp: stmtShape_def)
  ultimately show ?thesis using assms(2) by (auto simp: s' resolvedShape_def stmtShape_def)
qed

lemma resolveQualifiers_classified: "resolveQualifiers s = Inl e \<Longrightarrow> classified e"
  by (auto simp: resolveQualifiers_def Let_def bindE_eq_Inl stripOrder_def
      dest!: mapE_eq_Inl stripWhere_classified[rotated] stripColumn_classified split: option.splits)

lemma statementEnd_classified: "statementEnd ts = Inl e \<Longrightarrow> classified e"
  unfolding statementEnd_def Let_def by (auto simp: oneStatementErr_def split: if_splits)

lemma statementHead_classified: "statementHead ts = Inl e \<Longrightarrow> classified e"
  unfolding statementHead_def Let_def by (auto split: if_splits)

lemma pg_lex_classified: "pg_lex sql = Inl e \<Longrightarrow> classified e"
  by (auto simp: pg_lex_def dest: lexFrom_classified)

lemma pg_Parse_shape: "pg_Parse sql = Inr s \<Longrightarrow> resolvedShape s \<and> selHasLimit s"
proof -
  assume "pg_Parse sql = Inr s"
  then obtain ts ts' s0 where "parseSelect ts = Inr (s0, ts')" "resolveQualifiers s0 = Inr s" "selHasLimit s"
    by (auto simp: pg_Parse_def bindE_eq_Inr split: if_splits)
  then show ?thesis using parseSelect_shape[of ts] resolveQualifiers_shape[of s0 s] by simp
qed

lemma pg_Parse_classified: "pg_Parse sql = Inl e \<Longrightarrow> classified e"
proof -
  assume "pg_Parse sql = Inl e"
  then consider "pg_lex sql = Inl e"
    | ts where "statementHead ts = Inl e"
    | ts where "parseSelect ts = Inl e"
    | s where "resolveQualifiers s = Inl e"
    | ts where "statementEnd ts = Inl e"
    | "e = uncappedErr"
    by (auto simp: pg_Parse_def bindE_eq_Inl split: if_splits)
  then show ?thesis
  proof cases
    case (3 ts)
    then show ?thesis using parseSelect_shape[of ts] by simp
  qed (auto simp: uncappedErr_def dest: pg_lex_classified statementHead_classified
      resolveQualifiers_classified statementEnd_classified)
qed

subsection \<open>Plans\<close>

lemma whereFilter_exact:
  assumes "whereFilter sch w p = Inr q" "\<not> pNoMatch p"
  shows "planAdmits atom row q \<longleftrightarrow> sqlEval atom row sch w = Some True" "sameWindow q p"
proof -
  have "planAdmits atom row q \<longleftrightarrow> sqlEval atom row sch w = Some True"
  proof (cases "isFalse (pg_fold w)")
    case True
    then show ?thesis
      using assms sqlEval_fold[of atom row sch w]
      by (auto simp: whereFilter_def planAdmits_def isFalse_def Let_def)
  next
    case False
    then obtain e where e: "buildWhere sch (pg_fold w) = Inr e" "q = p\<lparr>pExpr := e\<rparr>"
      using assms by (auto simp: whereFilter_def bindE_eq_Inr Let_def)
    then show ?thesis
      using assms buildWhere_eval[OF e(1) pg_fold_folded, of atom row] sqlEval_fold[of atom row sch w]
      by (simp add: planAdmits_def passes_def)
  qed
  moreover have "sameWindow q p"
    using assms by (auto simp: whereFilter_def bindE_eq_Inr Let_def sameWindow_def split: if_splits)
  ultimately show "planAdmits atom row q \<longleftrightarrow> sqlEval atom row sch w = Some True" "sameWindow q p" .
qed

lemma whereFilter_classified:
  "whereFilter sch w p = Inl e \<Longrightarrow> knownOps w \<Longrightarrow> classified e"
  by (auto simp: whereFilter_def Let_def bindE_eq_Inl split: if_splits
      intro: buildWhere_classified knownOps_fold)

lemma selectPlan_cases:
  assumes "selectPlan s schema = Inr q"
  obtains p where "whereFilter (schemaOrEmpty schema) (selWhere s) p = Inr q" "\<not> pNoMatch p"
    "pOffset p = selOffset s" "pLimit p = selLimit s" "Includes (pSource p) = selColumns s"
    "map (\<lambda>c. (scField c, scDesc c)) (pSort p) = map (\<lambda>i. (oiColumn i, oiDesc i)) (selOrder s)"
    "pSearch p = None \<longleftrightarrow> selDistance s = None"
    "wrap64 (selOffset s + selLimit s) \<le> pg_maxResultWindow"
  using assms
  by (auto simp: selectPlan_def Let_def emptyPlan_def bindE_eq_Inr split: if_splits option.splits)

subsection \<open>Properties\<close>


text \<open>Every statement the parser accepts is well formed: its comparisons use known
  operators, its connectives have at least two parts, no literal is NULL, the column list is
  empty exactly for SELECT *, a distance ordering stands alone, a row cap is given, and LIMIT
  and OFFSET are non-negative 64-bit integers.\<close>

theorem pg_Parse_wf:
  assumes "pg_Parse sql = Inr s"
  shows "resolvedShape s \<and> selHasLimit s"
  using assms by (rule pg_Parse_shape)

lemma selectPlan_classified:
  assumes "pg_Parse sql = Inr s" "selectPlan s schema = Inl e"
  shows "classified e"
proof -
  have "knownOps (selWhere s)"
    using pg_Parse_shape[OF assms(1)] by (simp add: resolvedShape_def whereShape_knownOps)
  with assms(2) show ?thesis
    by (auto simp: selectPlan_def Let_def bindE_eq_Inl split: if_splits option.splits
        dest: whereFilter_classified pg_searchSpec_classified)
qed

text \<open>Whatever bytes a client sends, parsing terminates with a statement or with an error of
  one of the three SQLSTATE classes with status 400, never the fuel error; and lowering a
  parsed statement against any schema gives a plan or an error of those classes.\<close>

theorem pg_errors_classified:
  assumes "bindE (pg_Parse sql) (\<lambda>s. selectPlan s schema) = Inl e"
  shows "classified e"
  using assms by (auto simp: bindE_eq_Inl dest: pg_Parse_classified selectPlan_classified)

text \<open>The result window: the plan of a parsed statement never reads past the first 10000
  rows, unless the machine sum of its OFFSET and LIMIT overflows.\<close>

theorem selectPlan_window:
  assumes "pg_Parse sql = Inr s" "selectPlan s schema = Inr p"
  shows "0 \<le> pOffset p \<and> 0 \<le> pLimit p \<and>
    (pOffset p + pLimit p \<le> pg_maxResultWindow \<or> maxInt64 < pOffset p + pLimit p)"
proof -
  have paging: "0 \<le> selLimit s" "0 \<le> selOffset s"
    using pg_Parse_shape[OF assms(1)] by (simp_all add: resolvedShape_def)
  obtain q where q: "whereFilter (schemaOrEmpty schema) (selWhere s) q = Inr p" "\<not> pNoMatch q"
    "pOffset q = selOffset s" "pLimit q = selLimit s"
    "wrap64 (selOffset s + selLimit s) \<le> pg_maxResultWindow"
    using selectPlan_cases[OF assms(2)] by metis
  have "pOffset p = selOffset s" "pLimit p = selLimit s"
    using whereFilter_exact(2)[OF q(1,2)] q(3,4) by (simp_all add: sameWindow_def)
  then show ?thesis
    using paging q(5) wrap64_id[of "selOffset s + selLimit s"] by (auto simp: in64_def minInt64_def)
qed

text \<open>The sum that guards the window wraps: a statement asking for 2^63 - 1 rows behind the
  first one, both counts read as written, passes the check.\<close>

theorem pg_window_overflow:
  "parseIntCount ''LIMIT'' [mkToken TkNumber ''9223372036854775807'' 0, eofToken] =
     Inr (9223372036854775807, [eofToken]) \<and>
   (case selectPlan (emptySelect\<lparr>selLimit := 9223372036854775807, selOffset := 1, selHasLimit := True\<rparr>) None of
      Inl _ \<Rightarrow> False | Inr p \<Rightarrow> pLimit p = 9223372036854775807 \<and> pOffset p = 1)"
  by (simp add: parseIntCount_def peekOp_def ParseInt_def takeSign_def natOfDigits_def digitVal_def
      isDigit_def in64_def minInt64_def maxInt64_def selectPlan_def emptySelect_def wrap64_def
      pg_maxResultWindow_def emptyPlan_def whereFilter_def isFalse_def eofToken_def)

text \<open>Comparisons with NULL under a negation are not exact: a predicate no row satisfies in
  SQL lowers to the plan that matches every row, and a range that SQL rejects for small values
  lowers to the plan that matches none.\<close>

theorem pg_null_under_not:
  "(case bindE (pg_Parse ''SELECT * FROM t WHERE NOT (x = NULL) LIMIT 1'') (\<lambda>s. selectPlan s None) of
      Inl _ \<Rightarrow> False | Inr p \<Rightarrow> \<not> pNoMatch p \<and> pExpr p = NilE) \<and>
   (case bindE (pg_Parse ''SELECT * FROM t WHERE x NOT BETWEEN 3 AND NULL LIMIT 1'') (\<lambda>s. selectPlan s None) of
      Inl _ \<Rightarrow> False | Inr p \<Rightarrow> pNoMatch p)"
  by code_simp

definition sampleSelect :: selectStmt where
  "sampleSelect = emptySelect\<lparr>selTable := ''t'', selColumns := [''a''],
     selWhere := WNot (WNull ''b'' False), selLimit := 2, selOffset := 7, selHasLimit := True\<rparr>"

lemma sampleSelect_parse:
  "pg_Parse ''SELECT t.a FROM t WHERE NOT b IS NULL OFFSET 7 LIMIT 2;'' = Inr sampleSelect"
proof -
  have "(case pg_Parse ''SELECT t.a FROM t WHERE NOT b IS NULL OFFSET 7 LIMIT 2;'' of Inl _ \<Rightarrow> False
     | Inr s \<Rightarrow> selTable s = ''t'' \<and> selAlias s = [] \<and> selColumns s = [''a''] \<and> \<not> selStar s \<and>
        selWhere s = WNot (WNull ''b'' False) \<and> selOrder s = [] \<and> selLimit s = 2 \<and> selOffset s = 7 \<and>
        selDistance s = None \<and> selHasLimit s)"
    by code_simp
  then show ?thesis
    by (auto simp: sampleSelect_def emptySelect_def split: sum.splits)
qed

lemma sampleSelect_plan:
  "selectPlan sampleSelect None = Inr (emptyPlan\<lparr>pExpr := NotNull ''b'', pOffset := 7, pLimit := 2,
     pSource := \<lparr>FetchSource = True, Includes = [''a''], Excludes = []\<rparr>\<rparr>)"
  by (simp add: selectPlan_def sampleSelect_def emptySelect_def wrap64_def pg_maxResultWindow_def
      emptyPlan_def whereFilter_def isFalse_def Let_def)


lemma pg_Parse_wf_witness: "resolvedShape sampleSelect \<and> selHasLimit sampleSelect"
  by (rule pg_Parse_wf[OF sampleSelect_parse])

lemma pg_errors_classified_witness: "classified (pg_parseErrf [T ''empty statement''])"
proof (rule pg_errors_classified)
  show "bindE (pg_Parse []) (\<lambda>s. selectPlan s None) = Inl (pg_parseErrf [T ''empty statement''])"
    by (simp add: pg_Parse_def pg_lex_def statementHead_def)
qed

lemma selectPlan_window_witness: "(0::int) \<le> 7 \<and> (0::int) \<le> 2 \<and> ((7::int) + 2 \<le> pg_maxResultWindow \<or> maxInt64 < 7 + 2)"
  using selectPlan_window[OF sampleSelect_parse sampleSelect_plan] by (simp add: emptyPlan_def)

end
