(* ===== verification/PgWrite.thy ===== *)
theory PgWrite
  imports PgSelect
begin

text \<open>
  The write statements of \<open>internal/translate/pg/write.go\<close>: INSERT and UPDATE are parsed into their
  own statement types and lowered to plain write rows, and for UPDATE to the filter plan that
  names the rows.

  A write row is a Go map, here an association list built by assignments. The lemmas follow the
  parser library (\<open>okParse\<close>); the theorems say which value each column of a row gets and which
  rows an UPDATE touches.
\<close>

subsection \<open>Literals\<close>

definition parseWriteLiteral :: "token list \<Rightarrow> literal parse" where
  "parseWriteLiteral ts = (let t = peek ts in
     if tkKind t = TkString then Inr (mkLit LitString (tkText t), advance ts)
     else if tkKind t = TkNumber then Inr (mkLit LitNumber (tkText t), advance ts)
     else if tkKind t = TkKeyword \<and> tkText t = ''TRUE'' then Inr (mkLit LitBool ''true'', advance ts)
     else if tkKind t = TkKeyword \<and> tkText t = ''FALSE'' then Inr (mkLit LitBool ''false'', advance ts)
     else if tkKind t = TkKeyword \<and> tkText t = ''NULL'' then Inr (mkLit LitNull [], advance ts)
     else if tkKind t = TkKeyword \<and> tkText t = ''DEFAULT''
     then Inl (pg_unsupportedErrf [T ''DEFAULT is not supported: supply the value explicitly (the store has no server-side defaults)''])
     else if tkKind t = TkOp \<and> (tkText t = ''-'' \<or> tkText t = ''+'') then
       (let ts = advance ts; n = peek ts in
        if tkKind n \<noteq> TkNumber
        then Inl (pg_parseErrf ([T ''expected a number after ['', S (tkText t), T ''], got ''] @ describe n))
        else Inr (mkLit LitNumber (if tkText t = ''-'' then ''-'' @ tkText n else tkText n), advance ts))
     else if tkKind t = TkIdent
     then Inl (pg_unsupportedErrf [T ''write values are literals only: ['', S (tkText t),
            T ''] is a column (SET expressions like [n = n + 1] are beyond the write lane)''])
     else if tkKind t = TkParam
     then Inl (pg_unsupportedErrf [T ''bind parameters are not wired into writes yet: inline the literal''])
     else Inl (pg_parseErrf (T ''expected a literal value, got '' # describe t)))"

definition writeLiteral :: "literal \<Rightarrow> string \<Rightarrow> schema \<Rightarrow> terror + gval" where
  "writeLiteral l col sch =
     (case litK l of
        LitNull \<Rightarrow> Inr GNil
      | LitBool \<Rightarrow> Inr (GBool (litText l = ''true''))
      | LitNumber \<Rightarrow> Inr (GNum (litText l))
      | LitString \<Rightarrow>
          if FieldType sch col = TypeVector
          then bindE (parseVector (litText l)) (\<lambda>v. Inr (GVec v))
          else Inr (GStr (litText l)))"

definition writeStatementEnd :: "token list \<Rightarrow> string \<Rightarrow> terror + unit" where
  "writeStatementEnd ts what =
     (if peekOp ts '';'' then
        (if tkKind (peek (advance ts)) \<noteq> TkEOF then Inl oneStatementErr else Inr ())
      else let t = peek ts in
        if tkKind t = TkEOF then Inr ()
        else if tkKind t = TkKeyword \<and> tkText t = ''ON''
        then Inl (pg_unsupportedErrf [T ''ON CONFLICT is not supported: a duplicate key fails the write (check existence first)''])
        else if tkKind t = TkKeyword \<and> tkText t = ''RETURNING''
        then Inl (pg_unsupportedErrf [T ''RETURNING is not supported: read the rows back with SELECT''])
        else Inl (pg_parseErrf ([T ''unexpected ''] @ describe t @ [T '' after the '', S what, T '' statement''])))"

text \<open>The first name that repeats an earlier one.\<close>

fun firstRepeat :: "string list \<Rightarrow> string list \<Rightarrow> string option" where
  "firstRepeat prev [] = None"
| "firstRepeat prev (c # cs) = (if c \<in> set prev then Some c else firstRepeat (prev @ [c]) cs)"

lemma firstRepeat_None: "firstRepeat prev cs = None \<longleftrightarrow> distinct cs \<and> set prev \<inter> set cs = {}"
  by (induction prev cs rule: firstRepeat.induct) auto

lemma parseWriteLiteral_ok: "okParse (\<lambda>_. True) ts (parseWriteLiteral ts)"
  unfolding parseWriteLiteral_def Let_def by simp

interpretation writeItem: list_item parseWriteLiteral "\<lambda>_. True"
  by unfold_locales (rule parseWriteLiteral_ok)

interpretation columnItem: list_item parseColumnRef "\<lambda>_. True"
  by unfold_locales (rule parseColumnRef_ok)

lemma writeLiteral_classified: "writeLiteral l col sch = Inl e \<Longrightarrow> classified e"
  by (auto simp: writeLiteral_def parseVector_def Let_def bindE_eq_Inl
      split: litKind.splits if_splits dest: vecEntries_classified)

lemma writeStatementEnd_classified: "writeStatementEnd ts what = Inl e \<Longrightarrow> classified e"
  unfolding writeStatementEnd_def Let_def by (auto simp: oneStatementErr_def split: if_splits)

subsection \<open>INSERT\<close>

record insertStmt =
  insTable :: string
  insColumns :: "string list"
  insRows :: "literal list list"

definition parseGroup :: "token list \<Rightarrow> literal list parse" where
  "parseGroup ts =
     bindE (expectOp ts ''('') (\<lambda>ts.
     bindE (sepBy comma parseWriteLiteral ts) (\<lambda>(grp, ts).
     bindE (expectOp ts '')'') (\<lambda>ts. Inr (grp, ts))))"

lemma parseGroup_ok: "okParse (\<lambda>g. g \<noteq> []) ts (parseGroup ts)"
  unfolding parseGroup_def by (auto intro!: okParse_expectOp okParse_bind[OF writeItem.list_ok])

lemma parseGroup_leaves: "parseGroup ts = Inr (g, ts') \<Longrightarrow> leaves ts ts'"
  using parseGroup_ok[of ts] by simp

text \<open>The loop over the VALUES groups; a group's arity is compared with the first one's.\<close>

function parseRows :: "literal list list \<Rightarrow> token list \<Rightarrow> literal list list parse" where
  "parseRows rows ts =
     bindE (parseGroup ts) (\<lambda>(grp, ts').
       if rows \<noteq> [] \<and> length grp \<noteq> length (hd rows)
       then Inl (pg_parseErrf [T ''VALUES groups must all have the same arity: the first has '',
              D (int (length (hd rows))), T '' values, this one '', D (int (length grp))])
       else if \<not> comma ts' then Inr (rows @ [grp], ts')
       else parseRows (rows @ [grp]) (advance ts'))"
  by pat_completeness auto
termination
  by (relation "measure (\<lambda>(rows, ts). length ts)")
    (auto dest!: advance_op parseGroup_leaves simp: leaves_def)

declare parseRows.simps [simp del]

definition sameArity :: "'a list list \<Rightarrow> bool" where
  "sameArity rows \<longleftrightarrow> (\<forall>r \<in> set rows. r \<noteq> [] \<and> length r = length (hd rows))"

lemma sameArity_snoc:
  "sameArity rows \<Longrightarrow> r \<noteq> [] \<Longrightarrow> (rows \<noteq> [] \<Longrightarrow> length r = length (hd rows)) \<Longrightarrow> sameArity (rows @ [r])"
  by (cases rows) (auto simp: sameArity_def)

lemma parseRows_ok:
  "sameArity rows \<Longrightarrow> okParse (\<lambda>rs. sameArity rs \<and> rs \<noteq> []) ts (parseRows rows ts)"
proof (induction rows ts rule: parseRows.induct)
  case (1 rows ts)
  show ?case
  proof (subst parseRows.simps, rule okParse_check)
    fix e
    assume "parseGroup ts = Inl e"
    then show "classified e" using parseGroup_ok[of ts] by simp
  next
    fix x
    assume x: "parseGroup ts = Inr x"
    obtain g ts' where x': "x = (g, ts')" by force
    have g: "leaves ts ts'" "g \<noteq> []" using parseGroup_ok[of ts] x x' by auto
    show "okParse (\<lambda>rs. sameArity rs \<and> rs \<noteq> []) ts (case x of (grp, ts') \<Rightarrow>
       if rows \<noteq> [] \<and> length grp \<noteq> length (hd rows)
       then Inl (pg_parseErrf [T ''VALUES groups must all have the same arity: the first has '',
              D (int (length (hd rows))), T '' values, this one '', D (int (length grp))])
       else if \<not> comma ts' then Inr (rows @ [grp], ts')
       else parseRows (rows @ [grp]) (advance ts'))"
      using g 1 x x' sameArity_snoc[of rows g]
      by (auto intro!: okParse_from[of _ "advance ts'" _ ts])
  qed
qed

definition optColumns :: "token list \<Rightarrow> string list parse" where
  "optColumns ts =
     (if peekOp ts ''('' then
        bindE (sepBy comma parseColumnRef (advance ts)) (\<lambda>(cols, ts).
        bindE (expectOp ts '')'') (\<lambda>ts.
          case firstRepeat [] cols of
            Some c \<Rightarrow> Inl (pg_parseErrf [T ''column ['', S c, T ''] appears twice in the column list''])
          | None \<Rightarrow> Inr (cols, ts)))
      else Inr ([], ts))"

definition expectValues :: "token list \<Rightarrow> terror + token list" where
  "expectValues ts =
     (case expectKeyword ts ''VALUES'' of
        Inr ts' \<Rightarrow> Inr ts'
      | Inl e \<Rightarrow>
          if peekKeyword ts ''SELECT''
          then Inl (pg_unsupportedErrf [T ''INSERT ... SELECT is not supported: supply VALUES rows''])
          else Inl e)"

definition expectTable :: "string \<Rightarrow> token list \<Rightarrow> string parse" where
  "expectTable after ts = (let t = peek ts in
     if tkKind t \<noteq> TkIdent
     then Inl (pg_parseErrf ([T ''expected a table name after '', T after, T '', got ''] @ describe t))
     else let ts = advance ts in
       if peekOp ts ''.''
       then Inl (pg_unsupportedErrf [T ''schema-qualified table names are not supported: use the bare collection name''])
       else Inr (tkText t, ts))"

definition pg_ParseInsert :: "string \<Rightarrow> terror + insertStmt" where
  "pg_ParseInsert sql =
     bindE (pg_lex sql) (\<lambda>ts.
     bindE (expectKeyword ts ''INSERT'') (\<lambda>ts.
     bindE (expectKeyword ts ''INTO'') (\<lambda>ts.
     bindE (expectTable ''INSERT INTO'' ts) (\<lambda>(table, ts).
     bindE (optColumns ts) (\<lambda>(cols, ts).
     bindE (expectValues ts) (\<lambda>ts.
     bindE (parseRows [] ts) (\<lambda>(rows, ts).
     bindE (writeStatementEnd ts ''INSERT'') (\<lambda>_.
       Inr \<lparr>insTable = table, insColumns = cols, insRows = rows\<rparr>))))))))"

text \<open>Assigning the values to the row, one column after the other.\<close>

definition assignAll :: "(string \<times> gval) list \<Rightarrow> writeRow" where
  "assignAll kvs = foldl (\<lambda>row (k, v). setKey k v row) [] kvs"

definition insertRow :: "schema \<Rightarrow> string list \<Rightarrow> literal list \<Rightarrow> terror + writeRow" where
  "insertRow sch cols grp =
     (if length grp \<noteq> length cols
      then Inl (pg_parseErrf [T ''INSERT has '', D (int (length grp)), T '' values but '', D (int (length cols)),
             T '' target columns''])
      else bindE (mapE (\<lambda>(lit, col). writeLiteral lit col sch) (zip grp cols)) (\<lambda>vs.
        Inr (assignAll (zip cols vs))))"

definition insertRows :: "insertStmt \<Rightarrow> schema option \<Rightarrow> terror + writeRow list" where
  \<comment> \<open>the method \<open>Rows\<close>\<close>
  "insertRows ins schema =
     (let sch = schemaOrEmpty schema;
          cols = (if insColumns ins = [] then Fields sch else insColumns ins)
      in mapE (insertRow sch cols) (insRows ins))"

subsection \<open>UPDATE\<close>

record updateStmt =
  updTable :: string
  updSets :: "(string \<times> literal) list"
  updWhere :: whereExpr

definition parseSetClause :: "token list \<Rightarrow> (string \<times> literal) parse" where
  "parseSetClause ts =
     bindE (parseColumnRef ts) (\<lambda>(col, ts).
     bindE (expectOp ts ''='') (\<lambda>ts.
     bindE (parseWriteLiteral ts) (\<lambda>(lit, ts). Inr ((col, lit), ts))))"

lemma parseSetClause_ok: "okParse (\<lambda>_. True) ts (parseSetClause ts)"
  unfolding parseSetClause_def
  by (auto intro!: okParse_bind[OF parseColumnRef_ok] okParse_expectOp okParse_bind[OF parseWriteLiteral_ok])

interpretation setItem: list_item parseSetClause "\<lambda>_. True"
  by unfold_locales (rule parseSetClause_ok)

definition parseSets :: "token list \<Rightarrow> (string \<times> literal) list parse" where
  "parseSets ts =
     bindE (sepBy comma parseSetClause ts) (\<lambda>(sets, ts).
       case firstRepeat [] (map fst sets) of
         Some c \<Rightarrow> Inl (pg_parseErrf [T ''multiple assignments to column ['', S c, T '']''])
       | None \<Rightarrow> Inr (sets, ts))"

definition updateWhere :: "token list \<Rightarrow> whereExpr parse" where
  "updateWhere ts =
     (if peekKeyword ts ''FROM''
      then Inl (pg_unsupportedErrf [T ''UPDATE ... FROM is not supported: writes are single-table''])
      else if peekKeyword ts ''WHERE'' then parseWhere (advance ts)
      else Inl (pg_unsupportedErrf [T ''UPDATE without WHERE would rewrite every row: add a WHERE clause naming the rows'']))"

definition updateQualifiers :: "updateStmt \<Rightarrow> terror + updateStmt" where
  \<comment> \<open>the method \<open>resolveQualifiers\<close> of an UPDATE\<close>
  "updateQualifiers u =
     (let strip = stripColumn [updTable u] ''writes'' in
      bindE (mapE (\<lambda>(c, l). bindE (strip c) (\<lambda>c. Inr (c, l))) (updSets u)) (\<lambda>sets.
      bindE (stripWhereQualifiers strip (updWhere u)) (\<lambda>w.
        Inr (u\<lparr>updSets := sets, updWhere := w\<rparr>))))"

definition pg_ParseUpdate :: "string \<Rightarrow> terror + updateStmt" where
  "pg_ParseUpdate sql =
     bindE (pg_lex sql) (\<lambda>ts.
     bindE (expectKeyword ts ''UPDATE'') (\<lambda>ts.
     bindE (expectTable ''UPDATE'' ts) (\<lambda>(table, ts).
       if peekKeyword ts ''AS'' \<or> tkKind (peek ts) = TkIdent
       then Inl (pg_unsupportedErrf [T ''UPDATE aliases are not supported: qualify columns with the table name''])
       else bindE (expectKeyword ts ''SET'') (\<lambda>ts.
         bindE (parseSets ts) (\<lambda>(sets, ts).
         bindE (updateWhere ts) (\<lambda>(w, ts).
         bindE (writeStatementEnd ts ''UPDATE'') (\<lambda>_.
           updateQualifiers \<lparr>updTable = table, updSets = sets, updWhere = w\<rparr>)))))))"

definition updateLower :: "updateStmt \<Rightarrow> schema option \<Rightarrow> terror + writeRow \<times> plan" where
  \<comment> \<open>the method \<open>Lower\<close>\<close>
  "updateLower u schema =
     (let sch = schemaOrEmpty schema in
      bindE (mapE (\<lambda>(c, l). writeLiteral l c sch) (updSets u)) (\<lambda>vs.
      bindE (whereFilter sch (updWhere u)
               (emptyPlan\<lparr>pSource := \<lparr>FetchSource = True, Includes = [], Excludes = []\<rparr>\<rparr>)) (\<lambda>p.
        Inr (assignAll (zip (map fst (updSets u)) vs), p))))"

subsection \<open>Lemmas\<close>

lemma expectTable_ok: "okParse (\<lambda>_. True) ts (expectTable after ts)"
  unfolding expectTable_def Let_def by simp

lemma optColumns_ok: "okParse distinct ts (optColumns ts)"
proof (cases "peekOp ts ''(''")
  case True
  have "okParse distinct (advance ts) (optColumns ts)"
    using True unfolding optColumns_def
    by (auto intro!: okParse_bind[OF columnItem.list_ok] okParse_expectOp
        simp: firstRepeat_None split: option.splits)
  then show ?thesis by (rule okParse_from) simp
qed (simp add: optColumns_def)

lemma expectKeyword_classified: "expectKeyword ts w = Inl e \<Longrightarrow> classified e"
  by (auto simp: expectKeyword_def split: if_splits)

lemma expectValues_classified: "expectValues ts = Inl e \<Longrightarrow> classified e"
  by (auto simp: expectValues_def dest: expectKeyword_classified split: sum.splits if_splits)

lemma okParse_expectValues:
  "(\<And>ts'. leaves ts ts' \<Longrightarrow> okParse R ts' (f ts')) \<Longrightarrow> okParse R ts (bindE (expectValues ts) f)"
  by (rule okParse_check, erule expectValues_classified)
    (auto simp: expectValues_def split: sum.splits if_splits dest!: expectKeyword_leaves intro: okParse_from)

lemma okParse_writeEnd:
  "okParse R ts (f ()) \<Longrightarrow> okParse R ts (bindE (writeStatementEnd ts' w) f)"
  by (rule okParse_check) (auto dest: writeStatementEnd_classified)

lemma parseRows_start: "okParse (\<lambda>rs. sameArity rs \<and> rs \<noteq> []) ts (parseRows [] ts)"
  by (rule parseRows_ok) (simp add: sameArity_def)

definition insertShape :: "insertStmt \<Rightarrow> bool" where
  "insertShape ins \<longleftrightarrow> distinct (insColumns ins) \<and> insRows ins \<noteq> [] \<and> sameArity (insRows ins)"

text \<open>The statement parsers with the rest of the stream, which the entry points drop.\<close>

definition insertBody :: "token list \<Rightarrow> insertStmt parse" where
  "insertBody ts =
     bindE (expectKeyword ts ''INSERT'') (\<lambda>ts.
     bindE (expectKeyword ts ''INTO'') (\<lambda>ts.
     bindE (expectTable ''INSERT INTO'' ts) (\<lambda>(table, ts).
     bindE (optColumns ts) (\<lambda>(cols, ts).
     bindE (expectValues ts) (\<lambda>ts.
     bindE (parseRows [] ts) (\<lambda>(rows, ts).
     bindE (writeStatementEnd ts ''INSERT'') (\<lambda>_.
       Inr (\<lparr>insTable = table, insColumns = cols, insRows = rows\<rparr>, ts))))))))"

lemma pg_ParseInsert_body:
  "pg_ParseInsert sql = bindE (pg_lex sql) (\<lambda>ts. bindE (insertBody ts) (\<lambda>(ins, ts). Inr ins))"
  by (simp add: pg_ParseInsert_def insertBody_def bindE_assoc case_prod_unfold)

lemma insertBody_ok: "okParse insertShape ts (insertBody ts)"
  unfolding insertBody_def
  by (auto intro!: okParse_expectKeyword okParse_bind[OF expectTable_ok] okParse_bind[OF optColumns_ok]
      okParse_expectValues okParse_bind[OF parseRows_start] okParse_writeEnd simp: insertShape_def)

lemma setItem_sets: "okParse (\<lambda>sets. distinct (map fst sets)) ts (parseSets ts)"
  unfolding parseSets_def
  by (auto intro!: okParse_bind[OF setItem.list_ok] simp: firstRepeat_None split: option.splits)

lemma updateWhere_ok: "okParse wfWhere ts (updateWhere ts)"
  by (simp add: updateWhere_def okParse_from[OF parseWhere_ok])

definition updateBody :: "token list \<Rightarrow> updateStmt parse" where
  "updateBody ts =
     bindE (expectKeyword ts ''UPDATE'') (\<lambda>ts.
     bindE (expectTable ''UPDATE'' ts) (\<lambda>(table, ts).
       if peekKeyword ts ''AS'' \<or> tkKind (peek ts) = TkIdent
       then Inl (pg_unsupportedErrf [T ''UPDATE aliases are not supported: qualify columns with the table name''])
       else bindE (expectKeyword ts ''SET'') (\<lambda>ts.
         bindE (parseSets ts) (\<lambda>(sets, ts).
         bindE (updateWhere ts) (\<lambda>(w, ts).
         bindE (writeStatementEnd ts ''UPDATE'') (\<lambda>_.
           Inr (\<lparr>updTable = table, updSets = sets, updWhere = w\<rparr>, ts)))))))"

lemma pg_ParseUpdate_body:
  "pg_ParseUpdate sql = bindE (pg_lex sql) (\<lambda>ts. bindE (updateBody ts) (\<lambda>(u, ts). updateQualifiers u))"
  unfolding pg_ParseUpdate_def updateBody_def
  by (rule arg_cong2[where f = bindE, OF refl], rule ext)
    (auto simp: bindE_def split: sum.split prod.split)

lemma updateBody_ok:
  "okParse (\<lambda>u. wfWhere (updWhere u) \<and> distinct (map fst (updSets u))) ts (updateBody ts)"
  unfolding updateBody_def
  by (auto intro!: okParse_expectKeyword okParse_bind[OF expectTable_ok] okParse_bind[OF setItem_sets]
      okParse_bind[OF updateWhere_ok] okParse_writeEnd)

lemma updateQualifiers_where:
  "updateQualifiers u = Inr u' \<Longrightarrow> wfWhere (updWhere u) \<Longrightarrow> whereShape (updWhere u')"
  by (auto simp: updateQualifiers_def Let_def bindE_eq_Inr dest!: stripWhere_shape intro: wfWhere_shape)

lemma updateQualifiers_classified: "updateQualifiers u = Inl e \<Longrightarrow> classified e"
  by (auto simp: updateQualifiers_def Let_def bindE_eq_Inl
      dest!: mapE_eq_Inl stripWhere_classified[rotated] stripColumn_classified)

text \<open>Assignments to distinct keys: each key reads its own value, and no other key is there.\<close>

lemma assignAll_snoc: "assignAll (kvs @ [(k, v)]) = setKey k v (assignAll kvs)"
  by (simp add: assignAll_def)

lemma map_of_assignAll: "map_of (assignAll kvs) = map_of (rev kvs)"
  by (induction kvs rule: rev_induct) (auto simp: assignAll_snoc assignAll_def)

lemma distinct_assignAll: "distinct (map fst (assignAll kvs))"
  by (induction kvs rule: rev_induct) (auto simp: assignAll_snoc distinct_setKey, simp add: assignAll_def)

lemma map_of_rev_distinct: "distinct (map fst kvs) \<Longrightarrow> map_of (rev kvs) = map_of kvs"
proof (induction kvs)
  case (Cons kv kvs)
  then have "fst kv \<notin> dom (map_of kvs)" by (simp add: dom_map_of_conv_image_fst)
  with Cons show ?case by (cases kv) (auto simp: fun_eq_iff map_add_def split: option.splits)
qed simp

lemma map_of_assign_zip:
  assumes "distinct ks" "length vs = length ks"
  shows "map_of (assignAll (zip ks vs)) = map_of (zip ks vs)"
  using assms by (simp add: map_of_assignAll map_of_rev_distinct)

lemma insertRow_values:
  assumes "insertRow sch cols lits = Inr row" "distinct cols"
  shows "length lits = length cols \<and> dom (map_of row) = set cols \<and>
    (\<forall>i < length cols. \<exists>v. writeLiteral (lits ! i) (cols ! i) sch = Inr v \<and> map_of row (cols ! i) = Some v)"
proof -
  from assms(1) obtain vs where len: "length lits = length cols"
    and vs: "mapE (\<lambda>(lit, col). writeLiteral lit col sch) (zip lits cols) = Inr vs"
    and row: "row = assignAll (zip cols vs)"
    by (auto simp: insertRow_def bindE_eq_Inr split: if_splits)
  have lenvs: "length vs = length cols" using mapE_Inr_length[OF vs] len by simp
  have get: "map_of row = map_of (zip cols vs)"
    unfolding row by (rule map_of_assign_zip[OF assms(2) lenvs])
  moreover have "writeLiteral (lits ! i) (cols ! i) sch = Inr (vs ! i)" if "i < length cols" for i
    using vs that len by (auto simp: mapE_eq_Inr list_all2_conv_all_nth)
  moreover have "map_of (zip cols vs) (cols ! i) = Some (vs ! i)" if "i < length cols" for i
    using that lenvs assms(2) by (simp add: map_of_zip_nth)
  moreover have "dom (map_of (zip cols vs)) = set cols" using lenvs by simp
  ultimately show ?thesis using len by auto
qed

lemma insertRow_classified: "insertRow sch cols lits = Inl e \<Longrightarrow> classified e"
  by (auto simp: insertRow_def bindE_eq_Inl split: if_splits prod.splits
      dest!: mapE_eq_Inl writeLiteral_classified)

lemma pg_ParseInsert_shape: "pg_ParseInsert sql = Inr ins \<Longrightarrow> insertShape ins"
  using insertBody_ok by (fastforce simp: pg_ParseInsert_body bindE_eq_Inr okParse_def split: sum.splits)

lemma pg_ParseInsert_classified: "pg_ParseInsert sql = Inl e \<Longrightarrow> classified e"
  using insertBody_ok
  by (fastforce simp: pg_ParseInsert_body bindE_eq_Inl okParse_def split: sum.splits dest: pg_lex_classified)

lemma pg_ParseUpdate_shape: "pg_ParseUpdate sql = Inr u \<Longrightarrow> whereShape (updWhere u)"
proof -
  assume "pg_ParseUpdate sql = Inr u"
  then obtain ts ts' u0 where "updateBody ts = Inr (u0, ts')" "updateQualifiers u0 = Inr u"
    by (auto simp: pg_ParseUpdate_body bindE_eq_Inr)
  then show ?thesis using updateBody_ok[of ts] updateQualifiers_where[of u0 u] by simp
qed

lemma pg_ParseUpdate_classified: "pg_ParseUpdate sql = Inl e \<Longrightarrow> classified e"
proof -
  assume "pg_ParseUpdate sql = Inl e"
  then consider "pg_lex sql = Inl e" | ts where "updateBody ts = Inl e"
    | u where "updateQualifiers u = Inl e"
    by (auto simp: pg_ParseUpdate_body bindE_eq_Inl)
  then show ?thesis
  proof cases
    case (2 ts)
    then show ?thesis using updateBody_ok[of ts] by simp
  qed (auto dest: pg_lex_classified updateQualifiers_classified)
qed

lemma insertRows_classified: "insertRows ins schema = Inl e \<Longrightarrow> classified e"
  by (auto simp: insertRows_def Let_def dest!: mapE_eq_Inl insertRow_classified)

lemma updateLower_classified:
  "updateLower u schema = Inl e \<Longrightarrow> whereShape (updWhere u) \<Longrightarrow> classified e"
  by (auto simp: updateLower_def Let_def bindE_eq_Inl dest!: mapE_eq_Inl writeLiteral_classified
      dest: whereFilter_classified whereShape_knownOps)

subsection \<open>Properties\<close>

text \<open>Every row of a parsed INSERT gets exactly one value for each target column, the value
  at the column's own position in its VALUES group in the column's encoding, and no other
  column; without a column list the targets are the schema's fields in order.\<close>

theorem insertRows_values:
  assumes "pg_ParseInsert sql = Inr ins" "insertRows ins (Some sch) = Inr rows" "schema_view sch"
  shows "let cols = (if insColumns ins = [] then Fields sch else insColumns ins) in
    list_all2 (\<lambda>lits row. length lits = length cols \<and> dom (map_of row) = set cols \<and>
      (\<forall>i < length cols. \<exists>v. writeLiteral (lits ! i) (cols ! i) sch = Inr v \<and>
         map_of row (cols ! i) = Some v)) (insRows ins) rows"
proof -
  let ?cols = "if insColumns ins = [] then Fields sch else insColumns ins"
  have distinct: "distinct ?cols"
    using pg_ParseInsert_shape[OF assms(1)] schema_view.fields_distinct[OF assms(3)]
    by (simp add: insertShape_def)
  have "list_all2 (\<lambda>lits row. insertRow sch ?cols lits = Inr row) (insRows ins) rows"
    using assms(2) by (simp add: insertRows_def mapE_eq_Inr schemaOrEmpty_def)
  then show ?thesis
    unfolding Let_def by (rule list_all2_mono) (rule insertRow_values[OF _ distinct])
qed

text \<open>A parsed INSERT names no column twice and has at least one VALUES group, all of the
  same positive arity.\<close>

theorem pg_ParseInsert_wf:
  assumes "pg_ParseInsert sql = Inr ins"
  shows "insertShape ins"
  using assms by (rule pg_ParseInsert_shape)

text \<open>Parsing and lowering a write statement, whatever its bytes and the schema, terminates
  with a result or with an error of one of the three SQLSTATE classes.\<close>

theorem pg_write_errors_classified:
  assumes "bindE (pg_ParseInsert sql) (\<lambda>ins. insertRows ins schema) = Inl e \<or>
    bindE (pg_ParseUpdate sql) (\<lambda>u. updateLower u schema) = Inl e"
  shows "classified e"
  using assms
  by (auto simp: bindE_eq_Inl dest: pg_ParseInsert_classified insertRows_classified
      pg_ParseUpdate_classified updateLower_classified pg_ParseUpdate_shape)


text \<open>The check for repeated assignments runs before qualifiers are resolved, so one column
  written once plain and once qualified is assigned twice and the last assignment wins.\<close>

theorem pg_update_repeat_accepted:
  "(case pg_ParseUpdate ''UPDATE t SET a = 1, t.a = 2 WHERE b'' of
      Inl _ \<Rightarrow> False
    | Inr u \<Rightarrow> (case updateLower u None of
         Inl _ \<Rightarrow> False | Inr (sets, p) \<Rightarrow> map_of sets ''a'' = Some (GNum ''2'') \<and> \<not> pNoMatch p))"
  by code_simp

definition sampleInsert :: insertStmt where
  "sampleInsert = \<lparr>insTable = ''t'', insColumns = [''k'', ''v''],
     insRows = [[mkLit LitNumber ''-5'', mkLit LitNull []]]\<rparr>"

lemma sampleInsert_parse: "pg_ParseInsert ''INSERT INTO t (k, v) VALUES (-5, NULL)'' = Inr sampleInsert"
proof -
  have "(case pg_ParseInsert ''INSERT INTO t (k, v) VALUES (-5, NULL)'' of Inl _ \<Rightarrow> False
     | Inr s \<Rightarrow> insTable s = ''t'' \<and> insColumns s = [''k'', ''v''] \<and>
         map (map (\<lambda>l. (litK l, litText l))) (insRows s) = [[(LitNumber, ''-5''), (LitNull, [])]])"
    by code_simp
  then show ?thesis
    by (auto simp: sampleInsert_def mkLit_def split: sum.splits)
qed

lemma insertRows_values_witness:
  "dom (map_of [(''k'', GNum ''-5''), (''v'', GNil)]) = {''k'', ''v''}"
proof -
  have "insertRows sampleInsert (Some (MapSchema [])) = Inr [[(''k'', GNum ''-5''), (''v'', GNil)]]"
    by (simp add: insertRows_def sampleInsert_def schemaOrEmpty_def insertRow_def writeLiteral_def
        mkLit_def assignAll_def)
  from insertRows_values[OF sampleInsert_parse this emptySchema.schema_view_axioms]
  show ?thesis by (simp add: sampleInsert_def Let_def)
qed

lemma pg_ParseInsert_wf_witness: "insertShape sampleInsert"
  by (rule pg_ParseInsert_wf[OF sampleInsert_parse])

lemma pg_write_errors_classified_witness:
  "classified (pg_parseErrf [T ''INSERT has '', D 2, T '' values but '', D 0, T '' target columns''])"
proof (rule pg_write_errors_classified[of "''INSERT INTO t VALUES (1, 2)''" None])
  have "(case pg_ParseInsert ''INSERT INTO t VALUES (1, 2)'' of Inl _ \<Rightarrow> False
     | Inr s \<Rightarrow> insTable s = ''t'' \<and> insColumns s = [] \<and>
         map (map (\<lambda>l. (litK l, litText l))) (insRows s) = [[(LitNumber, ''1''), (LitNumber, ''2'')]])"
    by code_simp
  then obtain ins where "pg_ParseInsert ''INSERT INTO t VALUES (1, 2)'' = Inr ins" "insColumns ins = []"
    "map (map (\<lambda>l. (litK l, litText l))) (insRows ins) = [[(LitNumber, ''1''), (LitNumber, ''2'')]]"
    by (auto split: sum.splits)
  moreover from this(3) obtain a b where "insRows ins = [[a, b]]" by auto
  ultimately show "bindE (pg_ParseInsert ''INSERT INTO t VALUES (1, 2)'') (\<lambda>ins. insertRows ins None) =
      Inl (pg_parseErrf [T ''INSERT has '', D 2, T '' values but '', D 0, T '' target columns'']) \<or>
    bindE (pg_ParseUpdate ''INSERT INTO t VALUES (1, 2)'') (\<lambda>u. updateLower u None) =
      Inl (pg_parseErrf [T ''INSERT has '', D 2, T '' values but '', D 0, T '' target columns''])"
    by (simp add: insertRows_def schemaOrEmpty_def MapSchema_def sortStrings_def insertRow_def)
qed


end
