(* ===== verification/StoreSchema.thy ===== *)
theory StoreSchema
  imports Plan
begin

text \<open>
  The store's view of a collection: the metadata of \<open>internal/catalog/catalog.go\<close>, its projection
  from the described collection (\<open>catalogMeta\<close> and \<open>nativeTypeName\<close> of \<open>internal/store/cluster.go\<close>)
  and the schema the translators see (\<open>Schema\<close> and \<open>translateFieldType\<close> of
  \<open>internal/store/milvus.go\<close>).

  A described collection is the client library's struct; the record has the members the source
  reads. Its type parameters are a Go map, where a missing key reads as the empty string.
\<close>

subsection \<open>Described collections\<close>

datatype dataType =
    DtBool | DtInt8 | DtInt16 | DtInt32 | DtInt64 | DtFloat | DtDouble
  | DtString | DtVarChar | DtText | DtJSON | DtArray
  | DtFloatVector | DtFloat16Vector | DtBFloat16Vector | DtBinaryVector | DtInt8Vector | DtSparseVector
  | DtTimestamptz | DtOther

record entityField =
  efName :: string
  efType :: dataType
  efPrimary :: bool
  efNullable :: bool
  efAutoID :: bool
  efParams :: "(string \<times> string) list"
  efElement :: dataType

record collection =
  collName :: string
  collFields :: "entityField list"
  collFunctions :: "string list list"   \<comment> \<open>the output fields of each schema function\<close>

definition typeParam :: "(string \<times> string) list \<Rightarrow> string \<Rightarrow> string" where
  "typeParam ps key = (case map_of ps key of None \<Rightarrow> [] | Some v \<Rightarrow> v)"

text \<open>\<open>strconv.Atoi\<close> with its error ignored: 0 for a text that is no number, the nearest integer for
  one that is out of range.\<close>

definition AtoiValue :: "string \<Rightarrow> int" where
  "AtoiValue s = (let (neg, ds) = takeSign s in
     if ds = [] \<or> \<not> list_all isDigit ds then 0
     else let n = int (natOfDigits ds) in
       if neg then max minInt64 (- n) else min maxInt64 n)"

definition typeParamInt :: "(string \<times> string) list \<Rightarrow> string \<Rightarrow> int" where
  "typeParamInt ps key = AtoiValue (typeParam ps key)"

subsection \<open>Field types\<close>

fun translateFieldType :: "dataType \<Rightarrow> (string \<times> string) list \<Rightarrow> fieldType" where
  "translateFieldType DtVarChar ps =
     (if typeParam ps ''enable_analyzer'' = ''true'' then TypeText else TypeKeyword)"
| "translateFieldType DtInt8 ps = TypeNumber"
| "translateFieldType DtInt16 ps = TypeNumber"
| "translateFieldType DtInt32 ps = TypeNumber"
| "translateFieldType DtInt64 ps = TypeNumber"
| "translateFieldType DtFloat ps = TypeNumber"
| "translateFieldType DtDouble ps = TypeNumber"
| "translateFieldType DtBool ps = TypeBool"
| "translateFieldType DtFloatVector ps = TypeVector"
| "translateFieldType _ ps = TypeUnknown"

fun nativeTypeName :: "dataType \<Rightarrow> string" where
  "nativeTypeName DtBool = ''bool''"
| "nativeTypeName DtInt8 = ''int8''"
| "nativeTypeName DtInt16 = ''int16''"
| "nativeTypeName DtInt32 = ''int32''"
| "nativeTypeName DtInt64 = ''int64''"
| "nativeTypeName DtFloat = ''float32''"
| "nativeTypeName DtDouble = ''float64''"
| "nativeTypeName DtString = ''string''"
| "nativeTypeName DtVarChar = ''string''"
| "nativeTypeName DtText = ''string''"
| "nativeTypeName DtJSON = ''json''"
| "nativeTypeName DtArray = ''array''"
| "nativeTypeName DtFloatVector = ''float_vector''"
| "nativeTypeName DtFloat16Vector = ''float16_vector''"
| "nativeTypeName DtBFloat16Vector = ''bfloat16_vector''"
| "nativeTypeName DtBinaryVector = ''binary_vector''"
| "nativeTypeName DtInt8Vector = ''int8_vector''"
| "nativeTypeName DtSparseVector = ''sparse_float_vector''"
| "nativeTypeName DtTimestamptz = ''timestamptz''"
| "nativeTypeName DtOther = ''unknown''"

subsection \<open>Projections\<close>

definition functionOutputFields :: "collection \<Rightarrow> string list" where
  "functionOutputFields coll = concat (collFunctions coll)"

definition isFunctionOutput :: "string \<Rightarrow> string list \<Rightarrow> bool" where
  "isFunctionOutput name outs = list_ex (\<lambda>f. f = name) outs"

record fieldMeta =
  fmName :: string
  fmType :: fieldType
  fmPrimary :: bool
  fmNullable :: bool
  fmDim :: int
  fmMaxLength :: int
  fmNative :: string
  fmAutoID :: bool
  fmElement :: string

record collectionMeta =
  cmName :: string
  cmFields :: "fieldMeta list"
  cmFunctionOutputs :: "string list"

definition metaOf :: "entityField \<Rightarrow> fieldMeta" where
  "metaOf f = \<lparr>fmName = efName f, fmType = translateFieldType (efType f) (efParams f),
     fmPrimary = efPrimary f, fmNullable = efNullable f, fmDim = typeParamInt (efParams f) ''dim'',
     fmMaxLength = typeParamInt (efParams f) ''max_length'', fmNative = nativeTypeName (efType f),
     fmAutoID = efAutoID f, fmElement = nativeTypeName (efElement f)\<rparr>"

definition storedFields :: "collection \<Rightarrow> entityField list" where
  "storedFields coll = filter (\<lambda>f. \<not> isFunctionOutput (efName f) (functionOutputFields coll)) (collFields coll)"

definition catalogMeta :: "collection \<Rightarrow> collectionMeta" where
  "catalogMeta coll = \<lparr>cmName = collName coll, cmFields = map metaOf (storedFields coll),
     cmFunctionOutputs = functionOutputFields coll\<rparr>"

text \<open>The schema view is filled field by field into Go maps, so a later field wins.\<close>

fun schemaTypes :: "entityField list \<Rightarrow> (string \<times> fieldType) list \<Rightarrow> (string \<times> fieldType) list" where
  "schemaTypes [] m = m"
| "schemaTypes (f # fs) m = schemaTypes fs (setKey (efName f) (translateFieldType (efType f) (efParams f)) m)"

definition schemaNulls :: "entityField list \<Rightarrow> string \<Rightarrow> bool" where
  "schemaNulls fs name = list_ex (\<lambda>f. efName f = name \<and> efNullable f) fs"

definition collectionSchema :: "collection \<Rightarrow> schema" where
  "collectionSchema coll =
     (let fs = storedFields coll in
      \<lparr>FieldType = FieldType (MapSchema (schemaTypes fs [])), Fields = map efName fs,
       NullableExt = Some (schemaNulls fs)\<rparr>)"

subsection \<open>The schema contract\<close>

lemma isFunctionOutput_iff: "isFunctionOutput name outs \<longleftrightarrow> name \<in> set outs"
  by (auto simp: isFunctionOutput_def list_ex_iff)

lemma storedFields_stored: "f \<in> set (storedFields coll) \<Longrightarrow> efName f \<notin> set (functionOutputFields coll)"
  by (simp add: storedFields_def isFunctionOutput_iff)

lemma map_of_schemaTypes:
  "distinct (map efName fs) \<Longrightarrow> map_of (schemaTypes fs m) name =
     (case find (\<lambda>f. efName f = name) fs of
        Some f \<Rightarrow> Some (translateFieldType (efType f) (efParams f))
      | None \<Rightarrow> map_of m name)"
proof (induction fs m rule: schemaTypes.induct)
  case (2 f fs m)
  have "find (\<lambda>g. efName g = name) fs = None" if "efName f = name"
    using 2(2) that unfolding find_None_iff by (metis distinct.simps(2) image_eqI list.simps(9) list.set_map)
  with 2 show ?case by (auto split: option.split)
qed simp

lemma dom_schemaTypes: "fst ` set (schemaTypes fs m) = efName ` set fs \<union> fst ` set m"
  by (induction fs m rule: schemaTypes.induct) (auto simp: fst_setKey)

text \<open>The store's schema satisfies the interface the translators rely on.\<close>

lemma collection_schema_view:
  assumes "distinct (map efName (collFields coll))"
  shows "schema_view (collectionSchema coll)"
proof
  show "distinct (Fields (collectionSchema coll))"
    using assms by (simp add: collectionSchema_def storedFields_def Let_def distinct_map_filter)
next
  fix f
  assume "FieldType (collectionSchema coll) f \<noteq> TypeUnknown"
  then have "map_of (schemaTypes (storedFields coll) []) f \<noteq> None"
    by (auto simp: collectionSchema_def MapSchema_def Let_def split: option.splits)
  then have "f \<in> fst ` set (schemaTypes (storedFields coll) [])"
    by (simp add: map_of_eq_None_iff)
  then show "f \<in> set (Fields (collectionSchema coll))"
    by (simp add: dom_schemaTypes collectionSchema_def Let_def)
qed

end
