(* ===== verification/GoJson.thy ===== *)
theory GoJson
  imports Prelude
begin

text \<open>
  Which byte strings are JSON texts, as \<open>encoding/json\<close> decides it: the package's scanner, one
  step per byte, with its parse stack and its nesting limit. \<open>isValidJSON\<close> of
  \<open>internal/store/write.go\<close> decodes one value and then asks for the end of the input, which is
  one run of this machine.
\<close>

datatype jsonNest = InKey | InObject | InArray

datatype jsonState =
    BeginValue              \<comment> \<open>a value must start\<close>
  | BeginValueOrEmpty       \<comment> \<open>after \<open>[\<close>\<close>
  | BeginStringOrEmpty      \<comment> \<open>after \<open>{\<close>\<close>
  | BeginString             \<comment> \<open>after a comma in an object\<close>
  | EndValue                \<comment> \<open>after a value inside a container\<close>
  | EndTop                  \<comment> \<open>after the top value\<close>
  | InString
  | InEscape
  | InHex nat               \<comment> \<open>hex digits still wanted\<close>
  | InMinus
  | InDigits
  | InZero
  | InDot
  | InFraction
  | InExp
  | InExpSign
  | InExpDigits
  | InLiteral string        \<comment> \<open>the rest of \<open>true\<close>, \<open>false\<close> or \<open>null\<close>\<close>

type_synonym jsonMachine = "jsonState \<times> jsonNest list"

definition maxNesting :: nat where "maxNesting = 10000"

definition jsonSpace :: "char \<Rightarrow> bool" where
  "jsonSpace c \<longleftrightarrow> byte c = 32 \<or> byte c = 9 \<or> byte c = 10 \<or> byte c = 13"

definition hexDigit :: "char \<Rightarrow> bool" where
  "hexDigit c \<longleftrightarrow> isDigit c \<or> 97 \<le> byte c \<and> byte c \<le> 102 \<or> 65 \<le> byte c \<and> byte c \<le> 70"

text \<open>The state after a value: of the whole text, or of the innermost container.\<close>

definition afterValue :: "jsonNest list \<Rightarrow> jsonMachine" where
  "afterValue st = (if st = [] then EndTop else EndValue, st)"

definition openNest :: "jsonState \<Rightarrow> jsonNest \<Rightarrow> jsonNest list \<Rightarrow> jsonMachine option" where
  "openNest s n st = (if length st < maxNesting then Some (s, n # st) else None)"

definition beginValue :: "jsonNest list \<Rightarrow> char \<Rightarrow> jsonMachine option" where
  "beginValue st c =
     (if jsonSpace c then Some (BeginValue, st)
      else if c = CHR ''{'' then openNest BeginStringOrEmpty InKey st
      else if c = CHR ''['' then openNest BeginValueOrEmpty InArray st
      else if byte c = 34 then Some (InString, st)
      else if c = CHR ''-'' then Some (InMinus, st)
      else if c = CHR ''0'' then Some (InZero, st)
      else if c = CHR ''t'' then Some (InLiteral ''rue'', st)
      else if c = CHR ''f'' then Some (InLiteral ''alse'', st)
      else if c = CHR ''n'' then Some (InLiteral ''ull'', st)
      else if isDigit c then Some (InDigits, st)
      else None)"

definition endValue :: "jsonNest list \<Rightarrow> char \<Rightarrow> jsonMachine option" where
  "endValue st c =
     (case st of
        [] \<Rightarrow> if jsonSpace c then Some (EndTop, []) else None
      | n # st' \<Rightarrow>
          if jsonSpace c then Some (EndValue, st)
          else (case n of
              InKey \<Rightarrow> if c = CHR '':'' then Some (BeginValue, InObject # st') else None
            | InObject \<Rightarrow>
                if c = CHR '','' then Some (BeginString, InKey # st')
                else if c = CHR ''}'' then Some (afterValue st') else None
            | InArray \<Rightarrow>
                if c = CHR '','' then Some (BeginValue, st)
                else if c = CHR '']'' then Some (afterValue st') else None))"

definition beginString :: "jsonNest list \<Rightarrow> char \<Rightarrow> jsonMachine option" where
  "beginString st c =
     (if jsonSpace c then Some (BeginString, st)
      else if byte c = 34 then Some (InString, st) else None)"

definition isExpLetter :: "char \<Rightarrow> bool" where
  "isExpLetter c \<longleftrightarrow> c = CHR ''e'' \<or> c = CHR ''E''"

fun jsonStep :: "jsonMachine \<Rightarrow> char \<Rightarrow> jsonMachine option" where
  "jsonStep (BeginValue, st) c = beginValue st c"
| "jsonStep (BeginValueOrEmpty, st) c =
     (if jsonSpace c then Some (BeginValueOrEmpty, st)
      else if c = CHR '']'' then endValue st c else beginValue st c)"
| "jsonStep (BeginStringOrEmpty, st) c =
     (if jsonSpace c then Some (BeginStringOrEmpty, st)
      else if c = CHR ''}'' then endValue (InObject # tl st) c else beginString st c)"
| "jsonStep (BeginString, st) c = beginString st c"
| "jsonStep (EndValue, st) c = endValue st c"
| "jsonStep (EndTop, st) c = (if jsonSpace c then Some (EndTop, st) else None)"
| "jsonStep (InString, st) c =
     (if byte c = 34 then Some (afterValue st)
      else if byte c = 92 then Some (InEscape, st)
      else if byte c < 32 then None else Some (InString, st))"
| "jsonStep (InEscape, st) c =
     (if byte c = 34 \<or> byte c = 92 \<or> c \<in> set ''bfnrt/'' then Some (InString, st)
      else if c = CHR ''u'' then Some (InHex 4, st) else None)"
| "jsonStep (InHex n, st) c =
     (if hexDigit c then Some (if n \<le> 1 then InString else InHex (n - 1), st) else None)"
| "jsonStep (InMinus, st) c =
     (if c = CHR ''0'' then Some (InZero, st)
      else if isDigit c then Some (InDigits, st) else None)"
| "jsonStep (InDigits, st) c =
     (if isDigit c then Some (InDigits, st)
      else if c = CHR ''.'' then Some (InDot, st)
      else if isExpLetter c then Some (InExp, st) else endValue st c)"
| "jsonStep (InZero, st) c =
     (if c = CHR ''.'' then Some (InDot, st)
      else if isExpLetter c then Some (InExp, st) else endValue st c)"
| "jsonStep (InDot, st) c = (if isDigit c then Some (InFraction, st) else None)"
| "jsonStep (InFraction, st) c =
     (if isDigit c then Some (InFraction, st)
      else if isExpLetter c then Some (InExp, st) else endValue st c)"
| "jsonStep (InExp, st) c =
     (if c = CHR ''+'' \<or> c = CHR ''-'' then Some (InExpSign, st)
      else if isDigit c then Some (InExpDigits, st) else None)"
| "jsonStep (InExpSign, st) c = (if isDigit c then Some (InExpDigits, st) else None)"
| "jsonStep (InExpDigits, st) c = (if isDigit c then Some (InExpDigits, st) else endValue st c)"
| "jsonStep (InLiteral w, st) c =
     (case w of
        [] \<Rightarrow> endValue st c
      | x # w' \<Rightarrow> if c = x then Some (if w' = [] then afterValue st else (InLiteral w', st)) else None)"

fun jsonRun :: "jsonMachine \<Rightarrow> string \<Rightarrow> jsonMachine option" where
  "jsonRun m [] = Some m"
| "jsonRun m (c # s) = (case jsonStep m c of None \<Rightarrow> None | Some m' \<Rightarrow> jsonRun m' s)"

definition isValidJSON :: "string \<Rightarrow> bool" where
  "isValidJSON s \<longleftrightarrow> jsonRun (BeginValue, []) (s @ '' '') = Some (EndTop, [])"

subsection \<open>Runs\<close>

lemma jsonRun_append:
  "jsonRun m (s @ t) = (case jsonRun m s of None \<Rightarrow> None | Some m' \<Rightarrow> jsonRun m' t)"
  by (induction m s rule: jsonRun.induct) (auto split: option.split)

text \<open>The stack invariant: a container state has a container, and the whole text ends outside all.\<close>

fun jsonInv :: "jsonMachine \<Rightarrow> bool" where
  "jsonInv (EndTop, st) = (st = [])"
| "jsonInv (EndValue, st) = (st \<noteq> [])"
| "jsonInv (BeginValueOrEmpty, st) = (\<exists>r. st = InArray # r)"
| "jsonInv (BeginStringOrEmpty, st) = (\<exists>r. st = InKey # r)"
| "jsonInv (BeginString, st) = (\<exists>r. st = InKey # r)"
| "jsonInv (BeginValue, st) = (\<forall>r. st \<noteq> InKey # r)"
| "jsonInv (InLiteral w, st) = (w \<noteq> [])"
| "jsonInv m = True"

lemma afterValue_inv [simp]: "jsonInv (afterValue st)"
  by (simp add: afterValue_def)

end
