(* ===== verification/GoFloat32.thy ===== *)
theory GoFloat32
  imports GoStrconv
begin

text \<open>
  Rounding to 32-bit floats is idempotent, and stays within the largest finite one: what the
  store reads back from a \<open>float32\<close> column it accepts again unchanged.
\<close>

lemma less_pow_bitLen: "n < 2 ^ bitLen n"
proof (induction n rule: bitLen.induct)
  case (1 n)
  show ?case
  proof (cases "n = 0")
    case False
    then have "n div 2 < 2 ^ bitLen (n div 2)" by (rule 1)
    then have "n < 2 * 2 ^ bitLen (n div 2)" by linarith
    with False show ?thesis by (subst bitLen.simps) simp
  qed (simp add: bitLen.simps)
qed

lemma bitLen_le: "n < 2 ^ b \<Longrightarrow> bitLen n \<le> b"
proof (induction n arbitrary: b rule: bitLen.induct)
  case (1 n)
  show ?case
  proof (cases "n = 0")
    case False
    then obtain b' where b: "b = Suc b'" using 1(2) by (cases b) auto
    then have "n div 2 < 2 ^ b'" using 1(2) by simp
    with False 1(1) b show ?thesis by (subst bitLen.simps) simp
  qed (simp add: bitLen.simps)
qed

lemma roundHalfEven_exact: "0 < d \<Longrightarrow> roundHalfEven (m * d) d = m"
  by (simp add: roundHalfEven_def Let_def)

lemma roundHalfEven_le: "0 < d \<Longrightarrow> n \<le> m * d \<Longrightarrow> roundHalfEven n d \<le> m"
proof -
  assume d: "0 < d" and n: "n \<le> m * d"
  have q: "n div d \<le> m" using div_le_mono[OF n, of d] d by simp
  show ?thesis
  proof (cases "n div d = m")
    case True
    then have "n mod d = 0" using n d by (metis div_mult_mod_eq le_add_same_cancel1 le_antisym mult.commute le_refl le_zero_eq add_le_same_cancel1)
    then show ?thesis using True d by (simp add: roundHalfEven_def Let_def)
  next
    case False
    with q show ?thesis by (simp add: roundHalfEven_def Let_def)
  qed
qed

definition shift32 :: "nat \<Rightarrow> nat" where
  "shift32 u = max 925 (bitLen u - 24)"

definition limit32 :: nat where "limit32 = 2 ^ 1202"

lemma shift32_le: "925 \<le> k \<Longrightarrow> bitLen v \<le> 24 + k \<Longrightarrow> shift32 v \<le> k"
  by (simp add: shift32_def)

lemma shift32_ge: "925 \<le> shift32 u"
  by (simp add: shift32_def)

lemma round32_units:
  "round32 u 1 = (let v = roundHalfEven u (2 ^ shift32 u) * 2 ^ shift32 u in if v < limit32 then Some v else None)"
  unfolding round32_def roundUnits_def shift32_def Let_def limit32_def div_by_1 mult_1 ..

text \<open>A multiple of its own rounding step is kept.\<close>

lemma round32_fixed:
  assumes "u = m * 2 ^ k" "shift32 u \<le> k" "u < limit32"
  shows "round32 u 1 = Some u"
proof -
  obtain j where k: "k = j + shift32 u" using assms(2) by (metis add.commute le_Suc_ex)
  then have "u = (m * 2 ^ j) * 2 ^ shift32 u" using assms(1) by (metis mult.assoc power_add)
  then have "roundHalfEven u (2 ^ shift32 u) * 2 ^ shift32 u = u"
    by (metis roundHalfEven_exact zero_less_numeral zero_less_power)
  with assms(3) show ?thesis unfolding round32_units Let_def by simp
qed

lemma round32_mantissa: "roundHalfEven u (2 ^ shift32 u) \<le> 2 ^ 24"
proof -
  have "u \<le> 2 ^ 24 * 2 ^ shift32 u"
  proof -
    have "bitLen u \<le> 24 + shift32 u" by (simp add: shift32_def)
    then have "(2::nat) ^ bitLen u \<le> 2 ^ (24 + shift32 u)" by (rule power_increasing) simp
    with less_pow_bitLen[of u] show ?thesis by (simp add: power_add)
  qed
  then show ?thesis by (intro roundHalfEven_le) simp_all
qed

lemma round32_idem:
  assumes "round32 u 1 = Some v"
  shows "round32 v 1 = Some v"
proof -
  let ?k = "shift32 u" and ?m = "roundHalfEven u (2 ^ shift32 u)"
  from assms have v: "v = ?m * 2 ^ ?k" "v < limit32"
    unfolding round32_units Let_def by (simp_all split: if_splits)
  show ?thesis
  proof (cases "?m = 2 ^ 24")
    case True
    then have v': "v = 2 ^ 23 * 2 ^ (Suc ?k)" using v by simp
    have "v < 2 ^ (25 + ?k)" unfolding v' by (simp add: power_add)
    then have "bitLen v \<le> 25 + ?k" by (rule bitLen_le)
    then have "shift32 v \<le> Suc ?k" using shift32_ge[of u] by (intro shift32_le) simp_all
    from round32_fixed[OF v' this v(2)] show ?thesis .
  next
    case False
    with round32_mantissa[of u] have m: "?m < 2 ^ 24" by (rule le_neq_implies_less)
    then have "?m * 2 ^ ?k < 2 ^ 24 * 2 ^ ?k" by (rule mult_strict_right_mono) simp
    then have "v < 2 ^ (24 + ?k)" unfolding v(1) by (simp only: power_add)
    then have "bitLen v \<le> 24 + ?k" by (rule bitLen_le)
    then have "shift32 v \<le> ?k" by (rule shift32_le[OF shift32_ge])
    from round32_fixed[OF v(1) this v(2)] show ?thesis .
  qed
qed

text \<open>The largest finite 32-bit float, in units.\<close>

definition maxFloat32Units :: nat where "maxFloat32Units = (2 ^ 24 - 1) * 2 ^ 1178"

lemma round32_bounded:
  assumes "u \<le> maxFloat32Units"
  shows "\<exists>v. round32 u 1 = Some v \<and> v \<le> maxFloat32Units"
proof -
  let ?k = "shift32 u" and ?m = "roundHalfEven u (2 ^ shift32 u)"
  have "u < 2 ^ 24 * 2 ^ 1178" using assms unfolding maxFloat32Units_def
    by (rule le_less_trans) (rule mult_strict_right_mono, simp_all)
  then have "u < 2 ^ (24 + 1178)" by (simp only: power_add)
  then have "bitLen u \<le> 24 + 1178" by (rule bitLen_le)
  then have k: "?k \<le> 1178" by (simp add: shift32_def)
  have "?m * 2 ^ ?k \<le> maxFloat32Units"
  proof (cases "?k = 1178")
    case True
    have "?m \<le> 2 ^ 24 - 1"
      using assms by (intro roundHalfEven_le) (simp_all only: maxFloat32Units_def True, simp)
    then show ?thesis unfolding maxFloat32Units_def True by (rule mult_le_mono1)
  next
    case False
    with k have "?k \<le> 1177" by simp
    then have "(2::nat) ^ ?k \<le> 2 ^ 1177" by (rule power_increasing) simp
    then have "?m * 2 ^ ?k \<le> 2 ^ 24 * 2 ^ 1177" by (rule mult_le_mono[OF round32_mantissa])
    also have "(2::nat) ^ 24 * 2 ^ 1177 = 2 ^ 23 * 2 ^ 1178" by (simp add: power_add[symmetric])
    also have "\<dots> \<le> maxFloat32Units" unfolding maxFloat32Units_def by (rule mult_le_mono1) simp
    finally show ?thesis .
  qed
  moreover have "maxFloat32Units < limit32"
  proof -
    have "maxFloat32Units < 2 ^ 24 * 2 ^ 1178"
      unfolding maxFloat32Units_def by (rule mult_strict_right_mono) simp_all
    also have "(2::nat) ^ 24 * 2 ^ 1178 = limit32" unfolding limit32_def power_add[symmetric] by simp
    finally show ?thesis .
  qed
  ultimately show ?thesis unfolding round32_units Let_def by auto
qed

lemma toFloat32_idem: "toFloat32 (toFloat32 y) = toFloat32 y"
proof (cases y)
  case (Fin s u)
  then show ?thesis by (cases "round32 u 1") (simp_all add: round32_idem[unfolded One_nat_def])
qed simp_all

end
