(* ===== verification/GoFmt.thy ===== *)
theory GoFmt
  imports Plan
begin

text \<open>
  The text of a Go value under the verb \<open>%v\<close>, which the store compares and shows for cells it
  has no case for: integers in decimal, floats in the shortest form that reads back at their
  width (in exponent form below 1e-4 and from 1e+06 on), byte strings and vectors as
  bracketed lists.
\<close>

text \<open>The shortest digits for a rounding \<open>rnd\<close> of the width, as in \<open>digitsAt\<close> and \<open>shortest\<close>.\<close>

definition digitsFor :: "(nat \<Rightarrow> nat \<Rightarrow> nat option) \<Rightarrow> nat \<Rightarrow> int \<Rightarrow> nat \<Rightarrow> (nat \<times> int) option" where
  "digitsFor rnd u e n =
     (let k = e - int n + 1;
          num = (if 0 \<le> k then u else u * 10 ^ nat (- k));
          den = (if 0 \<le> k then unitsPerOne * 10 ^ nat k else unitsPerOne);
          lo = num div den;
          back = (\<lambda>m. if 0 \<le> k then rnd (m * 10 ^ nat k * unitsPerOne) 1
                       else rnd (m * unitsPerOne) (10 ^ nat (- k)));
          near = roundHalfEven num den;
          far = (if near = lo then lo + 1 else lo)
      in if back near = Some u then Some (near, k)
         else if back far = Some u then Some (far, k) else None)"

fun shortestFor :: "(nat \<Rightarrow> nat \<Rightarrow> nat option) \<Rightarrow> nat \<Rightarrow> int \<Rightarrow> nat list \<Rightarrow> nat \<times> int" where
  "shortestFor rnd u e [] = (u * exactScale, - 1074)"
| "shortestFor rnd u e (n # ns) = (case digitsFor rnd u e n of Some r \<Rightarrow> r | None \<Rightarrow> shortestFor rnd u e ns)"

definition stripZeros :: "string \<Rightarrow> string" where
  "stripZeros ds = rev (dropWhile (\<lambda>c. c = CHR ''0'') (rev ds))"

definition exponentText :: "int \<Rightarrow> string" where
  "exponentText x = (if x < 0 then ''-'' else ''+'') @
     (let ds = showNat (nat \<bar>x\<bar>) in if length ds < 2 then ''0'' @ ds else ds)"

definition decimalG :: "nat \<Rightarrow> int \<Rightarrow> string" where
  "decimalG m k =
     (let ds = showNat m; x = int (length ds) - 1 + k in
      if x < - 4 \<or> 6 \<le> x
      then (let sig = stripZeros ds in
            hd sig # (if tl sig = [] then [] else ''.'' @ tl sig) @ ''e'' @ exponentText x)
      else positional m k)"

fun formatG :: "(nat \<Rightarrow> nat \<Rightarrow> nat option) \<Rightarrow> gofloat \<Rightarrow> string" where
  "formatG rnd NaN = ''NaN''"
| "formatG rnd (Inf s) = (if s then ''-Inf'' else ''+Inf'')"
| "formatG rnd (Fin s u) =
     (if s then ''-'' else '''') @
     (if u = 0 then ''0''
      else let (m, k) = shortestFor rnd u (leadExp 640 309 u) [1..<18] in decimalG m k)"

definition bracketed :: "string list \<Rightarrow> string" where
  "bracketed ws = ''['' @ joinStr '' '' ws @ '']''"

fun showV :: "gval \<Rightarrow> string" where
  "showV GNil = ''<nil>''"
| "showV (GStr s) = s"
| "showV (GNum s) = s"
| "showV (GBool b) = (if b then ''true'' else ''false'')"
| "showV (GInt64 n) = FormatInt n"
| "showV (GInt n) = FormatInt n"
| "showV (GInt32 n) = FormatInt n"
| "showV (GInt16 n) = FormatInt n"
| "showV (GInt8 n) = FormatInt n"
| "showV (GFloat64 y) = formatG round64 y"
| "showV (GFloat32 y) = formatG round32 y"
| "showV (GVec ys) = bracketed (map (formatG round32) ys)"
| "showV (GFloatVector ys) = bracketed (map (formatG round32) ys)"
| "showV (GRaw s) = bracketed (map (\<lambda>c. showNat (byte c)) s)"
| "showV (GBytes s) = bracketed (map (\<lambda>c. showNat (byte c)) s)"
| "showV (GOther s) = s"

end
