(* ===== verification/StoreWrite.thy ===== *)
theory StoreWrite
  imports StoreSchema GoJson GoFloat32 GoFmt
begin

text \<open>
  The strict write path, \<open>internal/store/write.go\<close>: validation of rows against the collection
  metadata, and the columns that are sent.

  A row is a Go map, here the list of its entries in iteration order, so the theorems hold for
  every order. A cell is a value of the write vocabulary, \<open>GNil\<close> the nil. A column is what the
  source passes to the client library's constructor: name, storage type, dimension, the packed
  values and, for a nullable field, the validity mask. A failed type assertion would panic, so
  a result may also be \<open>Panicked\<close>; the theorems exclude it. The client is a parameter.
\<close>

subsection \<open>Errors\<close>

datatype writeClass =
    ClassUnknownField | ClassFunctionField | ClassAutoID | ClassMissing | ClassNull
  | ClassType | ClassRange | ClassLength | ClassDim | ClassUnsupported

record writeError =
  weClass :: writeClass
  weField :: string
  weReason :: reason

definition writeErrf :: "writeClass \<Rightarrow> string \<Rightarrow> reason \<Rightarrow> writeError" where
  "writeErrf c f r = \<lparr>weClass = c, weField = f, weReason = r\<rparr>"

datatype writeFail = Rejected writeError | Panicked

definition renderValue :: "gval \<Rightarrow> piece" where
  "renderValue v =
     (case v of GStr x \<Rightarrow> Q x | GNum x \<Rightarrow> S x | GVec _ \<Rightarrow> S ''a vector'' | GFloatVector _ \<Rightarrow> S ''a vector''
      | _ \<Rightarrow> V ''v'')"

definition typeErrf :: "fieldMeta \<Rightarrow> gval \<Rightarrow> string \<Rightarrow> writeError" where
  "typeErrf f v want = writeErrf ClassType (fmName f)
     [T ''invalid value '', renderValue v, T '' for field ['', S (fmName f), T ''] of type '', S (fmNative f),
      T '': expected '', S want]"

subsection \<open>Numbers\<close>

definition limit53 :: nat where "limit53 = 2 ^ 53 * unitsPerOne"

definition belowLimit53 :: "gofloat \<Rightarrow> bool" where
  "belowLimit53 x = (case x of Fin _ u \<Rightarrow> u < limit53 | _ \<Rightarrow> False)"

definition toInt64 :: "gval \<Rightarrow> int option" where
  "toInt64 v =
     (case v of
        GNum x \<Rightarrow>
          (case ParseInt x of
             Some n \<Rightarrow> Some n
           | None \<Rightarrow>
               (case ParseFloat64 x of
                  None \<Rightarrow> None
                | Some y \<Rightarrow>
                    if isInf y \<or> \<not> isIntegral y \<or> \<not> belowLimit53 y then None else Some (truncInt y)))
      | GInt64 n \<Rightarrow> Some n
      | GInt n \<Rightarrow> Some n
      | GInt32 n \<Rightarrow> Some n
      | GFloat64 y \<Rightarrow> if \<not> isIntegral y \<or> \<not> belowLimit53 y then None else Some (truncInt y)
      | _ \<Rightarrow> None)"

definition toFloat64 :: "gval \<Rightarrow> gofloat option" where
  "toFloat64 v =
     (case v of
        GNum x \<Rightarrow> ParseFloat64 x
      | GFloat64 y \<Rightarrow> Some y
      | GFloat32 y \<Rightarrow> Some y
      | GInt64 n \<Rightarrow> Some (floatOfInt n)
      | GInt n \<Rightarrow> Some (floatOfInt n)
      | _ \<Rightarrow> None)"

definition intBoundaries :: "string \<Rightarrow> int \<times> int" where
  "intBoundaries native =
     (if native = ''int8'' then (-128, 127)
      else if native = ''int16'' then (-32768, 32767)
      else if native = ''int32'' then (-2147483648, 2147483647)
      else (minInt64, maxInt64))"

subsection \<open>One cell\<close>

definition writableNative :: "string \<Rightarrow> bool" where
  "writableNative native \<longleftrightarrow> native \<in> set
     [''string'', ''int8'', ''int16'', ''int32'', ''int64'', ''float32'', ''float64'', ''bool'', ''json'', ''float_vector'']"

definition intCell :: "string \<Rightarrow> int \<Rightarrow> gval" where
  "intCell native n =
     (if native = ''int8'' then GInt8 n else if native = ''int16'' then GInt16 n
      else if native = ''int32'' then GInt32 n else GInt64 n)"

definition writeString :: "fieldMeta \<Rightarrow> gval \<Rightarrow> writeError + gval" where
  "writeString f v =
     (case v of
        GStr s \<Rightarrow>
          if fmMaxLength f > 0 \<and> int (length s) > fmMaxLength f
          then Inl (writeErrf ClassLength (fmName f) [T ''string of '', D (int (length s)), T '' bytes exceeds field ['',
                 S (fmName f), T ''] max_length '', D (fmMaxLength f)])
          else Inr (GStr s)
      | _ \<Rightarrow> Inl (typeErrf f v ''a string''))"

definition writeInt :: "fieldMeta \<Rightarrow> gval \<Rightarrow> writeError + gval" where
  "writeInt f v =
     (case toInt64 v of
        None \<Rightarrow> Inl (typeErrf f v ''an integer'')
      | Some n \<Rightarrow>
          (let (lo, hi) = intBoundaries (fmNative f) in
           if n < lo \<or> n > hi
           then Inl (writeErrf ClassRange (fmName f) [T ''value '', D n, T '' is out of range for field ['',
                  S (fmName f), T ''] of type '', S (fmNative f)])
           else Inr (intCell (fmNative f) n)))"

definition writeFloat :: "fieldMeta \<Rightarrow> gval \<Rightarrow> writeError + gval" where
  "writeFloat f v =
     (case toFloat64 v of
        None \<Rightarrow> Inl (typeErrf f v ''a number'')
      | Some y \<Rightarrow>
          if isNaN y \<or> isInf y
          then Inl (writeErrf ClassRange (fmName f) [T ''NaN/Inf is not a writable value for field ['', S (fmName f), T '']''])
          else if fmNative f = ''float32'' \<and>
             (fless (Fin False maxFloat32Units) y \<or> fless y (Fin True maxFloat32Units))
          then Inl (writeErrf ClassRange (fmName f) [T ''value '', V ''v'', T '' is out of range for field ['',
                 S (fmName f), T ''] of type float32''])
          else if fmNative f = ''float32'' then Inr (GFloat32 (toFloat32 y))
          else Inr (GFloat64 y))"

definition writeJson :: "fieldMeta \<Rightarrow> gval \<Rightarrow> writeError + gval" where
  "writeJson f v =
     (case v of
        GRaw x \<Rightarrow> Inr (GBytes x)
      | GBytes x \<Rightarrow> Inr (GBytes x)
      | GStr x \<Rightarrow> if isValidJSON x then Inr (GBytes x) else Inl (typeErrf f v ''valid JSON'')
      | _ \<Rightarrow> Inl (typeErrf f v ''a JSON value''))"

definition writeVector :: "fieldMeta \<Rightarrow> gval \<Rightarrow> writeError + gval" where
  "writeVector f v0 =
     (let v = (case v0 of GFloatVector x \<Rightarrow> GVec x | _ \<Rightarrow> v0) in
      case v of
        GVec vec \<Rightarrow>
          if fmDim f > 0 \<and> int (length vec) \<noteq> fmDim f
          then Inl (writeErrf ClassDim (fmName f) [T ''vector for field ['', S (fmName f), T ''] has '', D (int (length vec)),
                 T '' dimensions, the schema requires '', D (fmDim f)])
          else if list_ex (\<lambda>x. isNaN x \<or> isInf x) vec
          then Inl (writeErrf ClassRange (fmName f) [T ''vector for field ['', S (fmName f), T ''] contains NaN/Inf''])
          else Inr (GVec vec)
      | _ \<Rightarrow> Inl (typeErrf f v ''an array of numbers''))"

definition writeBool :: "fieldMeta \<Rightarrow> gval \<Rightarrow> writeError + gval" where
  "writeBool f v = (case v of GBool b \<Rightarrow> Inr (GBool b) | _ \<Rightarrow> Inl (typeErrf f v ''a boolean''))"

definition writeValue :: "fieldMeta \<Rightarrow> gval \<Rightarrow> writeError + gval" where
  "writeValue f v =
     (if v = GNil then
        (if \<not> fmNullable f
         then Inl (writeErrf ClassNull (fmName f) [T ''field ['', S (fmName f), T ''] is not nullable; NULL is rejected''])
         else Inr GNil)
      else if fmNative f = ''string'' then writeString f v
      else if fmNative f \<in> set [''int8'', ''int16'', ''int32'', ''int64''] then writeInt f v
      else if fmNative f \<in> set [''float32'', ''float64''] then writeFloat f v
      else if fmNative f = ''bool'' then writeBool f v
      else if fmNative f = ''json'' then writeJson f v
      else if fmNative f = ''float_vector'' then writeVector f v
      else Inl (writeErrf ClassUnsupported (fmName f) [T ''field ['', S (fmName f), T ''] of storage type '',
             S (fmNative f), T '' has no write encoding yet'']))"

subsection \<open>The cells of all rows\<close>

record cellTable =
  ctCells :: "gval list list"
  ctPresent :: "bool list list"

definition emptyTable :: "nat \<Rightarrow> nat \<Rightarrow> cellTable" where
  "emptyTable nf nr = \<lparr>ctCells = replicate nf (replicate nr GNil), ctPresent = replicate nf (replicate nr False)\<rparr>"

definition setCell :: "nat \<Rightarrow> nat \<Rightarrow> gval \<Rightarrow> cellTable \<Rightarrow> cellTable" where
  "setCell i r x t = \<lparr>ctCells = (ctCells t)[i := (ctCells t ! i)[r := x]],
     ctPresent = (ctPresent t)[i := (ctPresent t ! i)[r := True]]\<rparr>"

text \<open>The index by name: a later field of the same name wins.\<close>

fun nameIndex :: "nat \<Rightarrow> fieldMeta list \<Rightarrow> (string \<times> nat) list \<Rightarrow> (string \<times> nat) list" where
  "nameIndex i [] m = m"
| "nameIndex i (f # fs) m = nameIndex (i + 1) fs (setKey (fmName f) i m)"

definition byName :: "collectionMeta \<Rightarrow> string \<Rightarrow> nat option" where
  "byName meta name = map_of (nameIndex 0 (cmFields meta) []) name"

definition writeEntry :: "collectionMeta \<Rightarrow> string \<Rightarrow> gval \<Rightarrow> writeError + nat \<times> gval" where
  "writeEntry meta name v =
     (if name \<in> set (cmFunctionOutputs meta)
      then Inl (writeErrf ClassFunctionField name
             [T ''field ['', S name, T ''] is computed by a schema function and cannot be written''])
      else case byName meta name of
          None \<Rightarrow> Inl (writeErrf ClassUnknownField name [T ''field ['', S name, T ''] is not in the schema of '',
             Q (cmName meta), T '' (strict mapping: unknown fields are rejected)''])
        | Some i \<Rightarrow>
            (let f = cmFields meta ! i in
             if fmAutoID f
             then Inl (writeErrf ClassAutoID name
                    [T ''field ['', S name, T ''] is auto-generated; writers must not supply it''])
             else bindE (writeValue f v) (\<lambda>cell. Inr (i, cell))))"

fun fillRow :: "collectionMeta \<Rightarrow> nat \<Rightarrow> writeRow \<Rightarrow> cellTable \<Rightarrow> writeError + cellTable" where
  "fillRow meta r [] t = Inr t"
| "fillRow meta r ((name, v) # row) t =
     bindE (writeEntry meta name v) (\<lambda>(i, cell). fillRow meta r row (setCell i r cell t))"

fun fillRows :: "collectionMeta \<Rightarrow> nat \<Rightarrow> writeRow list \<Rightarrow> cellTable \<Rightarrow> writeError + cellTable" where
  "fillRows meta r [] t = Inr t"
| "fillRows meta r (row # rows) t = bindE (fillRow meta r row t) (fillRows meta (r + 1) rows)"

fun missingIn :: "fieldMeta \<Rightarrow> nat \<Rightarrow> bool list \<Rightarrow> writeError + unit" where
  "missingIn f r [] = Inr ()"
| "missingIn f r (ok # oks) =
     (if \<not> ok \<and> \<not> fmNullable f
      then Inl (writeErrf ClassMissing (fmName f) [T ''field ['', S (fmName f), T ''] is not nullable and row '',
             D (int r + 1), T '' does not supply it''])
      else missingIn f (r + 1) oks)"

fun checkMissing :: "fieldMeta list \<Rightarrow> bool list list \<Rightarrow> writeError + unit" where
  "checkMissing (f # fs) (oks # rest) =
     (if fmAutoID f then checkMissing fs rest
      else bindE (missingIn f 0 oks) (\<lambda>_. checkMissing fs rest))"
| "checkMissing _ _ = Inr ()"

definition validateWriteCells :: "collectionMeta \<Rightarrow> writeRow list \<Rightarrow> writeError + cellTable" where
  "validateWriteCells meta rows =
     bindE (fillRows meta 0 rows (emptyTable (length (cmFields meta)) (length rows))) (\<lambda>t.
     bindE (checkMissing (cmFields meta) (ctPresent t)) (\<lambda>_. Inr t))"

definition ValidateWriteRows :: "collectionMeta \<Rightarrow> writeRow list \<Rightarrow> writeError + unit" where
  "ValidateWriteRows meta rows = bindE (validateWriteCells meta rows) (\<lambda>_. Inr ())"

subsection \<open>Columns\<close>

record column =
  coName :: string
  coType :: string
  coDim :: int                    \<comment> \<open>only of a vector column\<close>
  coValues :: "gval list"
  coValid :: "bool list option"   \<comment> \<open>\<open>None\<close>: the plain constructor, without a mask\<close>

text \<open>The type assertion of a column constructor's cast.\<close>

fun cellIs :: "string \<Rightarrow> gval \<Rightarrow> bool" where
  "cellIs native (GStr _) = (native = ''string'')"
| "cellIs native (GInt8 _) = (native = ''int8'')"
| "cellIs native (GInt16 _) = (native = ''int16'')"
| "cellIs native (GInt32 _) = (native = ''int32'')"
| "cellIs native (GInt64 _) = (native = ''int64'')"
| "cellIs native (GFloat32 _) = (native = ''float32'')"
| "cellIs native (GFloat64 _) = (native = ''float64'')"
| "cellIs native (GBool _) = (native = ''bool'')"
| "cellIs native (GBytes _) = (native = ''json'')"
| "cellIs native (GVec _) = (native = ''float_vector'')"
| "cellIs native _ = False"

fun compact :: "string \<Rightarrow> gval list \<Rightarrow> writeFail + gval list" where
  "compact native [] = Inr []"
| "compact native (c # cs) =
     (if c = GNil then compact native cs
      else if \<not> cellIs native c then Inl Panicked
      else bindE (compact native cs) (\<lambda>vs. Inr (c # vs)))"

definition vectorDim :: "fieldMeta \<Rightarrow> gval list \<Rightarrow> int" where
  "vectorDim f vals =
     (if fmNative f \<noteq> ''float_vector'' then 0
      else if fmDim f = 0 then (case vals of GVec v # _ \<Rightarrow> int (length v) | _ \<Rightarrow> 0)
      else fmDim f)"

definition noEncoding :: "fieldMeta \<Rightarrow> writeError" where
  "noEncoding f = writeErrf ClassUnsupported (fmName f) [T ''field ['', S (fmName f), T ''] of storage type '',
     S (fmNative f), T '' has no write encoding yet'']"

definition plainColumnOf :: "fieldMeta \<Rightarrow> gval list \<Rightarrow> writeFail + column" where
  "plainColumnOf f cells =
     (if \<not> writableNative (fmNative f) then Inl (Rejected (noEncoding f))
      else bindE (compact (fmNative f) cells) (\<lambda>vals.
        Inr \<lparr>coName = fmName f, coType = fmNative f, coDim = vectorDim f vals, coValues = vals, coValid = None\<rparr>))"

definition columnOf :: "fieldMeta \<Rightarrow> gval list \<Rightarrow> bool list \<Rightarrow> writeFail + column" where
  "columnOf f cells present =
     (if \<not> fmNullable f then plainColumnOf f cells
      else let valid = map2 (\<lambda>c p. p \<and> c \<noteq> GNil) cells present in
        if \<not> writableNative (fmNative f) then Inl (Rejected (noEncoding f))
        else bindE (compact (fmNative f) cells) (\<lambda>vals.
          Inr \<lparr>coName = fmName f, coType = fmNative f, coDim = vectorDim f vals, coValues = vals,
               coValid = Some valid\<rparr>))"

fun buildColumns :: "fieldMeta list \<Rightarrow> gval list list \<Rightarrow> bool list list \<Rightarrow> writeFail + column list" where
  "buildColumns (f # fs) (cells # css) (present # ps) =
     (if fmAutoID f \<or> \<not> writableNative (fmNative f) then buildColumns fs css ps
      else bindE (columnOf f cells present) (\<lambda>col.
           bindE (buildColumns fs css ps) (\<lambda>cols. Inr (col # cols))))"
| "buildColumns _ _ _ = Inr []"

definition writeColumns :: "collectionMeta \<Rightarrow> writeRow list \<Rightarrow> writeFail + column list" where
  "writeColumns meta rows =
     (case validateWriteCells meta rows of
        Inl e \<Rightarrow> Inl (Rejected e)
      | Inr t \<Rightarrow> buildColumns (cmFields meta) (ctCells t) (ctPresent t))"

subsection \<open>The write calls\<close>

datatype storeError =
    CollectionNotFound string
  | StoreFail reason
  | WriteFail writeFail
  | StorePanic       \<comment> \<open>a slice expression out of range\<close>

definition idText :: "gval \<Rightarrow> string" where
  "idText v = (case v of GStr x \<Rightarrow> x | GInt64 n \<Rightarrow> FormatInt n | _ \<Rightarrow> showV v)"

text \<open>The ids the store assigned, each readable or not; no column when the caller gave the keys.\<close>

definition idsToStrings :: "gval option list option \<Rightarrow> string list" where
  "idsToStrings ids =
     (case ids of
        None \<Rightarrow> []
      | Some vs \<Rightarrow> map (\<lambda>v. case v of None \<Rightarrow> [] | Some x \<Rightarrow> idText x) vs)"

record writeResult =
  wrCount :: int
  wrIDs :: "string list"

text \<open>What the write path asks of the client: the described collection, and the two write calls,
  each answering with the assigned ids or failing with a message. Next to its result a write
  returns the calls it made.\<close>

record writeClient =
  wcDescribe :: "string \<Rightarrow> string + collection"
  wcInsert :: "string \<Rightarrow> column list \<Rightarrow> string + gval option list option"
  wcUpsert :: "string \<Rightarrow> column list \<Rightarrow> string + gval option list option"

datatype writeCall = InsertCall string "column list" | UpsertCall string "column list"

text \<open>The answer of a describe call, classified by its message.\<close>

definition describeAnswer :: "string \<Rightarrow> string + collection \<Rightarrow> storeError + collection" where
  "describeAnswer name ans =
     (case ans of
        Inr coll \<Rightarrow> Inr coll
      | Inl msg \<Rightarrow>
          if containsStr msg (''can'' @ [CHR 39] @ ''t find collection'') \<or> containsStr msg ''not found''
          then Inl (CollectionNotFound name)
          else Inl (StoreFail [T ''describe collection '', Q name, T '': '', S msg]))"

definition writeDescribe :: "writeClient \<Rightarrow> string \<Rightarrow> storeError + collection" where
  "writeDescribe cli name = describeAnswer name (wcDescribe cli name)"

definition storeWrite :: "writeClient \<Rightarrow> string \<Rightarrow> writeRow list \<Rightarrow> bool \<Rightarrow>
    (storeError + writeResult) \<times> writeCall list" where
  "storeWrite cli name rows upsert =
     (if rows = [] then (Inr \<lparr>wrCount = 0, wrIDs = []\<rparr>, [])
      else case writeDescribe cli name of
          Inl e \<Rightarrow> (Inl e, [])
        | Inr coll \<Rightarrow>
            (case writeColumns (catalogMeta coll) rows of
               Inl e \<Rightarrow> (Inl (WriteFail e), [])
             | Inr cols \<Rightarrow>
                 (case (if upsert then wcUpsert cli name cols else wcInsert cli name cols) of
                    Inl msg \<Rightarrow>
                      (Inl (StoreFail [T (if upsert then ''upsert into collection '' else ''insert into collection ''),
                             Q name, T '': '', S msg]),
                       [if upsert then UpsertCall name cols else InsertCall name cols])
                  | Inr ids \<Rightarrow>
                      (Inr \<lparr>wrCount = int (length rows), wrIDs = idsToStrings ids\<rparr>,
                       [if upsert then UpsertCall name cols else InsertCall name cols]))))"

definition storeInsert :: "writeClient \<Rightarrow> string \<Rightarrow> writeRow list \<Rightarrow> (storeError + writeResult) \<times> writeCall list" where
  "storeInsert cli name rows = storeWrite cli name rows False"

definition storeUpsert :: "writeClient \<Rightarrow> string \<Rightarrow> writeRow list \<Rightarrow> (storeError + writeResult) \<times> writeCall list" where
  "storeUpsert cli name rows = storeWrite cli name rows True"

definition Describe :: "writeClient \<Rightarrow> string \<Rightarrow> storeError + collectionMeta" where
  "Describe cli name = bindE (writeDescribe cli name) (\<lambda>coll. Inr (catalogMeta coll))"

subsection \<open>One accepted cell\<close>

lemma writeValue_cases:
  assumes "writeValue f v = Inr x"
  obtains "v = GNil" "x = GNil" "fmNullable f"
  | "v \<noteq> GNil" "fmNative f = ''string''" "writeString f v = Inr x"
  | "v \<noteq> GNil" "fmNative f \<in> {''int8'', ''int16'', ''int32'', ''int64''}" "writeInt f v = Inr x"
  | "v \<noteq> GNil" "fmNative f \<in> {''float32'', ''float64''}" "writeFloat f v = Inr x"
  | "v \<noteq> GNil" "fmNative f = ''bool''" "writeBool f v = Inr x"
  | "v \<noteq> GNil" "fmNative f = ''json''" "writeJson f v = Inr x"
  | "v \<noteq> GNil" "fmNative f = ''float_vector''" "writeVector f v = Inr x"
  using assms unfolding writeValue_def list.set by (simp split: if_splits)

lemma writeString_Inr:
  "writeString f v = Inr x \<longleftrightarrow>
   (\<exists>s. v = GStr s \<and> x = GStr s \<and> (fmMaxLength f > 0 \<longrightarrow> int (length s) \<le> fmMaxLength f))"
  by (auto simp: writeString_def split: gval.splits)

lemma writeInt_Inr:
  "writeInt f v = Inr x \<longleftrightarrow>
   (\<exists>n. toInt64 v = Some n \<and> x = intCell (fmNative f) n \<and>
      fst (intBoundaries (fmNative f)) \<le> n \<and> n \<le> snd (intBoundaries (fmNative f)))"
  by (auto simp: writeInt_def split: option.splits prod.splits)

lemma writeFloat_Inr:
  "writeFloat f v = Inr x \<longleftrightarrow>
   (\<exists>y. toFloat64 v = Some y \<and> \<not> isNaN y \<and> \<not> isInf y \<and>
      (if fmNative f = ''float32''
       then \<not> fless (Fin False maxFloat32Units) y \<and> \<not> fless y (Fin True maxFloat32Units) \<and> x = GFloat32 (toFloat32 y)
       else x = GFloat64 y))"
  by (auto simp: writeFloat_def split: option.splits)

lemma writeBool_Inr: "writeBool f v = Inr x \<longleftrightarrow> (\<exists>b. v = GBool b \<and> x = GBool b)"
  by (auto simp: writeBool_def split: gval.splits)

lemma writeJson_Inr:
  "writeJson f v = Inr x \<longleftrightarrow> (\<exists>s. x = GBytes s \<and> (v = GRaw s \<or> v = GBytes s \<or> v = GStr s \<and> isValidJSON s))"
  by (auto simp: writeJson_def split: gval.splits)

lemma writeVector_Inr:
  "writeVector f v = Inr x \<longleftrightarrow>
   (\<exists>fs. x = GVec fs \<and> (v = GVec fs \<or> v = GFloatVector fs) \<and> (fmDim f > 0 \<longrightarrow> int (length fs) = fmDim f) \<and>
      (\<forall>y \<in> set fs. \<not> isNaN y \<and> \<not> isInf y))"
  by (cases v) (auto simp: writeVector_def list_ex_iff)

lemmas write_Inr = writeString_Inr writeInt_Inr writeFloat_Inr writeBool_Inr writeJson_Inr writeVector_Inr

lemma writeValue_cellIs: "writeValue f v = Inr x \<Longrightarrow> x \<noteq> GNil \<Longrightarrow> cellIs (fmNative f) x"
  by (erule writeValue_cases) (auto simp: write_Inr intCell_def split: if_splits)

lemma writeValue_nil: "writeValue f v = Inr GNil \<Longrightarrow> v = GNil \<and> fmNullable f"
  by (erule writeValue_cases) (auto simp: write_Inr intCell_def split: if_splits)

lemma writeValue_writable: "writeValue f v = Inr x \<Longrightarrow> x \<noteq> GNil \<Longrightarrow> writableNative (fmNative f)"
  by (erule writeValue_cases) (auto simp: writableNative_def)

subsection \<open>The table of cells\<close>

definition tableSize :: "nat \<Rightarrow> nat \<Rightarrow> cellTable \<Rightarrow> bool" where
  "tableSize nf nr t \<longleftrightarrow> length (ctCells t) = nf \<and> length (ctPresent t) = nf \<and>
     (\<forall>i < nf. length (ctCells t ! i) = nr \<and> length (ctPresent t ! i) = nr)"

lemma emptyTable_size: "tableSize nf nr (emptyTable nf nr)"
  by (simp add: tableSize_def emptyTable_def)

lemma setCell_size:
  assumes "tableSize nf nr t"
  shows "tableSize nf nr (setCell i r x t)"
  unfolding tableSize_def
proof (intro conjI allI impI)
  fix i' assume "i' < nf"
  with assms show "length (ctCells (setCell i r x t) ! i') = nr" "length (ctPresent (setCell i r x t) ! i') = nr"
    by (cases "i' = i"; simp add: tableSize_def setCell_def)+
qed (use assms in \<open>simp_all add: tableSize_def setCell_def\<close>)

definition entry :: "cellTable \<Rightarrow> nat \<Rightarrow> nat \<Rightarrow> gval \<times> bool" where
  "entry t i r = (ctCells t ! i ! r, ctPresent t ! i ! r)"

lemma entry_empty [simp]: "i < nf \<Longrightarrow> r < nr \<Longrightarrow> entry (emptyTable nf nr) i r = (GNil, False)"
  by (simp add: entry_def emptyTable_def)

lemma entry_setCell:
  assumes "tableSize nf nr t" "i' < nf" "r < nr"
  shows "entry (setCell i r x t) i' r' = (if i' = i \<and> r' = r then (x, True) else entry t i' r')"
  using assms by (cases "i' = i"; cases "r' = r") (simp_all add: tableSize_def entry_def setCell_def)

lemma nameIndex_miss: "name \<notin> fmName ` set fs \<Longrightarrow> map_of (nameIndex i fs m) name = map_of m name"
  by (induction i fs m rule: nameIndex.induct) auto

lemma nameIndex_hit:
  "distinct (map fmName fs) \<Longrightarrow> k < length fs \<Longrightarrow> map_of (nameIndex i fs m) (fmName (fs ! k)) = Some (i + k)"
proof (induction i fs m arbitrary: k rule: nameIndex.induct)
  case (2 i f fs m)
  then show ?case by (cases k) (simp_all add: nameIndex_miss)
qed simp

lemma byName_iff:
  assumes "distinct (map fmName (cmFields meta))"
  shows "byName meta name = Some i \<longleftrightarrow> i < length (cmFields meta) \<and> fmName (cmFields meta ! i) = name"
proof (cases "name \<in> fmName ` set (cmFields meta)")
  case True
  then obtain k where k: "k < length (cmFields meta)" "fmName (cmFields meta ! k) = name"
    by (auto simp: in_set_conv_nth)
  then have hit: "byName meta name = Some k"
    using nameIndex_hit[OF assms k(1), of 0 "[]"] by (simp add: byName_def)
  have "i = k" if "i < length (cmFields meta)" "fmName (cmFields meta ! i) = name"
    using that k assms by (metis distinct_conv_nth length_map nth_map)
  then show ?thesis unfolding hit option.inject using k by blast
next
  case False
  then have "byName meta name = None" by (simp add: byName_def nameIndex_miss)
  moreover have "fmName (cmFields meta ! i) \<noteq> name" if "i < length (cmFields meta)"
    using False that by force
  ultimately show ?thesis by auto
qed

definition written :: "fieldMeta \<Rightarrow> gval \<Rightarrow> gval" where
  "written f v = (case writeValue f v of Inl _ \<Rightarrow> GNil | Inr x \<Rightarrow> x)"

text \<open>What a row gives a field, and whether it gives anything.\<close>

definition rowCell :: "fieldMeta \<Rightarrow> writeRow \<Rightarrow> gval \<times> bool" where
  "rowCell f row = (case map_of row (fmName f) of None \<Rightarrow> (GNil, False) | Some v \<Rightarrow> (written f v, True))"

definition entryConforms :: "collectionMeta \<Rightarrow> string \<Rightarrow> gval \<Rightarrow> bool" where
  "entryConforms meta name v \<longleftrightarrow> name \<notin> set (cmFunctionOutputs meta) \<and>
     (\<exists>f \<in> set (cmFields meta). fmName f = name \<and> \<not> fmAutoID f \<and> (\<exists>x. writeValue f v = Inr x))"

lemma writeEntry_Inr:
  assumes "distinct (map fmName (cmFields meta))"
  shows "writeEntry meta name v = Inr (i, x) \<longleftrightarrow> name \<notin> set (cmFunctionOutputs meta) \<and>
    i < length (cmFields meta) \<and> fmName (cmFields meta ! i) = name \<and> \<not> fmAutoID (cmFields meta ! i) \<and>
    writeValue (cmFields meta ! i) v = Inr x"
proof (cases "byName meta name")
  case None
  then have "\<not> (i < length (cmFields meta) \<and> fmName (cmFields meta ! i) = name)"
    unfolding byName_iff[OF assms, symmetric] by simp
  with None show ?thesis by (auto simp: writeEntry_def)
next
  case (Some j)
  then have j: "j < length (cmFields meta)" "fmName (cmFields meta ! j) = name"
    by (simp_all add: byName_iff[OF assms])
  have "i = j \<longleftrightarrow> i < length (cmFields meta) \<and> fmName (cmFields meta ! i) = name"
    using Some byName_iff[OF assms, of name i] by auto
  moreover have "writeEntry meta name v = Inr (i, x) \<longleftrightarrow> name \<notin> set (cmFunctionOutputs meta) \<and>
    \<not> fmAutoID (cmFields meta ! j) \<and> j = i \<and> writeValue (cmFields meta ! j) v = Inr x"
    using Some by (auto simp: writeEntry_def bindE_eq_Inr Let_def)
  ultimately show ?thesis by blast
qed

lemma writeEntry_conforms:
  assumes "distinct (map fmName (cmFields meta))"
  shows "(\<exists>r. writeEntry meta name v = Inr r) \<longleftrightarrow> entryConforms meta name v"
proof -
  have "(\<exists>r. writeEntry meta name v = Inr r) \<longleftrightarrow> (\<exists>i x. writeEntry meta name v = Inr (i, x))" by simp
  then show ?thesis
    unfolding writeEntry_Inr[OF assms] entryConforms_def by (metis in_set_conv_nth)
qed

lemma fillRow_entry:
  assumes names: "distinct (map fmName (cmFields meta))" and nf: "nf = length (cmFields meta)" and r: "r < nr"
  shows "fillRow meta r row t = Inr t' \<Longrightarrow> tableSize nf nr t \<Longrightarrow> distinct (map fst row) \<Longrightarrow>
    tableSize nf nr t' \<and> (\<forall>(name, v) \<in> set row. entryConforms meta name v) \<and>
    (\<forall>i < nf. \<forall>r'. entry t' i r' =
       (if r' = r \<and> fmName (cmFields meta ! i) \<in> fst ` set row then rowCell (cmFields meta ! i) row else entry t i r'))"
proof (induction row arbitrary: t)
  case (Cons nv row)
  obtain name v where nv: "nv = (name, v)" by force
  from Cons.prems(1) obtain j x where e: "writeEntry meta name v = Inr (j, x)"
    and rest: "fillRow meta r row (setCell j r x t) = Inr t'"
    by (auto simp: nv bindE_eq_Inr)
  from e have j: "j < nf" "fmName (cmFields meta ! j) = name" "writeValue (cmFields meta ! j) v = Inr x"
    and conf: "entryConforms meta name v"
    using writeEntry_Inr[OF names] writeEntry_conforms[OF names] nf by blast+
  from Cons.prems(3) have fresh: "name \<notin> fst ` set row" "distinct (map fst row)" by (simp_all add: nv)
  note IH = Cons.IH[OF rest setCell_size[OF Cons.prems(2)] fresh(2)]
  have "entry t' i r' = (if r' = r \<and> fmName (cmFields meta ! i) \<in> fst ` set (nv # row)
      then rowCell (cmFields meta ! i) (nv # row) else entry t i r')" if i: "i < nf" for i r'
  proof (cases "fmName (cmFields meta ! i) = name")
    case True
    then have "i = j" using i j names nf by (metis distinct_conv_nth length_map nth_map)
    with True IH i r j fresh show ?thesis
      by (simp add: nv entry_setCell[OF Cons.prems(2)] rowCell_def written_def)
  next
    case False
    then have "i \<noteq> j" using j by auto
    moreover have "rowCell (cmFields meta ! i) (nv # row) = rowCell (cmFields meta ! i) row"
      using False by (auto simp: rowCell_def nv)
    ultimately show ?thesis
      using False IH i r by (simp add: nv entry_setCell[OF Cons.prems(2)])
  qed
  with IH conf show ?case by (simp add: nv)
qed simp

lemma rowCell_absent: "fmName f \<notin> fst ` set row \<Longrightarrow> rowCell f row = (GNil, False)"
  by (simp add: rowCell_def map_of_eq_None_iff[THEN iffD2])

lemma fillRows_entry:
  assumes names: "distinct (map fmName (cmFields meta))" and nf: "nf = length (cmFields meta)"
  shows "fillRows meta r rows t = Inr t' \<Longrightarrow> tableSize nf nr t \<Longrightarrow> r + length rows \<le> nr \<Longrightarrow>
    \<forall>row \<in> set rows. distinct (map fst row) \<Longrightarrow>
    \<forall>i < nf. \<forall>r' \<ge> r. r' < nr \<longrightarrow> entry t i r' = (GNil, False) \<Longrightarrow>
    tableSize nf nr t' \<and> (\<forall>row \<in> set rows. \<forall>(name, v) \<in> set row. entryConforms meta name v) \<and>
    (\<forall>i < nf. \<forall>r' < nr. entry t' i r' =
       (if r \<le> r' \<and> r' < r + length rows then rowCell (cmFields meta ! i) (rows ! (r' - r)) else entry t i r'))"
proof (induction rows arbitrary: r t)
  case (Cons row rows)
  from Cons.prems(1) obtain t1 where t1: "fillRow meta r row t = Inr t1" "fillRows meta (r + 1) rows t1 = Inr t'"
    by (auto simp: bindE_eq_Inr)
  have r: "r < nr" and d: "distinct (map fst row)" using Cons.prems(3,4) by simp_all
  note one = fillRow_entry[OF names nf r t1(1) Cons.prems(2) d]
  then have fresh: "\<forall>i < nf. \<forall>r' \<ge> r + 1. r' < nr \<longrightarrow> entry t1 i r' = (GNil, False)"
    using Cons.prems(5) by simp
  have rest: "r + 1 + length rows \<le> nr" "\<forall>row \<in> set rows. distinct (map fst row)" using Cons.prems(3,4) by simp_all
  note IH = Cons.IH[OF t1(2) one[THEN conjunct1] rest fresh]
  have "entry t' i r' = (if r \<le> r' \<and> r' < r + length (row # rows)
      then rowCell (cmFields meta ! i) ((row # rows) ! (r' - r)) else entry t i r')"
    if i: "i < nf" and r': "r' < nr" for i r'
  proof (cases "r' = r")
    case True
    moreover have "entry t i r = (GNil, False)" using Cons.prems(5) i r by simp
    ultimately show ?thesis using IH one i r by (simp add: rowCell_absent)
  next
    case False
    then show ?thesis using IH one i r' by (auto simp: nth_Cons')
  qed
  with IH one show ?case by simp
qed auto

lemma fillRow_total:
  assumes "distinct (map fmName (cmFields meta))"
  shows "\<forall>(name, v) \<in> set row. entryConforms meta name v \<Longrightarrow> \<exists>t'. fillRow meta r row t = Inr t'"
proof (induction row arbitrary: t)
  case (Cons nv row)
  obtain name v where nv: "nv = (name, v)" by force
  with Cons.prems obtain i x where "writeEntry meta name v = Inr (i, x)"
    using writeEntry_conforms[OF assms, of name v] by auto
  with Cons show ?case by (simp add: nv)
qed simp

lemma fillRows_total:
  assumes "distinct (map fmName (cmFields meta))"
  shows "\<forall>row \<in> set rows. \<forall>(name, v) \<in> set row. entryConforms meta name v \<Longrightarrow>
    \<exists>t'. fillRows meta r rows t = Inr t'"
proof (induction rows arbitrary: r t)
  case (Cons row rows)
  obtain t1 where "fillRow meta r row t = Inr t1"
    using fillRow_total[OF assms] Cons.prems by (metis list.set_intros(1))
  with Cons show ?case by simp
qed simp

lemma missingIn_Inr: "missingIn f r oks = Inr () \<longleftrightarrow> fmNullable f \<or> list_all (\<lambda>ok. ok) oks"
  by (induction f r oks rule: missingIn.induct) auto

lemma checkMissing_Inr:
  "length fs = length ps \<Longrightarrow> checkMissing fs ps = Inr () \<longleftrightarrow>
   (\<forall>i < length fs. fmAutoID (fs ! i) \<or> fmNullable (fs ! i) \<or> list_all (\<lambda>ok. ok) (ps ! i))"
proof (induction fs ps rule: checkMissing.induct)
  case (1 f fs oks rest)
  then show ?case
    by (auto simp: bindE_eq_Inr missingIn_Inr All_less_Suc2)
qed auto

subsection \<open>Accepted rows\<close>

text \<open>The strict schema contract: every entry names a writable field and has a value its storage
  type takes, and every field that is not nullable is supplied, the auto-generated ones apart.\<close>

definition rowConforms :: "collectionMeta \<Rightarrow> writeRow \<Rightarrow> bool" where
  "rowConforms meta row \<longleftrightarrow> (\<forall>(name, v) \<in> set row. entryConforms meta name v) \<and>
     (\<forall>f \<in> set (cmFields meta). fmAutoID f \<or> fmNullable f \<or> fmName f \<in> fst ` set row)"

definition cellsOf :: "writeRow list \<Rightarrow> fieldMeta \<Rightarrow> gval list" where
  "cellsOf rows f = map (\<lambda>row. fst (rowCell f row)) rows"

definition presentOf :: "writeRow list \<Rightarrow> fieldMeta \<Rightarrow> bool list" where
  "presentOf rows f = map (\<lambda>row. fmName f \<in> fst ` set row) rows"

lemma snd_rowCell: "snd (rowCell f row) \<longleftrightarrow> fmName f \<in> fst ` set row"
  using map_of_eq_None_iff[of row "fmName f"] by (auto simp: rowCell_def split: option.splits)

lemma fillRows_table:
  assumes names: "distinct (map fmName (cmFields meta))" and rows: "\<forall>row \<in> set rows. distinct (map fst row)"
    and fill: "fillRows meta 0 rows (emptyTable (length (cmFields meta)) (length rows)) = Inr t"
  shows "ctCells t = map (cellsOf rows) (cmFields meta)" "ctPresent t = map (presentOf rows) (cmFields meta)"
    "\<forall>row \<in> set rows. \<forall>(name, v) \<in> set row. entryConforms meta name v"
proof -
  note t = fillRows_entry[OF names refl fill emptyTable_size _ rows]
  then have t: "tableSize (length (cmFields meta)) (length rows) t"
    "\<forall>i < length (cmFields meta). \<forall>r < length rows. entry t i r = rowCell (cmFields meta ! i) (rows ! r)"
    and conf: "\<forall>row \<in> set rows. \<forall>(name, v) \<in> set row. entryConforms meta name v"
    by auto
  have "ctCells t ! i ! r = fst (rowCell (cmFields meta ! i) (rows ! r)) \<and>
      ctPresent t ! i ! r = snd (rowCell (cmFields meta ! i) (rows ! r))"
    if "i < length (cmFields meta)" "r < length rows" for i r
    using t(2) that by (metis entry_def fst_conv snd_conv)
  with t(1) show "ctCells t = map (cellsOf rows) (cmFields meta)" "ctPresent t = map (presentOf rows) (cmFields meta)"
    by (auto intro!: nth_equalityI simp: tableSize_def cellsOf_def presentOf_def snd_rowCell)
  show "\<forall>row \<in> set rows. \<forall>(name, v) \<in> set row. entryConforms meta name v" by (rule conf)
qed

lemma missing_rows:
  "checkMissing (cmFields meta) (map (presentOf rows) (cmFields meta)) = Inr () \<longleftrightarrow>
   (\<forall>f \<in> set (cmFields meta). \<forall>row \<in> set rows. fmAutoID f \<or> fmNullable f \<or> fmName f \<in> fst ` set row)"
  by (auto simp: checkMissing_Inr all_set_conv_all_nth list_all_iff presentOf_def)

lemma validate_table:
  assumes "distinct (map fmName (cmFields meta))" "\<forall>row \<in> set rows. distinct (map fst row)"
    "validateWriteCells meta rows = Inr t"
  shows "ctCells t = map (cellsOf rows) (cmFields meta)" "ctPresent t = map (presentOf rows) (cmFields meta)"
    "\<forall>row \<in> set rows. rowConforms meta row"
proof -
  from assms(3) have fill: "fillRows meta 0 rows (emptyTable (length (cmFields meta)) (length rows)) = Inr t"
    and miss: "checkMissing (cmFields meta) (ctPresent t) = Inr ()"
    by (auto simp: validateWriteCells_def bindE_eq_Inr)
  note T = fillRows_table[OF assms(1,2) fill]
  then show "ctCells t = map (cellsOf rows) (cmFields meta)" "ctPresent t = map (presentOf rows) (cmFields meta)"
    by simp_all
  from miss show "\<forall>row \<in> set rows. rowConforms meta row"
    using T(3) unfolding T(2) missing_rows rowConforms_def by blast
qed

lemma validate_total:
  assumes "distinct (map fmName (cmFields meta))" "\<forall>row \<in> set rows. distinct (map fst row)"
    "\<forall>row \<in> set rows. rowConforms meta row"
  shows "\<exists>t. validateWriteCells meta rows = Inr t"
proof -
  obtain t where t: "fillRows meta 0 rows (emptyTable (length (cmFields meta)) (length rows)) = Inr t"
    using fillRows_total[OF assms(1)] assms(3) unfolding rowConforms_def by blast
  have "checkMissing (cmFields meta) (ctPresent t) = Inr ()"
    using assms(3) unfolding fillRows_table(2)[OF assms(1,2) t] missing_rows rowConforms_def by blast
  with t show ?thesis by (simp add: validateWriteCells_def)
qed

subsection \<open>Sent columns\<close>

fun expand :: "bool list \<Rightarrow> gval list \<Rightarrow> gval list" where
  "expand (True # msk) (v # vs) = v # expand msk vs"
| "expand (False # msk) vs = GNil # expand msk vs"
| "expand _ _ = []"

text \<open>The cells a column stands for, row by row.\<close>

definition columnCells :: "column \<Rightarrow> gval list" where
  "columnCells col = (case coValid col of None \<Rightarrow> coValues col | Some msk \<Rightarrow> expand msk (coValues col))"

text \<open>A column fits a field and the rows: it stands for exactly the rows' cells, its values have the
  storage type, and a mask is given exactly for a nullable field, with one bit per row and one
  value per set bit, which is what the constructors demand.\<close>

definition columnFits :: "writeRow list \<Rightarrow> fieldMeta \<Rightarrow> column \<Rightarrow> bool" where
  "columnFits rows f col \<longleftrightarrow> coName col = fmName f \<and> coType col = fmNative f \<and>
     columnCells col = cellsOf rows f \<and> (\<forall>v \<in> set (coValues col). cellIs (fmNative f) v) \<and>
     (case coValid col of
        None \<Rightarrow> \<not> fmNullable f
      | Some msk \<Rightarrow> fmNullable f \<and> length msk = length rows \<and> length (coValues col) = length (filter (\<lambda>b. b) msk))"

lemma compact_ok:
  "\<forall>c \<in> set cells. c = GNil \<or> cellIs native c \<Longrightarrow> compact native cells = Inr (filter (\<lambda>c. c \<noteq> GNil) cells)"
  by (induction native cells rule: compact.induct) auto

lemma expand_compact:
  "expand (map (\<lambda>c. c \<noteq> GNil) cells) (filter (\<lambda>c. c \<noteq> GNil) cells) = cells \<and>
   length (filter (\<lambda>c. c \<noteq> GNil) cells) = length (filter (\<lambda>b. b) (map (\<lambda>c. c \<noteq> GNil) cells))"
  by (induction cells) auto

lemma rowCell_is: "c = fst (rowCell f row) \<Longrightarrow> c = GNil \<or> cellIs (fmNative f) c"
  by (auto simp: rowCell_def written_def split: option.splits sum.splits dest: writeValue_cellIs)

lemma rowCell_required:
  assumes names: "distinct (map fmName (cmFields meta))" and f: "f \<in> set (cmFields meta)"
    "\<not> fmAutoID f" "\<not> fmNullable f" and row: "rowConforms meta row"
  shows "fst (rowCell f row) \<noteq> GNil"
proof -
  from row f have "fmName f \<in> fst ` set row" by (auto simp: rowConforms_def)
  then obtain v where v: "map_of row (fmName f) = Some v"
    using map_of_eq_None_iff[of row "fmName f"] by (cases "map_of row (fmName f)") auto
  then have "entryConforms meta (fmName f) v" using row by (auto simp: rowConforms_def dest: map_of_SomeD)
  then obtain g x where g: "g \<in> set (cmFields meta)" "fmName g = fmName f" "writeValue g v = Inr x"
    by (auto simp: entryConforms_def)
  then have "g = f" using names f by (auto simp: distinct_map dest: inj_onD)
  with g v f(3) show ?thesis by (auto simp: rowCell_def written_def dest: writeValue_nil)
qed

lemma cell_present: "fst (rowCell f row) \<noteq> GNil \<Longrightarrow> fmName f \<in> fst ` set row"
  by (metis fst_conv rowCell_absent)

lemma presentOf_valid: "map2 (\<lambda>c p. p \<and> c \<noteq> GNil) (cellsOf rows f) (presentOf rows f) =
   map (\<lambda>c. c \<noteq> GNil) (cellsOf rows f)"
  by (induction rows) (auto simp: cellsOf_def presentOf_def dest: cell_present)

lemma columnOf_fits:
  assumes names: "distinct (map fmName (cmFields meta))" and f: "f \<in> set (cmFields meta)"
    "\<not> fmAutoID f" "writableNative (fmNative f)" and rows: "\<forall>row \<in> set rows. rowConforms meta row"
  shows "\<exists>col. columnOf f (cellsOf rows f) (presentOf rows f) = Inr col \<and> columnFits rows f col"
proof -
  have kinds: "\<forall>c \<in> set (cellsOf rows f). c = GNil \<or> cellIs (fmNative f) c"
    using rowCell_is[OF refl] by (auto simp: cellsOf_def)
  note vals = compact_ok[OF kinds]
  have kept: "\<forall>v \<in> set (filter (\<lambda>c. c \<noteq> GNil) (cellsOf rows f)). cellIs (fmNative f) v"
    using kinds by auto
  show ?thesis
  proof (cases "fmNullable f")
    case True
    then show ?thesis
      using vals kept f expand_compact[of "cellsOf rows f"]
      by (simp add: columnOf_def columnFits_def columnCells_def presentOf_valid)
        (simp add: cellsOf_def)
  next
    case False
    then have "\<forall>c \<in> set (cellsOf rows f). c \<noteq> GNil"
      using rowCell_required[OF names f(1,2)] rows by (auto simp: cellsOf_def)
    then have "filter (\<lambda>c. c \<noteq> GNil) (cellsOf rows f) = cellsOf rows f" by (simp add: filter_id_conv)
    with False vals kept f show ?thesis
      by (simp add: columnOf_def plainColumnOf_def columnFits_def columnCells_def)
  qed
qed

definition sentFields :: "collectionMeta \<Rightarrow> fieldMeta list" where
  "sentFields meta = filter (\<lambda>f. \<not> fmAutoID f \<and> writableNative (fmNative f)) (cmFields meta)"

lemma buildColumns_fits:
  assumes "\<And>f. f \<in> set fs \<Longrightarrow> \<not> fmAutoID f \<Longrightarrow> writableNative (fmNative f) \<Longrightarrow>
      \<exists>col. columnOf f (cellsOf rows f) (presentOf rows f) = Inr col \<and> columnFits rows f col"
  shows "\<exists>cols. buildColumns fs (map (cellsOf rows) fs) (map (presentOf rows) fs) = Inr cols \<and>
    list_all2 (columnFits rows) (filter (\<lambda>f. \<not> fmAutoID f \<and> writableNative (fmNative f)) fs) cols"
  using assms
proof (induction fs)
  case (Cons f fs)
  then obtain cols where cols: "buildColumns fs (map (cellsOf rows) fs) (map (presentOf rows) fs) = Inr cols"
    "list_all2 (columnFits rows) (filter (\<lambda>f. \<not> fmAutoID f \<and> writableNative (fmNative f)) fs) cols"
    by auto
  show ?case
  proof (cases "fmAutoID f \<or> \<not> writableNative (fmNative f)")
    case False
    with Cons.prems[of f] obtain col
      where "columnOf f (cellsOf rows f) (presentOf rows f) = Inr col" "columnFits rows f col" by auto
    with False cols show ?thesis by simp
  qed (use cols in auto)
qed simp

lemma writeColumns_cases:
  assumes names: "distinct (map fmName (cmFields meta))" and rows: "\<forall>row \<in> set rows. distinct (map fst row)"
  shows "case validateWriteCells meta rows of
      Inl e \<Rightarrow> writeColumns meta rows = Inl (Rejected e)
    | Inr t \<Rightarrow> \<exists>cols. writeColumns meta rows = Inr cols \<and> list_all2 (columnFits rows) (sentFields meta) cols"
proof (cases "validateWriteCells meta rows")
  case (Inr t)
  note T = validate_table[OF names rows Inr]
  then show ?thesis
    using buildColumns_fits[OF columnOf_fits[OF names _ _ _ T(3)]]
    by (simp add: Inr writeColumns_def sentFields_def)
qed (simp add: writeColumns_def)

subsection \<open>Accepted cells\<close>

text \<open>What a stored cell of a field is: a value of the field's storage type, in its range.\<close>

definition finiteFloat :: "gofloat \<Rightarrow> bool" where "finiteFloat y \<longleftrightarrow> \<not> isNaN y \<and> \<not> isInf y"

fun cellFits :: "fieldMeta \<Rightarrow> gval \<Rightarrow> bool" where
  "cellFits f GNil = fmNullable f"
| "cellFits f (GStr s) = (fmNative f = ''string'' \<and> (fmMaxLength f > 0 \<longrightarrow> int (length s) \<le> fmMaxLength f))"
| "cellFits f (GInt8 n) = (fmNative f = ''int8'' \<and> - (2 ^ 7) \<le> n \<and> n < 2 ^ 7)"
| "cellFits f (GInt16 n) = (fmNative f = ''int16'' \<and> - (2 ^ 15) \<le> n \<and> n < 2 ^ 15)"
| "cellFits f (GInt32 n) = (fmNative f = ''int32'' \<and> - (2 ^ 31) \<le> n \<and> n < 2 ^ 31)"
| "cellFits f (GInt64 n) = (fmNative f = ''int64'' \<and> - (2 ^ 63) \<le> n \<and> n < 2 ^ 63)"
| "cellFits f (GFloat32 y) = (fmNative f = ''float32'' \<and> finiteFloat y \<and> toFloat32 y = y)"
| "cellFits f (GFloat64 y) = (fmNative f = ''float64'' \<and> finiteFloat y)"
| "cellFits f (GBool b) = (fmNative f = ''bool'')"
| "cellFits f (GBytes s) = (fmNative f = ''json'')"
| "cellFits f (GVec ys) = (fmNative f = ''float_vector'' \<and> (fmDim f > 0 \<longrightarrow> int (length ys) = fmDim f) \<and>
     (\<forall>y \<in> set ys. finiteFloat y))"
| "cellFits f _ = False"

lemma inRange32:
  "finiteFloat y \<Longrightarrow> \<not> fless (Fin False maxFloat32Units) y \<Longrightarrow> \<not> fless y (Fin True maxFloat32Units) \<Longrightarrow>
   \<exists>s u. y = Fin s u \<and> u \<le> maxFloat32Units"
  by (cases y) (auto simp: finiteFloat_def isNaN_def isInf_def units_def split: if_splits)

lemma toFloat32_inRange:
  assumes "u \<le> maxFloat32Units"
  shows "\<exists>v. toFloat32 (Fin s u) = Fin s v \<and> v \<le> maxFloat32Units"
  using round32_bounded[OF assms] by auto

lemma inRange32I: "u \<le> maxFloat32Units \<Longrightarrow>
    \<not> fless (Fin False maxFloat32Units) (Fin s u) \<and> \<not> fless (Fin s u) (Fin True maxFloat32Units)"
  by (auto simp: units_def)

lemma writeFloat32:
  assumes "fmNative f = ''float32''" "writeFloat f v = Inr x"
  shows "cellFits f x \<and> writeFloat f x = Inr x"
proof -
  from assms obtain y where y: "finiteFloat y" "\<not> fless (Fin False maxFloat32Units) y" "\<not> fless y (Fin True maxFloat32Units)"
    and x: "x = GFloat32 (toFloat32 y)"
    by (auto simp: writeFloat_Inr finiteFloat_def)
  obtain s u where u: "y = Fin s u" "u \<le> maxFloat32Units" using inRange32[OF y] by blast
  then obtain w where w: "toFloat32 y = Fin s w" "w \<le> maxFloat32Units" using toFloat32_inRange by blast
  have fixed: "toFloat32 (Fin s w) = Fin s w" using toFloat32_idem[of y] w(1) by simp
  have fin: "\<not> isNaN (Fin s w)" "\<not> isInf (Fin s w)" by (simp_all add: isNaN_def isInf_def)
  have "writeFloat f (GFloat32 (Fin s w)) = Inr (GFloat32 (Fin s w))"
    unfolding writeFloat_Inr
    by (intro exI[of _ "Fin s w"]) (simp only: assms(1) fixed fin inRange32I[OF w(2)] toFloat64_def gval.case simp_thms if_True)
  then show ?thesis
    unfolding x w(1) using fixed fin assms(1) by (simp only: cellFits.simps finiteFloat_def simp_thms)
qed

lemma writeInt_fits:
  assumes "fmNative f \<in> {''int8'', ''int16'', ''int32'', ''int64''}" "writeInt f v = Inr x"
  shows "cellFits f x \<and> (fmNative f \<in> {''int32'', ''int64''} \<longrightarrow> writeInt f x = Inr x)"
  using assms
  by (auto simp: writeInt_Inr intCell_def intBoundaries_def minInt64_def maxInt64_def toInt64_def)

lemma writeValue_stable:
  assumes "writeValue f v = Inr x"
  shows "cellFits f x \<and> (fmNative f \<notin> {''int8'', ''int16''} \<longrightarrow> writeValue f x = Inr x)"
  using assms
proof (cases rule: writeValue_cases)
  case 3
  have "x \<noteq> GNil" using assms 3(1) by (auto dest: writeValue_nil)
  with writeInt_fits[OF 3(2,3)] 3(2) show ?thesis by (auto simp: writeValue_def)
next
  case 4
  have nil: "x \<noteq> GNil" using assms 4(1) by (auto dest: writeValue_nil)
  show ?thesis
  proof (cases "fmNative f = ''float32''")
    case True
    with writeFloat32[OF True 4(3)] nil show ?thesis by (simp add: writeValue_def)
  next
    case False
    with 4 have "fmNative f = ''float64''" by simp
    with 4(3) nil show ?thesis by (auto simp: writeValue_def writeFloat_Inr finiteFloat_def toFloat64_def)
  qed
qed (auto simp: writeValue_def write_Inr finiteFloat_def)

subsection \<open>Properties\<close>

text \<open>C27. Strict validation accepts a batch exactly when every row conforms: each entry names a field
  of the schema that is neither computed nor auto-generated and holds a value the field's storage
  type takes, and every field that is not nullable is supplied.\<close>

theorem ValidateWriteRows_iff:
  assumes "distinct (map fmName (cmFields meta))" "\<forall>row \<in> set rows. distinct (map fst row)"
  shows "ValidateWriteRows meta rows = Inr () \<longleftrightarrow> (\<forall>row \<in> set rows. rowConforms meta row)"
proof
  assume "ValidateWriteRows meta rows = Inr ()"
  then obtain t where "validateWriteCells meta rows = Inr t" by (auto simp: ValidateWriteRows_def bindE_eq_Inr)
  from validate_table(3)[OF assms this] show "\<forall>row \<in> set rows. rowConforms meta row" .
next
  assume "\<forall>row \<in> set rows. rowConforms meta row"
  from validate_total[OF assms this] show "ValidateWriteRows meta rows = Inr ()"
    by (auto simp: ValidateWriteRows_def)
qed

text \<open>C12. A write never panics and sends nothing unless every row conforms to the described
  collection; then it makes exactly one call, whose columns are the schema's writable fields in
  order, each standing for exactly the rows' cells in row order with a mask that fits, and on
  success it reports one count per row.\<close>

theorem storeWrite_strict:
  assumes "storeWrite cli name rows upsert = (res, calls)" "rows \<noteq> []" "writeDescribe cli name = Inr coll"
    "distinct (map efName (collFields coll))" "\<forall>row \<in> set rows. distinct (map fst row)"
  shows "res \<noteq> Inl (WriteFail Panicked) \<and>
    (if \<forall>row \<in> set rows. rowConforms (catalogMeta coll) row
     then \<exists>cols. calls = [if upsert then UpsertCall name cols else InsertCall name cols] \<and>
       list_all2 (columnFits rows) (sentFields (catalogMeta coll)) cols \<and>
       (\<forall>r. res = Inr r \<longrightarrow> wrCount r = int (length rows))
     else calls = [] \<and> (\<exists>e. res = Inl (WriteFail (Rejected e))))"
proof -
  have names: "distinct (map fmName (cmFields (catalogMeta coll)))"
  proof -
    have "map fmName (cmFields (catalogMeta coll)) = map efName (storedFields coll)"
      by (simp add: catalogMeta_def metaOf_def)
    then show ?thesis using assms(4) by (simp add: storedFields_def distinct_map_filter)
  qed
  note cases = writeColumns_cases[OF names assms(5)]
  show ?thesis
  proof (cases "validateWriteCells (catalogMeta coll) rows")
    case (Inl e)
    then have "\<not> (\<forall>row \<in> set rows. rowConforms (catalogMeta coll) row)"
      using validate_total[OF names assms(5)] by auto
    moreover have "writeColumns (catalogMeta coll) rows = Inl (Rejected e)" using cases Inl by simp
    ultimately show ?thesis using assms(1-3) by (auto simp: storeWrite_def)
  next
    case (Inr t)
    then have "\<forall>row \<in> set rows. rowConforms (catalogMeta coll) row"
      by (rule validate_table(3)[OF names assms(5)])
    moreover obtain cols where "writeColumns (catalogMeta coll) rows = Inr cols"
      "list_all2 (columnFits rows) (sentFields (catalogMeta coll)) cols"
      using cases Inr by auto
    ultimately show ?thesis using assms(1-3) by (auto simp: storeWrite_def split: sum.splits if_splits)
  qed
qed

text \<open>C37. An accepted value is stored as a value of its field's type within its range, and writing
  the stored value back is accepted unchanged, 8- and 16-bit integers apart.\<close>

theorem writeValue_roundtrip:
  assumes "writeValue f v = Inr x"
  shows "cellFits f x \<and> (fmNative f \<notin> {''int8'', ''int16''} \<longrightarrow> writeValue f x = Inr x)"
  using assms by (rule writeValue_stable)

text \<open>The 8- and 16-bit integers a read returns are refused when written back, whatever they
  are, although a read-modify-write is meant to upsert what it fetched.\<close>

theorem small_ints_refused:
  "writeValue (f\<lparr>fmNative := ''int8''\<rparr>) (GInt8 n) = Inl (typeErrf (f\<lparr>fmNative := ''int8''\<rparr>) (GInt8 n) ''an integer'') \<and>
   writeValue (f\<lparr>fmNative := ''int16''\<rparr>) (GInt16 n) = Inl (typeErrf (f\<lparr>fmNative := ''int16''\<rparr>) (GInt16 n) ''an integer'')"
  by (simp add: writeValue_def writeInt_def toInt64_def)

subsection \<open>Witnesses\<close>

definition sampleColl :: collection where
  "sampleColl = \<lparr>collName = ''c'', collFields =
     [\<lparr>efName = ''id'', efType = DtInt64, efPrimary = True, efNullable = False, efAutoID = False, efParams = [], efElement = DtOther\<rparr>,
      \<lparr>efName = ''s'', efType = DtVarChar, efPrimary = False, efNullable = True, efAutoID = False,
       efParams = [(''max_length'', ''2'')], efElement = DtOther\<rparr>],
     collFunctions = []\<rparr>"

definition sampleRows :: "writeRow list" where
  "sampleRows = [[(''id'', GInt64 1), (''s'', GStr ''ab'')], [(''id'', GInt64 2)]]"

definition sampleClient :: writeClient where
  "sampleClient = \<lparr>wcDescribe = (\<lambda>_. Inr sampleColl), wcInsert = (\<lambda>_ _. Inr None), wcUpsert = (\<lambda>_ _. Inr None)\<rparr>"

lemma sampleRows_conform:
  "distinct (map fmName (cmFields (catalogMeta sampleColl)))" "\<forall>row \<in> set sampleRows. distinct (map fst row)"
  "\<forall>row \<in> set sampleRows. rowConforms (catalogMeta sampleColl) row"
  by (auto simp: sampleColl_def sampleRows_def catalogMeta_def metaOf_def storedFields_def functionOutputFields_def
      isFunctionOutput_def rowConforms_def entryConforms_def writeValue_def writeString_def writeInt_def toInt64_def
      intBoundaries_def minInt64_def maxInt64_def typeParamInt_def typeParam_def AtoiValue_def takeSign_def
      natOfDigits_def digitVal_def isDigit_def)

lemma ValidateWriteRows_iff_witness: "ValidateWriteRows (catalogMeta sampleColl) sampleRows = Inr ()"
  using ValidateWriteRows_iff[OF sampleRows_conform(1,2)] sampleRows_conform(3) by blast

lemma storeWrite_strict_witness:
  "\<exists>cols. snd (storeInsert sampleClient ''c'' sampleRows) = [InsertCall ''c'' cols] \<and>
     list_all2 (columnFits sampleRows) (sentFields (catalogMeta sampleColl)) cols"
proof -
  obtain res calls where w: "storeWrite sampleClient ''c'' sampleRows False = (res, calls)" by force
  have "sampleRows \<noteq> []" by (simp add: sampleRows_def)
  moreover have "writeDescribe sampleClient ''c'' = Inr sampleColl" by (simp add: writeDescribe_def describeAnswer_def sampleClient_def)
  moreover have "distinct (map efName (collFields sampleColl))" by (simp add: sampleColl_def)
  ultimately have "\<exists>cols. calls = [InsertCall ''c'' cols] \<and>
      list_all2 (columnFits sampleRows) (sentFields (catalogMeta sampleColl)) cols"
    using storeWrite_strict[OF w _ _ _ sampleRows_conform(2)] sampleRows_conform(3) by auto
  with w show ?thesis by (simp add: storeInsert_def)
qed

lemma writeValue_roundtrip_witness:
  "cellFits (cmFields (catalogMeta sampleColl) ! 1) (GStr ''ab'')"
proof -
  have "writeValue (cmFields (catalogMeta sampleColl) ! 1) (GStr ''ab'') = Inr (GStr ''ab'')"
    by (simp add: sampleColl_def catalogMeta_def metaOf_def storedFields_def functionOutputFields_def
      isFunctionOutput_def writeValue_def writeString_def typeParamInt_def typeParam_def AtoiValue_def takeSign_def
      natOfDigits_def digitVal_def isDigit_def minInt64_def maxInt64_def)
  from writeValue_roundtrip[OF this] show ?thesis by simp
qed

end
