(* ===== verification/StoreSort.thy ===== *)
theory StoreSort
  imports GoFmt "HOL-Library.Multiset"
begin

text \<open>
  Client-side sorting and windowing of fetched rows: \<open>compareRows\<close>, \<open>compareScalar\<close> and \<open>window\<close> of
  \<open>internal/store/milvus.go\<close>.

  A fetched row is a Go map from field names to cells, an association list in which an absent
  name reads as nil. The locale \<open>comparison\<close> is the contract of a three-way comparison on a set:
  negated by swapping its sides, and transitive. Under it the stable sort yields the one sorted
  arrangement that keeps tied rows in order.
\<close>

type_synonym row = "(string \<times> gval) list"

definition cell :: "row \<Rightarrow> string \<Rightarrow> gval" where
  "cell r f = (case map_of r f of None \<Rightarrow> GNil | Some v \<Rightarrow> v)"

subsection \<open>Comparing rows\<close>

definition compareStr :: "string \<Rightarrow> string \<Rightarrow> int" where
  "compareStr s t = (if s = t then 0 else if strLess s t then -1 else 1)"

definition compareFloat :: "gofloat \<Rightarrow> gofloat \<Rightarrow> int" where
  "compareFloat a b = (if fless a b then -1 else if fless b a then 1 else 0)"

definition compareInt :: "int \<Rightarrow> int \<Rightarrow> int" where
  "compareInt a b = (if a < b then -1 else if b < a then 1 else 0)"

definition compareText :: "gval \<Rightarrow> gval \<Rightarrow> int" where
  "compareText a b = compareStr (showV a) (showV b)"

definition compareBool :: "bool \<Rightarrow> bool \<Rightarrow> int" where
  "compareBool a b = (if \<not> a \<and> b then -1 else if a \<and> \<not> b then 1 else 0)"

definition compareScalar :: "gval \<Rightarrow> gval \<Rightarrow> int" where
  "compareScalar a b =
     (case a of
        GStr x \<Rightarrow> (case b of GStr y \<Rightarrow> compareStr x y | _ \<Rightarrow> compareText a b)
      | GInt64 x \<Rightarrow>
          (case b of
             GInt64 y \<Rightarrow> compareInt x y
           | GFloat64 y \<Rightarrow> compareFloat (floatOfInt x) y
           | _ \<Rightarrow> compareText a b)
      | GFloat64 x \<Rightarrow>
          (case b of
             GFloat64 y \<Rightarrow> compareFloat x y
           | GInt64 y \<Rightarrow> compareFloat x (floatOfInt y)
           | _ \<Rightarrow> compareText a b)
      | GBool x \<Rightarrow> (case b of GBool y \<Rightarrow> compareBool x y | _ \<Rightarrow> compareText a b)
      | _ \<Rightarrow> compareText a b)"

text \<open>One clause on two cells: missing values last, whatever the direction.\<close>

definition compareCells :: "bool \<Rightarrow> gval \<Rightarrow> gval \<Rightarrow> int" where
  "compareCells desc av bv =
     (if av = GNil \<and> bv = GNil then 0
      else if av = GNil then 1
      else if bv = GNil then -1
      else if desc then - compareScalar av bv else compareScalar av bv)"

fun compareRows :: "row \<Rightarrow> row \<Rightarrow> sortClause list \<Rightarrow> int" where
  "compareRows a b [] = 0"
| "compareRows a b (c # cs) =
     (let cmp = compareCells (scDesc c) (cell a (scField c)) (cell b (scField c)) in
      if cmp \<noteq> 0 then cmp else compareRows a b cs)"

text \<open>\<open>sort.SliceStable\<close>: a stable insertion sort. For the orders of \<open>compareRows\<close> the stable
  result is unique, so the algorithm does not matter.\<close>

fun insertStable :: "('a \<Rightarrow> 'a \<Rightarrow> bool) \<Rightarrow> 'a \<Rightarrow> 'a list \<Rightarrow> 'a list" where
  "insertStable lt x [] = [x]"
| "insertStable lt x (y # ys) = (if lt y x then y # insertStable lt x ys else x # y # ys)"

definition stableSort :: "('a \<Rightarrow> 'a \<Rightarrow> bool) \<Rightarrow> 'a list \<Rightarrow> 'a list" where
  "stableSort lt xs = foldr (insertStable lt) xs []"

definition sortRows :: "sortClause list \<Rightarrow> row list \<Rightarrow> row list" where
  "sortRows sorts rows = stableSort (\<lambda>a b. compareRows a b sorts < 0) rows"

text \<open>The window of the sorted rows; \<open>None\<close> is the panic of a slice whose end, a machine sum, is
  negative.\<close>

definition window :: "'a list \<Rightarrow> int \<Rightarrow> int \<Rightarrow> 'a list option" where
  "window rows offset limit =
     (if limit \<le> 0 then Some []
      else if offset \<ge> int (length rows) then Some []
      else let stop = wrap64 (offset + limit); stop = (if stop > int (length rows) then int (length rows) else stop) in
        if offset < 0 \<or> stop < offset then None
        else Some (take (nat (stop - offset)) (drop (nat offset) rows)))"

subsection \<open>The contract of a comparison\<close>

locale comparison =
  fixes cmp :: "'a \<Rightarrow> 'a \<Rightarrow> int" and A :: "'a set"
  assumes swap: "x \<in> A \<Longrightarrow> y \<in> A \<Longrightarrow> cmp y x = - cmp x y"
    and trans: "x \<in> A \<Longrightarrow> y \<in> A \<Longrightarrow> z \<in> A \<Longrightarrow> cmp x y \<le> 0 \<Longrightarrow> cmp y z \<le> 0 \<Longrightarrow> cmp x z \<le> 0"
begin

lemma refl: "x \<in> A \<Longrightarrow> cmp x x = 0"
  using swap[of x x] by simp

lemma trans_less: "x \<in> A \<Longrightarrow> y \<in> A \<Longrightarrow> z \<in> A \<Longrightarrow> cmp x y < 0 \<Longrightarrow> cmp y z \<le> 0 \<Longrightarrow> cmp x z < 0"
  using trans[of x y z] trans[of y z x] swap[of x z] swap[of x y] by linarith

lemma trans_eq: "x \<in> A \<Longrightarrow> y \<in> A \<Longrightarrow> z \<in> A \<Longrightarrow> cmp x y = 0 \<Longrightarrow> cmp y z = 0 \<Longrightarrow> cmp x z = 0"
  using trans[of x y z] trans[of z y x] swap[of x z] swap[of x y] swap[of y z] by linarith

lemma trans_le_less: "x \<in> A \<Longrightarrow> y \<in> A \<Longrightarrow> z \<in> A \<Longrightarrow> cmp x y \<le> 0 \<Longrightarrow> cmp y z < 0 \<Longrightarrow> cmp x z < 0"
  using trans[of x y z] trans[of z x y] swap[of x z] swap[of y z] by linarith

lemma insert_set: "set (insertStable (\<lambda>a b. cmp a b < 0) x ys) = insert x (set ys)"
  by (induction ys) auto

lemma insert_sorted:
  "x \<in> A \<Longrightarrow> set ys \<subseteq> A \<Longrightarrow> sorted_wrt (\<lambda>a b. cmp a b \<le> 0) ys \<Longrightarrow>
   sorted_wrt (\<lambda>a b. cmp a b \<le> 0) (insertStable (\<lambda>a b. cmp a b < 0) x ys)"
proof (induction ys)
  case (Cons y ys)
  then have y: "y \<in> A" by simp
  show ?case
  proof (cases "cmp y x < 0")
    case True
    with Cons show ?thesis by (auto simp: insert_set)
  next
    case False
    then have "cmp x y \<le> 0" using swap[OF y Cons.prems(1)] by simp
    moreover from this have "cmp x z \<le> 0" if "z \<in> set ys" for z
      using that Cons.prems trans[OF Cons.prems(1) y, of z] by auto
    ultimately show ?thesis using False Cons.prems by auto
  qed
qed simp

lemma insert_stable:
  assumes "x \<in> A" "set ys \<subseteq> A" "z \<in> A"
  shows "filter (\<lambda>y. cmp z y = 0) (insertStable (\<lambda>a b. cmp a b < 0) x ys) = filter (\<lambda>y. cmp z y = 0) (x # ys)"
  using assms(2)
proof (induction ys)
  case (Cons y ys)
  have "\<not> (cmp z x = 0 \<and> cmp z y = 0)" if "cmp y x < 0"
    using that trans_eq[of y z x] swap[of z y] assms(1,3) Cons.prems by auto
  with Cons show ?case by auto
qed simp

lemma sort_spec:
  "set xs \<subseteq> A \<Longrightarrow> mset (stableSort (\<lambda>a b. cmp a b < 0) xs) = mset xs \<and>
   sorted_wrt (\<lambda>a b. cmp a b \<le> 0) (stableSort (\<lambda>a b. cmp a b < 0) xs) \<and>
   (\<forall>z \<in> A. filter (\<lambda>y. cmp z y = 0) (stableSort (\<lambda>a b. cmp a b < 0) xs) = filter (\<lambda>y. cmp z y = 0) xs)"
proof (induction xs)
  case (Cons x xs)
  let ?ys = "stableSort (\<lambda>a b. cmp a b < 0) xs"
  have step: "stableSort (\<lambda>a b. cmp a b < 0) (x # xs) = insertStable (\<lambda>a b. cmp a b < 0) x ?ys"
    by (simp add: stableSort_def)
  from Cons have IH: "mset ?ys = mset xs" "sorted_wrt (\<lambda>a b. cmp a b \<le> 0) ?ys"
    "\<forall>z \<in> A. filter (\<lambda>y. cmp z y = 0) ?ys = filter (\<lambda>y. cmp z y = 0) xs" by simp_all
  have ys: "set ?ys \<subseteq> A" "x \<in> A" using Cons.prems IH(1) by (auto dest: mset_eq_setD)
  have "mset (insertStable (\<lambda>a b. cmp a b < 0) x ys) = add_mset x (mset ys)" for ys
    by (induction ys) auto
  with IH insert_sorted[OF ys(2,1)] insert_stable[OF ys(2,1)] show ?case
    unfolding step by simp
qed (simp add: stableSort_def)

end

text \<open>The comparisons of the source meet the contract.\<close>

lemma byte_inj: "byte c = byte d \<Longrightarrow> c = d"
  by (simp add: byte_def)

lemma strLess_irrefl [simp]: "\<not> strLess s s"
  by (induction s) auto

lemma strLess_total: "s = t \<or> strLess s t \<or> strLess t s"
proof (induction s t rule: strLess.induct)
  case (3 c s d t)
  then show ?case using byte_inj[of c d] by (cases "byte c" "byte d" rule: linorder_cases) auto
next
  case (1 t)
  then show ?case by (cases t) auto
qed auto

lemma strLess_trans: "strLess s t \<Longrightarrow> strLess t u \<Longrightarrow> strLess s u"
proof (induction s t arbitrary: u rule: strLess.induct)
  case (1 t)
  then show ?case by (cases t; cases u) auto
next
  case (3 c s d t)
  then show ?case by (cases u) auto
qed auto

lemma strLess_asym: "strLess s t \<Longrightarrow> \<not> strLess t s"
  using strLess_trans strLess_irrefl by blast

interpretation strings: comparison compareStr UNIV
proof
  fix s t u :: string
  show "compareStr t s = - compareStr s t"
    using strLess_total[of s t] strLess_asym[of s t] strLess_asym[of t s] by (auto simp: compareStr_def)
  assume "compareStr s t \<le> 0" "compareStr t u \<le> 0"
  then show "compareStr s u \<le> 0"
    using strLess_trans[of s t u] by (auto simp: compareStr_def split: if_splits)
qed

interpretation ints: comparison compareInt UNIV
  by unfold_locales (auto simp: compareInt_def split: if_splits)

interpretation bools: comparison compareBool UNIV
  by unfold_locales (auto simp: compareBool_def split: if_splits)

lemma compareFloat_le: "compareFloat a b \<le> 0 \<longleftrightarrow> fless a b \<or> \<not> fless b a"
  by (simp add: compareFloat_def)

lemma fless_asym: "fless a b \<Longrightarrow> \<not> fless b a"
  by (cases a; cases b) auto

lemma fless_negtrans:
  "\<not> isNaN a \<Longrightarrow> \<not> isNaN b \<Longrightarrow> \<not> isNaN c \<Longrightarrow> \<not> fless b a \<Longrightarrow> \<not> fless c b \<Longrightarrow> \<not> fless c a"
  unfolding isNaN_def by (cases a; cases b; cases c; simp; blast?)

interpretation floats: comparison compareFloat "{y. \<not> isNaN y}"
proof
  fix a b c :: gofloat
  show "compareFloat b a = - compareFloat a b"
    using fless_asym[of a b] by (auto simp: compareFloat_def)
  assume "a \<in> {y. \<not> isNaN y}" "b \<in> {y. \<not> isNaN y}" "c \<in> {y. \<not> isNaN y}"
    "compareFloat a b \<le> 0" "compareFloat b c \<le> 0"
  then show "compareFloat a c \<le> 0"
    using fless_negtrans[of a b c] fless_asym[of a b] fless_asym[of b c] unfolding compareFloat_le by blast
qed

subsection \<open>Comparable columns\<close>

lemma comparison_lex:
  assumes "comparison f A" "comparison g A"
  shows "comparison (\<lambda>x y. if f x y \<noteq> 0 then f x y else g x y) A"
proof
  fix x y assume "x \<in> A" "y \<in> A"
  then show "(if f y x \<noteq> 0 then f y x else g y x) = - (if f x y \<noteq> 0 then f x y else g x y)"
    using comparison.swap[OF assms(1), of x y] comparison.swap[OF assms(2), of x y] by simp
next
  fix x y z
  assume A: "x \<in> A" "y \<in> A" "z \<in> A"
    and le: "(if f x y \<noteq> 0 then f x y else g x y) \<le> 0" "(if f y z \<noteq> 0 then f y z else g y z) \<le> 0"
  have fle: "f x y \<le> 0" "f y z \<le> 0" using le by (auto split: if_splits)
  show "(if f x z \<noteq> 0 then f x z else g x z) \<le> 0"
  proof (cases "f x y = 0 \<and> f y z = 0")
    case True
    then have "f x z = 0" using comparison.trans_eq[OF assms(1) A] by simp
    with True le comparison.trans[OF assms(2) A] show ?thesis by simp
  next
    case False
    then have "f x z < 0"
      using fle comparison.trans_less[OF assms(1) A] comparison.trans_le_less[OF assms(1) A] by linarith
    then show ?thesis by simp
  qed
qed

lemma comparison_pull:
  assumes "comparison f B" "\<And>x. x \<in> A \<Longrightarrow> h x \<in> B"
  shows "comparison (\<lambda>x y. f (h x) (h y)) A"
proof
  show "f (h y) (h x) = - f (h x) (h y)" if "x \<in> A" "y \<in> A" for x y
    using comparison.swap[OF assms(1)] assms(2) that by blast
  show "f (h x) (h z) \<le> 0" if "x \<in> A" "y \<in> A" "z \<in> A" "f (h x) (h y) \<le> 0" "f (h y) (h z) \<le> 0" for x y z
    using comparison.trans[OF assms(1)] assms(2) that by blast
qed

lemma comparison_neg:
  assumes "comparison f A"
  shows "comparison (\<lambda>x y. - f x y) A"
proof
  show "- f y x = - (- f x y)" if "x \<in> A" "y \<in> A" for x y
    using comparison.swap[OF assms that] by simp
  show "- f x z \<le> 0" if A: "x \<in> A" "y \<in> A" "z \<in> A" and "- f x y \<le> 0" "- f y z \<le> 0" for x y z
    using that comparison.swap[OF assms A(1,2)] comparison.swap[OF assms A(2,3)] comparison.swap[OF assms A(1,3)]
      comparison.trans[OF assms A(3,2,1)] by linarith
qed

text \<open>The kinds of cells a sortable column holds, all of one kind or null; a NaN is of no kind.\<close>

fun ordKind :: "gval \<Rightarrow> string" where
  "ordKind (GStr _) = ''string''"
| "ordKind (GInt64 _) = ''int64''"
| "ordKind (GBool _) = ''bool''"
| "ordKind (GFloat64 y) = (if isNaN y then [] else ''float64'')"
| "ordKind _ = []"

lemma comparison_scalar:
  assumes "k \<noteq> []"
  shows "comparison compareScalar {v. ordKind v = k}"
proof (cases "k \<in> {''string'', ''int64'', ''bool'', ''float64''}")
  case True
  define str where "str v = (case v of GStr x \<Rightarrow> x | _ \<Rightarrow> [])" for v
  define num where "num v = (case v of GInt64 x \<Rightarrow> x | _ \<Rightarrow> 0)" for v
  define boo where "boo v = (case v of GBool x \<Rightarrow> x | _ \<Rightarrow> False)" for v
  define flo where "flo v = (case v of GFloat64 x \<Rightarrow> x | _ \<Rightarrow> Fin False 0)" for v
  have eq: "compareScalar v w = (if k = ''string'' then compareStr (str v) (str w)
      else if k = ''int64'' then compareInt (num v) (num w)
      else if k = ''bool'' then compareBool (boo v) (boo w) else compareFloat (flo v) (flo w))"
    if "ordKind v = k" "ordKind w = k" for v w
    using that True by (cases v; cases w) (auto simp: compareScalar_def str_def num_def boo_def flo_def split: if_splits)
  have flo: "\<not> isNaN (flo v)" if "ordKind v = ''float64''" for v
    using that by (cases v) (auto simp: flo_def split: if_splits)
  have base: "comparison (\<lambda>v w. if k = ''string'' then compareStr (str v) (str w)
      else if k = ''int64'' then compareInt (num v) (num w)
      else if k = ''bool'' then compareBool (boo v) (boo w) else compareFloat (flo v) (flo w)) {v. ordKind v = k}"
  proof -
    consider "k = ''string''" | "k = ''int64''" | "k = ''bool''" | "k = ''float64''" using True by blast
    then show ?thesis
    proof cases
      case 1
      then show ?thesis using comparison_pull[OF strings.comparison_axioms, of "{v. ordKind v = k}" str] by simp
    next
      case 2
      then show ?thesis using comparison_pull[OF ints.comparison_axioms, of "{v. ordKind v = k}" num] by simp
    next
      case 3
      then show ?thesis using comparison_pull[OF bools.comparison_axioms, of "{v. ordKind v = k}" boo] by simp
    next
      case 4
      then show ?thesis using comparison_pull[OF floats.comparison_axioms, of "{v. ordKind v = k}" flo] flo by simp
    qed
  qed
  show ?thesis
  proof
    show "compareScalar w v = - compareScalar v w" if "v \<in> {v. ordKind v = k}" "w \<in> {v. ordKind v = k}" for v w
      using comparison.swap[OF base that] that eq[of v w] eq[of w v] by simp
    show "compareScalar u w \<le> 0" if A: "u \<in> {v. ordKind v = k}" "v \<in> {v. ordKind v = k}" "w \<in> {v. ordKind v = k}"
      and le: "compareScalar u v \<le> 0" "compareScalar v w \<le> 0" for u v w
      using comparison.trans[OF base A] A le eq[of u v] eq[of v w] eq[of u w] by simp
  qed
next
  case False
  have "ordKind v \<in> {[], ''string'', ''int64'', ''bool'', ''float64''}" for v by (cases v) auto
  with False assms have "{v. ordKind v = k} = {}" by blast
  then show ?thesis by unfold_locales auto
qed

lemma comparison_cells:
  assumes "k \<noteq> []"
  shows "comparison (compareCells desc) {v. v = GNil \<or> ordKind v = k}"
proof -
  have base: "comparison (\<lambda>v w. if desc then - compareScalar v w else compareScalar v w) {v. ordKind v = k}"
    using comparison_scalar[OF assms] comparison_neg[OF comparison_scalar[OF assms]] by (cases desc) simp_all
  have nil: "v \<noteq> GNil" if "ordKind v = k" for v using that assms by auto
  show ?thesis
  proof
    fix v w assume "v \<in> {v. v = GNil \<or> ordKind v = k}" "w \<in> {v. v = GNil \<or> ordKind v = k}"
    then show "compareCells desc w v = - compareCells desc v w"
      using comparison.swap[OF base, of v w] nil by (auto simp: compareCells_def)
  next
    fix u v w
    assume "u \<in> {v. v = GNil \<or> ordKind v = k}" "v \<in> {v. v = GNil \<or> ordKind v = k}" "w \<in> {v. v = GNil \<or> ordKind v = k}"
      "compareCells desc u v \<le> 0" "compareCells desc v w \<le> 0"
    then show "compareCells desc u w \<le> 0"
      using comparison.trans[OF base, of u v w] nil by (auto simp: compareCells_def split: if_splits)
  qed
qed

definition uniformColumn :: "row list \<Rightarrow> string \<Rightarrow> bool" where
  "uniformColumn rows f \<longleftrightarrow>
     list_ex (\<lambda>k. \<forall>r \<in> set rows. cell r f = GNil \<or> ordKind (cell r f) = k) [''string'', ''int64'', ''bool'', ''float64'']"

lemma comparison_rows:
  "\<forall>c \<in> set sorts. uniformColumn rows (scField c) \<Longrightarrow> comparison (\<lambda>a b. compareRows a b sorts) (set rows)"
proof (induction sorts)
  case Nil
  show ?case by unfold_locales simp_all
next
  case (Cons c cs)
  then obtain k where "k \<noteq> []" "\<forall>r \<in> set rows. cell r (scField c) = GNil \<or> ordKind (cell r (scField c)) = k"
    by (auto simp: uniformColumn_def)
  then have "comparison (\<lambda>a b. compareCells (scDesc c) (cell a (scField c)) (cell b (scField c))) (set rows)"
    by (intro comparison_pull[OF comparison_cells]) auto
  moreover have "comparison (\<lambda>a b. compareRows a b cs) (set rows)" using Cons by simp
  ultimately show ?case unfolding compareRows.simps Let_def by (rule comparison_lex)
qed

lemma window_cases:
  assumes "0 \<le> offset" "0 \<le> limit" "in64 offset" "in64 limit" "int (length rows) \<le> maxInt64"
  shows "window rows offset limit =
    (if 0 < limit \<and> offset < int (length rows) \<and> maxInt64 < offset + limit then None
     else Some (take (nat limit) (drop (nat offset) rows)))"
proof (cases "0 < limit \<and> offset < int (length rows)")
  case True
  show ?thesis
  proof (cases "maxInt64 < offset + limit")
    case over: True
    then have "wrap64 (offset + limit) = offset + limit - 2 ^ 64"
      using assms over minus_mod_self2[of "offset + limit + 2 ^ 63" "2 ^ 64"]
        mod_pos_pos_trivial[of "offset + limit + 2 ^ 63 - 2 ^ 64" "2 ^ 64"]
      by (simp add: wrap64_def in64_def minInt64_def maxInt64_def)
    with over True assms show ?thesis by (auto simp: window_def in64_def maxInt64_def)
  next
    case False
    then have "wrap64 (offset + limit) = offset + limit"
      using assms by (intro wrap64_id) (simp add: in64_def minInt64_def)
    with False True assms show ?thesis
      by (auto simp: window_def Let_def nat_diff_distrib nat_add_distrib min_def)
  qed
next
  case False
  with assms show ?thesis by (auto simp: window_def)
qed

subsection \<open>Properties\<close>

text \<open>Sorting fetched rows permutes them into the order of the sort clauses (missing values last,
  ties decided by the next clause), and rows the clauses do not tell apart keep the order they
  were fetched in. The sorted columns hold strings, 64-bit integers, booleans or 64-bit floats
  that are numbers.\<close>

theorem sortRows_stable:
  assumes "\<forall>c \<in> set sorts. uniformColumn rows (scField c)"
  shows "mset (sortRows sorts rows) = mset rows \<and>
    sorted_wrt (\<lambda>a b. compareRows a b sorts \<le> 0) (sortRows sorts rows) \<and>
    (\<forall>r \<in> set rows. filter (\<lambda>x. compareRows r x sorts = 0) (sortRows sorts rows) =
       filter (\<lambda>x. compareRows r x sorts = 0) rows)"
  unfolding sortRows_def using comparison.sort_spec[OF comparison_rows[OF assms], of rows] by simp

text \<open>The window of the sorted rows is the rows from the offset on, at most the limit, unless the
  machine sum of the two overflows on a page that starts inside the rows: that slice panics.\<close>

theorem window_exact:
  assumes "0 \<le> offset" "0 \<le> limit" "in64 offset" "in64 limit" "int (length rows) \<le> maxInt64"
  shows "window rows offset limit =
    (if 0 < limit \<and> offset < int (length rows) \<and> maxInt64 < offset + limit then None
     else Some (take (nat limit) (drop (nat offset) rows)))"
  using assms by (rule window_cases)

text \<open>Cells of other types are compared by their text: 10 sorts before 9 in an \<open>int32\<close> column.\<close>

lemma int32_text_order:
  "sortRows [\<lparr>scField = ''n'', scDesc = False\<rparr>] [[(''n'', GInt32 9)], [(''n'', GInt32 10)]] =
     [[(''n'', GInt32 10)], [(''n'', GInt32 9)]]"
  by code_simp

subsection \<open>Witnesses\<close>

lemma sortRows_stable_witness:
  "sortRows [\<lparr>scField = ''n'', scDesc = True\<rparr>] [[(''n'', GInt64 9)], [], [(''n'', GInt64 10)]] =
     [[(''n'', GInt64 10)], [(''n'', GInt64 9)], []] \<and>
   mset [[(''n'', GInt64 10)], [(''n'', GInt64 9)], []] = mset [[(''n'', GInt64 9)], [], [(''n'', GInt64 10)]]"
proof -
  let ?sorts = "[\<lparr>scField = ''n'', scDesc = True\<rparr>]" and ?rows = "[[(''n'', GInt64 9)], [], [(''n'', GInt64 10)]]"
  have "\<forall>c \<in> set ?sorts. uniformColumn ?rows (scField c)" by (simp add: uniformColumn_def cell_def)
  from sortRows_stable[OF this]
  have "mset (sortRows ?sorts ?rows) = mset ?rows" by blast
  moreover have "sortRows ?sorts ?rows = [[(''n'', GInt64 10)], [(''n'', GInt64 9)], []]"
    by (simp add: sortRows_def stableSort_def compareCells_def compareScalar_def compareInt_def cell_def)
  ultimately show ?thesis by simp
qed

lemma window_exact_witness:
  "window [''a'', ''b'', ''c''] 1 1 = Some [''b''] \<and> window [''a'', ''b''] 1 maxInt64 = None"
  using window_exact[of 1 1 "[''a'', ''b'', ''c'']"] window_exact[of 1 maxInt64 "[''a'', ''b'']"]
  by (simp add: in64_def minInt64_def maxInt64_def)

end
