(* ===== verification/StoreRead.thy ===== *)
theory StoreRead
  imports StoreWrite StoreSort Tri
begin

text \<open>
  Plan execution, \<open>internal/store/milvus.go\<close>: projections, paging, the primary-key cursor scan,
  client-side sorting and windowing, totals and hits.

  The Milvus client is a parameter: a record of the calls the source makes, each a function of
  the client's state and the request, answering with a result or an error message, and leaving
  a state (a collection may be loaded in between). A fetched row is a Go map from field names to
  cells, an association list in which an absent name reads as nil.

  The cursor scan loops until a batch comes back short, which a server could avoid for ever, so
  it is a partial function: \<open>None\<close> is the loop that does not end. The theorems show that it ends
  and returns every match when the server pages by key.
\<close>

subsection \<open>Requests and answers\<close>

record queryReq =
  qrCollection :: string
  qrFilter :: string
  qrOutput :: "string list"
  qrPage :: "(int \<times> int) option"     \<comment> \<open>offset and limit\<close>

record searchReq =
  srCollection :: string
  srLimit :: int
  srVector :: "gofloat list"
  srField :: string
  srFilter :: string
  srOutput :: "string list"
  srOffset :: int
  srMetric :: "metric option"

text \<open>A result column: reading a cell may fail, and only some columns can tell nulls.\<close>

record resultColumn =
  rcName :: string
  rcLen :: nat
  rcGet :: "nat \<Rightarrow> gval option"
  rcIsNull :: "(nat \<Rightarrow> bool option) option"

record resultSet =
  rsLen :: nat
  rsFields :: "resultColumn list"
  rsIDs :: "(nat \<Rightarrow> gval option) option"

record 's readClient =
  rdDescribe :: "'s \<Rightarrow> string \<Rightarrow> (string + collection) \<times> 's"
  rdQuery :: "'s \<Rightarrow> queryReq \<Rightarrow> (string + resultSet) \<times> 's"
  rdSearch :: "'s \<Rightarrow> searchReq \<Rightarrow> (string + resultSet list) \<times> 's"
  rdLoad :: "'s \<Rightarrow> string \<Rightarrow> (string + unit) \<times> 's"

text \<open>Sequencing of client calls.\<close>

type_synonym ('s, 'a) call = "'s \<Rightarrow> (storeError + 'a) \<times> 's"

definition bindS :: "('s, 'a) call \<Rightarrow> ('a \<Rightarrow> ('s, 'b) call) \<Rightarrow> ('s, 'b) call" where
  "bindS m f = (\<lambda>s. case m s of (Inl e, s') \<Rightarrow> (Inl e, s') | (Inr x, s') \<Rightarrow> f x s')"

definition returnS :: "'a \<Rightarrow> ('s, 'a) call" where
  "returnS x = (\<lambda>s. (Inr x, s))"

definition failS :: "storeError \<Rightarrow> ('s, 'a) call" where
  "failS e = (\<lambda>s. (Inl e, s))"

definition liftE :: "storeError + 'a \<Rightarrow> ('s, 'a) call" where
  "liftE r = (\<lambda>s. (r, s))"

subsection \<open>Calls with the auto-load retry\<close>

definition storeDescribe :: "'s readClient \<Rightarrow> string \<Rightarrow> ('s, collection) call" where
  "storeDescribe cli name = (\<lambda>s. case rdDescribe cli s name of (ans, s') \<Rightarrow> (describeAnswer name ans, s'))"

text \<open>One call; a "not loaded" failure loads the collection and repeats the call once.\<close>

definition retryLoaded :: "'s readClient \<Rightarrow> string \<Rightarrow> string \<Rightarrow> ('s \<Rightarrow> (string + 'a) \<times> 's) \<Rightarrow> ('s, 'a) call" where
  "retryLoaded cli what name run = (\<lambda>s.
     case run s of
       (Inr rs, s1) \<Rightarrow> (Inr rs, s1)
     | (Inl msg, s1) \<Rightarrow>
         if \<not> containsStr msg ''not loaded''
         then (Inl (StoreFail [T what, T '' collection '', Q name, T '': '', S msg]), s1)
         else (case rdLoad cli s1 name of
             (Inl msg, s2) \<Rightarrow> (Inl (StoreFail [T ''auto-load collection '', Q name, T '': '', S msg]), s2)
           | (Inr _, s2) \<Rightarrow>
               (case run s2 of
                  (Inl msg, s3) \<Rightarrow>
                    (Inl (StoreFail [T what, T '' collection '', Q name, T '' after auto-load: '', S msg]), s3)
                | (Inr rs, s3) \<Rightarrow> (Inr rs, s3))))"

definition queryOpt :: "'s readClient \<Rightarrow> queryReq \<Rightarrow> ('s, resultSet) call" where
  "queryOpt cli q = retryLoaded cli ''query'' (qrCollection q) (\<lambda>s. rdQuery cli s q)"

definition searchOpt :: "'s readClient \<Rightarrow> searchReq \<Rightarrow> ('s, resultSet list) call" where
  "searchOpt cli q = retryLoaded cli ''search'' (srCollection q) (\<lambda>s. rdSearch cli s q)"

subsection \<open>Rows\<close>

text \<open>The columns by name: a later column of the same name wins.\<close>

fun columnsByName :: "resultColumn list \<Rightarrow> (string \<times> resultColumn) list \<Rightarrow> (string \<times> resultColumn) list" where
  "columnsByName [] m = m"
| "columnsByName (c # cs) m = columnsByName cs (setKey (rcName c) c m)"

definition isNull :: "resultColumn \<Rightarrow> nat \<Rightarrow> bool" where
  "isNull col i = (case rcIsNull col of None \<Rightarrow> False | Some nul \<Rightarrow> nul i = Some True)"

definition readCell :: "resultColumn \<Rightarrow> nat \<Rightarrow> gval" where
  "readCell col i = (case rcGet col i of None \<Rightarrow> GNil | Some v \<Rightarrow> if isNull col i then GNil else v)"

fun fillFields :: "(string \<times> resultColumn) list \<Rightarrow> nat \<Rightarrow> string list \<Rightarrow> row \<Rightarrow> row" where
  "fillFields cols i [] r = r"
| "fillFields cols i (name # names) r =
     (case map_of cols name of
        None \<Rightarrow> fillFields cols i names r
      | Some col \<Rightarrow> fillFields cols i names (setKey name (readCell col i) r))"

definition rowsOf :: "resultSet \<Rightarrow> string list \<Rightarrow> row list" where
  "rowsOf rs outputs =
     map (\<lambda>i. fillFields (columnsByName (rsFields rs) []) i outputs []) [0..<rsLen rs]"

fun fillKeys :: "(nat \<Rightarrow> gval option) \<Rightarrow> string \<Rightarrow> nat \<Rightarrow> row list \<Rightarrow> row list" where
  "fillKeys ids pk i [] = []"
| "fillKeys ids pk i (r # rows) =
     (if map_of r pk \<noteq> None then r
      else case ids i of None \<Rightarrow> r | Some v \<Rightarrow> setKey pk v r) # fillKeys ids pk (i + 1) rows"

definition searchRows :: "resultSet \<Rightarrow> string list \<Rightarrow> string \<Rightarrow> row list" where
  "searchRows rs outputs pk =
     (let rows = rowsOf rs outputs in
      case rsIDs rs of None \<Rightarrow> rows | Some ids \<Rightarrow> fillKeys ids pk 0 rows)"

definition rowProject :: "row \<Rightarrow> string list \<Rightarrow> row" where
  "rowProject r keep = fold (\<lambda>f out. case map_of r f of None \<Rightarrow> out | Some v \<Rightarrow> setKey f v out) keep []"

definition hitID :: "row \<Rightarrow> string \<Rightarrow> storeError + string" where
  "hitID r pk =
     (case cell r pk of
        GNil \<Rightarrow> Inl (StoreFail [T ''primary key '', Q pk, T '' is missing from the fetched row''])
      | GStr x \<Rightarrow> Inr x
      | GInt64 n \<Rightarrow> Inr (FormatInt n)
      | v \<Rightarrow> Inr (showV v))"

definition scalarValue :: "gval \<Rightarrow> val" where
  "scalarValue v =
     (case v of GStr x \<Rightarrow> StringValue x | GInt64 n \<Rightarrow> IntValue n | GFloat64 y \<Rightarrow> FloatValue y
      | GBool b \<Rightarrow> BoolValue b | _ \<Rightarrow> StringValue (showV v))"

subsection \<open>Projections\<close>

definition primaryKey :: "entityField list \<Rightarrow> entityField option" where
  "primaryKey fs = find efPrimary fs"

definition isSortableType :: "dataType \<Rightarrow> bool" where
  "isSortableType t \<longleftrightarrow> t \<in> set [DtInt8, DtInt16, DtInt32, DtInt64, DtFloat, DtDouble, DtBool, DtVarChar, DtString]"

definition appendUnique :: "string list \<Rightarrow> string \<Rightarrow> string list" where
  "appendUnique xs v = (if v \<in> set xs then xs else xs @ [v])"

definition matchPattern :: "string list \<Rightarrow> string \<Rightarrow> string list" where
  "matchPattern names p =
     (if hasSuffix p ''.*'' then filter (\<lambda>n. hasPrefix n (trimSuffix p ''.*'' @ ''.'')) names
      else if p = ''*'' then names
      else if p \<in> set names then [p] else [])"

definition resolveSourceFields :: "string list \<Rightarrow> sourceFilter \<Rightarrow> string list" where
  "resolveSourceFields names src =
     (if \<not> FetchSource src then []
      else let keep = (if Includes src = [] then names else concat (map (matchPattern names) (Includes src))) in
        fold (\<lambda>name kept.
          if list_ex (\<lambda>p. matchPattern [name] p \<noteq> []) (Excludes src) then kept else appendUnique kept name) keep [])"

text \<open>Whether a field can be sorted on: a later field of the same name wins.\<close>

fun sortableFields :: "entityField list \<Rightarrow> string list \<Rightarrow> (string \<times> bool) list \<Rightarrow> (string \<times> bool) list" where
  "sortableFields [] outs m = m"
| "sortableFields (f # fs) outs m =
     (if isFunctionOutput (efName f) outs then sortableFields fs outs m
      else sortableFields fs outs (setKey (efName f) (isSortableType (efType f)) m))"

fun addSortFields :: "(string \<times> bool) list \<Rightarrow> sortClause list \<Rightarrow> string list \<Rightarrow> storeError + string list" where
  "addSortFields sortable [] fetch = Inr fetch"
| "addSortFields sortable (c # cs) fetch =
     (if map_of sortable (scField c) = Some True then addSortFields sortable cs (appendUnique fetch (scField c))
      else Inl (StoreFail [T ''cannot sort on field ['', S (scField c),
             T '']: not a sortable scalar field of this collection'']))"

definition buildProjection ::
  "entityField list \<Rightarrow> string \<Rightarrow> string list \<Rightarrow> sourceFilter \<Rightarrow> sortClause list \<Rightarrow> storeError + string list \<times> string list" where
  \<comment> \<open>the names to fetch and the names of the source; \<open>pk\<close> is the primary key's name\<close>
  "buildProjection fs pk outs src sorts =
     (let names = map efName (filter (\<lambda>f. \<not> isFunctionOutput (efName f) outs) fs);
          source = resolveSourceFields names src in
      bindE (addSortFields (sortableFields fs outs []) sorts source) (\<lambda>fetch.
        Inr (appendUnique fetch pk, source)))"

subsection \<open>Pages, scans and counts\<close>

definition queryPage ::
  "'s readClient \<Rightarrow> string \<Rightarrow> string \<Rightarrow> string list \<Rightarrow> int \<Rightarrow> int \<Rightarrow> ('s, row list) call" where
  "queryPage cli name expr outputs offset limit =
     bindS (queryOpt cli \<lparr>qrCollection = name, qrFilter = expr, qrOutput = outputs, qrPage = Some (offset, limit)\<rparr>)
       (\<lambda>rs. returnS (rowsOf rs outputs))"

definition scanBatchSize :: int where "scanBatchSize = 1000"

definition joinAnd :: "string \<Rightarrow> string \<Rightarrow> string" where
  "joinAnd a b = (if a = [] then b else if b = [] then a else ''('' @ a @ '') and ('' @ b @ '')'')"

text \<open>The filter of the next batch: the plan's filter, and past the last key once rows were seen.\<close>

definition cursorFilter :: "string \<Rightarrow> string \<Rightarrow> string \<Rightarrow> row list \<Rightarrow> storeError + string" where
  "cursorFilter name expr pk seen =
     (if seen = [] then Inr expr
      else let v = cell (last seen) pk in
        if v = GNil then Inl (StoreFail [T ''cannot page past a null primary key in '', Q name])
        else case Render (Compare Gt pk (scalarValue v)) of
            Inl e \<Rightarrow> Inl (StoreFail e)
          | Inr cursor \<Rightarrow> Inr (joinAnd expr cursor))"

partial_function (option) scanAll ::
  "'s readClient \<Rightarrow> string \<Rightarrow> string \<Rightarrow> string list \<Rightarrow> string \<Rightarrow> row list \<Rightarrow> 's \<Rightarrow> ((storeError + row list) \<times> 's) option" where
  "scanAll cli name expr outputs pk seen s =
     (case cursorFilter name expr pk seen of
        Inl e \<Rightarrow> Some (Inl e, s)
      | Inr step \<Rightarrow>
          (case queryPage cli name step outputs 0 scanBatchSize s of
             (Inl e, s') \<Rightarrow> Some (Inl e, s')
           | (Inr batch, s') \<Rightarrow>
               if int (length batch) < scanBatchSize then Some (Inr (seen @ batch), s')
               else scanAll cli name expr outputs pk (seen @ batch) s'))"

definition countColumn :: "resultSet \<Rightarrow> resultColumn option" where
  "countColumn rs = find (\<lambda>c. rcName c = ''count(*)'') (rsFields rs)"

definition storeCount :: "'s readClient \<Rightarrow> string \<Rightarrow> string \<Rightarrow> ('s, int) call" where
  "storeCount cli name expr =
     bindS (queryOpt cli \<lparr>qrCollection = name, qrFilter = expr, qrOutput = [''count(*)''], qrPage = None\<rparr>) (\<lambda>rs.
       case countColumn rs of
         None \<Rightarrow> failS (StoreFail [T ''count(*) for collection '', Q name, T '': no result''])
       | Some col \<Rightarrow>
           if rcLen col = 0 then failS (StoreFail [T ''count(*) for collection '', Q name, T '': no result''])
           else case rcGet col 0 of
               None \<Rightarrow> failS (StoreFail [T ''count(*) for collection '', Q name, T '': '', V ''err''])
             | Some (GInt64 n) \<Rightarrow> returnS n
             | Some v \<Rightarrow> failS (StoreFail [T ''count(*) for collection '', Q name, T '': unexpected result type '', V ''v'']))"

definition totalMatches :: "'s readClient \<Rightarrow> string \<Rightarrow> string \<Rightarrow> row list \<Rightarrow> plan \<Rightarrow> ('s, int) call" where
  "totalMatches cli name expr rows p =
     (if pSort p \<noteq> [] then returnS (int (length rows))
      else if pLimit p \<noteq> 0 \<and> int (length rows) < pLimit p
      then returnS (wrap64 (pOffset p + int (length rows)))
      else storeCount cli name expr)"

subsection \<open>Search\<close>

record hit =
  hitId :: string
  hitSource :: row

record searchResult =
  srTotal :: int
  srHits :: "hit list"

definition emptyResult :: searchResult where
  "emptyResult = \<lparr>srTotal = 0, srHits = []\<rparr>"

definition makeHits :: "row list \<Rightarrow> string \<Rightarrow> string list \<Rightarrow> storeError + hit list" where
  "makeHits rows pk source =
     mapE (\<lambda>r. bindE (hitID r pk) (\<lambda>i. Inr \<lparr>hitId = i, hitSource = rowProject r source\<rparr>)) rows"

text \<open>What both paths resolve before a read: the key, the projection and the rendered filter.\<close>

definition prepareRead ::
  "string \<Rightarrow> collection \<Rightarrow> plan \<Rightarrow> sortClause list \<Rightarrow> storeError + string \<times> (string list \<times> string list) \<times> string" where
  "prepareRead name coll p sorts =
     (case primaryKey (collFields coll) of
        None \<Rightarrow> Inl (StoreFail [T ''collection '', Q name, T '' has no primary key field''])
      | Some pk \<Rightarrow>
          bindE (buildProjection (collFields coll) (efName pk) (functionOutputFields coll) (pSource p) sorts) (\<lambda>proj.
            case Render (pExpr p) of
              Inl e \<Rightarrow> Inl (StoreFail (T ''render filter for collection '' # Q name # T '': '' # e))
            | Inr expr \<Rightarrow> Inr (efName pk, proj, expr)))"

text \<open>The rows of a scalar read before sorting: none for a count, one page, or the whole scan.\<close>

definition fetchRows ::
  "'s readClient \<Rightarrow> string \<Rightarrow> string \<Rightarrow> string list \<Rightarrow> string \<Rightarrow> plan \<Rightarrow> 's \<Rightarrow> ((storeError + row list) \<times> 's) option" where
  "fetchRows cli name expr outputs pk p s =
     (if pLimit p = 0 then Some (Inr [], s)
      else if pSort p = [] then Some (queryPage cli name expr outputs (pOffset p) (pLimit p) s)
      else scanAll cli name expr outputs pk [] s)"

definition finishSearch ::
  "'s readClient \<Rightarrow> string \<Rightarrow> string \<Rightarrow> string \<Rightarrow> string list \<Rightarrow> plan \<Rightarrow> row list \<Rightarrow> ('s, searchResult) call" where
  "finishSearch cli name pk expr source p rows =
     bindS (totalMatches cli name expr rows p) (\<lambda>total.
       case (if pSort p = [] then Some rows else window (sortRows (pSort p) rows) (pOffset p) (pLimit p)) of
         None \<Rightarrow> failS StorePanic
       | Some page \<Rightarrow>
           bindS (liftE (makeHits page pk source)) (\<lambda>hits. returnS \<lparr>srTotal = total, srHits = hits\<rparr>))"

definition scalarSearch :: "'s readClient \<Rightarrow> string \<Rightarrow> plan \<Rightarrow> 's \<Rightarrow> ((storeError + searchResult) \<times> 's) option" where
  "scalarSearch cli name p s =
     (case bindS (storeDescribe cli name) (\<lambda>coll. liftE (prepareRead name coll p (pSort p))) s of
        (Inl e, s1) \<Rightarrow> Some (Inl e, s1)
      | (Inr (pk, (outputs, source), expr), s1) \<Rightarrow>
          (case fetchRows cli name expr outputs pk p s1 of
             None \<Rightarrow> None
           | Some (Inl e, s2) \<Rightarrow> Some (Inl e, s2)
           | Some (Inr rows, s2) \<Rightarrow> Some (finishSearch cli name pk expr source p rows s2)))"

definition vectorSearch :: "'s readClient \<Rightarrow> string \<Rightarrow> plan \<Rightarrow> searchSpec \<Rightarrow> ('s, searchResult) call" where
  "vectorSearch cli name p spec =
     (if pSort p \<noteq> []
      then failS (StoreFail [T ''vector search on '', Q name, T '' cannot combine a distance ordering with scalar sort terms''])
      else if pLimit p = 0 then returnS emptyResult
      else bindS (storeDescribe cli name) (\<lambda>coll.
           bindS (liftE (prepareRead name coll p [])) (\<lambda>(pk, (outputs, source), expr).
           bindS (searchOpt cli \<lparr>srCollection = name, srLimit = pLimit p, srVector = ssVector spec, srField = ssField spec,
               srFilter = expr, srOutput = outputs, srOffset = pOffset p, srMetric = ssMetric spec\<rparr>) (\<lambda>rss.
             case rss of
               [] \<Rightarrow> returnS emptyResult
             | rs # _ \<Rightarrow>
                 bindS (liftE (makeHits (searchRows rs outputs pk) pk source)) (\<lambda>hits.
                   returnS \<lparr>srTotal = int (length hits), srHits = hits\<rparr>)))))"

definition storeSearch :: "'s readClient \<Rightarrow> string \<Rightarrow> plan \<Rightarrow> 's \<Rightarrow> ((storeError + searchResult) \<times> 's) option" where
  "storeSearch cli name p s =
     (if pNoMatch p then Some (Inr emptyResult, s)
      else case pSearch p of
          Some spec \<Rightarrow> Some (vectorSearch cli name p spec s)
        | None \<Rightarrow> scalarSearch cli name p s)"

definition storeSchema :: "'s readClient \<Rightarrow> string \<Rightarrow> ('s, schema) call" where
  "storeSchema cli name = bindS (storeDescribe cli name) (\<lambda>coll. returnS (collectionSchema coll))"

subsection \<open>The server's side of the contract\<close>

text \<open>The order of primary keys, integers or strings.\<close>

definition keyLess :: "gval \<Rightarrow> gval \<Rightarrow> bool" where
  "keyLess a b = (case a of
      GInt64 x \<Rightarrow> (case b of GInt64 y \<Rightarrow> x < y | _ \<Rightarrow> False)
    | GStr x \<Rightarrow> (case b of GStr y \<Rightarrow> strLess x y | _ \<Rightarrow> False)
    | _ \<Rightarrow> False)"

definition isKey :: "gval \<Rightarrow> bool" where
  "isKey v = (case v of GInt64 _ \<Rightarrow> True | GStr _ \<Rightarrow> True | _ \<Rightarrow> False)"

text \<open>What the scan relies on: the rows matching the filter are \<open>rows\<close>, in the order of their
  distinct keys, a page from offset 0 is their beginning, and with the cursor of a row's key
  conjoined a page is the beginning of the rows with greater keys.\<close>

definition servesByKey ::
  "'s readClient \<Rightarrow> string \<Rightarrow> string \<Rightarrow> string list \<Rightarrow> string \<Rightarrow> row list \<Rightarrow> bool" where
  "servesByKey cli name expr outputs pk rows \<longleftrightarrow>
     sorted_wrt (\<lambda>a b. keyLess (cell a pk) (cell b pk)) rows \<and> (\<forall>r \<in> set rows. isKey (cell r pk)) \<and>
     (\<forall>s. \<exists>s'. queryPage cli name expr outputs 0 scanBatchSize s = (Inr (take (nat scanBatchSize) rows), s')) \<and>
     (\<forall>r \<in> set rows. \<forall>cursor s. Render (Compare Gt pk (scalarValue (cell r pk))) = Inr cursor \<longrightarrow>
        (\<exists>s'. queryPage cli name (joinAnd expr cursor) outputs 0 scanBatchSize s =
           (Inr (take (nat scanBatchSize) (filter (\<lambda>x. keyLess (cell r pk) (cell x pk)) rows)), s')))"

lemma keyLess_asym: "keyLess a b \<Longrightarrow> \<not> keyLess b a"
  by (auto simp: keyLess_def split: gval.splits dest: strLess_asym)

lemma filter_after:
  assumes "sorted_wrt lt xs" "\<And>x y. lt x y \<Longrightarrow> \<not> lt y x" "k < length xs"
  shows "filter (lt (xs ! k)) xs = drop (Suc k) xs"
proof -
  have split: "xs = take k xs @ xs ! k # drop (Suc k) xs" using assms(3) by (simp add: id_take_nth_drop)
  with assms(1) have before: "\<forall>x \<in> set (take k xs). lt x (xs ! k)" and after: "\<forall>x \<in> set (drop (Suc k) xs). lt (xs ! k) x"
    by (metis list.set_intros(1) sorted_wrt.simps(2) sorted_wrt_append)+
  have "filter (lt (xs ! k)) (take k xs) = []" using before assms(2) by (auto simp: filter_empty_conv)
  moreover have "filter (lt (xs ! k)) (drop (Suc k) xs) = drop (Suc k) xs" using after by (simp add: filter_id_conv)
  moreover have "\<not> lt (xs ! k) (xs ! k)" using assms(2) by blast
  ultimately show ?thesis by (subst split) simp
qed

lemma cursor_renders:
  assumes "validField pk" "isKey v"
  shows "\<exists>cursor. Render (Compare Gt pk (scalarValue v)) = Inr cursor"
proof -
  have "Gt \<in> set compareOps" by (simp add: compareOps_def)
  moreover have "scalarValue v \<noteq> InvalidValue"
    using assms(2) by (auto simp: isKey_def scalarValue_def split: gval.splits)
  ultimately show ?thesis using assms(1) unfolding Render_def renderExpr_total by simp
qed

lemma scanAll_from:
  assumes serves: "servesByKey cli name expr outputs pk rows" and pk: "validField pk"
  shows "k \<le> length rows \<Longrightarrow> \<exists>s'. scanAll cli name expr outputs pk (take k rows) s = Some (Inr rows, s')"
proof (induction "length rows - k" arbitrary: k s rule: less_induct)
  case less
  let ?batch = "take (nat scanBatchSize) (drop k rows)"
  have "\<exists>step s1. cursorFilter name expr pk (take k rows) = Inr step \<and>
      queryPage cli name step outputs 0 scanBatchSize s = (Inr ?batch, s1)"
  proof (cases "take k rows = []")
    case True
    then have "k = 0 \<or> rows = []" by auto
    then have "drop k rows = rows" by auto
    with True serves show ?thesis by (auto simp: cursorFilter_def servesByKey_def)
  next
    case False
    then have k: "0 < k" "k \<le> length rows" "rows \<noteq> []" using less.prems by auto
    then have last: "last (take k rows) = rows ! (k - 1)" "rows ! (k - 1) \<in> set rows"
      by (simp_all add: last_conv_nth)
    have key: "isKey (cell (rows ! (k - 1)) pk)" using serves last(2) by (simp add: servesByKey_def)
    then obtain cursor where cursor: "Render (Compare Gt pk (scalarValue (cell (rows ! (k - 1)) pk))) = Inr cursor"
      using cursor_renders[OF pk] by blast
    have "cursorFilter name expr pk (take k rows) = Inr (joinAnd expr cursor)"
      using False key cursor last(1) by (auto simp: cursorFilter_def Let_def isKey_def)
    moreover have "filter (\<lambda>x. keyLess (cell (rows ! (k - 1)) pk) (cell x pk)) rows = drop k rows"
    proof -
      have "sorted_wrt (\<lambda>a b. keyLess (cell a pk) (cell b pk)) rows" using serves by (simp add: servesByKey_def)
      moreover have "k - 1 < length rows" "Suc (k - 1) = k" using k by simp_all
      ultimately show ?thesis
        using filter_after[of "\<lambda>a b. keyLess (cell a pk) (cell b pk)" rows "k - 1", OF _ keyLess_asym] by simp
    qed
    ultimately show ?thesis using serves last(2) cursor unfolding servesByKey_def by metis
  qed
  then obtain step s1 where step: "cursorFilter name expr pk (take k rows) = Inr step"
    "queryPage cli name step outputs 0 scanBatchSize s = (Inr ?batch, s1)" by blast
  show ?case
  proof (cases "int (length ?batch) < scanBatchSize")
    case True
    then have batch: "?batch = drop k rows" by (simp add: scanBatchSize_def)
    from True have "int (length (drop k rows)) < scanBatchSize" unfolding batch .
    with step show ?thesis unfolding batch by (subst scanAll.simps) simp
  next
    case False
    then have more: "k + nat scanBatchSize \<le> length rows" by (auto simp: scanBatchSize_def min_def split: if_splits)
    have seen: "take k rows @ ?batch = take (k + nat scanBatchSize) rows" by (simp add: take_add)
    have "length rows - (k + nat scanBatchSize) < length rows - k" using more by (simp add: scanBatchSize_def)
    from less.hyps[OF this more] False step seen show ?thesis by (subst scanAll.simps) simp
  qed
qed

lemma scanAll_all:
  assumes "servesByKey cli name expr outputs pk rows" "validField pk"
  shows "\<exists>s'. scanAll cli name expr outputs pk [] s = Some (Inr rows, s')"
  using scanAll_from[OF assms, of 0] by simp

text \<open>The hit of a row whose key is an integer or a string.\<close>

definition hitOf :: "string \<Rightarrow> string list \<Rightarrow> row \<Rightarrow> hit" where
  "hitOf pk source r = \<lparr>hitId = idText (cell r pk), hitSource = rowProject r source\<rparr>"

lemma makeHits_keys:
  "\<forall>r \<in> set rows. isKey (cell r pk) \<Longrightarrow> makeHits rows pk source = Inr (map (hitOf pk source) rows)"
  by (induction rows) (auto simp: makeHits_def hitID_def hitOf_def idText_def isKey_def split: gval.splits)

lemma bindS_eq: "m s = (Inr x, s') \<Longrightarrow> bindS m f s = f x s'"
  by (simp add: bindS_def)

lemma sortRows_set: "set (sortRows sorts rows) = set rows"
proof -
  have "set (insertStable lt x ys) = insert x (set ys)" for lt and x :: row and ys
    by (induction ys) auto
  then show ?thesis by (induction rows) (simp_all add: sortRows_def stableSort_def)
qed

lemma window_set: "window rows offset limit = Some page \<Longrightarrow> set page \<subseteq> set rows"
  by (auto simp: window_def Let_def split: if_splits dest: in_set_takeD in_set_dropD)

subsection \<open>Projections\<close>

definition patternMatches :: "string \<Rightarrow> string \<Rightarrow> bool" where
  "patternMatches p n \<longleftrightarrow>
     (if hasSuffix p ''.*'' then hasPrefix n (trimSuffix p ''.*'' @ ''.'') else p = ''*'' \<or> p = n)"

lemma matchPattern_set: "set (matchPattern names p) = {n \<in> set names. patternMatches p n}"
  by (auto simp: matchPattern_def patternMatches_def)

lemma matchPattern_one: "matchPattern [n] p \<noteq> [] \<longleftrightarrow> patternMatches p n"
  by (auto simp: matchPattern_def patternMatches_def)

lemma appendUnique_set [simp]: "set (appendUnique xs v) = insert v (set xs)"
  by (auto simp: appendUnique_def)

lemma appendUnique_distinct: "distinct xs \<Longrightarrow> distinct (appendUnique xs v)"
  by (simp add: appendUnique_def)

lemma fold_keep:
  "set (fold (\<lambda>name kept. if P name then kept else appendUnique kept name) keep kept) =
     set kept \<union> {n \<in> set keep. \<not> P n} \<and>
   (distinct kept \<longrightarrow> distinct (fold (\<lambda>name kept. if P name then kept else appendUnique kept name) keep kept))"
proof (induction keep arbitrary: kept)
  case (Cons n keep)
  show ?case
    using Cons[of kept] Cons[of "appendUnique kept n"] appendUnique_distinct[of kept n]
    by (cases "P n") auto
qed simp

lemma resolveSourceFields_spec:
  "set (resolveSourceFields names src) = (if FetchSource src then {n \<in> set names.
     (Includes src = [] \<or> (\<exists>p \<in> set (Includes src). patternMatches p n)) \<and>
     \<not> (\<exists>p \<in> set (Excludes src). patternMatches p n)} else {}) \<and> distinct (resolveSourceFields names src)"
  unfolding resolveSourceFields_def Let_def
  using fold_keep[of "\<lambda>name. list_ex (\<lambda>p. matchPattern [name] p \<noteq> []) (Excludes src)" names "[]"]
    fold_keep[of "\<lambda>name. list_ex (\<lambda>p. matchPattern [name] p \<noteq> []) (Excludes src)"
      "concat (map (matchPattern names) (Includes src))" "[]"]
  by (auto simp: matchPattern_one matchPattern_set list_ex_iff)

lemma addSortFields_spec:
  "addSortFields srt cs fetch = Inr fetch' \<Longrightarrow> set fetch' = set fetch \<union> scField ` set cs \<and>
     (\<forall>c \<in> set cs. map_of srt (scField c) = Some True)"
  by (induction srt cs fetch rule: addSortFields.induct) (auto split: if_splits)

subsection \<open>Properties\<close>

text \<open>C19. The cursor scan ends and returns every matching row once, in key order, however many
  batches that takes, when the server pages by key as the source expects.\<close>

theorem scanAll_complete:
  assumes "servesByKey cli name expr outputs pk rows" "validField pk"
  shows "\<exists>s'. scanAll cli name expr outputs pk [] s = Some (Inr rows, s')"
  using assms by (rule scanAll_all)


text \<open>Two totals are not the number of matches: a count-only search with a sort reports none at
  all, and a page that starts behind the last match reports its offset.\<close>

theorem totalMatches_inexact:
  assumes "pLimit p = 0" "pSort p \<noteq> []" "pLimit q > 0" "pSort q = []" "0 \<le> pOffset q" "pOffset q \<le> maxInt64"
  shows "totalMatches cli name expr [] p s = (Inr 0, s) \<and> totalMatches cli name expr [] q s = (Inr (pOffset q), s) \<and>
    fetchRows cli name expr outputs pk p s = Some (Inr [], s)"
  using assms wrap64_id[of "pOffset q"]
  by (simp add: totalMatches_def returnS_def fetchRows_def in64_def minInt64_def)

text \<open>What a read fetches and what it shows: the source names are the collection's stored
  fields that an include pattern asks for and no exclude pattern drops, each once, or none at
  all when the source is switched off; fetched are these, every sort field, each of which is a
  sortable field, and the primary key.\<close>

theorem buildProjection_spec:
  assumes "buildProjection fs pk outs src sorts = Inr (fetch, source)"
  shows "distinct source \<and> set source = (if FetchSource src then
      {n \<in> efName ` {f \<in> set fs. \<not> isFunctionOutput (efName f) outs}.
        (Includes src = [] \<or> (\<exists>p \<in> set (Includes src). patternMatches p n)) \<and>
        \<not> (\<exists>p \<in> set (Excludes src). patternMatches p n)} else {}) \<and>
    set fetch = set source \<union> scField ` set sorts \<union> {pk} \<and>
    (\<forall>c \<in> set sorts. map_of (sortableFields fs outs []) (scField c) = Some True)"
proof -
  from assms obtain f where f: "addSortFields (sortableFields fs outs []) sorts source = Inr f"
    and fetch: "fetch = appendUnique f pk"
    and source: "source = resolveSourceFields (map efName (filter (\<lambda>f. \<not> isFunctionOutput (efName f) outs) fs)) src"
    by (auto simp: buildProjection_def Let_def bindE_eq_Inr)
  have names: "set (map efName (filter (\<lambda>f. \<not> isFunctionOutput (efName f) outs) fs)) =
      efName ` {f \<in> set fs. \<not> isFunctionOutput (efName f) outs}" by simp
  show ?thesis
    using addSortFields_spec[OF f]
      resolveSourceFields_spec[of "map efName (filter (\<lambda>f. \<not> isFunctionOutput (efName f) outs) fs)" src]
    unfolding source[symmetric] names fetch by simp
qed

subsection \<open>Witnesses\<close>

text \<open>A server with two rows, keys 1 and 2, that knows the filters a scan sends it.\<close>

definition sampleResult :: "int list \<Rightarrow> resultSet" where
  "sampleResult ids = \<lparr>rsLen = length ids,
     rsFields = [\<lparr>rcName = ''id'', rcLen = length ids, rcGet = (\<lambda>i. Some (GInt64 (ids ! i))), rcIsNull = None\<rparr>],
     rsIDs = None\<rparr>"

definition sampleServer :: "unit readClient" where
  "sampleServer = \<lparr>rdDescribe = (\<lambda>s _. (Inr sampleColl, s)),
     rdQuery = (\<lambda>s q. (Inr (sampleResult (if qrFilter q = [] then [1, 2] else if qrFilter q = ''id > 1'' then [2] else [])), s)),
     rdSearch = (\<lambda>s _. (Inr [], s)), rdLoad = (\<lambda>s _. (Inr (), s))\<rparr>"

definition sampleTable :: "row list" where
  "sampleTable = [[(''id'', GInt64 1)], [(''id'', GInt64 2)]]"

lemma sampleServer_page:
  "queryPage sampleServer name expr [''id''] offset limit s =
     (Inr (if expr = [] then sampleTable else if expr = ''id > 1'' then [[(''id'', GInt64 2)]] else []), s)"
  by (auto simp: queryPage_def queryOpt_def retryLoaded_def sampleServer_def bindS_def returnS_def rowsOf_def
      sampleResult_def readCell_def isNull_def sampleTable_def upt_rec)

lemma sampleServer_serves: "servesByKey sampleServer ''c'' [] [''id''] ''id'' sampleTable"
proof -
  have "Render (Compare Gt ''id'' (scalarValue (GInt64 1))) = Inr ''id > 1''"
    "Render (Compare Gt ''id'' (scalarValue (GInt64 2))) = Inr ''id > 2''"
    by code_simp+
  then show ?thesis
    unfolding servesByKey_def sampleServer_page
    by (auto simp: sampleTable_def cell_def keyLess_def isKey_def scanBatchSize_def joinAnd_def)
qed

lemma sampleServer_pk: "validField ''id''"
  by code_simp

lemma scanAll_complete_witness:
  "\<exists>s'. scanAll sampleServer ''c'' [] [''id''] ''id'' [] () = Some (Inr sampleTable, s')"
  by (rule scanAll_complete[OF sampleServer_serves sampleServer_pk])

definition samplePlan :: plan where
  "samplePlan = emptyPlan\<lparr>pLimit := 1, pSort := [\<lparr>scField = ''id'', scDesc = True\<rparr>],
     pSource := \<lparr>FetchSource = True, Includes = [''id''], Excludes = []\<rparr>\<rparr>"

lemma samplePlan_prepared:
  "prepareRead ''c'' sampleColl samplePlan (pSort samplePlan) = Inr (''id'', ([''id''], [''id'']), [])"
proof -
  have "Render NilE = Inr []" by code_simp
  then show ?thesis
    by (simp add: prepareRead_def primaryKey_def sampleColl_def samplePlan_def emptyPlan_def buildProjection_def
        functionOutputFields_def isFunctionOutput_def resolveSourceFields_def matchPattern_def hasSuffix_def
        appendUnique_def isSortableType_def Let_def)
qed


lemma totalMatches_inexact_witness:
  "totalMatches sampleServer ''c'' [] [] (samplePlan\<lparr>pLimit := 0\<rparr>) () = (Inr 0, ())"
  using totalMatches_inexact[of "samplePlan\<lparr>pLimit := 0\<rparr>" "samplePlan\<lparr>pSort := []\<rparr>" sampleServer]
  by (simp add: samplePlan_def emptyPlan_def maxInt64_def)

lemma buildProjection_spec_witness:
  "set [''id''] = {n \<in> efName ` {f \<in> set (collFields sampleColl). \<not> isFunctionOutput (efName f) []}. patternMatches ''id'' n}"
proof -
  have "buildProjection (collFields sampleColl) ''id'' [] \<lparr>FetchSource = True, Includes = [''id''], Excludes = []\<rparr> [] =
      Inr ([''id''], [''id''])"
    by (simp add: sampleColl_def buildProjection_def isFunctionOutput_def resolveSourceFields_def matchPattern_def
        hasSuffix_def appendUnique_def Let_def)
  from buildProjection_spec[OF this] show ?thesis by simp
qed

end
