(* ===== verification/Cluster.thy ===== *)
theory Cluster
  imports StoreRead
begin

text \<open>
  The cluster as the protocol shells consume it: the interface \<open>Cluster\<close> of
  \<open>internal/store/cluster.go\<close> with its \<open>Executor\<close> part (\<open>internal/store/executor.go\<close>), and its
  two implementations, the Milvus executor over its client library and the logging stand-in.

  A cluster is a record of the interface's methods, each a function of the state behind it (the
  collections of one database). A search may not return (\<open>None\<close>), like the scan it may run. The
  locale \<open>write_contract\<close> states what the shells rely on when they write: an empty write and a
  rejected write change nothing, and a successful one reports as many rows as it was given. Both
  implementations satisfy it.
\<close>

subsection \<open>The interface\<close>

record 's cluster =
  clCollection :: "string \<Rightarrow> ('s, collectionMeta) call"
  clSchema :: "string \<Rightarrow> ('s, schema) call"
  clSearch :: "string \<Rightarrow> plan \<Rightarrow> 's \<Rightarrow> ((storeError + searchResult) \<times> 's) option"
  clInsert :: "string \<Rightarrow> writeRow list \<Rightarrow> ('s, writeResult) call"
  clUpsert :: "string \<Rightarrow> writeRow list \<Rightarrow> ('s, writeResult) call"
  clListCollections :: "('s, string list) call"
  clCollectionStats :: "string \<Rightarrow> ('s, int) call"

locale write_contract =
  fixes cl :: "'s cluster"
  assumes empty_insert: "clInsert cl name [] s = (Inr \<lparr>wrCount = 0, wrIDs = []\<rparr>, s)"
    and empty_upsert: "clUpsert cl name [] s = (Inr \<lparr>wrCount = 0, wrIDs = []\<rparr>, s)"
    and rejected_insert: "clInsert cl name rows s = (Inl (WriteFail e), s') \<Longrightarrow> s' = s"
    and rejected_upsert: "clUpsert cl name rows s = (Inl (WriteFail e), s') \<Longrightarrow> s' = s"
    and counted_insert: "clInsert cl name rows s = (Inr r, s') \<Longrightarrow> wrCount r = int (length rows)"
    and counted_upsert: "clUpsert cl name rows s = (Inr r, s') \<Longrightarrow> wrCount r = int (length rows)"
begin

text \<open>A write that changes the state was given rows, and was not rejected.\<close>

lemma changing_insert:
  "clInsert cl name rows s = (res, s') \<Longrightarrow> s' \<noteq> s \<Longrightarrow> rows \<noteq> [] \<and> (\<forall>e. res \<noteq> Inl (WriteFail e))"
  using empty_insert[of name s] rejected_insert[of name rows s _ s'] by auto

lemma changing_upsert:
  "clUpsert cl name rows s = (res, s') \<Longrightarrow> s' \<noteq> s \<Longrightarrow> rows \<noteq> [] \<and> (\<forall>e. res \<noteq> Inl (WriteFail e))"
  using empty_upsert[of name s] rejected_upsert[of name rows s _ s'] by auto

end

subsection \<open>The Milvus executor\<close>

text \<open>What the introspection calls ask of the client library: the collection names, and a map of
  statistics in which an absent key reads as the empty string.\<close>

record 's metaClient =
  mcList :: "'s \<Rightarrow> (string + string list) \<times> 's"
  mcStats :: "'s \<Rightarrow> string \<Rightarrow> (string + (string \<times> string) list) \<times> 's"
  mcDatabases :: "'s \<Rightarrow> (string + string list) \<times> 's"

definition Databases :: "'s metaClient \<Rightarrow> ('s, string list) call" where
  "Databases mc = (\<lambda>s. case mcDatabases mc s of
     (Inl msg, s') \<Rightarrow> (Inl (StoreFail [T ''list databases: '', S msg]), s')
   | (Inr names, s') \<Rightarrow> (Inr names, s'))"

definition ListCollections :: "'s metaClient \<Rightarrow> string \<Rightarrow> ('s, string list) call" where
  "ListCollections mc db = (\<lambda>s. case mcList mc s of
     (Inl msg, s') \<Rightarrow> (Inl (StoreFail [T ''list collections in database '', Q db, T '': '', S msg]), s')
   | (Inr names, s') \<Rightarrow> (Inr names, s'))"

definition Collection :: "'s readClient \<Rightarrow> string \<Rightarrow> ('s, collectionMeta) call" where
  "Collection rd name = bindS (storeDescribe rd name) (\<lambda>coll. returnS (catalogMeta coll))"

definition CollectionStats :: "'s metaClient \<Rightarrow> string \<Rightarrow> ('s, int) call" where
  "CollectionStats mc name = (\<lambda>s. case mcStats mc s name of
     (Inl msg, s') \<Rightarrow> (Inl (StoreFail [T ''collection stats for '', Q name, T '': '', S msg]), s')
   | (Inr stats, s') \<Rightarrow> (Inr (typeParamInt stats ''row_count''), s'))"

text \<open>A write describes the collection as the state has it and, when it gets that far, makes one
  call of the client library, which moves the state by \<open>effect\<close>.\<close>

definition milvusWrite ::
  "('s \<Rightarrow> writeClient) \<Rightarrow> (writeCall \<Rightarrow> 's \<Rightarrow> 's) \<Rightarrow> bool \<Rightarrow> string \<Rightarrow> writeRow list \<Rightarrow> ('s, writeResult) call" where
  "milvusWrite wr effect upsert name rows = (\<lambda>s.
     case (if upsert then storeUpsert (wr s) name rows else storeInsert (wr s) name rows) of
       (res, calls) \<Rightarrow> (res, fold effect calls s))"

definition milvusCluster ::
  "'s readClient \<Rightarrow> ('s \<Rightarrow> writeClient) \<Rightarrow> (writeCall \<Rightarrow> 's \<Rightarrow> 's) \<Rightarrow> 's metaClient \<Rightarrow> string \<Rightarrow> 's cluster" where
  "milvusCluster rd wr effect mc db =
     \<lparr>clCollection = Collection rd, clSchema = storeSchema rd, clSearch = storeSearch rd,
      clInsert = milvusWrite wr effect False, clUpsert = milvusWrite wr effect True,
      clListCollections = ListCollections mc db, clCollectionStats = CollectionStats mc\<rparr>"

lemma storeWrite_rejected: "storeWrite cli name rows u = (Inl (WriteFail e), calls) \<Longrightarrow> calls = []"
  by (auto simp: storeWrite_def split: if_splits sum.splits)

lemma storeWrite_counted: "storeWrite cli name rows u = (Inr r, calls) \<Longrightarrow> wrCount r = int (length rows)"
  by (auto simp: storeWrite_def split: if_splits sum.splits)

interpretation milvus: write_contract "milvusCluster rd wr effect mc db" for rd wr effect mc db
  by unfold_locales
    (auto simp: milvusCluster_def milvusWrite_def storeInsert_def storeUpsert_def storeWrite_def[of _ _ "[]"]
      split: prod.splits dest: storeWrite_rejected storeWrite_counted)

subsection \<open>The logging stand-in\<close>

definition logSearch :: "string \<Rightarrow> plan \<Rightarrow> 's \<Rightarrow> ((storeError + searchResult) \<times> 's) option" where
  "logSearch name p s =
     (if pNoMatch p \<or> pExpr p = NilE then Some (Inr emptyResult, s)
      else case Render (pExpr p) of
          Inl e \<Rightarrow> Some (Inl (StoreFail (T ''render plan for collection '' # Q name # T '': '' # e)), s)
        | Inr expr \<Rightarrow> Some (Inr emptyResult, s))"

definition logWrite :: "string \<Rightarrow> writeRow list \<Rightarrow> ('s, writeResult) call" where
  "logWrite name rows = returnS \<lparr>wrCount = int (length rows), wrIDs = []\<rparr>"

definition logCluster :: "'s cluster" where
  "logCluster =
     \<lparr>clCollection = (\<lambda>name. failS (CollectionNotFound name)), clSchema = (\<lambda>_. returnS (MapSchema [])),
      clSearch = logSearch, clInsert = logWrite, clUpsert = logWrite,
      clListCollections = returnS [], clCollectionStats = (\<lambda>_. returnS 0)\<rparr>"

interpretation logging: write_contract logCluster
  by unfold_locales (auto simp: logCluster_def logWrite_def returnS_def)

end
