(* ===== verification/CatLexer.thy ===== *)
theory CatLexer
  imports PgLexer
begin

text \<open>
  The catalog engine's lexer, \<open>internal/catalog/lexer.go\<close>, its errors (\<open>errors.go\<close>) and the
  statement splitter of \<open>split.go\<close>.

  The dialect differs from the frontend's in its reserved words, its operators and the
  \<open>E'...'\<close> literals; comments, quoted text and numbers are scanned by functions that the source
  repeats line for line, and the model shares those of \<open>PgLexer\<close>. The lexer is the second
  instance of the locale \<open>scanner\<close>.
\<close>

subsection \<open>Errors\<close>

text \<open>An error with its SQLSTATE, or a run-time panic. \<open>CatFuel\<close> marks a loop of the model that
  has run out of fuel; it is shown never to arise.\<close>

datatype catError = CatError string reason | CatPanic | CatFuel

definition cat_errf :: "reason \<Rightarrow> catError" where
  "cat_errf r = CatError ''42601'' r"

definition capErrf :: "reason \<Rightarrow> catError" where
  "capErrf r = CatError ''0A000'' r"

definition funcErrf :: "string \<Rightarrow> catError" where
  "funcErrf name = CatError ''42883'' [T ''function '', S name, T '' is not available in catalog queries'']"

subsection \<open>Tokens\<close>

definition cat_keywords :: "string list" where
  "cat_keywords =
    [''SELECT'', ''FROM'', ''WHERE'', ''AND'', ''OR'',
     ''NOT'', ''IN'', ''IS'', ''NULL'', ''AS'',
     ''ASC'', ''DESC'', ''LIMIT'', ''OFFSET'',
     ''TRUE'', ''FALSE'', ''ORDER'', ''BY'',
     ''LIKE'', ''ILIKE'', ''BETWEEN'', ''DISTINCT'',
     ''CASE'', ''WHEN'', ''THEN'', ''ELSE'', ''END'',
     ''JOIN'', ''INNER'', ''LEFT'', ''RIGHT'', ''FULL'',
     ''OUTER'', ''CROSS'', ''ON'', ''USING'', ''FOR'',
     ''CAST'', ''EXISTS'', ''COLLATE'',
     ''ANY'', ''SOME'', ''ALL'']"

definition cat_operators :: "string list" where
  "cat_operators =
    [''<='', ''>='', ''<>'', ''!='', ''!~*'', ''~*'', ''!~'', ''~'', ''~~'', ''!~~'',
     ''||'', ''::'', ''='', ''<'', ''>'', ''('', '')'', '','', ''.'', ''['', '']'', '';'', ''*'', ''+'', ''-'', ''/'']"

definition unescaped :: "char \<Rightarrow> char" where
  "unescaped c =
     (if c = CHR ''n'' then CHR 10 else if c = CHR ''t'' then CHR 9 else if c = CHR ''r'' then CHR 13
      else if c = CHR ''b'' then CHR 8 else if c = CHR ''f'' then CHR 12 else c)"

text \<open>The text of an \<open>E'...'\<close> literal and the rest, started behind the opening quote.\<close>

fun lexEscapeString :: "string \<Rightarrow> (string \<times> string) option" where
  "lexEscapeString [] = None"
| "lexEscapeString [c] = (if c = CHR 39 then Some ([], []) else None)"
| "lexEscapeString (c # d # s) =
     (if c = CHR 39 then
        (if d = CHR 39 then map_option (\<lambda>(t, r). (d # t, r)) (lexEscapeString s) else Some ([], d # s))
      else if c = CHR 92 then map_option (\<lambda>(t, r). (unescaped d # t, r)) (lexEscapeString s)
      else map_option (\<lambda>(t, r). (c # t, r)) (lexEscapeString (d # s)))"

subsection \<open>The lexer\<close>

definition cat_lexStep :: "nat \<Rightarrow> string \<Rightarrow> catError + token option \<times> nat" where
  "cat_lexStep i s =
     (let c = hd s; r = tl s in
      if sqlSpace c then Inr (None, 1)
      else if hasPrefix s ''--'' then Inr (None, length (takeWhile (\<lambda>x. byte x \<noteq> 10) s))
      else if hasPrefix s ''/*'' then
        (case lexBlockComment 1 (drop 2 s) of
           None \<Rightarrow> Inl (cat_errf [T ''unterminated /* comment''])
         | Some e \<Rightarrow> Inr (None, length s - length e))
      else if byte c = 39 then
        (case lexQuoted c r of
           None \<Rightarrow> Inl (cat_errf [T ''unterminated '', V [c], T ''-quoted literal''])
         | Some (t, e) \<Rightarrow> Inr (Some (mkToken TkString t i), length s - length e))
      else if byte c = 34 then
        (case lexQuoted c r of
           None \<Rightarrow> Inl (cat_errf [T ''unterminated '', V [c], T ''-quoted literal''])
         | Some (t, e) \<Rightarrow>
             Inr (Some \<lparr>tkKind = TkIdent, tkText = t, tkPos = i, tkQuoted = True\<rparr>, length s - length e))
      else if isDigit c \<or> c = CHR ''.'' \<and> startsWith isDigit r then
        (let n = numberLength s in Inr (Some (mkToken TkNumber (take n s) i), n))
      else if isIdentStart c then
        (if (c = CHR ''E'' \<or> c = CHR ''e'') \<and> startsWith (\<lambda>q. q = CHR 39) r then
           (case lexEscapeString (tl r) of
              None \<Rightarrow> Inl (cat_errf [T ''unterminated E-quoted literal''])
            | Some (t, e) \<Rightarrow> Inr (Some (mkToken TkString t i), length s - length e))
         else
           (let word = takeWhile isIdentPart s; upper = map upperChar word
            in Inr (Some (if upper \<in> set cat_keywords then mkToken TkKeyword upper i
                          else mkToken TkIdent word i), length word)))
      else if c = CHR ''$'' \<and> startsWith isDigit r then
        (let n = 1 + length (takeWhile isDigit r) in Inr (Some (mkToken TkParam (take n s) i), n))
      else if c = CHR ''$'' then
        Inl (cat_errf [T ''dollar-quoted strings are not supported''])
      else
        (case find (hasPrefix s) cat_operators of
           None \<Rightarrow> Inl (cat_errf [T ''unexpected character '', Q [c]])
         | Some op \<Rightarrow> Inr (Some (mkToken TkOp op i), length op)))"

text \<open>What a token of each kind looks like. The operators \<open>~~\<close> and \<open>!~~\<close> are in the table behind
  their own prefixes, so no token carries them.\<close>

definition reachableOps :: "string list" where
  "reachableOps = filter (\<lambda>op. op \<noteq> ''~~'' \<and> op \<noteq> ''!~~'') cat_operators"

fun cat_tokenShape :: "tokenKind \<Rightarrow> string \<Rightarrow> bool \<Rightarrow> bool" where
  "cat_tokenShape TkEOF t q = False"
| "cat_tokenShape TkKeyword t q = (t \<in> set cat_keywords \<and> \<not> q)"
| "cat_tokenShape TkIdent t q = (q \<or> t \<noteq> [] \<and> isIdentStart (hd t) \<and> list_all isIdentPart t \<and>
     map upperChar t \<notin> set cat_keywords)"
| "cat_tokenShape TkString t q = (\<not> q)"
| "cat_tokenShape TkNumber t q = (t \<noteq> [] \<and> (isDigit (hd t) \<or> hd t = CHR ''.'') \<and> \<not> q)"
| "cat_tokenShape TkOp t q = (t \<in> set reachableOps \<and> \<not> q)"
| "cat_tokenShape TkParam t q = (\<exists>ds. t = CHR ''$'' # ds \<and> ds \<noteq> [] \<and> list_all isDigit ds \<and> \<not> q)"

definition cat_wfToken :: "token \<Rightarrow> bool" where
  "cat_wfToken t \<longleftrightarrow> cat_tokenShape (tkKind t) (tkText t) (tkQuoted t)"

lemma cat_wfToken_mkToken [simp]: "cat_wfToken (mkToken k t i) \<longleftrightarrow> cat_tokenShape k t False"
  by (simp add: cat_wfToken_def)

lemma cat_wfToken_quoted [simp]: "cat_wfToken \<lparr>tkKind = TkIdent, tkText = t, tkPos = i, tkQuoted = True\<rparr>"
  by (simp add: cat_wfToken_def)

lemma lexEscapeString_length: "lexEscapeString s = Some (t, r) \<Longrightarrow> length r < length s"
  by (induction s arbitrary: t r rule: lexEscapeString.induct) (fastforce split: if_splits)+

lemma find_cat_operator:
  assumes "find (hasPrefix s) cat_operators = Some op"
  shows "op \<noteq> [] \<and> op \<in> set reachableOps \<and> length op \<le> length s \<and> hasPrefix s op"
proof -
  have "op \<noteq> ''~~''" "op \<noteq> ''!~~''"
    using assms by (auto simp: cat_operators_def hasPrefix_iff split: if_splits)
  moreover have "op \<in> set cat_operators" "hasPrefix s op"
    using assms by (auto simp: find_Some_iff)
  moreover have "[] \<notin> set cat_operators" by (simp add: cat_operators_def)
  ultimately show ?thesis by (auto simp: reachableOps_def hasPrefix_iff)
qed

lemma cat_lexStep_progress:
  assumes "cat_lexStep i (c # r) = Inr (t, n)"
  shows "0 < n \<and> (\<forall>k. t = Some k \<longrightarrow> cat_wfToken k \<and> tkPos k = i)"
proof -
  have comment: "0 < length (takeWhile (\<lambda>x. byte x \<noteq> 10) (c # r))" if "hasPrefix (c # r) ''--''"
    using that by (simp add: hasPrefix_def)
  have block: "0 < length (c # r) - length e" if "lexBlockComment 1 (drop 2 (c # r)) = Some e" for e
    using lexBlockComment_length[OF that] by simp
  have quoted: "0 < length (c # r) - length e" if "lexQuoted c r = Some (x, e)" for x e
    using lexQuoted_length[OF that] by simp
  have escaped: "0 < length (c # r) - length e" if "lexEscapeString (tl r) = Some (x, e)" for x e
    using lexEscapeString_length[OF that] by simp
  show ?thesis
    using assms comment block quoted escaped numberLength_pos[of c r]
    unfolding cat_lexStep_def Let_def
    by (auto split: if_splits option.splits dest!: find_cat_operator
          simp: isIdentStart_part takeWhile_startsWith take_Cons' takeWhile_eq_take[symmetric])
qed

lemma cat_lexStep_bound: "cat_lexStep i (c # r) = Inr (t, n) \<Longrightarrow> n \<le> length (c # r)"
  using numberLength_bound[of "c # r"] length_takeWhile_le[of "\<lambda>x. byte x \<noteq> 10" "c # r"]
    length_takeWhile_le[of isIdentPart "c # r"] length_takeWhile_le[of isDigit r]
  unfolding cat_lexStep_def Let_def
  by (auto split: if_splits option.splits dest!: find_cat_operator)

function cat_lexFrom :: "nat \<Rightarrow> string \<Rightarrow> catError + token list" where
  "cat_lexFrom i [] = Inr [mkToken TkEOF [] i]"
| "cat_lexFrom i (c # r) =
     bindE (cat_lexStep i (c # r)) (\<lambda>(t, n).
     bindE (cat_lexFrom (i + n) (drop n (c # r))) (\<lambda>ts.
     Inr (case t of None \<Rightarrow> ts | Some k \<Rightarrow> k # ts)))"
  by pat_completeness auto
termination by (relation "measure (\<lambda>(i, s). length s)") (auto dest: cat_lexStep_progress)

declare cat_lexFrom.simps(2) [simp del]

definition cat_lex :: "string \<Rightarrow> catError + token list" where
  "cat_lex src = cat_lexFrom 0 src"

interpretation cat_scanner: scanner cat_lexStep cat_lexFrom cat_wfToken
  by unfold_locales (simp_all only: cat_lexFrom.simps, (blast dest: cat_lexStep_progress cat_lexStep_bound)+)

definition syntaxError :: "catError \<Rightarrow> bool" where
  "syntaxError e \<longleftrightarrow> (\<exists>r. e = cat_errf r)"

lemma cat_lex_error: "cat_lex src = Inl e \<Longrightarrow> syntaxError e"
  unfolding cat_lex_def
  by (drule cat_scanner.scan_error)
    (auto simp: cat_lexStep_def Let_def syntaxError_def split: if_splits option.splits)

subsection \<open>Statements\<close>

text \<open>The pieces between the top-level semicolons, read from offset \<open>start\<close> on.\<close>

definition isSemicolon :: "token \<Rightarrow> bool" where
  "isSemicolon t \<longleftrightarrow> tkKind t = TkOp \<and> tkText t = '';''"

fun splitFrom :: "string \<Rightarrow> nat \<Rightarrow> token list \<Rightarrow> string list" where
  "splitFrom sql start [] = [drop start sql]"
| "splitFrom sql start (t # ts) =
     (if tkKind t = TkEOF then [drop start sql]
      else if isSemicolon t then take (tkPos t - start) (drop start sql) # splitFrom sql (tkPos t + 1) ts
      else splitFrom sql start ts)"

definition SplitStatements :: "string \<Rightarrow> string list" where
  "SplitStatements sql =
     (case cat_lex sql of
        Inl _ \<Rightarrow> [sql]
      | Inr toks \<Rightarrow>
          (let parts = filter (\<lambda>p. p \<noteq> []) (map trimSpace (splitFrom sql 0 toks))
           in if parts = [] then [sql] else parts))"

definition Words :: "string \<Rightarrow> catError + string list" where
  "Words sql = bindE (cat_lex sql) (\<lambda>toks. Inr (map tkText (takeWhile (\<lambda>t. tkKind t \<noteq> TkEOF) toks)))"

definition Prepareable :: "string \<Rightarrow> bool" where
  "Prepareable sql \<longleftrightarrow> (case cat_lex sql of
      Inl _ \<Rightarrow> False
    | Inr toks \<Rightarrow> 1 < length toks \<and> tkKind (hd toks) = TkKeyword \<and> tkText (hd toks) = ''SELECT'')"

definition maxParamOf :: "string \<Rightarrow> int" where
  "maxParamOf query = (case cat_lex query of
      Inl _ \<Rightarrow> 0
    | Inr toks \<Rightarrow> foldl (\<lambda>m t. if tkKind t \<noteq> TkParam then m
        else (case ParseInt (trimPrefix (tkText t) ''$'') of Some n \<Rightarrow> max m n | None \<Rightarrow> m)) 0 toks)"

subsection \<open>Reading back\<close>

text \<open>How a client writes an \<open>E'...'\<close> literal: backslashes escaped, quotes doubled.\<close>

definition cat_escapeChar :: "char \<Rightarrow> string" where
  "cat_escapeChar c = (if c = CHR 92 then [c, c] else if c = CHR 39 then [c, c] else [c])"

interpretation escText: quoted_text cat_escapeChar "CHR 39" lexEscapeString "\<lambda>s. \<not> startsWith (\<lambda>c. c = CHR 39) s"
proof
  show "lexEscapeString (cat_escapeChar c @ s) = map_option (\<lambda>(t, r). (c # t, r)) (lexEscapeString s)" for c s
    by (cases s) (auto simp: cat_escapeChar_def unescaped_def)
  show "\<not> startsWith (\<lambda>c. c = CHR 39) s \<Longrightarrow> lexEscapeString (CHR 39 # s) = Some ([], s)" for s
    by (cases s) (auto simp: startsWith_def)
qed

lemma cat_lexStep_escaped:
  assumes "\<not> startsWith (\<lambda>c. c = CHR 39) s"
  shows "cat_lexStep i (CHR ''E'' # CHR 39 # escText.enclose t @ s) =
    Inr (Some (mkToken TkString t i), Suc (Suc (length (escText.enclose t))))"
proof -
  have "\<not> sqlSpace (CHR ''E'')" "\<not> isDigit (CHR ''E'')" "isIdentStart (CHR ''E'')"
    by (simp_all add: sqlSpace_def isDigit_def isIdentStart_def isLetter_def)
  moreover have "\<not> hasPrefix (CHR ''E'' # u) ''--''" "\<not> hasPrefix (CHR ''E'' # u) ''/*''" for u
    by (simp_all add: hasPrefix_def)
  ultimately show ?thesis
    using escText.read_enclose[OF assms, of t] by (simp add: cat_lexStep_def startsWith_def)
qed

text \<open>An operator token shows what stands at its offset.\<close>

lemma cat_op_text:
  "cat_lexFrom i s = Inr ts \<Longrightarrow> t \<in> set ts \<Longrightarrow> tkKind t = TkOp \<Longrightarrow> hasPrefix (drop (tkPos t - i) s) (tkText t)"
proof (induction s arbitrary: i ts rule: length_induct)
  case (1 s)
  show ?case
  proof (cases s)
    case Nil
    with "1.prems" show ?thesis by auto
  next
    case (Cons c r)
    from "1.prems"(1)[unfolded Cons] obtain k n us
      where step: "cat_lexStep i (c # r) = Inr (k, n)" and rest: "cat_lexFrom (i + n) (drop n (c # r)) = Inr us"
        and ts: "ts = (case k of None \<Rightarrow> us | Some k \<Rightarrow> k # us)" and n: "0 < n" "n \<le> length (c # r)"
      by (rule cat_scanner.scan_cases)
    show ?thesis
    proof (cases "t \<in> set us")
      case True
      from n Cons have "length (drop n (c # r)) < length s" by simp
      from "1.IH"[rule_format, OF this rest True "1.prems"(3)]
      have "hasPrefix (drop (tkPos t - (i + n)) (drop n (c # r))) (tkText t)" .
      moreover have "i + n \<le> tkPos t" using cat_scanner.stream[OF rest] True by auto
      ultimately show ?thesis by (simp add: Cons drop_drop[of _ _ "c # r"] del: drop_drop drop_Suc_Cons)
    next
      case False
      with ts "1.prems"(2) have k: "k = Some t" by (auto split: option.splits)
      with step "1.prems"(3) have "hasPrefix (c # r) (tkText t)" "tkPos t = i"
        unfolding cat_lexStep_def Let_def
        by (auto split: if_splits option.splits dest!: find_cat_operator)
      then show ?thesis by (simp add: Cons)
    qed
  qed
qed

lemma splitFrom_join:
  assumes "sorted_wrt (<) (map tkPos us)" "\<forall>u \<in> set us. start \<le> tkPos u \<and> tkPos u < length sql"
    "\<forall>u \<in> set us. isSemicolon u \<longrightarrow> hasPrefix (drop (tkPos u) sql) '';''"
    "\<forall>u \<in> set us. tkKind u \<noteq> TkEOF" "tkKind e = TkEOF"
  shows "joinStr '';'' (splitFrom sql start (us @ [e])) = drop start sql \<and>
    length (splitFrom sql start (us @ [e])) = Suc (length (filter isSemicolon us))"
  using assms
proof (induction us arbitrary: start)
  case (Cons u us)
  show ?case
  proof (cases "isSemicolon u")
    case True
    let ?tail = "splitFrom sql (Suc (tkPos u)) (us @ [e])"
    have ih: "joinStr '';'' ?tail = drop (Suc (tkPos u)) sql" "length ?tail = Suc (length (filter isSemicolon us))"
      using Cons.IH[of "Suc (tkPos u)"] Cons.prems by (auto simp: Suc_le_eq)
    then obtain x xs where tail: "?tail = x # xs" by (cases ?tail) auto
    from Cons.prems True have pos: "start \<le> tkPos u" "hasPrefix (drop (tkPos u) sql) '';''" by auto
    from pos(2) obtain r where "drop (tkPos u) sql = '';'' @ r" by (auto simp: hasPrefix_iff)
    then have semi: "drop (tkPos u) sql = '';'' @ drop (Suc (tkPos u)) sql"
      by (metis append_Cons append_Nil drop_Suc list.sel(3) tl_drop)
    have "take (tkPos u - start) (drop start sql) @ drop (tkPos u) sql = drop start sql"
      using pos(1) by (metis append_take_drop_id drop_drop le_add_diff_inverse2)
    with semi tail ih show ?thesis using Cons.prems(4) True by simp
  next
    case False
    with Cons show ?thesis by simp
  qed
qed simp

lemma cat_stream:
  assumes "cat_lex src = Inr ts"
  obtains us where "ts = us @ [mkToken TkEOF [] (length src)]" "list_all cat_wfToken us"
    "sorted_wrt (<) (map tkPos us)" "\<forall>u \<in> set us. tkPos u < length src"
    "\<forall>u \<in> set us. tkKind u \<noteq> TkEOF"
    "\<forall>u \<in> set us. tkKind u = TkOp \<longrightarrow> hasPrefix (drop (tkPos u) src) (tkText u)"
proof -
  from cat_scanner.stream[OF assms[unfolded cat_lex_def]] obtain us where us:
    "ts = us @ [mkToken TkEOF [] (length src)]" "list_all cat_wfToken us"
    "sorted_wrt (<) (map tkPos us)" "\<forall>u \<in> set us. tkPos u < length src" by auto
  moreover have "tkKind u \<noteq> TkEOF" if "u \<in> set us" for u
    using us(2) that by (auto simp: list_all_iff cat_wfToken_def elim: cat_tokenShape.elims(2))
  moreover have "hasPrefix (drop (tkPos u) src) (tkText u)" if "u \<in> set us" "tkKind u = TkOp" for u
    using cat_op_text[OF assms[unfolded cat_lex_def], of u] that us(1) by simp
  ultimately show ?thesis using that by blast
qed

subsection \<open>Properties\<close>

text \<open>Every statement the catalog lexer accepts gives a stream that ends with its only end
  token, at the length of the statement, before it tokens of the shape of their kind at strictly
  increasing offsets; an operator token stands where its text stands in the statement. The
  operators \<open>~~\<close> and \<open>!~~\<close> of the table are never among them.\<close>

theorem cat_lex_stream:
  assumes "cat_lex src = Inr ts"
  shows "\<exists>us. ts = us @ [mkToken TkEOF [] (length src)] \<and> list_all cat_wfToken us \<and>
    sorted_wrt (<) (map tkPos us) \<and> (\<forall>u \<in> set us. tkPos u < length src) \<and>
    (\<forall>u \<in> set us. tkKind u = TkOp \<longrightarrow>
       hasPrefix (drop (tkPos u) src) (tkText u) \<and> tkText u \<noteq> ''~~'' \<and> tkText u \<noteq> ''!~~'')"
proof -
  from assms obtain us where us: "ts = us @ [mkToken TkEOF [] (length src)]" "list_all cat_wfToken us"
    "sorted_wrt (<) (map tkPos us)" "\<forall>u \<in> set us. tkPos u < length src"
    "\<forall>u \<in> set us. tkKind u = TkOp \<longrightarrow> hasPrefix (drop (tkPos u) src) (tkText u)"
    by (rule cat_stream)
  moreover have "tkText u \<noteq> ''~~'' \<and> tkText u \<noteq> ''!~~''" if "u \<in> set us" "tkKind u = TkOp" for u
    using us(2) that by (auto simp: list_all_iff cat_wfToken_def reachableOps_def)
  ultimately show ?thesis by (intro exI[of _ us]) blast
qed

text \<open>C39. Splitting a query string loses nothing: the pieces, put together with semicolons,
  are the string again, there is one more of them than semicolon tokens (a semicolon in a literal,
  a quoted name or a comment is none), and the statements returned are the pieces trimmed, the
  empty ones dropped.\<close>

theorem SplitStatements_pieces:
  assumes "cat_lex sql = Inr ts"
  shows "\<exists>pieces. joinStr '';'' pieces = sql \<and> length pieces = Suc (length (filter isSemicolon ts)) \<and>
    SplitStatements sql = (let parts = filter (\<lambda>p. p \<noteq> []) (map trimSpace pieces)
      in if parts = [] then [sql] else parts)"
proof -
  from assms obtain us where us: "ts = us @ [mkToken TkEOF [] (length sql)]"
    "sorted_wrt (<) (map tkPos us)" "\<forall>u \<in> set us. tkPos u < length sql"
    "\<forall>u \<in> set us. tkKind u \<noteq> TkEOF"
    "\<forall>u \<in> set us. tkKind u = TkOp \<longrightarrow> hasPrefix (drop (tkPos u) sql) (tkText u)"
    by (rule cat_stream)
  have "\<forall>u \<in> set us. isSemicolon u \<longrightarrow> hasPrefix (drop (tkPos u) sql) '';''"
    using us(5) by (metis isSemicolon_def)
  with us have "joinStr '';'' (splitFrom sql 0 ts) = sql \<and>
      length (splitFrom sql 0 ts) = Suc (length (filter isSemicolon us))"
    using splitFrom_join[of us 0 sql "mkToken TkEOF [] (length sql)"] by simp
  then show ?thesis
    by (intro exI[of _ "splitFrom sql 0 ts"]) (simp add: SplitStatements_def assms us(1) isSemicolon_def)
qed

text \<open>A value written as an \<open>E'...'\<close> literal, its backslashes escaped and its quotes doubled,
  is lexed back as one string token holding exactly that value, whatever bytes it contains and
  whatever follows it (unless a quote does).\<close>

theorem cat_lex_escaped:
  assumes "\<not> startsWith (\<lambda>c. c = CHR 39) rest"
  shows "cat_lexFrom i (''E'' @ [CHR 39] @ concat (map cat_escapeChar v) @ [CHR 39] @ rest) =
    bindE (cat_lexFrom (i + 3 + length (concat (map cat_escapeChar v))) rest) (\<lambda>ts.
      Inr (mkToken TkString v i # ts))"
proof -
  have step: "cat_lexStep i (CHR ''E'' # CHR 39 # concat (map cat_escapeChar v) @ CHR 39 # rest) =
      Inr (Some (mkToken TkString v i), Suc (Suc (Suc (length (concat (map cat_escapeChar v))))))"
    using cat_lexStep_escaped[OF assms, of i v] by (simp add: escText.enclose_def)
  show ?thesis by (simp add: cat_lexFrom.simps(2) step numeral_3_eq_3)
qed

lemma cat_lex_stream_witness:
  "\<exists>us. [mkToken TkIdent ''a'' 0, mkToken TkOp ''~'' 1, mkToken TkOp ''~'' 2, mkToken TkIdent ''b'' 3,
      mkToken TkEOF [] 4] = us @ [mkToken TkEOF [] (length ''a~~b'')] \<and> list_all cat_wfToken us \<and>
     sorted_wrt (<) (map tkPos us) \<and> (\<forall>u \<in> set us. tkPos u < length ''a~~b'') \<and>
     (\<forall>u \<in> set us. tkKind u = TkOp \<longrightarrow>
       hasPrefix (drop (tkPos u) ''a~~b'') (tkText u) \<and> tkText u \<noteq> ''~~'' \<and> tkText u \<noteq> ''!~~'')"
  by (rule cat_lex_stream) code_simp

lemma SplitStatements_pieces_witness:
  "\<exists>pieces. joinStr '';'' pieces = ''a;b'' \<and> length pieces = 2 \<and>
    SplitStatements ''a;b'' = (let parts = filter (\<lambda>p. p \<noteq> []) (map trimSpace pieces)
      in if parts = [] then [''a;b''] else parts)"
proof -
  have lexed: "cat_lex ''a;b'' = Inr [mkToken TkIdent ''a'' 0, mkToken TkOp '';'' 1, mkToken TkIdent ''b'' 2, mkToken TkEOF [] 3]"
    by code_simp
  show ?thesis using SplitStatements_pieces[OF lexed] by (simp add: isSemicolon_def numeral_2_eq_2)
qed

lemma cat_lex_escaped_witness:
  "cat_lexFrom 0 (''E'' @ [CHR 39] @ concat (map cat_escapeChar [CHR 92, CHR 39]) @ [CHR 39] @ '' x'') =
    bindE (cat_lexFrom 7 '' x'') (\<lambda>ts. Inr (mkToken TkString [CHR 92, CHR 39] 0 # ts))"
  using cat_lex_escaped[of "'' x''" 0 "[CHR 92, CHR 39]"] by (simp add: startsWith_def cat_escapeChar_def)

end
