(* ===== verification/CatParser.thy ===== *)
theory CatParser
  imports CatLexer PgParser "HOL-Library.Sublist"
begin

text \<open>
  The catalog dialect's syntax tree and recursive-descent parser, \<open>internal/catalog/parser.go\<close>.

  The parser's state is the tokens not yet read and the highest parameter seen. Every method of
  the source is a function of it; those that reach back to \<open>parseExpr\<close> take it as the
  argument \<open>pe\<close>, and \<open>parsePrimary\<close> takes \<open>parseSelect\<close> as well: the knot is tied in \<open>exprN\<close> and
  \<open>selectN\<close>, with fuel. A \<open>for\<close> loop is \<open>loopP\<close> over its body. Between two
  rounds, and between two knots, at least one token is read, so as much fuel as there are
  tokens is enough; the theorems show that running out is impossible.
\<close>

subsection \<open>The syntax tree\<close>

datatype cval = CNil | CStr string | CNum gofloat | CBool bool | CArr "cval list"

record tableRef =
  trSchema :: string
  trName :: string
  trAlias :: string

datatype cexpr =
    Literal cval
  | ColRef string string              \<comment> \<open>qualifier (empty when unqualified) and name\<close>
  | FuncCall string "cexpr list"
  | ParamRef int
  | BinExpr string cexpr cexpr bool bool  \<comment> \<open>operator, operands, \<open>not\<close>, \<open>anyList\<close>\<close>
  | IsNullExpr cexpr bool
  | InExpr cexpr "cexpr list" bool
  | CaseExpr "cexpr option" "(cexpr \<times> cexpr) list" "cexpr option"
  | CastExpr cexpr string
  | SubscriptExpr cexpr cexpr
  | SubqueryExpr stmt
  | ArraySubqueryExpr stmt
  | UnaryExpr string cexpr
  | BetweenTail cexpr cexpr
and selectItem =
    ItemExpr cexpr string
  | ItemStar string
and tableExpr =
    TableSource tableRef
  | JoinExpr tableExpr tableExpr string "cexpr option"
and stmt =
    Stmt (stItems: "selectItem list") (stFrom: "tableExpr option") (stWhere: "cexpr option")
      (stOrder: "(cexpr \<times> bool) list") (stLimit: "cexpr option") (stOffset: "cexpr option")
      (stDistinct: bool) (stMaxParam: int) (stUnion: "(stmt \<times> bool) list")

subsection \<open>The token cursor\<close>

record cparser =
  cpToks :: "token list"
  cpMax :: int

type_synonym 'a cparse = "catError + 'a \<times> cparser"

definition cat_peek :: "cparser \<Rightarrow> token" where
  "cat_peek p = peek (cpToks p)"

definition cat_peekAt :: "nat \<Rightarrow> cparser \<Rightarrow> token" where
  "cat_peekAt k p = peek (drop k (cpToks p))"

definition cat_next :: "cparser \<Rightarrow> cparser" where
  "cat_next p = p\<lparr>cpToks := advance (cpToks p)\<rparr>"

definition isKeyword :: "cparser \<Rightarrow> string \<Rightarrow> bool" where
  "isKeyword p word \<longleftrightarrow> tkKind (cat_peek p) = TkKeyword \<and> tkText (cat_peek p) = word"

definition isOp :: "cparser \<Rightarrow> string \<Rightarrow> bool" where
  "isOp p op \<longleftrightarrow> tkKind (cat_peek p) = TkOp \<and> tkText (cat_peek p) = op"

definition isIdent :: "cparser \<Rightarrow> bool" where
  "isIdent p \<longleftrightarrow> tkKind (cat_peek p) = TkIdent"

definition acceptKeyword :: "cparser \<Rightarrow> string \<Rightarrow> bool \<times> cparser" where
  "acceptKeyword p word = (if isKeyword p word then (True, cat_next p) else (False, p))"

definition tokenText :: "token \<Rightarrow> string" where
  "tokenText t = (if tkKind t = TkEOF then ''end of statement'' else tkText t)"

definition expectedErr :: "piece list \<Rightarrow> token \<Rightarrow> catError" where
  "expectedErr what t = cat_errf ([T ''expected ''] @ what @ [T '', got ['', S (tokenText t), T '']''])"

definition cat_expectOp :: "cparser \<Rightarrow> string \<Rightarrow> catError + cparser" where
  "cat_expectOp p op = (if isOp p op then Inr (cat_next p) else Inl (expectedErr [Q op] (cat_peek p)))"

definition cat_expectKeyword :: "cparser \<Rightarrow> string \<Rightarrow> catError + cparser" where
  "cat_expectKeyword p word =
     (if isKeyword p word then Inr (cat_next p) else Inl (expectedErr [S word] (cat_peek p)))"

definition foldIdent :: "token \<Rightarrow> string" where
  "foldIdent t = (if tkQuoted t then tkText t else map lowerChar (tkText t))"

text \<open>An identifier is required here; the caller says what for.\<close>

definition nameHere :: "piece list \<Rightarrow> cparser \<Rightarrow> string cparse" where
  "nameHere what p =
     (if isIdent p then Inr (foldIdent (cat_peek p), cat_next p) else Inl (expectedErr what (cat_peek p)))"

text \<open>A \<open>for\<close> loop: the body ends it (\<open>None\<close>) or hands over to the next round.\<close>

fun loopN :: "nat \<Rightarrow> ('a \<Rightarrow> cparser \<Rightarrow> catError + ('a \<times> cparser) option) \<Rightarrow> 'a \<Rightarrow> cparser \<Rightarrow> 'a cparse" where
  "loopN 0 body x p = Inl CatFuel"
| "loopN (Suc n) body x p =
     bindE (body x p) (\<lambda>r. case r of None \<Rightarrow> Inr (x, p) | Some (y, q) \<Rightarrow> loopN n body y q)"

definition loopP :: "('a \<Rightarrow> cparser \<Rightarrow> catError + ('a \<times> cparser) option) \<Rightarrow> 'a \<Rightarrow> cparser \<Rightarrow> 'a cparse" where
  "loopP body x p = loopN (Suc (length (cpToks p))) body x p"

text \<open>A round that reads one more item behind a separator.\<close>

definition moreItems ::
  "(cparser \<Rightarrow> bool) \<Rightarrow> (cparser \<Rightarrow> 'a cparse) \<Rightarrow> 'a list \<Rightarrow> cparser \<Rightarrow> catError + ('a list \<times> cparser) option" where
  "moreItems sep item xs p =
     (if sep p then bindE (item (cat_next p)) (\<lambda>(x, p). Inr (Some (xs @ [x], p))) else Inr None)"

definition listOf :: "(cparser \<Rightarrow> 'a cparse) \<Rightarrow> cparser \<Rightarrow> 'a list cparse" where
  "listOf item p =
     bindE (item p) (\<lambda>(x, p). loopP (moreItems (\<lambda>p. isOp p '','') item) [x] p)"

subsection \<open>Type names\<close>

definition dottedTail :: "piece list \<Rightarrow> string list \<Rightarrow> cparser \<Rightarrow> string list cparse" where
  "dottedTail what parts p = loopP (moreItems (\<lambda>p. isOp p ''.'') (nameHere what)) parts p"

fun skipParens :: "nat \<Rightarrow> token list \<Rightarrow> token list" where
  "skipParens 0 ts = ts"
| "skipParens (Suc d) [] = []"
| "skipParens (Suc d) (t # ts) =
     (if tkKind t = TkEOF then t # ts
      else if tkText t = ''('' then skipParens (Suc (Suc d)) ts
      else if tkText t = '')'' then skipParens d ts
      else skipParens (Suc d) ts)"

definition typeWords :: "string list" where
  "typeWords = [''time'', ''zone'', ''with'', ''without'', ''precision'']"

definition typeWord :: "unit \<Rightarrow> cparser \<Rightarrow> catError + (unit \<times> cparser) option" where
  "typeWord u p =
     (if \<not> isIdent p then Inr None
      else if map lowerChar (tkText (cat_peek p)) \<in> set typeWords then Inr (Some (u, cat_next p))
      else Inl (cat_errf [T ''unexpected token in type name: ['', S (tkText (cat_peek p)), T '']'']))"

definition parseTypeName :: "cparser \<Rightarrow> string cparse" where
  "parseTypeName p =
     bindE (nameHere [T ''a type name''] p) (\<lambda>(name, p).
     bindE (dottedTail [T ''a type name after '', sq, T ''.'', sq] [name] p) (\<lambda>(parts, p).
     let p = (if isOp p ''('' then p\<lparr>cpToks := skipParens 1 (cpToks (cat_next p))\<rparr> else p) in
     bindE (loopP typeWord () p) (\<lambda>(_, p). Inr (last parts, p))))"

subsection \<open>Primary expressions\<close>

definition postfixStep ::
  "(cparser \<Rightarrow> cexpr cparse) \<Rightarrow> cexpr \<Rightarrow> cparser \<Rightarrow> catError + (cexpr \<times> cparser) option" where
  "postfixStep pe e p =
     (if isOp p ''['' then
        bindE (pe (cat_next p)) (\<lambda>(idx, p).
        bindE (cat_expectOp p '']'') (\<lambda>p. Inr (Some (SubscriptExpr e idx, p))))
      else if isOp p ''::'' then
        bindE (parseTypeName (cat_next p)) (\<lambda>(target, p). Inr (Some (CastExpr e target, p)))
      else Inr None)"

definition postfix :: "(cparser \<Rightarrow> cexpr cparse) \<Rightarrow> cexpr \<Rightarrow> cparser \<Rightarrow> cexpr cparse" where
  "postfix pe e p = loopP (postfixStep pe) e p"

definition parseCast :: "(cparser \<Rightarrow> cexpr cparse) \<Rightarrow> cparser \<Rightarrow> cexpr cparse" where
  "parseCast pe p =
     bindE (cat_expectOp (cat_next p) ''('') (\<lambda>p.
     bindE (pe p) (\<lambda>(e, p).
     bindE (cat_expectKeyword p ''AS'') (\<lambda>p.
     bindE (parseTypeName p) (\<lambda>(target, p).
     bindE (cat_expectOp p '')'') (\<lambda>p.
     postfix pe (CastExpr e target) p)))))"

definition whenStep ::
  "(cparser \<Rightarrow> cexpr cparse) \<Rightarrow> (cexpr \<times> cexpr) list \<Rightarrow> cparser \<Rightarrow> catError + ((cexpr \<times> cexpr) list \<times> cparser) option" where
  "whenStep pe whens p =
     (if isKeyword p ''WHEN'' then
        bindE (pe (cat_next p)) (\<lambda>(c, p).
        bindE (cat_expectKeyword p ''THEN'') (\<lambda>p.
        bindE (pe p) (\<lambda>(t, p). Inr (Some (whens @ [(c, t)], p)))))
      else Inr None)"

text \<open>An optional expression: behind a keyword, or when a test says so.\<close>

definition optExpr :: "bool \<Rightarrow> (cparser \<Rightarrow> cexpr cparse) \<Rightarrow> cparser \<Rightarrow> cexpr option cparse" where
  "optExpr present pe p = (if present then bindE (pe p) (\<lambda>(e, p). Inr (Some e, p)) else Inr (None, p))"

definition clauseExpr :: "string \<Rightarrow> (cparser \<Rightarrow> cexpr cparse) \<Rightarrow> cparser \<Rightarrow> cexpr option cparse" where
  "clauseExpr word pe p = (let (present, p) = acceptKeyword p word in optExpr present pe p)"

definition parseCase :: "(cparser \<Rightarrow> cexpr cparse) \<Rightarrow> cparser \<Rightarrow> cexpr cparse" where
  "parseCase pe p =
     (let p = cat_next p in
      bindE (optExpr (\<not> isKeyword p ''WHEN'') pe p) (\<lambda>(operand, p).
      bindE (loopP (whenStep pe) [] p) (\<lambda>(whens, p).
      if whens = [] then Inl (cat_errf [T ''CASE requires at least one WHEN''])
      else
      bindE (clauseExpr ''ELSE'' pe p) (\<lambda>(elseE, p).
      bindE (cat_expectKeyword p ''END'') (\<lambda>p.
      postfix pe (CaseExpr operand whens elseE) p)))))"

definition argStep ::
  "(cparser \<Rightarrow> cexpr cparse) \<Rightarrow> cexpr list \<Rightarrow> cparser \<Rightarrow> catError + (cexpr list \<times> cparser) option" where
  "argStep pe = moreItems (\<lambda>p. isOp p '','') (\<lambda>p. pe (snd (acceptKeyword p ''DISTINCT'')))"

definition parseFunctionArgs :: "(cparser \<Rightarrow> cexpr cparse) \<Rightarrow> cparser \<Rightarrow> cexpr list cparse" where
  "parseFunctionArgs pe p =
     bindE (pe p) (\<lambda>(arg, p).
     if isKeyword p ''FROM'' then
       bindE (pe (cat_next p)) (\<lambda>(start, p).
       bindE (clauseExpr ''FOR'' pe p) (\<lambda>(len, p).
       Inr (case len of None \<Rightarrow> [arg, start] | Some n \<Rightarrow> [arg, start, n], p)))
     else if isKeyword p ''FOR'' then
       bindE (pe (cat_next p)) (\<lambda>(len, p). Inr ([arg, Literal (CNum (floatOfInt 1)), len], p))
     else loopP (argStep pe) [arg] p)"

definition parseIdentExpr :: "(cparser \<Rightarrow> cexpr cparse) \<Rightarrow> cparser \<Rightarrow> cexpr cparse" where
  "parseIdentExpr pe p =
     bindE (dottedTail [T ''a name after '', sq, T ''.'', sq] [foldIdent (cat_peek p)] (cat_next p)) (\<lambda>(parts, p).
     if isOp p ''('' then
       (let p = cat_next p in
        bindE (if isOp p '')'' then Inr ([], p) else parseFunctionArgs pe p) (\<lambda>(args, p).
        bindE (cat_expectOp p '')'') (\<lambda>p.
        postfix pe (FuncCall (joinStr ''.'' parts) args) p)))
     else if length parts = 1 then postfix pe (ColRef [] (hd parts)) p
     else postfix pe (ColRef (parts ! (length parts - 2)) (last parts)) p)"

definition arrayAhead :: "cparser \<Rightarrow> bool" where
  "arrayAhead p \<longleftrightarrow> isIdent p \<and> equalFoldWord (tkText (cat_peek p)) ''array'' \<and>
     tkKind (cat_peekAt 1 p) = TkOp \<and> tkText (cat_peekAt 1 p) = ''('' \<and>
     tkKind (cat_peekAt 2 p) = TkKeyword \<and> tkText (cat_peekAt 2 p) = ''SELECT''"

definition parsePrimary ::
  "(cparser \<Rightarrow> cexpr cparse) \<Rightarrow> (cparser \<Rightarrow> stmt cparse) \<Rightarrow> cparser \<Rightarrow> cexpr cparse" where
  "parsePrimary pe ps p =
     (let t = cat_peek p in
      if tkKind t = TkNumber then
        (case ParseFloat64 (tkText t) of
           None \<Rightarrow> Inl (cat_errf [T ''invalid number ['', S (tkText t), T '']''])
         | Some v \<Rightarrow> postfix pe (Literal (CNum v)) (cat_next p))
      else if tkKind t = TkString then postfix pe (Literal (CStr (tkText t))) (cat_next p)
      else if tkKind t = TkParam then
        (case ParseInt (trimPrefix (tkText t) ''$'') of
           None \<Rightarrow> Inl (cat_errf [T ''invalid parameter ['', S (tkText t), T '']''])
         | Some n \<Rightarrow> postfix pe (ParamRef n) ((cat_next p)\<lparr>cpMax := max (cpMax p) n\<rparr>))
      else if isKeyword p ''NULL'' then postfix pe (Literal CNil) (cat_next p)
      else if isKeyword p ''TRUE'' then postfix pe (Literal (CBool True)) (cat_next p)
      else if isKeyword p ''FALSE'' then postfix pe (Literal (CBool False)) (cat_next p)
      else if isKeyword p ''CASE'' then parseCase pe p
      else if isKeyword p ''CAST'' then parseCast pe p
      else if isKeyword p ''EXISTS'' then Inl (capErrf [T ''catalog queries do not support EXISTS''])
      else if arrayAhead p then
        bindE (ps (cat_next (cat_next p))) (\<lambda>(sub, p).
        bindE (cat_expectOp p '')'') (\<lambda>p. postfix pe (ArraySubqueryExpr sub) p))
      else if isOp p ''('' then
        (let p = cat_next p in
         if isKeyword p ''SELECT'' then
           bindE (ps p) (\<lambda>(sub, p).
           bindE (cat_expectOp p '')'') (\<lambda>p. postfix pe (SubqueryExpr sub) p))
         else
           bindE (pe p) (\<lambda>(e, p).
           bindE (cat_expectOp p '')'') (\<lambda>p. postfix pe e p)))
      else if isIdent p then parseIdentExpr pe p
      else Inl (cat_errf [T ''unexpected token ['', S (tokenText t), T '']'']))"

subsection \<open>Operator levels\<close>

abbreviation binary :: "string \<Rightarrow> cexpr \<Rightarrow> cexpr \<Rightarrow> cexpr" where
  "binary op l r \<equiv> BinExpr op l r False False"

text \<open>A prefix operator that may repeat; as many times as there are tokens.\<close>

fun prefixN ::
  "nat \<Rightarrow> (cparser \<Rightarrow> bool) \<Rightarrow> string \<Rightarrow> (cparser \<Rightarrow> cexpr cparse) \<Rightarrow> cparser \<Rightarrow> cexpr cparse" where
  "prefixN 0 here op operand p = Inl CatFuel"
| "prefixN (Suc n) here op operand p =
     (if here p then bindE (prefixN n here op operand (cat_next p)) (\<lambda>(e, p). Inr (UnaryExpr op e, p))
      else operand p)"

definition parseUnary ::
  "(cparser \<Rightarrow> cexpr cparse) \<Rightarrow> (cparser \<Rightarrow> stmt cparse) \<Rightarrow> cparser \<Rightarrow> cexpr cparse" where
  "parseUnary pe ps p =
     prefixN (Suc (length (cpToks p))) (\<lambda>p. isOp p ''-'') ''NEG'' (parsePrimary pe ps) p"

text \<open>A left-associative level: operands joined by tokens that satisfy a test.\<close>

definition leftStep ::
  "(cparser \<Rightarrow> bool) \<Rightarrow> (cparser \<Rightarrow> cexpr cparse) \<Rightarrow> cexpr \<Rightarrow> cparser \<Rightarrow> catError + (cexpr \<times> cparser) option" where
  "leftStep here operand l p =
     (if here p then bindE (operand (cat_next p)) (\<lambda>(r, q). Inr (Some (binary (tkText (cat_peek p)) l r, q)))
      else Inr None)"

definition leftLevel ::
  "(cparser \<Rightarrow> bool) \<Rightarrow> (cparser \<Rightarrow> cexpr cparse) \<Rightarrow> cparser \<Rightarrow> cexpr cparse" where
  "leftLevel here operand p =
     bindE (operand p) (\<lambda>(l, p). loopP (leftStep here operand) l p)"

definition parseMultiplicative ::
  "(cparser \<Rightarrow> cexpr cparse) \<Rightarrow> (cparser \<Rightarrow> stmt cparse) \<Rightarrow> cparser \<Rightarrow> cexpr cparse" where
  "parseMultiplicative pe ps = leftLevel (\<lambda>p. isOp p ''*'' \<or> isOp p ''/'') (parseUnary pe ps)"

definition parseAdditive ::
  "(cparser \<Rightarrow> cexpr cparse) \<Rightarrow> (cparser \<Rightarrow> stmt cparse) \<Rightarrow> cparser \<Rightarrow> cexpr cparse" where
  "parseAdditive pe ps =
     leftLevel (\<lambda>p. isOp p ''+'' \<or> isOp p ''-'' \<or> isOp p ''||'') (parseMultiplicative pe ps)"

subsection \<open>Comparisons\<close>

definition skipQualifiedName :: "cparser \<Rightarrow> catError + cparser" where
  "skipQualifiedName p =
     bindE (nameHere [T ''a name''] p) (\<lambda>(name, p).
     bindE (dottedTail [T ''a name after '', sq, T ''.'', sq] [name] p) (\<lambda>(_, p). Inr p))"

definition wrappedOps :: "string list" where
  "wrappedOps = [''='', ''<'', ''>'', ''<='', ''>='', ''<>'', ''~'', ''!~'', ''~*'', ''!~*'']"

text \<open>The texts inside \<open>OPERATOR(...)\<close> and the rest behind it; \<open>None\<close> when it is not closed.\<close>

fun operatorParts :: "token list \<Rightarrow> (string list \<times> token list) option" where
  "operatorParts [] = None"
| "operatorParts (t # ts) =
     (if tkKind t = TkOp \<and> tkText t = '')'' then Some ([], ts)
      else if tkKind t = TkEOF then None
      else map_option (\<lambda>(parts, r). (tkText t # parts, r)) (operatorParts ts))"

definition operatorAhead :: "cparser \<Rightarrow> bool" where
  "operatorAhead p \<longleftrightarrow> isIdent p \<and> equalFoldWord (tkText (cat_peek p)) ''operator'' \<and>
     tkKind (cat_peekAt 1 p) = TkOp \<and> tkText (cat_peekAt 1 p) = ''(''"

text \<open>\<open>parts[len(parts)-1]\<close> panics when the parentheses are empty.\<close>

definition parseOperatorWrapper ::
  "(cparser \<Rightarrow> cexpr cparse) \<Rightarrow> cexpr \<Rightarrow> cparser \<Rightarrow> catError + (cexpr \<times> cparser) option" where
  "parseOperatorWrapper operand left p =
     (case operatorParts (cpToks (cat_next (cat_next p))) of
        None \<Rightarrow> Inl (cat_errf [T ''unterminated OPERATOR(...)''])
      | Some (parts, r) \<Rightarrow>
          if parts = [] then Inl CatPanic
          else if last parts \<notin> set wrappedOps
          then Inl (capErrf [T ''operator '', Q (last parts), T '' is not available in catalog queries''])
          else bindE (operand (p\<lparr>cpToks := r\<rparr>)) (\<lambda>(right, p). Inr (Some (binary (last parts) left right, p))))"

definition compareTokens :: "string list" where
  "compareTokens = [''='', ''<>'', ''!='', ''<'', ''>'', ''<='', ''>='', ''~'', ''!~'', ''~*'', ''!~*'']"

definition compareAhead :: "cparser \<Rightarrow> bool" where
  "compareAhead p \<longleftrightarrow> tkKind (cat_peek p) = TkOp \<and> tkText (cat_peek p) \<in> set compareTokens"

definition parseCompareTail ::
  "(cparser \<Rightarrow> cexpr cparse) \<Rightarrow> (cparser \<Rightarrow> cexpr cparse) \<Rightarrow> cexpr \<Rightarrow> cparser \<Rightarrow> catError + (cexpr \<times> cparser) option" where
  "parseCompareTail pe operand left p =
     (let op = tkText (cat_peek p); p = cat_next p in
      if isKeyword p ''ANY'' \<or> isKeyword p ''ALL'' then
        bindE (cat_expectOp (cat_next p) ''('') (\<lambda>p.
        bindE (pe p) (\<lambda>(right, p).
        bindE (cat_expectOp p '')'') (\<lambda>p. Inr (Some (BinExpr op left right False True, p)))))
      else
        bindE (operand p) (\<lambda>(right, p).
        Inr (Some (binary (if op = ''!='' then ''<>'' else op) left right, p))))"

definition parseParenList :: "(cparser \<Rightarrow> cexpr cparse) \<Rightarrow> cparser \<Rightarrow> cexpr list cparse" where
  "parseParenList pe p =
     bindE (cat_expectOp p ''('') (\<lambda>p.
     bindE (listOf pe p) (\<lambda>(xs, p).
     bindE (cat_expectOp p '')'') (\<lambda>p. Inr (xs, p))))"

definition cat_parseBetweenTail :: "(cparser \<Rightarrow> cexpr cparse) \<Rightarrow> cparser \<Rightarrow> cexpr cparse" where
  "cat_parseBetweenTail operand p =
     bindE (operand p) (\<lambda>(lo, p).
     bindE (cat_expectKeyword p ''AND'') (\<lambda>p.
     bindE (operand p) (\<lambda>(hi, p). Inr (BetweenTail lo hi, p))))"

text \<open>\<open>LIKE\<close>, \<open>ILIKE\<close>, \<open>IN\<close> and \<open>BETWEEN\<close>, given as the word at hand, plain or negated.\<close>

definition predicateWords :: "string list" where
  "predicateWords = [''LIKE'', ''ILIKE'', ''IN'', ''BETWEEN'']"

definition cat_parsePredicate ::
  "(cparser \<Rightarrow> cexpr cparse) \<Rightarrow> (cparser \<Rightarrow> cexpr cparse) \<Rightarrow> bool \<Rightarrow> cexpr \<Rightarrow> cparser \<Rightarrow> catError + (cexpr \<times> cparser) option" where
  "cat_parsePredicate pe operand neg left p =
     (let word = tkText (cat_peek p); p = cat_next p in
      if word = ''IN'' then bindE (parseParenList pe p) (\<lambda>(xs, p). Inr (Some (InExpr left xs neg, p)))
      else if word = ''BETWEEN'' then
        bindE (cat_parseBetweenTail operand p) (\<lambda>(r, p). Inr (Some (BinExpr ''BETWEEN'' left r neg False, p)))
      else bindE (operand p) (\<lambda>(r, p). Inr (Some (BinExpr (map lowerChar word) left r neg False, p))))"

definition predicateAhead :: "token \<Rightarrow> bool" where
  "predicateAhead t \<longleftrightarrow> tkKind t = TkKeyword \<and> tkText t \<in> set predicateWords"

definition parseIs :: "cexpr \<Rightarrow> cparser \<Rightarrow> catError + (cexpr \<times> cparser) option" where
  "parseIs left p =
     (let (neg, p) = acceptKeyword (cat_next p) ''NOT'' in
      if isKeyword p ''NULL'' then Inr (Some (IsNullExpr left neg, cat_next p))
      else if isKeyword p ''TRUE'' \<or> isKeyword p ''FALSE'' then Inr (Some (left, cat_next p))
      else Inl (cat_errf [T ''unsupported IS form: ['', S (tokenText (cat_peek p)), T '']'']))"

definition comparisonStep ::
  "(cparser \<Rightarrow> cexpr cparse) \<Rightarrow> (cparser \<Rightarrow> cexpr cparse) \<Rightarrow> cexpr \<Rightarrow> cparser \<Rightarrow> catError + (cexpr \<times> cparser) option" where
  "comparisonStep pe operand left p =
     (if isKeyword p ''COLLATE'' then
        bindE (skipQualifiedName (cat_next p)) (\<lambda>p. Inr (Some (left, p)))
      else if operatorAhead p then parseOperatorWrapper operand left p
      else if compareAhead p then parseCompareTail pe operand left p
      else if predicateAhead (cat_peek p) then cat_parsePredicate pe operand False left p
      else if isKeyword p ''NOT'' \<and> predicateAhead (cat_peekAt 1 p)
        then cat_parsePredicate pe operand True left (cat_next p)
      else if isKeyword p ''IS'' then parseIs left p
      else Inr None)"

definition parseComparison ::
  "(cparser \<Rightarrow> cexpr cparse) \<Rightarrow> (cparser \<Rightarrow> stmt cparse) \<Rightarrow> cparser \<Rightarrow> cexpr cparse" where
  "parseComparison pe ps p =
     (let operand = parseAdditive pe ps in
      bindE (operand p) (\<lambda>(l, p). loopP (comparisonStep pe operand) l p))"

definition cat_parseNot ::
  "(cparser \<Rightarrow> cexpr cparse) \<Rightarrow> (cparser \<Rightarrow> stmt cparse) \<Rightarrow> cparser \<Rightarrow> cexpr cparse" where
  "cat_parseNot pe ps p =
     prefixN (Suc (length (cpToks p))) (\<lambda>p. isKeyword p ''NOT'') ''NOT'' (parseComparison pe ps) p"

definition cat_parseAnd ::
  "(cparser \<Rightarrow> cexpr cparse) \<Rightarrow> (cparser \<Rightarrow> stmt cparse) \<Rightarrow> cparser \<Rightarrow> cexpr cparse" where
  "cat_parseAnd pe ps = leftLevel (\<lambda>p. isKeyword p ''AND'') (cat_parseNot pe ps)"

definition cat_parseOr ::
  "(cparser \<Rightarrow> cexpr cparse) \<Rightarrow> (cparser \<Rightarrow> stmt cparse) \<Rightarrow> cparser \<Rightarrow> cexpr cparse" where
  "cat_parseOr pe ps = leftLevel (\<lambda>p. isKeyword p ''OR'') (cat_parseAnd pe ps)"

subsection \<open>FROM\<close>

definition clauseNames :: "string list" where
  "clauseNames = [''JOIN'', ''INNER'', ''LEFT'', ''RIGHT'', ''FULL'', ''CROSS'', ''ON'', ''WHERE'',
     ''ORDER'', ''LIMIT'', ''OFFSET'', ''GROUP'', ''HAVING'', ''UNION'']"

text \<open>An alias, \<open>None\<close> when there is none: behind \<open>AS\<close>, or an identifier that \<open>ok\<close> admits.\<close>

definition parseAlias :: "(string \<Rightarrow> bool) \<Rightarrow> cparser \<Rightarrow> string option cparse" where
  "parseAlias ok p =
     (if isKeyword p ''AS'' then bindE (nameHere [T ''alias after AS''] (cat_next p)) (\<lambda>(a, p). Inr (Some a, p))
      else if isIdent p \<and> ok (tkText (cat_peek p)) then Inr (Some (foldIdent (cat_peek p)), cat_next p)
      else Inr (None, p))"

definition cat_parseTableRef :: "cparser \<Rightarrow> tableRef cparse" where
  "cat_parseTableRef p =
     bindE (nameHere [T ''a table name''] p) (\<lambda>(first, p).
     bindE (if isOp p ''.''
            then bindE (nameHere [T ''a table name after '', sq, T ''.'', sq] (cat_next p)) (\<lambda>(second, p). Inr ((first, second), p))
            else Inr (([], first), p)) (\<lambda>((sch, name), p).
     bindE (parseAlias (\<lambda>w. w \<notin> set clauseNames) p) (\<lambda>(alias, p).
     Inr (\<lparr>trSchema = sch, trName = name,
           trAlias = (case alias of None \<Rightarrow> name | Some a \<Rightarrow> if a = [] then name else a)\<rparr>, p))))"

text \<open>The words of a join and its kind.\<close>

definition joinKind :: "cparser \<Rightarrow> (string \<times> cparser) option" where
  "joinKind p =
     (let outer = (\<lambda>kind. Some (kind, snd (acceptKeyword (cat_next p) ''OUTER''))) in
      if isKeyword p ''CROSS'' then Some (''cross'', cat_next p)
      else if isKeyword p ''LEFT'' then outer ''left''
      else if isKeyword p ''RIGHT'' then outer ''right''
      else if isKeyword p ''FULL'' then outer ''full''
      else if isKeyword p ''INNER'' then Some (''join'', cat_next p)
      else if isKeyword p ''JOIN'' then Some (''join'', p)
      else None)"

definition fromStep ::
  "(cparser \<Rightarrow> cexpr cparse) \<Rightarrow> tableExpr \<Rightarrow> cparser \<Rightarrow> catError + (tableExpr \<times> cparser) option" where
  "fromStep pe left p =
     (if isOp p '','' then
        bindE (cat_parseTableRef (cat_next p)) (\<lambda>(r, p).
        Inr (Some (JoinExpr left (TableSource r) ''cross'' None, p)))
      else (case joinKind p of
          None \<Rightarrow> Inr None
        | Some (kind, p) \<Rightarrow>
            bindE (cat_expectKeyword p ''JOIN'') (\<lambda>p.
            bindE (cat_parseTableRef p) (\<lambda>(r, p).
            if kind = ''cross'' then Inr (Some (JoinExpr left (TableSource r) kind None, p))
            else
              bindE (cat_expectKeyword p ''ON'') (\<lambda>p.
              bindE (pe p) (\<lambda>(on, p).
              Inr (Some (JoinExpr left (TableSource r) kind (Some on), p))))))))"

definition parseFrom :: "(cparser \<Rightarrow> cexpr cparse) \<Rightarrow> cparser \<Rightarrow> tableExpr cparse" where
  "parseFrom pe p = bindE (cat_parseTableRef p) (\<lambda>(r, p). loopP (fromStep pe) (TableSource r) p)"

subsection \<open>SELECT\<close>

definition derivedName :: "cexpr \<Rightarrow> string" where
  "derivedName e = (case e of ColRef _ name \<Rightarrow> name | FuncCall name _ \<Rightarrow> name | _ \<Rightarrow> ''?column?'')"

definition starAhead :: "cparser \<Rightarrow> bool" where
  "starAhead p \<longleftrightarrow> isIdent p \<and> tkKind (cat_peekAt 1 p) = TkOp \<and> tkText (cat_peekAt 1 p) = ''.'' \<and>
     tkKind (cat_peekAt 2 p) = TkOp \<and> tkText (cat_peekAt 2 p) = ''*''"

definition cat_parseSelectItem :: "(cparser \<Rightarrow> cexpr cparse) \<Rightarrow> cparser \<Rightarrow> selectItem cparse" where
  "cat_parseSelectItem pe p =
     (if isOp p ''*'' then Inr (ItemStar [], cat_next p)
      else if starAhead p then
        Inr (ItemStar (foldIdent (cat_peek p)), cat_next (cat_next (cat_next p)))
      else
        bindE (pe p) (\<lambda>(e, p).
        bindE (parseAlias (\<lambda>_. True) p) (\<lambda>(alias, p).
        Inr (ItemExpr e (case alias of None \<Rightarrow> derivedName e | Some a \<Rightarrow> a), p))))"

definition beyondCore :: "string list" where
  "beyondCore = [''GROUP'', ''HAVING'', ''INTERSECT'', ''EXCEPT'', ''WINDOW'']"

definition beyondTail :: "string list" where
  "beyondTail = [''FOR'', ''FETCH'', ''INTO'']"

definition refuseKeywords :: "string list \<Rightarrow> cparser \<Rightarrow> catError + unit" where
  "refuseKeywords words p =
     (if list_ex (isKeyword p) words
      then Inl (capErrf [T ''catalog queries do not support '', S (map lowerChar (tkText (cat_peek p)))])
      else Inr ())"

definition optFrom :: "(cparser \<Rightarrow> cexpr cparse) \<Rightarrow> cparser \<Rightarrow> tableExpr option cparse" where
  "optFrom pe p =
     (if isKeyword p ''FROM'' then bindE (parseFrom pe (cat_next p)) (\<lambda>(f, p). Inr (Some f, p))
      else Inr (None, p))"

definition parseSelectCore :: "(cparser \<Rightarrow> cexpr cparse) \<Rightarrow> cparser \<Rightarrow> stmt cparse" where
  "parseSelectCore pe p =
     (if \<not> isKeyword p ''SELECT'' then Inl (expectedErr [T ''SELECT''] (cat_peek p))
      else
      let (dist, p) = acceptKeyword (cat_next p) ''DISTINCT'' in
      bindE (listOf (cat_parseSelectItem pe) p) (\<lambda>(items, p).
      bindE (optFrom pe p) (\<lambda>(src, p).
      bindE (clauseExpr ''WHERE'' pe p) (\<lambda>(cond, p).
      bindE (refuseKeywords beyondCore p) (\<lambda>_.
      Inr (Stmt items src cond [] None None dist 0 [], p))))))"

definition unionStep ::
  "(cparser \<Rightarrow> stmt cparse) \<Rightarrow> (stmt \<times> bool) list \<Rightarrow> cparser \<Rightarrow> catError + ((stmt \<times> bool) list \<times> cparser) option" where
  "unionStep core branches p =
     (if isKeyword p ''UNION'' then
        (let (all, p) = acceptKeyword (cat_next p) ''ALL'' in
         bindE (core p) (\<lambda>(st, p). Inr (Some (branches @ [(st, all)], p))))
      else Inr None)"

definition cat_parseOrderItem :: "(cparser \<Rightarrow> cexpr cparse) \<Rightarrow> cparser \<Rightarrow> (cexpr \<times> bool) cparse" where
  "cat_parseOrderItem pe p =
     bindE (pe p) (\<lambda>(e, p).
     Inr (if isKeyword p ''DESC'' then ((e, True), cat_next p)
          else ((e, False), snd (acceptKeyword p ''ASC''))))"

definition parseOrder :: "(cparser \<Rightarrow> cexpr cparse) \<Rightarrow> cparser \<Rightarrow> (cexpr \<times> bool) list cparse" where
  "parseOrder pe p =
     (if isKeyword p ''ORDER'' then
        bindE (cat_expectKeyword (cat_next p) ''BY'') (\<lambda>p. listOf (cat_parseOrderItem pe) p)
      else Inr ([], p))"

definition cat_parseSelect :: "(cparser \<Rightarrow> cexpr cparse) \<Rightarrow> cparser \<Rightarrow> stmt cparse" where
  "cat_parseSelect pe p =
     bindE (parseSelectCore pe p) (\<lambda>(st, p).
     let seen = cpMax p in
     bindE (loopP (unionStep (parseSelectCore pe)) [] p) (\<lambda>(branches, p).
     bindE (parseOrder pe p) (\<lambda>(order, p).
     bindE (clauseExpr ''LIMIT'' pe p) (\<lambda>(lim, p).
     bindE (clauseExpr ''OFFSET'' pe p) (\<lambda>(off, p).
     bindE (refuseKeywords beyondTail p) (\<lambda>_.
     Inr (Stmt (stItems st) (stFrom st) (stWhere st) order lim off (stDistinct st) seen branches, p)))))))"

subsection \<open>The knot\<close>

fun exprN :: "nat \<Rightarrow> cparser \<Rightarrow> cexpr cparse"
  and selectN :: "nat \<Rightarrow> cparser \<Rightarrow> stmt cparse" where
  "exprN 0 p = Inl CatFuel"
| "exprN (Suc n) p = cat_parseOr (exprN n) (selectN n) p"
| "selectN 0 p = Inl CatFuel"
| "selectN (Suc n) p = cat_parseSelect (exprN n) p"

definition parseSQL :: "string \<Rightarrow> catError + stmt" where
  "parseSQL src =
     bindE (cat_lex src) (\<lambda>toks.
     bindE (selectN (Suc (length toks)) \<lparr>cpToks = toks, cpMax = 0\<rparr>) (\<lambda>(st, p).
     let p' = (if isOp p '';'' then cat_next p else p) in
     if tkKind (cat_peek p') \<noteq> TkEOF then Inl (cat_errf [T ''unexpected content after the statement''])
     else Inr (Stmt (stItems st) (stFrom st) (stWhere st) (stOrder st) (stLimit st) (stOffset st)
       (stDistinct st) (cpMax p) (stUnion st))))"

end
