(* ===== verification/GoFloat64.thy ===== *)
theory GoFloat64
  imports GoFloat32
begin

text \<open>
  Integers as 64-bit floats: which float an integer becomes, that reading its decimal text gives
  the same float, and that up to \<open>2 ^ 53\<close> different integers stay different.
\<close>

lemma bitLen_double: "0 < n \<Longrightarrow> bitLen (2 * n) = Suc (bitLen n)"
  by (subst bitLen.simps) simp

lemma bitLen_shift: "0 < n \<Longrightarrow> bitLen (n * 2 ^ k) = bitLen n + k"
proof (induction k)
  case (Suc k)
  have "n * 2 ^ Suc k = 2 * (n * 2 ^ k)" by simp
  then show ?case using Suc bitLen_double[of "n * 2 ^ k"] by (simp add: mult.left_commute)
qed simp

lemma roundHalfEven_cancel: "0 < c \<Longrightarrow> roundHalfEven (a * c) (b * c) = roundHalfEven a b"
proof -
  assume c: "0 < c"
  have "2 * (a mod b * c) > b * c \<longleftrightarrow> 2 * (a mod b) > b" "2 * (a mod b * c) = b * c \<longleftrightarrow> 2 * (a mod b) = b"
    using c by (simp_all flip: mult.assoc)
  with c show ?thesis by (simp add: roundHalfEven_def Let_def mod_mult_mult2)
qed

lemma roundHalfEven_1: "roundHalfEven n 1 = n"
  by (simp add: roundHalfEven_def)

text \<open>The bits an integer loses.\<close>

definition lostBits :: "nat \<Rightarrow> nat" where "lostBits n = bitLen n - 53"

definition roundInt :: "nat \<Rightarrow> nat" where
  "roundInt n = roundHalfEven n (2 ^ lostBits n) * 2 ^ lostBits n"

lemma roundInt_le:
  assumes "n \<le> 2 ^ 64"
  shows "roundInt n \<le> 2 ^ 64"
proof -
  have "bitLen n \<le> 65" by (rule bitLen_le) (use assms in simp)
  then have j: "lostBits n \<le> 64" by (simp add: lostBits_def)
  have "n \<le> 2 ^ (64 - lostBits n) * 2 ^ lostBits n" using assms j by (simp flip: power_add)
  from roundHalfEven_le[OF _ this] have "roundHalfEven n (2 ^ lostBits n) \<le> 2 ^ (64 - lostBits n)" by simp
  then have "roundInt n \<le> 2 ^ (64 - lostBits n) * 2 ^ lostBits n" by (simp add: roundInt_def)
  with j show ?thesis by (simp flip: power_add)
qed

lemma round64_int:
  assumes "n \<le> 2 ^ 64"
  shows "round64 (n * unitsPerOne) 1 = Some (roundInt n * unitsPerOne)"
proof (cases "n = 0")
  case True
  then show ?thesis by (simp add: round64_def roundUnits_def roundHalfEven_def roundInt_def bitLen.simps[of 0])
next
  case False
  define k where "k = max 0 (bitLen (n * unitsPerOne div 1) - 53)"
  have k: "k = bitLen n + 1021" using False bitLen_shift[of n 1074] by (simp add: k_def unitsPerOne_def del: power_numeral)
  have v: "roundHalfEven (n * unitsPerOne) (1 * 2 ^ k) * 2 ^ k = roundInt n * unitsPerOne"
  proof (cases "53 \<le> bitLen n")
    case True
    then have "k = lostBits n + 1074" by (simp add: k lostBits_def)
    then have "(2::nat) ^ k = 2 ^ lostBits n * unitsPerOne" by (simp only: power_add unitsPerOne_def)
    moreover have "0 < unitsPerOne" by (simp add: unitsPerOne_def)
    ultimately show ?thesis by (simp add: roundInt_def roundHalfEven_cancel)
  next
    case False
    then have "1074 - k + k = 1074" by (simp add: k)
    then have whole: "n * unitsPerOne = n * 2 ^ (1074 - k) * 2 ^ k"
      by (simp only: unitsPerOne_def mult.assoc power_add[symmetric])
    have "roundHalfEven (n * unitsPerOne) (1 * 2 ^ k) = n * 2 ^ (1074 - k)"
      unfolding whole mult_1 by (rule roundHalfEven_exact) simp
    moreover note whole[symmetric]
    moreover have "roundInt n = n" using False by (simp add: roundInt_def lostBits_def roundHalfEven_1[unfolded One_nat_def])
    ultimately show ?thesis by simp
  qed
  have "roundInt n * unitsPerOne \<le> 2 ^ 64 * 2 ^ 1074"
    unfolding unitsPerOne_def by (rule mult_le_mono1) (rule roundInt_le[OF assms])
  also have "\<dots> = 2 ^ 1138" unfolding power_add[symmetric] by (rule arg_cong[where f = "power 2"]) simp
  also have "\<dots> < (2::nat) ^ 2098" by (rule power_strict_increasing) simp_all
  finally show ?thesis
    unfolding round64_def roundUnits_def Let_def k_def[symmetric] v by simp
qed

lemma roundInt_small: "n \<le> 2 ^ 53 \<Longrightarrow> roundInt n = n"
proof (cases "n = 2 ^ 53")
  case True
  have "bitLen n = 54" using bitLen_shift[of 1 53] True by (simp add: bitLen.simps[of "Suc 0"] bitLen.simps[of 0])
  then show ?thesis by (simp add: roundInt_def lostBits_def True roundHalfEven_def)
next
  case False
  assume "n \<le> 2 ^ 53"
  with False have "bitLen n \<le> 53" by (intro bitLen_le) simp
  then show ?thesis by (simp add: roundInt_def lostBits_def roundHalfEven_1[unfolded One_nat_def])
qed

lemma floatOfInt_eq:
  assumes "in64 i"
  shows "floatOfInt i = Fin (i < 0) (roundInt (nat \<bar>i\<bar>) * unitsPerOne)"
proof -
  have "nat \<bar>i\<bar> \<le> 2 ^ 64" using assms by (auto simp: in64_def minInt64_def maxInt64_def)
  then show ?thesis by (simp add: floatOfInt_def round64_int[unfolded One_nat_def])
qed

text \<open>Reading the decimal text.\<close>

lemma readMantissa_digits:
  "list_all isDigit ds \<Longrightarrow>
   readMantissa False False sawd m 0 ds = (sawd \<or> ds \<noteq> [], foldl (\<lambda>n c. 10 * n + digitVal c) m ds, 0, [])"
proof (induction ds arbitrary: sawd m)
  case (Cons c ds)
  then have "isDigit c" "c \<noteq> CHR ''_''" "c \<noteq> CHR ''.''" by (auto simp: isDigit_def)
  with Cons show ?case by (simp add: hexVal_def)
qed simp

lemma digits_lower:
  assumes "list_all isDigit ds"
  shows "map lowerChar ds = ds"
  using assms by (induction ds) (auto simp: isDigit_def lowerChar_def)

lemma takeSign_FormatInt: "takeSign (FormatInt i) = (i < 0, showNat (nat \<bar>i\<bar>))"
proof (cases "i < 0")
  case True
  then show ?thesis by (simp add: FormatInt_def takeSign_def)
next
  case False
  then show ?thesis using takeSign_digits[OF showNat_nonempty hd_showNat_digit, of "nat i"]
    by (simp add: FormatInt_def)
qed

lemma readFloat_FormatInt: "readFloat (FormatInt i) = Some (i < 0, nat \<bar>i\<bar>, 1)"
proof -
  define ds where "ds = showNat (nat \<bar>i\<bar>)"
  have ds: "list_all isDigit ds" "ds \<noteq> []" "isDigit (hd ds)"
    using showNat_digits hd_showNat_digit by (auto simp: ds_def list_all_iff)
  have sign: "takeSign (FormatInt i) = (i < 0, ds)" by (simp add: takeSign_FormatInt ds_def)
  have nounder: "CHR ''_'' \<notin> set (FormatInt i)"
    using showNat_digits[of "CHR ''_''"] by (auto simp: FormatInt_def isDigit_def)
  have hex: "(case ds of z # x # _ # _ \<Rightarrow> z = CHR ''0'' \<and> lowerChar x = CHR ''x'' | _ \<Rightarrow> False) = False"
    using ds(1) by (auto split: list.splits simp: isDigit_def lowerChar_def)
  have m: "foldl (\<lambda>n c. 10 * n + digitVal c) 0 ds = nat \<bar>i\<bar>"
    using natOfDigits_showNat[of "nat \<bar>i\<bar>"] by (simp add: natOfDigits_def ds_def)
  show ?thesis
    by (simp add: readFloat_def sign hex readMantissa_digits[OF ds(1)] m nounder ds(2) decFraction_def)
qed

lemma special_FormatInt: "special (FormatInt i) = None"
proof -
  define ds where "ds = showNat (nat \<bar>i\<bar>)"
  have ds: "list_all isDigit ds" "ds \<noteq> []" "isDigit (hd ds)"
    using showNat_digits hd_showNat_digit by (auto simp: ds_def list_all_iff)
  have sign: "takeSign (FormatInt i) = (i < 0, ds)" by (simp add: takeSign_FormatInt ds_def)
  have "map lowerChar (FormatInt i) \<noteq> ''nan''"
  proof
    assume "map lowerChar (FormatInt i) = ''nan''"
    then have "lowerChar (hd (FormatInt i)) = CHR ''n''" by (cases "FormatInt i") auto
    moreover have "hd (FormatInt i) = CHR ''-'' \<or> isDigit (hd (FormatInt i))"
      using hd_showNat_digit by (auto simp: FormatInt_def)
    ultimately show False by (auto simp: lowerChar_def isDigit_def split: if_splits)
  qed
  moreover have "ds \<noteq> ''inf'' \<and> ds \<noteq> ''infinity''" using ds(3) by (auto simp: isDigit_def)
  ultimately show ?thesis by (simp add: special_def sign digits_lower[OF ds(1)])
qed

lemma ParseFloat64_FormatInt:
  assumes "in64 i"
  shows "ParseFloat64 (FormatInt i) = Some (floatOfInt i)"
proof -
  have "nat \<bar>i\<bar> \<le> 2 ^ 64" using assms by (auto simp: in64_def minInt64_def maxInt64_def)
  then show ?thesis
    by (simp add: ParseFloat64_def special_FormatInt readFloat_FormatInt round64_int[unfolded One_nat_def]
        floatOfInt_eq[OF assms])
qed

text \<open>The integer a 64-bit float holds for \<open>i\<close>.\<close>

definition nearestInt :: "int \<Rightarrow> int" where
  "nearestInt i = (if i < 0 then - int (roundInt (nat (- i))) else int (roundInt (nat i)))"

lemma unitsPerOne_nonzero [simp]: "(unitsPerOne = 0) = False"
  by (simp add: unitsPerOne_def)

lemma feq_floatOfInt:
  assumes "in64 i" "in64 j"
  shows "feq (floatOfInt i) (floatOfInt j) \<longleftrightarrow> nearestInt i = nearestInt j"
proof -
  have u: "units (k < 0) (roundInt (nat \<bar>k\<bar>) * unitsPerOne) = nearestInt k * int unitsPerOne" for k
    by (simp add: units_def nearestInt_def)
  show ?thesis by (simp add: floatOfInt_eq[OF assms(1)] floatOfInt_eq[OF assms(2)] u)
qed

lemma truncInt_floatOfInt: "in64 i \<Longrightarrow> truncInt (floatOfInt i) = nearestInt i"
  by (simp add: floatOfInt_eq nearestInt_def)

lemma nearestInt_small: "\<bar>i\<bar> \<le> 2 ^ 53 \<Longrightarrow> nearestInt i = i"
  by (auto simp: nearestInt_def roundInt_small nat_le_iff)

text \<open>The first two integers that share a float.\<close>

lemma nearestInt_shared: "nearestInt 9007199254740993 = nearestInt 9007199254740992"
proof -
  have "bitLen 9007199254740993 = 54"
  proof (rule antisym)
    show "bitLen 9007199254740993 \<le> 54" by (rule bitLen_le) simp
    show "54 \<le> bitLen 9007199254740993"
    proof (rule ccontr)
      assume "\<not> 54 \<le> bitLen 9007199254740993"
      then have "(2::nat) ^ bitLen 9007199254740993 \<le> 2 ^ 53" by (intro power_increasing) auto
      with less_pow_bitLen[of 9007199254740993] show False by simp
    qed
  qed
  then have "roundInt 9007199254740993 = 9007199254740992"
    by (simp add: roundInt_def lostBits_def roundHalfEven_def)
  moreover have "roundInt 9007199254740992 = 9007199254740992" by (rule roundInt_small) simp
  ultimately show ?thesis by (simp add: nearestInt_def)
qed

end
