(* ===== verification/GoArith.thy ===== *)
theory GoArith
  imports GoFloat64
begin

text \<open>
  Arithmetic on 64-bit floats, each result the exact one rounded to nearest, ties to even, with
  Go's signed zeros, infinities and NaN; and the conversion of a float to an integer type.
\<close>

definition roundedTo :: "bool \<Rightarrow> nat option \<Rightarrow> gofloat" where
  "roundedTo s r = (case r of None \<Rightarrow> Inf s | Some u \<Rightarrow> Fin s u)"

fun fneg :: "gofloat \<Rightarrow> gofloat" where
  "fneg NaN = NaN"
| "fneg (Inf s) = Inf (\<not> s)"
| "fneg (Fin s u) = Fin (\<not> s) u"

fun fadd :: "gofloat \<Rightarrow> gofloat \<Rightarrow> gofloat" where
  "fadd NaN _ = NaN"
| "fadd _ NaN = NaN"
| "fadd (Inf s) (Inf t) = (if s = t then Inf s else NaN)"
| "fadd (Inf s) (Fin _ _) = Inf s"
| "fadd (Fin _ _) (Inf t) = Inf t"
| "fadd (Fin s u) (Fin t v) =
     (let z = units s u + units t v in
      if z = 0 then Fin (s \<and> t) 0 else roundedTo (z < 0) (round64 (nat \<bar>z\<bar>) 1))"

definition fsub :: "gofloat \<Rightarrow> gofloat \<Rightarrow> gofloat" where
  "fsub a b = fadd a (fneg b)"

fun fmul :: "gofloat \<Rightarrow> gofloat \<Rightarrow> gofloat" where
  "fmul NaN _ = NaN"
| "fmul _ NaN = NaN"
| "fmul (Inf s) (Inf t) = Inf (s \<noteq> t)"
| "fmul (Inf s) (Fin t v) = (if v = 0 then NaN else Inf (s \<noteq> t))"
| "fmul (Fin s u) (Inf t) = (if u = 0 then NaN else Inf (s \<noteq> t))"
| "fmul (Fin s u) (Fin t v) = roundedTo (s \<noteq> t) (round64 (u * v) unitsPerOne)"

text \<open>Division; the source divides only by what is not zero.\<close>

fun fdiv :: "gofloat \<Rightarrow> gofloat \<Rightarrow> gofloat" where
  "fdiv NaN _ = NaN"
| "fdiv _ NaN = NaN"
| "fdiv (Inf s) (Inf t) = NaN"
| "fdiv (Inf s) (Fin t v) = Inf (s \<noteq> t)"
| "fdiv (Fin s u) (Inf t) = Fin (s \<noteq> t) 0"
| "fdiv (Fin s u) (Fin t v) =
     (if v = 0 then (if u = 0 then NaN else Inf (s \<noteq> t))
      else roundedTo (s \<noteq> t) (round64 (u * unitsPerOne) v))"

definition fzero :: "gofloat \<Rightarrow> bool" where
  "fzero f \<longleftrightarrow> (case f of Fin _ u \<Rightarrow> u = 0 | _ \<Rightarrow> False)"

text \<open>\<open>int64(f)\<close>: the integer part; for a value that does not fit the language leaves the result to
  the machine, here the least integer, as amd64 answers.\<close>

definition intOfFloat :: "gofloat \<Rightarrow> int" where
  "intOfFloat y = (case y of Fin _ _ \<Rightarrow> (if in64 (truncInt y) then truncInt y else minInt64) | _ \<Rightarrow> minInt64)"

text \<open>The narrower types: 32 bits convert like 64, 16 bits keep the low bits of that, and the
  unsigned 32 bits the low bits of the 64-bit conversion.\<close>

definition int32OfFloat :: "gofloat \<Rightarrow> int" where
  "int32OfFloat y = (let i = intOfFloat y in if - 2147483648 \<le> i \<and> i \<le> 2147483647 then i else - 2147483648)"

definition int16OfFloat :: "gofloat \<Rightarrow> int" where
  "int16OfFloat y = (int32OfFloat y + 32768) mod 65536 - 32768"

definition uint32OfFloat :: "gofloat \<Rightarrow> int" where
  "uint32OfFloat y = intOfFloat y mod 4294967296"

lemma intOfFloat_floatOfInt: "\<bar>i\<bar> \<le> 2 ^ 53 \<Longrightarrow> intOfFloat (floatOfInt i) = i"
proof -
  assume i: "\<bar>i\<bar> \<le> 2 ^ 53"
  then have in64: "in64 i" by (auto simp add: in64_def minInt64_def maxInt64_def)
  with i have t: "truncInt (floatOfInt i) = i" by (simp add: truncInt_floatOfInt nearestInt_small)
  obtain u where "floatOfInt i = Fin (i < 0) u" using floatOfInt_eq[OF in64] by blast
  with t in64 show ?thesis by (simp add: intOfFloat_def del: truncInt.simps)
qed

end
