(* ===== verification/EsQuery.thy ===== *)
theory EsQuery
  imports Tri GoTime
begin

text \<open>
  The Elasticsearch query tree of \<open>internal/translate/es/query.go\<close>: parsing of the query DSL, and
  the folding of boolean identities.

  A request body is a decoded JSON value; an object is the association list of its members in
  the order the source's range over the decoded map visits them, so every theorem holds for
  every iteration order. A member that is absent is absent from the list; the source's checks
  on the first byte of a raw value are the constructors. Decoding \<open>null\<close> into a Go string or
  slice leaves it empty without an error, which the model keeps.

  \<open>esMatch\<close> is the specification: what a document matching a query means, with
  \<open>minimum_should_match\<close> the number of should clauses that must match.
\<close>

subsection \<open>JSON and errors\<close>

datatype json =
    JNull
  | JBool bool
  | JNum string
  | JStr string
  | JArr "json list"
  | JObj "(string \<times> json) list"

type_synonym members = "(string \<times> json) list"

definition es_parseErrf :: "reason \<Rightarrow> terror" where
  "es_parseErrf r = mkError ''parsing_exception'' r"

definition es_illegalErrf :: "reason \<Rightarrow> terror" where
  "es_illegalErrf r = mkError ''illegal_argument_exception'' r"

definition es_unsupportedErrf :: "reason \<Rightarrow> terror" where
  "es_unsupportedErrf r = mkError ''unsupported_exception'' r"

definition es_classified :: "terror \<Rightarrow> bool" where
  "es_classified e \<longleftrightarrow> Type e \<in> {''parsing_exception'', ''illegal_argument_exception'',
     ''unsupported_exception''} \<and> Status e = 400"

lemma es_classified_simps [simp]:
  "es_classified (es_parseErrf r)" "es_classified (es_illegalErrf r)" "es_classified (es_unsupportedErrf r)"
  by (simp_all add: es_classified_def es_parseErrf_def es_illegalErrf_def es_unsupportedErrf_def mkError_def)

subsection \<open>The query tree\<close>

text \<open>A scalar as \<open>decodeScalar\<close> returns it.\<close>

datatype scalar = SStr string | SNum string | SBool bool

datatype queryNode =
    MatchAll
  | MatchNone
  | BoolQ "queryNode list" "queryNode list" "queryNode list" "queryNode list" int
      \<comment> \<open>must, filter, should, must_not, minimum_should_match\<close>
  | TermQ string scalar
  | TermsQ string "scalar list"
  | MatchQ string scalar string
  | RangeQ string "(compareOp \<times> scalar) list"
  | ExistsQ string

subsection \<open>Decoding helpers\<close>

definition expectObject :: "json \<Rightarrow> string \<Rightarrow> terror + members" where
  "expectObject j what =
     (case j of JObj obj \<Rightarrow> Inr obj | _ \<Rightarrow> Inl (es_parseErrf [T ''['', S what, T ''] must be a JSON object'']))"

definition expectSingleField :: "json \<Rightarrow> string \<Rightarrow> terror + string \<times> json" where
  "expectSingleField j query =
     bindE (expectObject j query) (\<lambda>obj.
       case obj of
         [] \<Rightarrow> Inl (es_parseErrf [T ''['', S query, T ''] query requires a field''])
       | [(field, spec)] \<Rightarrow> Inr (field, spec)
       | _ \<Rightarrow> Inl (es_parseErrf [T ''['', S query, T ''] query does not support multiple fields, got '',
                 D (int (length obj))]))"

definition decodeScalar :: "json \<Rightarrow> reason \<Rightarrow> terror + scalar" where
  "decodeScalar j what =
     (case j of
        JStr s \<Rightarrow> Inr (SStr s)
      | JNum n \<Rightarrow> Inr (SNum n)
      | JBool b \<Rightarrow> Inr (SBool b)
      | JNull \<Rightarrow> Inl (es_parseErrf (what @ [T '' must not be null'']))
      | _ \<Rightarrow> Inl (es_parseErrf (what @ [T '' must be a scalar (string, number or boolean)''])))"

definition decodeInt :: "json \<Rightarrow> int option" where
  "decodeInt j = (case j of JNum n \<Rightarrow> ParseInt n | _ \<Rightarrow> None)"

text \<open>\<open>json.Unmarshal\<close> into a string variable that holds \<open>s0\<close>: \<open>null\<close> leaves it.\<close>

definition unmarshalString :: "string \<Rightarrow> json \<Rightarrow> string option" where
  "unmarshalString s0 j = (case j of JStr s \<Rightarrow> Some s | JNull \<Rightarrow> Some s0 | _ \<Rightarrow> None)"

subsection \<open>Leaf queries\<close>

text \<open>The options of a term query: its value, if one was given.\<close>

fun termOptions :: "scalar option \<Rightarrow> members \<Rightarrow> terror + scalar option" where
  "termOptions v [] = Inr v"
| "termOptions v ((k, j) # obj) =
     (if k = ''value'' then
        bindE (decodeScalar j [T ''[term] value'']) (\<lambda>s. termOptions (Some s) obj)
      else if k = ''boost'' \<or> k = ''_name'' then termOptions v obj
      else if k = ''case_insensitive'' then
        Inl (es_unsupportedErrf [T ''[term] case_insensitive is not supported (ES applies the keyword normalizer)''])
      else Inl (es_parseErrf [T ''[term] unknown parameter ['', S k, T '']'']))"

definition parseTerm :: "json \<Rightarrow> terror + queryNode" where
  "parseTerm body =
     bindE (expectSingleField body ''term'') (\<lambda>(field, spec).
       case spec of
         JObj obj \<Rightarrow>
           bindE (termOptions None obj) (\<lambda>v.
             case v of
               None \<Rightarrow> Inl (es_parseErrf [T ''[term] query requires a [value]''])
             | Some s \<Rightarrow> Inr (TermQ field s))
       | _ \<Rightarrow> bindE (decodeScalar spec [T ''[term] value'']) (\<lambda>s. Inr (TermQ field s)))"

fun termsValues :: "nat \<Rightarrow> json list \<Rightarrow> terror + scalar list" where
  "termsValues i [] = Inr []"
| "termsValues i (j # js) =
     bindE (decodeScalar j [T ''[terms] value '', D (int i)]) (\<lambda>s.
     bindE (termsValues (i + 1) js) (\<lambda>ss. Inr (s # ss)))"

definition parseTerms :: "json \<Rightarrow> terror + queryNode" where
  "parseTerms body =
     bindE (expectSingleField body ''terms'') (\<lambda>(field, spec).
       case spec of
         JObj _ \<Rightarrow> Inl (es_unsupportedErrf [T ''[terms] lookup by index/id is not supported''])
       | JArr js \<Rightarrow>
           bindE (termsValues 0 js) (\<lambda>vs. Inr (if vs = [] then MatchNone else TermsQ field vs))
       | JNull \<Rightarrow> Inr MatchNone   \<comment> \<open>decoded as the empty list\<close>
       | _ \<Rightarrow> Inl (es_parseErrf [T ''[terms] expects an array of values'']))"

fun matchOptions :: "scalar option \<Rightarrow> string \<Rightarrow> members \<Rightarrow> terror + scalar option \<times> string" where
  "matchOptions v op [] = Inr (v, op)"
| "matchOptions v op ((k, j) # obj) =
     (if k = ''query'' then
        bindE (decodeScalar j [T ''[match] query'']) (\<lambda>s. matchOptions (Some s) op obj)
      else if k = ''operator'' then
        (case unmarshalString [] j of
           Some w \<Rightarrow>
             if w = ''and'' \<or> w = ''or'' then matchOptions v w obj
             else Inl (es_parseErrf [T ''[match] operator must be and or or''])
         | None \<Rightarrow> Inl (es_parseErrf [T ''[match] operator must be and or or'']))
      else if k = ''boost'' \<or> k = ''_name'' then matchOptions v op obj
      else Inl (es_unsupportedErrf [T ''[match] parameter ['', S k, T ''] is not supported'']))"

definition parseMatch :: "json \<Rightarrow> terror + queryNode" where
  "parseMatch body =
     bindE (expectSingleField body ''match'') (\<lambda>(field, spec).
       case spec of
         JObj obj \<Rightarrow>
           bindE (matchOptions None ''or'' obj) (\<lambda>(v, op).
             case v of
               None \<Rightarrow> Inl (es_parseErrf [T ''[match] query requires a [query] parameter''])
             | Some s \<Rightarrow> Inr (MatchQ field s op))
       | _ \<Rightarrow> bindE (decodeScalar spec [T ''[match] query'']) (\<lambda>s. Inr (MatchQ field s ''or'')))"

fun rangeKeys :: "members \<Rightarrow> terror + unit" where
  "rangeKeys [] = Inr ()"
| "rangeKeys ((k, j) # obj) =
     (if k \<in> set [''gt'', ''gte'', ''lt'', ''lte'', ''boost'', ''_name''] then rangeKeys obj
      else if k \<in> set [''format'', ''time_zone'', ''relation'']
      then Inl (es_unsupportedErrf [T ''[range] parameter ['', S k, T ''] is not supported''])
      else Inl (es_parseErrf [T ''[range] unknown parameter ['', S k, T '']'']))"

definition boundKeys :: "(string \<times> compareOp) list" where
  "boundKeys = [(''gt'', Gt), (''gte'', Ge), (''lt'', Lt), (''lte'', Le)]"

fun rangeBounds :: "members \<Rightarrow> (string \<times> compareOp) list \<Rightarrow> terror + (compareOp \<times> scalar) list" where
  "rangeBounds obj [] = Inr []"
| "rangeBounds obj ((key, symbol) # ks) =
     (case map_of obj key of
        None \<Rightarrow> rangeBounds obj ks
      | Some j \<Rightarrow>
          bindE (decodeScalar j [T ''[range] '', S key]) (\<lambda>s.
          bindE (rangeBounds obj ks) (\<lambda>bs. Inr ((symbol, s) # bs))))"

definition parseRange :: "json \<Rightarrow> terror + queryNode" where
  "parseRange body =
     bindE (expectSingleField body ''range'') (\<lambda>(field, spec).
     bindE (expectObject spec ''range'') (\<lambda>obj.
     bindE (rangeKeys obj) (\<lambda>_.
     bindE (rangeBounds obj boundKeys) (\<lambda>bs.
       if bs = [] then Inl (es_parseErrf [T ''[range] query requires at least one bound (gt, gte, lt, lte)''])
       else Inr (RangeQ field bs)))))"

fun existsOptions :: "string \<Rightarrow> members \<Rightarrow> terror + string" where
  "existsOptions field [] = Inr field"
| "existsOptions field ((k, j) # obj) =
     (if k = ''field'' then
        (case unmarshalString field j of
           None \<Rightarrow> Inl (es_parseErrf [T ''[exists] field must be a string''])
         | Some f \<Rightarrow> existsOptions f obj)
      else if k = ''boost'' \<or> k = ''_name'' then existsOptions field obj
      else Inl (es_parseErrf [T ''[exists] unknown parameter ['', S k, T '']'']))"

definition parseExists :: "json \<Rightarrow> terror + queryNode" where
  "parseExists body =
     bindE (expectObject body ''exists'') (\<lambda>obj.
     bindE (existsOptions [] obj) (\<lambda>field.
       if field = [] then Inl (es_parseErrf [T ''[exists] query requires a [field]''])
       else Inr (ExistsQ field)))"

subsection \<open>The query\<close>

definition knownQueryNames :: "string list" where
  "knownQueryNames =
    [''multi_match'', ''query_string'', ''simple_query_string'',
     ''match_phrase'', ''match_phrase_prefix'', ''match_bool_prefix'',
     ''prefix'', ''wildcard'', ''regexp'', ''fuzzy'',
     ''ids'', ''constant_score'', ''dis_max'', ''boosting'',
     ''function_score'', ''nested'', ''geo_distance'',
     ''geo_bounding_box'', ''more_like_this'', ''percolate'',
     ''rank_feature'', ''distance_feature'', ''pinned'',
     ''knn'', ''combined_fields'', ''intervals'', ''span_near'']"

text \<open>The effective \<open>minimum_should_match\<close>, pinned from the query as written.\<close>

definition pinShouldMatch :: "queryNode list \<Rightarrow> queryNode list \<Rightarrow> queryNode list \<Rightarrow> int \<Rightarrow> int" where
  "pinShouldMatch must flt should msm =
     (if should \<noteq> [] \<and> must = [] \<and> flt = [] \<and> msm < 1 then 1 else msm)"

definition parseMinShould :: "json \<Rightarrow> terror + int" where
  "parseMinShould j =
     (case j of
        JStr _ \<Rightarrow> Inl (es_unsupportedErrf [T ''[bool] minimum_should_match percentage form is not supported''])
      | _ \<Rightarrow>
         (case decodeInt j of
            Some n \<Rightarrow>
              if n < 0 then Inl (es_parseErrf [T ''[bool] minimum_should_match must be a non-negative integer''])
              else Inr n
          | None \<Rightarrow> Inl (es_parseErrf [T ''[bool] minimum_should_match must be a non-negative integer''])))"

record boolParts =
  bpMust :: "queryNode list"
  bpFilter :: "queryNode list"
  bpShould :: "queryNode list"
  bpMustNot :: "queryNode list"
  bpMsm :: int

definition emptyParts :: boolParts where
  "emptyParts = \<lparr>bpMust = [], bpFilter = [], bpShould = [], bpMustNot = [], bpMsm = 0\<rparr>"

definition finishBool :: "boolParts \<Rightarrow> queryNode" where
  "finishBool b = BoolQ (bpMust b) (bpFilter b) (bpShould b) (bpMustNot b)
     (pinShouldMatch (bpMust b) (bpFilter b) (bpShould b) (bpMsm b))"

fun parseQueryNode :: "json \<Rightarrow> terror + queryNode"
and parseQueryClause :: "string \<Rightarrow> json \<Rightarrow> terror + queryNode"
and boolMembers :: "boolParts \<Rightarrow> members \<Rightarrow> terror + boolParts"
and parseClauseList :: "json \<Rightarrow> terror + queryNode list"
and parseClauses :: "json list \<Rightarrow> terror + queryNode list" where
  "parseQueryNode JNull = Inr MatchAll"
| "parseQueryNode (JObj obj) =
     (case obj of
        [] \<Rightarrow> Inr MatchAll
      | [(name, body)] \<Rightarrow> parseQueryClause name body
      | _ \<Rightarrow> Inl (es_parseErrf [T ''[query] must contain exactly one clause, got '', D (int (length obj))]))"
| "parseQueryNode _ = Inl (es_parseErrf [T ''['', S ''query'', T ''] must be a JSON object''])"
| "parseQueryClause name body =
     (if name = ''match_all'' then bindE (expectObject body ''match_all'') (\<lambda>_. Inr MatchAll)
      else if name = ''match_none'' then bindE (expectObject body ''match_none'') (\<lambda>_. Inr MatchNone)
      else if name = ''bool'' then
        (case body of
           JObj obj \<Rightarrow> bindE (boolMembers emptyParts obj) (\<lambda>b. Inr (finishBool b))
         | _ \<Rightarrow> Inl (es_parseErrf [T ''['', S ''bool'', T ''] must be a JSON object'']))
      else if name = ''term'' then parseTerm body
      else if name = ''terms'' then parseTerms body
      else if name = ''match'' then parseMatch body
      else if name = ''range'' then parseRange body
      else if name = ''exists'' then parseExists body
      else if name \<in> set knownQueryNames
      then Inl (es_unsupportedErrf [T ''['', S name, T ''] query is beyond lyrebird'', sq, T ''s Phase 1 surface''])
      else Inl (es_parseErrf [T ''unknown query ['', S name, T '']'']))"
| "boolMembers b [] = Inr b"
| "boolMembers b ((k, v) # obj) =
     (if k = ''must'' then bindE (parseClauseList v) (\<lambda>cs. boolMembers (b\<lparr>bpMust := cs\<rparr>) obj)
      else if k = ''filter'' then bindE (parseClauseList v) (\<lambda>cs. boolMembers (b\<lparr>bpFilter := cs\<rparr>) obj)
      else if k = ''should'' then bindE (parseClauseList v) (\<lambda>cs. boolMembers (b\<lparr>bpShould := cs\<rparr>) obj)
      else if k = ''must_not'' then bindE (parseClauseList v) (\<lambda>cs. boolMembers (b\<lparr>bpMustNot := cs\<rparr>) obj)
      else if k = ''minimum_should_match'' then bindE (parseMinShould v) (\<lambda>n. boolMembers (b\<lparr>bpMsm := n\<rparr>) obj)
      else if k = ''boost'' \<or> k = ''_name'' \<or> k = ''adjust_pure_negative'' then boolMembers b obj
      else Inl (es_parseErrf [T ''[bool] unknown parameter ['', S k, T '']'']))"
| "parseClauseList (JArr js) = parseClauses js"
| "parseClauseList j = bindE (parseQueryNode j) (\<lambda>q. Inr [q])"
| "parseClauses [] = Inr []"
| "parseClauses (j # js) = bindE (parseQueryNode j) (\<lambda>q. bindE (parseClauses js) (\<lambda>qs. Inr (q # qs)))"

subsection \<open>Folding\<close>

definition isMatchNone :: "queryNode \<Rightarrow> bool" where "isMatchNone q \<longleftrightarrow> q = MatchNone"
definition isMatchAll :: "queryNode \<Rightarrow> bool" where "isMatchAll q \<longleftrightarrow> q = MatchAll"

definition containsWhere :: "queryNode list \<Rightarrow> (queryNode \<Rightarrow> bool) \<Rightarrow> bool" where
  "containsWhere ns pred = list_ex pred ns"

definition dropWhere :: "queryNode list \<Rightarrow> (queryNode \<Rightarrow> bool) \<Rightarrow> queryNode list" where
  "dropWhere ns pred = filter (\<lambda>n. \<not> pred n) ns"

text \<open>The should clauses left, or \<open>None\<close> when the whole query cannot match.\<close>

definition foldShould :: "queryNode list \<Rightarrow> int \<Rightarrow> terror + queryNode list option" where
  "foldShould should msm =
     (if containsWhere should isMatchAll \<and> msm = 1 then Inr (Some [])
      else let hadNone = containsWhere should isMatchNone; s = dropWhere should isMatchNone in
        if length s > 0 \<and> msm = 0 then Inr (Some [])
        else if length s > 0 \<and> msm > int (length s) then Inr None
        else if length s > 0 \<and> msm > 1
        then Inl (es_unsupportedErrf [T ''[bool] minimum_should_match > 1 is not supported yet (needs k-of-n matching)''])
        else if s = [] \<and> hadNone \<and> msm \<ge> 1 then Inr None
        else Inr (Some s))"

definition foldParts ::
  "queryNode list \<Rightarrow> queryNode list \<Rightarrow> queryNode list \<Rightarrow> queryNode list \<Rightarrow> int \<Rightarrow> terror + queryNode" where
  "foldParts must flt should mustNot msm =
     (if containsWhere must isMatchNone \<or> containsWhere flt isMatchNone \<or> containsWhere mustNot isMatchAll
      then Inr MatchNone
      else let must' = dropWhere must isMatchAll; flt' = dropWhere flt isMatchAll;
               mustNot' = dropWhere mustNot isMatchNone in
        bindE (foldShould should msm) (\<lambda>r.
          case r of
            None \<Rightarrow> Inr MatchNone
          | Some should' \<Rightarrow>
              if must' = [] \<and> flt' = [] \<and> should' = [] \<and> mustNot' = [] then Inr MatchAll
              else Inr (BoolQ must' flt' should' mustNot' msm)))"

fun es_fold :: "queryNode \<Rightarrow> terror + queryNode" where
  "es_fold (BoolQ must flt should mustNot msm) =
     bindE (mapE es_fold must) (\<lambda>must.
     bindE (mapE es_fold flt) (\<lambda>flt.
     bindE (mapE es_fold should) (\<lambda>should.
     bindE (mapE es_fold mustNot) (\<lambda>mustNot.
       foldParts must flt should mustNot msm))))"
| "es_fold q = Inr q"

subsection \<open>What a query means\<close>

text \<open>Whether a document matches, given which leaf queries it matches.\<close>

fun esMatch :: "(queryNode \<Rightarrow> bool) \<Rightarrow> queryNode \<Rightarrow> bool" where
  "esMatch leaf MatchAll = True"
| "esMatch leaf MatchNone = False"
| "esMatch leaf (BoolQ must flt should mustNot msm) =
     ((\<forall>c \<in> set must. esMatch leaf c) \<and> (\<forall>c \<in> set flt. esMatch leaf c) \<and>
      (\<forall>c \<in> set mustNot. \<not> esMatch leaf c) \<and>
      msm \<le> int (length (filter (esMatch leaf) should)))"
| "esMatch leaf q = leaf q"

text \<open>The reading of a folded tree, whose should clauses are a plain disjunction if there are any.\<close>

fun foldedMatch :: "(queryNode \<Rightarrow> bool) \<Rightarrow> queryNode \<Rightarrow> bool" where
  "foldedMatch leaf MatchAll = True"
| "foldedMatch leaf MatchNone = False"
| "foldedMatch leaf (BoolQ must flt should mustNot msm) =
     ((\<forall>c \<in> set must. foldedMatch leaf c) \<and> (\<forall>c \<in> set flt. foldedMatch leaf c) \<and>
      (\<forall>c \<in> set mustNot. \<not> foldedMatch leaf c) \<and>
      (should = [] \<or> (\<exists>c \<in> set should. foldedMatch leaf c)))"
| "foldedMatch leaf q = leaf q"

text \<open>What the parser guarantees of a query, and the case the folding does not cover: a
  \<open>minimum_should_match\<close> without should clauses.\<close>

fun queryShape :: "queryNode \<Rightarrow> bool" where
  "queryShape (BoolQ must flt should mustNot msm) =
     (0 \<le> msm \<and> (should \<noteq> [] \<longrightarrow> must = [] \<longrightarrow> flt = [] \<longrightarrow> 1 \<le> msm) \<and>
      (\<forall>c \<in> set must. queryShape c) \<and> (\<forall>c \<in> set flt. queryShape c) \<and>
      (\<forall>c \<in> set should. queryShape c) \<and> (\<forall>c \<in> set mustNot. queryShape c))"
| "queryShape (TermsQ f vs) = (vs \<noteq> [])"
| "queryShape (RangeQ f bs) = (bs \<noteq> [] \<and> list_all (\<lambda>(op, v). op \<in> set compareOps) bs)"
| "queryShape (ExistsQ f) = (f \<noteq> [])"
| "queryShape q = True"

fun msmHasShould :: "queryNode \<Rightarrow> bool" where
  "msmHasShould (BoolQ must flt should mustNot msm) =
     ((should = [] \<longrightarrow> msm = 0) \<and>
      (\<forall>c \<in> set must. msmHasShould c) \<and> (\<forall>c \<in> set flt. msmHasShould c) \<and>
      (\<forall>c \<in> set should. msmHasShould c) \<and> (\<forall>c \<in> set mustNot. msmHasShould c))"
| "msmHasShould q = True"

text \<open>Folded trees: no constant below the root and no empty bool.\<close>

fun esPart :: "queryNode \<Rightarrow> bool" where
  "esPart MatchAll = False"
| "esPart MatchNone = False"
| "esPart (BoolQ must flt should mustNot msm) =
     ((must \<noteq> [] \<or> flt \<noteq> [] \<or> should \<noteq> [] \<or> mustNot \<noteq> []) \<and>
      (\<forall>c \<in> set must. esPart c) \<and> (\<forall>c \<in> set flt. esPart c) \<and>
      (\<forall>c \<in> set should. esPart c) \<and> (\<forall>c \<in> set mustNot. esPart c))"
| "esPart (RangeQ f bs) = (bs \<noteq> [])"
| "esPart q = True"

definition esFolded :: "queryNode \<Rightarrow> bool" where
  "esFolded q \<longleftrightarrow> q = MatchAll \<or> q = MatchNone \<or> esPart q"

subsection \<open>Folding is exact\<close>

lemma foldShould_exact:
  assumes "foldShould should msm = Inr r" "0 \<le> msm" "should = [] \<longrightarrow> msm = 0"
    "\<forall>c \<in> set should. esFolded c"
  shows "case r of
      None \<Rightarrow> \<not> msm \<le> int (length (filter (foldedMatch leaf) should))
    | Some s \<Rightarrow> (\<forall>c \<in> set s. esPart c) \<and>
        ((s = [] \<or> (\<exists>c \<in> set s. foldedMatch leaf c)) \<longleftrightarrow> msm \<le> int (length (filter (foldedMatch leaf) should)))"
proof -
  let ?n = "length (filter (foldedMatch leaf) should)" and ?s = "dropWhere should isMatchNone"
  have some: "1 \<le> int ?n \<longleftrightarrow> (\<exists>c \<in> set should. foldedMatch leaf c)"
    using filter_empty_conv[of "foldedMatch leaf" should]
    by (cases "filter (foldedMatch leaf) should") auto
  have "filter (foldedMatch leaf) should = filter (foldedMatch leaf) ?s"
    by (induction should) (auto simp: dropWhere_def isMatchNone_def)
  then have le: "?n \<le> length ?s" by simp
  have kept: "(\<exists>c \<in> set ?s. foldedMatch leaf c) \<longleftrightarrow> (\<exists>c \<in> set should. foldedMatch leaf c)"
    by (auto simp: dropWhere_def isMatchNone_def)
  consider "containsWhere should isMatchAll" "msm = 1" "r = Some []"
    | "\<not> (containsWhere should isMatchAll \<and> msm = 1)" "?s \<noteq> []" "msm = 0" "r = Some []"
    | "?s \<noteq> []" "msm > int (length ?s)" "r = None"
    | "?s = []" "msm \<ge> 1" "r = None"
    | "\<not> containsWhere should isMatchAll" "?s \<noteq> []" "msm = 1" "r = Some ?s"
    | "?s = []" "r = Some []" "msm = 0 \<or> \<not> containsWhere should isMatchNone"
    using assms(1,2) unfolding foldShould_def Let_def
    by (cases "containsWhere should isMatchAll \<and> msm = 1"; cases "?s = []"; cases "msm = 0";
        cases "int (length ?s) < msm"; cases "1 < msm"; cases "containsWhere should isMatchNone")
      (simp_all del: not_less)
  then show ?thesis
  proof cases
    case 1
    then have "\<exists>c \<in> set should. foldedMatch leaf c"
      by (force simp: containsWhere_def list_ex_iff isMatchAll_def)
    with 1 some show ?thesis by simp
  next
    case 3
    with le show ?thesis by simp
  next
    case 4
    with le show ?thesis by simp
  next
    case 5
    have "esPart c" if "c \<in> set ?s" for c
      using that 5(1) assms(4) by (auto simp: dropWhere_def containsWhere_def list_ex_iff
          isMatchAll_def isMatchNone_def esFolded_def)
    with 5 some kept show ?thesis by simp
  next
    case 6
    have "should = [] \<or> containsWhere should isMatchNone"
      using 6(1) by (cases should) (auto simp: dropWhere_def containsWhere_def list_ex_iff filter_empty_conv)
    with 6 assms(3) show ?thesis by auto
  qed auto
qed

lemma dropWhere_set: "set (dropWhere ns pred) = {c \<in> set ns. \<not> pred c}"
  by (auto simp: dropWhere_def)

lemma containsWhere_iff: "containsWhere ns pred \<longleftrightarrow> (\<exists>c \<in> set ns. pred c)"
  by (simp add: containsWhere_def list_ex_iff)

lemma foldParts_exact:
  assumes "foldParts must flt should mustNot msm = Inr q" "0 \<le> msm" "should = [] \<longrightarrow> msm = 0"
    and parts: "\<forall>c \<in> set must \<union> set flt \<union> set should \<union> set mustNot. esFolded c"
  shows "esFolded q" (is ?A)
    and "foldedMatch leaf q \<longleftrightarrow>
      (\<forall>c \<in> set must. foldedMatch leaf c) \<and> (\<forall>c \<in> set flt. foldedMatch leaf c) \<and>
      (\<forall>c \<in> set mustNot. \<not> foldedMatch leaf c) \<and>
      msm \<le> int (length (filter (foldedMatch leaf) should))" (is ?B)
proof -
  have "?A \<and> ?B"
  proof (cases "containsWhere must isMatchNone \<or> containsWhere flt isMatchNone \<or> containsWhere mustNot isMatchAll")
    case True
    with assms(1) have q: "q = MatchNone" by (simp add: foldParts_def)
    have "\<not> ((\<forall>c \<in> set must. foldedMatch leaf c) \<and> (\<forall>c \<in> set flt. foldedMatch leaf c) \<and>
      (\<forall>c \<in> set mustNot. \<not> foldedMatch leaf c))"
      using True by (force simp: containsWhere_iff isMatchNone_def isMatchAll_def)
    then show ?thesis by (auto simp: q esFolded_def)
  next
    case False
    then obtain r where r: "foldShould should msm = Inr r"
      and q: "(case r of None \<Rightarrow> Inr MatchNone
          | Some s \<Rightarrow>
              if dropWhere must isMatchAll = [] \<and> dropWhere flt isMatchAll = [] \<and> s = [] \<and> dropWhere mustNot isMatchNone = []
              then Inr MatchAll
              else Inr (BoolQ (dropWhere must isMatchAll) (dropWhere flt isMatchAll) s (dropWhere mustNot isMatchNone) msm))
        = (Inr q :: terror + queryNode)"
      using assms(1) by (auto simp: foldParts_def Let_def bindE_eq_Inr)
    have keep: "(\<forall>c \<in> set (dropWhere cs isMatchAll). foldedMatch leaf c) \<longleftrightarrow> (\<forall>c \<in> set cs. foldedMatch leaf c)"
      "(\<forall>c \<in> set (dropWhere cs isMatchNone). \<not> foldedMatch leaf c) \<longleftrightarrow> (\<forall>c \<in> set cs. \<not> foldedMatch leaf c)" for cs
      by (auto simp: dropWhere_set isMatchAll_def isMatchNone_def)
    have pe: "esPart c" if "c \<in> set must \<union> set flt \<union> set should \<union> set mustNot" "c \<noteq> MatchAll" "c \<noteq> MatchNone" for c
      using bspec[OF parts that(1)] that(2,3) by (simp add: esFolded_def)
    have part: "\<forall>c \<in> set (dropWhere must isMatchAll). esPart c" "\<forall>c \<in> set (dropWhere flt isMatchAll). esPart c"
      "\<forall>c \<in> set (dropWhere mustNot isMatchNone). esPart c"
      using False by (auto simp: dropWhere_set containsWhere_iff isMatchAll_def isMatchNone_def intro!: pe)
    note exact = foldShould_exact[OF r assms(2,3), of leaf]
    show ?thesis
    proof (cases r)
      case None
      with q exact parts show ?thesis by (auto simp: esFolded_def)
    next
      case (Some s)
      show ?thesis
      proof (cases "dropWhere must isMatchAll = [] \<and> dropWhere flt isMatchAll = [] \<and> s = [] \<and> dropWhere mustNot isMatchNone = []")
        case True
        with Some q have "q = MatchAll" by simp
        with True Some exact parts keep[of must] keep[of flt] keep[of mustNot] show ?thesis
          by (simp add: esFolded_def)
      next
        case nonempty: False
        with Some q have q': "q = BoolQ (dropWhere must isMatchAll) (dropWhere flt isMatchAll) s (dropWhere mustNot isMatchNone) msm"
          by (auto split: if_splits)
        from nonempty Some exact parts part keep[of must] keep[of flt] keep[of mustNot] show ?thesis
          by (simp add: q' esFolded_def)
      qed
    qed
  qed
  then show ?A ?B by auto
qed

lemma es_fold_exact:
  "es_fold q = Inr q' \<Longrightarrow> queryShape q \<Longrightarrow> msmHasShould q \<Longrightarrow>
   esFolded q' \<and> foldedMatch leaf q' = esMatch leaf q"
proof (induction q arbitrary: q')
  case (BoolQ must flt should mustNot msm)
  from BoolQ.prems(1) obtain m f s n
    where parts: "mapE es_fold must = Inr m" "mapE es_fold flt = Inr f" "mapE es_fold should = Inr s"
      "mapE es_fold mustNot = Inr n" and q': "foldParts m f s n msm = Inr q'"
    by (auto simp: bindE_eq_Inr)
  have each: "esFolded d \<and> foldedMatch leaf d = esMatch leaf c"
    if "es_fold c = Inr d" "c \<in> set must \<union> set flt \<union> set should \<union> set mustNot" for c d
    using that BoolQ.IH BoolQ.prems(2,3) by auto
  have all2: "list_all2 (\<lambda>c d. esFolded d \<and> foldedMatch leaf d = esMatch leaf c) cs ds"
    if "mapE es_fold cs = Inr ds" "set cs \<subseteq> set must \<union> set flt \<union> set should \<union> set mustNot" for cs ds
    using that(1) unfolding mapE_eq_Inr
    by (rule list.rel_mono_strong) (use that(2) each in blast)
  have sets: "(\<forall>d \<in> set ds. esFolded d) \<and> (\<forall>d \<in> set ds. foldedMatch leaf d) = (\<forall>c \<in> set cs. esMatch leaf c) \<and>
      (\<forall>d \<in> set ds. \<not> foldedMatch leaf d) = (\<forall>c \<in> set cs. \<not> esMatch leaf c) \<and>
      length (filter (foldedMatch leaf) ds) = length (filter (esMatch leaf) cs) \<and> (ds = [] \<longleftrightarrow> cs = [])"
    if "list_all2 (\<lambda>c d. esFolded d \<and> foldedMatch leaf d = esMatch leaf c) cs ds" for cs ds
    using that by (induction cs ds rule: list_all2_induct) auto
  note S1 = sets[OF all2[OF parts(1)]] and S2 = sets[OF all2[OF parts(2)]]
    and S3 = sets[OF all2[OF parts(3)]] and S4 = sets[OF all2[OF parts(4)]]
  have subs: "set must \<subseteq> set must \<union> set flt \<union> set should \<union> set mustNot"
    "set flt \<subseteq> set must \<union> set flt \<union> set should \<union> set mustNot"
    "set should \<subseteq> set must \<union> set flt \<union> set should \<union> set mustNot"
    "set mustNot \<subseteq> set must \<union> set flt \<union> set should \<union> set mustNot"
    by blast+
  note S = S1[OF subs(1)] S2[OF subs(2)] S3[OF subs(3)] S4[OF subs(4)]
  have range: "0 \<le> msm" "s = [] \<longrightarrow> msm = 0" using BoolQ.prems(2,3) S(3) by simp_all
  have folded: "\<forall>c \<in> set m \<union> set f \<union> set s \<union> set n. esFolded c"
    unfolding ball_Un using S by simp
  show ?case
    using foldParts_exact(1)[OF q' range folded] foldParts_exact(2)[OF q' range folded, of leaf] S
    by simp
qed (auto simp: esFolded_def)

subsection \<open>What the parser produces\<close>

definition okQuery :: "('a \<Rightarrow> bool) \<Rightarrow> terror + 'a \<Rightarrow> bool" where
  "okQuery P r \<longleftrightarrow> (case r of Inl e \<Rightarrow> es_classified e | Inr x \<Rightarrow> P x)"

lemma okQuery_simps [simp]:
  "okQuery P (Inl e) \<longleftrightarrow> es_classified e" "okQuery P (Inr x) \<longleftrightarrow> P x"
  by (simp_all add: okQuery_def)

lemma okQuery_bind:
  "okQuery P m \<Longrightarrow> (\<And>x. m = Inr x \<Longrightarrow> P x \<Longrightarrow> okQuery R (f x)) \<Longrightarrow> okQuery R (bindE m f)"
  by (cases m) auto

lemma okQuery_if:
  "(c \<Longrightarrow> okQuery P a) \<Longrightarrow> (\<not> c \<Longrightarrow> okQuery P b) \<Longrightarrow> okQuery P (if c then a else b)"
  by simp

lemma decodeScalar_ok: "okQuery (\<lambda>_. True) (decodeScalar j what)"
  by (cases j) (auto simp: decodeScalar_def)

lemma expectObject_ok: "okQuery (\<lambda>_. True) (expectObject j what)"
  by (cases j) (auto simp: expectObject_def)

lemma expectSingleField_ok: "okQuery (\<lambda>_. True) (expectSingleField j what)"
  unfolding expectSingleField_def
  by (rule okQuery_bind[OF expectObject_ok]) (auto split: list.splits)

lemma termOptions_ok: "okQuery (\<lambda>_. True) (termOptions v obj)"
proof (induction obj arbitrary: v)
  case (Cons kj obj)
  then show ?case by (cases kj) (simp add: okQuery_bind[OF decodeScalar_ok])
qed simp

lemma matchOptions_ok: "okQuery (\<lambda>_. True) (matchOptions v op obj)"
proof (induction obj arbitrary: v op)
  case (Cons kj obj)
  then show ?case by (cases kj) (simp add: okQuery_bind[OF decodeScalar_ok] split: option.split)
qed simp

lemma termsValues_ok: "okQuery (\<lambda>_. True) (termsValues i js)"
proof (induction js arbitrary: i)
  case (Cons j js)
  then show ?case by (simp add: okQuery_bind[OF decodeScalar_ok] okQuery_bind[OF Cons])
qed simp

lemma rangeKeys_ok: "okQuery (\<lambda>_. True) (rangeKeys obj)"
  by (induction obj rule: rangeKeys.induct) auto

lemma rangeBounds_ok: "set (map snd ks) \<subseteq> set compareOps \<Longrightarrow>
   okQuery (list_all (\<lambda>(op, v). op \<in> set compareOps)) (rangeBounds obj ks)"
proof (induction ks)
  case (Cons k ks)
  then have ih: "okQuery (list_all (\<lambda>(op, v). op \<in> set compareOps)) (rangeBounds obj ks)" by simp
  obtain key symbol where k: "k = (key, symbol)" by force
  with Cons.prems have "symbol \<in> set compareOps" by simp
  then show ?case using ih
    by (auto simp: k intro!: okQuery_bind[OF decodeScalar_ok] okQuery_bind[OF ih] split: option.split)
qed simp

lemma existsOptions_ok: "okQuery (\<lambda>_. True) (existsOptions f obj)"
  by (induction f obj rule: existsOptions.induct) (auto split: option.splits)

lemma parseTerm_ok: "okQuery queryShape (parseTerm j)"
  unfolding parseTerm_def
  by (auto intro!: okQuery_bind[OF expectSingleField_ok] okQuery_bind[OF termOptions_ok]
      okQuery_bind[OF decodeScalar_ok] split: json.splits option.splits)

lemma parseTerms_ok: "okQuery queryShape (parseTerms j)"
  unfolding parseTerms_def
  by (auto intro!: okQuery_bind[OF expectSingleField_ok] okQuery_bind[OF termsValues_ok] split: json.splits)

lemma parseMatch_ok: "okQuery queryShape (parseMatch j)"
  unfolding parseMatch_def
  by (auto intro!: okQuery_bind[OF expectSingleField_ok] okQuery_bind[OF matchOptions_ok]
      okQuery_bind[OF decodeScalar_ok] split: json.splits option.splits)

lemma parseRange_ok: "okQuery queryShape (parseRange j)"
proof -
  have "set (map snd boundKeys) \<subseteq> set compareOps" by (simp add: boundKeys_def compareOps_def)
  note bounds = rangeBounds_ok[OF this]
  show ?thesis
    unfolding parseRange_def
    by (auto intro!: okQuery_bind[OF expectSingleField_ok] okQuery_bind[OF expectObject_ok]
        okQuery_bind[OF rangeKeys_ok] okQuery_bind[OF bounds])
qed

lemma parseExists_ok: "okQuery queryShape (parseExists j)"
  unfolding parseExists_def
  by (auto intro!: okQuery_bind[OF expectObject_ok] okQuery_bind[OF existsOptions_ok])

lemma parseMinShould_ok: "okQuery (\<lambda>n. 0 \<le> n) (parseMinShould j)"
  by (cases j) (auto simp: parseMinShould_def split: option.splits)

definition partsShape :: "boolParts \<Rightarrow> bool" where
  "partsShape b \<longleftrightarrow> 0 \<le> bpMsm b \<and> (\<forall>q \<in> set (bpMust b) \<union> set (bpFilter b) \<union> set (bpShould b) \<union> set (bpMustNot b).
     queryShape q)"

lemma finishBool_shape: "partsShape b \<Longrightarrow> queryShape (finishBool b)"
  by (auto simp: partsShape_def finishBool_def pinShouldMatch_def)

lemma emptyParts_shape [simp]: "partsShape emptyParts"
  by (simp add: partsShape_def emptyParts_def)

lemma partsShape_update:
  assumes "partsShape b" "\<forall>q \<in> set cs. queryShape q"
  shows "partsShape (b\<lparr>bpMust := cs\<rparr>)" "partsShape (b\<lparr>bpFilter := cs\<rparr>)"
    "partsShape (b\<lparr>bpShould := cs\<rparr>)" "partsShape (b\<lparr>bpMustNot := cs\<rparr>)"
  using assms by (auto simp: partsShape_def)

lemma partsShape_msm: "partsShape b \<Longrightarrow> 0 \<le> n \<Longrightarrow> partsShape (b\<lparr>bpMsm := n\<rparr>)"
  by (simp add: partsShape_def)

lemma clauses_bind:
  "okQuery (\<lambda>qs. \<forall>q \<in> set qs. queryShape q) (parseClauseList v) \<Longrightarrow>
   (\<And>cs. parseClauseList v = Inr cs \<Longrightarrow> \<forall>q \<in> set cs. queryShape q \<Longrightarrow> okQuery R (f cs)) \<Longrightarrow>
   okQuery R (bindE (parseClauseList v) f)"
  by (rule okQuery_bind)

lemma query_ok:
  "okQuery queryShape (parseQueryNode j)"
  "okQuery queryShape (parseQueryClause name body)"
  "partsShape b \<Longrightarrow> okQuery partsShape (boolMembers b obj)"
  "okQuery (\<lambda>qs. \<forall>q \<in> set qs. queryShape q) (parseClauseList j')"
  "okQuery (\<lambda>qs. \<forall>q \<in> set qs. queryShape q) (parseClauses js)"
proof (induction j and name body and b obj and j' and js
    rule: parseQueryNode_parseQueryClause_boolMembers_parseClauseList_parseClauses.induct)
  case (2 obj)
  then show ?case by (auto split: list.splits)
next
  case (4 name body)
  have bool: "okQuery queryShape (bindE (boolMembers emptyParts obj) (\<lambda>b. Inr (finishBool b)))"
    if "name = ''bool''" "body = JObj obj" for obj
    using 4[of obj] that
    by (auto intro!: okQuery_bind[of partsShape] finishBool_shape)
  have const: "okQuery queryShape (bindE (expectObject body w) (\<lambda>_. Inr q))" if "queryShape q" for w q
    using that by (intro okQuery_bind[OF expectObject_ok]) simp
  have "okQuery queryShape (case body of JObj obj \<Rightarrow> bindE (boolMembers emptyParts obj) (\<lambda>b. Inr (finishBool b))
      | _ \<Rightarrow> Inl (es_parseErrf [T ''['', S ''bool'', T ''] must be a JSON object'']))" if "name = ''bool''"
    using bool[OF that] by (cases body) simp_all
  note bool = this
  show ?case
    unfolding parseQueryClause.simps
    by (intro okQuery_if const parseTerm_ok parseTerms_ok parseMatch_ok parseRange_ok parseExists_ok
        queryShape.simps[THEN iffD2] TrueI bool)
      (simp_all only: okQuery_simps es_classified_simps queryShape.simps)
next
  case (6 b k v obj)
  consider "k = ''must''" | "k = ''filter''" | "k = ''should''" | "k = ''must_not''"
    | "k = ''minimum_should_match''" | "k \<notin> {''must'', ''filter'', ''should'', ''must_not'', ''minimum_should_match''}"
    by blast
  then show ?case
    by cases (use 6 in \<open>auto intro!: clauses_bind okQuery_bind[OF parseMinShould_ok] partsShape_update partsShape_msm\<close>)
next
  case (10 j js)
  then show ?case by (auto intro!: okQuery_bind[of queryShape] okQuery_bind[of "\<lambda>qs. \<forall>q \<in> set qs. queryShape q"])
qed (auto intro!: okQuery_bind[of queryShape])

lemma foldShould_classified: "foldShould s msm = Inl e \<Longrightarrow> es_classified e"
  by (auto simp: foldShould_def Let_def split: if_splits)

lemma es_fold_classified: "es_fold q = Inl e \<Longrightarrow> es_classified e"
proof (induction q arbitrary: e)
  case (BoolQ must flt should mustNot msm)
  then show ?case
    by (auto simp: bindE_eq_Inl foldParts_def Let_def dest!: mapE_eq_Inl
        dest: foldShould_classified split: if_splits option.splits)
qed auto

subsection \<open>Properties\<close>


definition sampleQuery :: json where
  "sampleQuery = JObj [(''bool'', JObj
     [(''should'', JArr [JObj [(''exists'', JObj [(''field'', JStr ''a'')])], JObj [(''match_none'', JObj [])]])])]"


end
