(* ===== verification/GoJsonDecode.thy ===== *)
theory GoJsonDecode
  imports EsQuery GoJson
begin

text \<open>
  Decoding of JSON bytes into a value, as \<open>encoding/json\<close> does it with \<open>UseNumber\<close> into an
  \<open>any\<close>: the first value of the input, numbers kept as their text, a repeated key keeping its
  last value, strings unquoted with invalid UTF-8 and lone surrogates replaced by U+FFFD.

  The parser carries fuel; \<open>2 * length s + 2\<close> is enough, since a call that does not consume a
  byte is followed by one that does (\<open>decode_fuel_enough\<close>).
\<close>

subsection \<open>Strings\<close>

definition contByte :: "char \<Rightarrow> bool" where
  "contByte c \<longleftrightarrow> 128 \<le> byte c \<and> byte c < 192"

text \<open>The length of the rune at the head, or 0 when the bytes are not UTF-8.\<close>

definition runeLen :: "string \<Rightarrow> nat" where
  "runeLen s =
     (case s of [] \<Rightarrow> 0 | c # r \<Rightarrow>
        let b = byte c;
            second = (\<lambda>lo hi. case r of [] \<Rightarrow> False | d # _ \<Rightarrow> lo \<le> byte d \<and> byte d \<le> hi);
            conts = (\<lambda>n. length (takeWhile contByte (take n (drop 1 r))) = n)
        in if b < 128 then 1
           else if 194 \<le> b \<and> b \<le> 223 then (if second 128 191 then 2 else 0)
           else if b = 224 then (if second 160 191 \<and> conts 1 then 3 else 0)
           else if b = 237 then (if second 128 159 \<and> conts 1 then 3 else 0)
           else if 225 \<le> b \<and> b \<le> 239 then (if second 128 191 \<and> conts 1 then 3 else 0)
           else if b = 240 then (if second 144 191 \<and> conts 2 then 4 else 0)
           else if 241 \<le> b \<and> b \<le> 243 then (if second 128 191 \<and> conts 2 then 4 else 0)
           else if b = 244 then (if second 128 143 \<and> conts 2 then 4 else 0)
           else 0)"

definition encodeRune :: "nat \<Rightarrow> string" where
  "encodeRune r =
     (let tail6 = (\<lambda>k. char_of (128 + r div 64 ^ k mod 64)) in
      if r < 128 then [char_of r]
      else if r < 2048 then [char_of (192 + r div 64), tail6 0]
      else if r < 65536 then [char_of (224 + r div 4096), tail6 1, tail6 0]
      else [char_of (240 + r div 262144), tail6 2, tail6 1, tail6 0])"

definition replacementRune :: string where "replacementRune = encodeRune 65533"

definition hex4 :: "string \<Rightarrow> nat option" where
  "hex4 s = (if length (takeWhile hexDigit (take 4 s)) = 4
     then Some (fold (\<lambda>c n. n * 16 + (if isDigit c then digitVal c else hexVal c)) (take 4 s) 0) else None)"

definition escapedHex :: "string \<Rightarrow> nat option" where
  "escapedHex s = (case s of b # u # r \<Rightarrow> if byte b = 92 \<and> u = CHR ''u'' then hex4 r else None | _ \<Rightarrow> None)"

definition simpleEscape :: "char \<Rightarrow> char option" where
  "simpleEscape e =
     (if byte e = 34 \<or> byte e = 92 \<or> e = CHR ''/'' then Some e
      else if e = CHR ''b'' then Some (char_of (8::nat)) else if e = CHR ''f'' then Some (char_of (12::nat))
      else if e = CHR ''n'' then Some (char_of (10::nat)) else if e = CHR ''r'' then Some (char_of (13::nat))
      else if e = CHR ''t'' then Some (char_of (9::nat)) else None)"

definition addTo :: "string \<Rightarrow> (string \<times> string) option \<Rightarrow> (string \<times> string) option" where
  "addTo w r = map_option (\<lambda>(x, rest). (w @ x, rest)) r"

text \<open>The string after its opening quote, and what follows its closing one.\<close>

function (sequential) stringBody :: "string \<Rightarrow> (string \<times> string) option" where
  "stringBody [] = None"
| "stringBody (c # s) =
     (if byte c = 34 then Some ([], s)
      else if byte c = 92 then
        (case s of
           [] \<Rightarrow> None
         | e # s' \<Rightarrow>
             if e = CHR ''u'' then
               (case hex4 s' of
                  None \<Rightarrow> None
                | Some r \<Rightarrow>
                    if 55296 \<le> r \<and> r < 57344 then
                      (case escapedHex (drop 4 s') of
                         Some r2 \<Rightarrow>
                           if r < 56320 \<and> 56320 \<le> r2 \<and> r2 < 57344
                           then addTo (encodeRune ((r - 55296) * 1024 + (r2 - 56320) + 65536)) (stringBody (drop 10 s'))
                           else addTo replacementRune (stringBody (drop 4 s'))
                       | None \<Rightarrow> addTo replacementRune (stringBody (drop 4 s')))
                    else addTo (encodeRune r) (stringBody (drop 4 s')))
             else (case simpleEscape e of None \<Rightarrow> None | Some d \<Rightarrow> addTo [d] (stringBody s')))
      else if byte c < 32 then None
      else let n = runeLen (c # s) in
        if n = 0 then addTo replacementRune (stringBody s)
        else addTo (take n (c # s)) (stringBody (drop (n - 1) s)))"
  by pat_completeness auto
termination by (relation "measure length") auto

subsection \<open>Numbers and values\<close>

definition skipSpace :: "string \<Rightarrow> string" where
  "skipSpace s = dropWhile jsonSpace s"

text \<open>Digits, at least one.\<close>

definition someDigits :: "string \<Rightarrow> (string \<times> string) option" where
  "someDigits s = (let ds = takeWhile isDigit s in if ds = [] then None else Some (ds, drop (length ds) s))"

definition fractionPart :: "string \<Rightarrow> (string \<times> string) option" where
  "fractionPart s = (case s of c # r \<Rightarrow> if c = CHR ''.'' then addTo [c] (someDigits r) else Some ([], s) | [] \<Rightarrow> Some ([], s))"

definition exponentPart :: "string \<Rightarrow> (string \<times> string) option" where
  "exponentPart s = (case s of
     c # r \<Rightarrow> if isExpLetter c then
         (case r of
            d # r' \<Rightarrow> if d = CHR ''+'' \<or> d = CHR ''-'' then addTo [c, d] (someDigits r') else addTo [c] (someDigits r)
          | [] \<Rightarrow> None)
       else Some ([], s)
   | [] \<Rightarrow> Some ([], s))"

definition integerPart :: "string \<Rightarrow> (string \<times> string) option" where
  "integerPart s = (case s of
     c # r \<Rightarrow> if c = CHR ''0'' then Some ([c], r) else someDigits s
   | [] \<Rightarrow> None)"

definition numberText :: "string \<Rightarrow> (string \<times> string) option" where
  "numberText s =
     (let (sign, s1) = (case s of c # r \<Rightarrow> if c = CHR ''-'' then ([c], r) else ([], s) | [] \<Rightarrow> ([], s)) in
      case integerPart s1 of
        None \<Rightarrow> None
      | Some (w1, s2) \<Rightarrow>
          (case fractionPart s2 of
             None \<Rightarrow> None
           | Some (w2, s3) \<Rightarrow> addTo (sign @ w1 @ w2) (exponentPart s3)))"

definition literalText :: "string \<Rightarrow> (json \<times> string) option" where
  "literalText s =
     (if hasPrefix s ''true'' then Some (JBool True, drop 4 s)
      else if hasPrefix s ''false'' then Some (JBool False, drop 5 s)
      else if hasPrefix s ''null'' then Some (JNull, drop 4 s) else None)"

text \<open>A member's name with its colon.\<close>

definition memberKey :: "string \<Rightarrow> (string \<times> string) option" where
  "memberKey s =
     (case skipSpace s of
        [] \<Rightarrow> None
      | q # r \<Rightarrow>
          if byte q \<noteq> 34 then None
          else (case stringBody r of
              None \<Rightarrow> None
            | Some (k, r1) \<Rightarrow>
                (case skipSpace r1 of [] \<Rightarrow> None | c # r2 \<Rightarrow> if c = CHR '':'' then Some (k, r2) else None)))"

fun jsonValue :: "nat \<Rightarrow> nat \<Rightarrow> string \<Rightarrow> (json \<times> string) option"
and jsonMembers :: "nat \<Rightarrow> nat \<Rightarrow> (string \<times> json) list \<Rightarrow> string \<Rightarrow> (json \<times> string) option"
and jsonElements :: "nat \<Rightarrow> nat \<Rightarrow> json list \<Rightarrow> string \<Rightarrow> (json \<times> string) option" where
  "jsonValue 0 d s = None"
| "jsonValue (Suc n) d s =
     (case skipSpace s of
        [] \<Rightarrow> None
      | c # r \<Rightarrow>
          if c = CHR ''{'' then
            (if maxNesting \<le> d then None
             else (case skipSpace r of
                 [] \<Rightarrow> None
               | x # r' \<Rightarrow> if x = CHR ''}'' then Some (JObj [], r') else jsonMembers n (Suc d) [] r))
          else if c = CHR ''['' then
            (if maxNesting \<le> d then None
             else (case skipSpace r of
                 [] \<Rightarrow> None
               | x # r' \<Rightarrow> if x = CHR '']'' then Some (JArr [], r') else jsonElements n (Suc d) [] r))
          else if byte c = 34 then map_option (\<lambda>(w, r'). (JStr w, r')) (stringBody r)
          else if c = CHR ''-'' \<or> isDigit c then map_option (\<lambda>(w, r'). (JNum w, r')) (numberText (c # r))
          else literalText (c # r))"
| "jsonMembers 0 d m s = None"
| "jsonMembers (Suc n) d m s =
     (case memberKey s of
        None \<Rightarrow> None
      | Some (k, r) \<Rightarrow>
          (case jsonValue n d r of
             None \<Rightarrow> None
           | Some (v, r') \<Rightarrow>
               (case skipSpace r' of
                  [] \<Rightarrow> None
                | e # r'' \<Rightarrow>
                    if e = CHR '','' then jsonMembers n d (setKey k v m) r''
                    else if e = CHR ''}'' then Some (JObj (setKey k v m), r'') else None)))"
| "jsonElements 0 d vs s = None"
| "jsonElements (Suc n) d vs s =
     (case jsonValue n d s of
        None \<Rightarrow> None
      | Some (v, r) \<Rightarrow>
          (case skipSpace r of
             [] \<Rightarrow> None
           | e # r' \<Rightarrow>
               if e = CHR '','' then jsonElements n d (vs @ [v]) r'
               else if e = CHR '']'' then Some (JArr (vs @ [v]), r') else None))"

definition decodeJson :: "string \<Rightarrow> json option" where
  "decodeJson s = map_option fst (jsonValue (2 * length s + 2) 0 s)"


subsection \<open>Consumption and fuel\<close>

lemma length_skipSpace: "length (skipSpace s) \<le> length s"
  by (simp add: skipSpace_def length_dropWhile_le)

lemma addTo_Some: "addTo w r = Some (x, rest) \<longleftrightarrow> (\<exists>y. r = Some (y, rest) \<and> x = w @ y)"
  by (cases r) (auto simp: addTo_def)

lemma stringBody_shorter: "stringBody s = Some (w, r) \<Longrightarrow> length r < length s"
proof (induction s arbitrary: w rule: measure_induct_rule[where f = length])
  case (less s)
  have ih: "stringBody t = Some (y, r) \<Longrightarrow> length t < length s \<Longrightarrow> length r < length s" for t y
    using less(1)[of t y] by simp
  from less(2) show ?case
    by (cases s) (auto simp: addTo_Some Let_def split: if_splits list.splits option.splits dest!: ih)
qed

lemma someDigits_Some: "someDigits s = Some (ds, r) \<Longrightarrow> length r < length s"
  by (auto simp: someDigits_def Let_def takeWhile_eq_Nil_iff split: if_splits list.splits)

lemma fractionPart_le: "fractionPart s = Some (w, r) \<Longrightarrow> length r \<le> length s"
  by (auto simp: fractionPart_def addTo_Some split: list.splits if_splits dest!: someDigits_Some)

lemma exponentPart_le: "exponentPart s = Some (w, r) \<Longrightarrow> length r \<le> length s"
  by (auto simp: exponentPart_def addTo_Some split: list.splits if_splits dest!: someDigits_Some)

lemma integerPart_less: "integerPart s = Some (w, r) \<Longrightarrow> length r < length s"
  by (auto simp: integerPart_def split: list.splits if_splits dest!: someDigits_Some)

lemma numberText_shorter: "numberText s = Some (w, r) \<Longrightarrow> length r < length s"
  by (auto simp: numberText_def addTo_Some Let_def split: list.splits if_splits option.splits prod.splits
      dest!: integerPart_less fractionPart_le exponentPart_le)

lemma literalText_shorter: "literalText s = Some (v, r) \<Longrightarrow> length r < length s"
  by (cases s) (auto simp: literalText_def hasPrefix_def split: if_splits)

lemma jsonValue_Suc:
  "jsonValue (Suc n) d s = Some (v, r) \<Longrightarrow> length r < length s \<or>
   (\<exists>t. length t < length s \<and> (jsonMembers n (Suc d) [] t = Some (v, r) \<or> jsonElements n (Suc d) [] t = Some (v, r)))"
proof -
  assume some: "jsonValue (Suc n) d s = Some (v, r)"
  then obtain c t where ct: "skipSpace s = c # t" by (auto split: list.splits)
  with length_skipSpace[of s] have le: "length t < length s" by simp
  have "length r \<le> length t \<or> jsonMembers n (Suc d) [] t = Some (v, r) \<or> jsonElements n (Suc d) [] t = Some (v, r)"
    using some ct length_skipSpace[of t]
    by (auto split: if_splits list.splits dest: stringBody_shorter numberText_shorter literalText_shorter)
  with le show ?thesis by fastforce
qed

lemma memberKey_shorter: "memberKey s = Some (k, r) \<Longrightarrow> length r < length s"
  using length_skipSpace[of s]
  by (auto simp: memberKey_def split: list.splits if_splits option.splits dest!: stringBody_shorter)
    (metis Suc_leD Suc_le_lessD length_Cons length_skipSpace less_SucI order.strict_trans1 order_less_le_trans)

lemma skipSpace_Cons: "skipSpace s = c # r \<Longrightarrow> length r < length s"
  using length_skipSpace[of s] by simp

lemma json_shorter:
  "(\<forall>d s. jsonValue n d s = Some (v, r) \<longrightarrow> length r < length s) \<and>
   (\<forall>d m s. jsonMembers n d m s = Some (v, r) \<longrightarrow> length r < length s) \<and>
   (\<forall>d vs s. jsonElements n d vs s = Some (v, r) \<longrightarrow> length r < length s)"
proof (induction n arbitrary: v r)
  case (Suc n)
  have "length r < length s" if "jsonValue (Suc n) d s = Some (v, r)" for d s
    using jsonValue_Suc[OF that] Suc[of v r] by (metis order.strict_trans)
  moreover have "length r < length s" if "jsonMembers (Suc n) d m s = Some (v, r)" for d m s
  proof -
    from that obtain k t w t' e t'' where t: "memberKey s = Some (k, t)" "jsonValue n d t = Some (w, t')"
      "skipSpace t' = e # t''" "jsonMembers n d (setKey k w m) t'' = Some (v, r) \<or> t'' = r"
      by (auto split: option.splits list.splits if_splits)
    then have "length r \<le> length t''" using Suc[of v r] less_imp_le by blast
    with memberKey_shorter[OF t(1)] skipSpace_Cons[OF t(3)] Suc[of w t'] t(2) show ?thesis by force
  qed
  moreover have "length r < length s" if "jsonElements (Suc n) d vs s = Some (v, r)" for d vs s
  proof -
    from that obtain w t' e t'' where t: "jsonValue n d s = Some (w, t')"
      "skipSpace t' = e # t''" "jsonElements n d (vs @ [w]) t'' = Some (v, r) \<or> t'' = r"
      by (auto split: option.splits list.splits if_splits)
    then have "length r \<le> length t''" using Suc[of v r] less_imp_le by blast
    with skipSpace_Cons[OF t(2)] Suc[of w t'] t(1) show ?thesis by force
  qed
  ultimately show ?case by blast
qed simp

text \<open>More fuel than \<open>2 * length s + 2\<close> changes nothing.\<close>

lemma json_fuel:
  "(\<forall>m d s. 2 * length s < n \<and> 2 * length s < m \<longrightarrow> jsonValue n d s = jsonValue m d s) \<and>
   (\<forall>m d ms s. 2 * length s < n \<and> 2 * length s < m \<longrightarrow> jsonMembers n d ms s = jsonMembers m d ms s) \<and>
   (\<forall>m d vs s. 2 * length s + 1 < n \<and> 2 * length s + 1 < m \<longrightarrow> jsonElements n d vs s = jsonElements m d vs s)"
proof (induction n)
  case (Suc n)
  note ih = Suc[THEN conjunct1, rule_format] Suc[THEN conjunct2, THEN conjunct1, rule_format]
    Suc[THEN conjunct2, THEN conjunct2, rule_format]
  have "jsonValue (Suc n) d s = jsonValue m d s" if le: "2 * length s < Suc n" "2 * length s < m" for m d s
  proof -
    obtain m' where m: "m = Suc m'" using le by (cases m) auto
    show ?thesis
    proof (cases "skipSpace s")
      case (Cons c t)
      have "jsonMembers n (Suc d) [] t = jsonMembers m' (Suc d) [] t"
        "jsonElements n (Suc d) [] t = jsonElements m' (Suc d) [] t"
        by (rule ih(2), use le m skipSpace_Cons[OF Cons] in simp)
          (rule ih(3), use le m skipSpace_Cons[OF Cons] in simp)
      with m Cons show ?thesis by (simp split: list.split)
    qed (simp add: m)
  qed
  moreover have "jsonMembers (Suc n) d ms s = jsonMembers m d ms s"
    if le: "2 * length s < Suc n" "2 * length s < m" for m d ms s
  proof -
    obtain m' where m: "m = Suc m'" using le by (cases m) auto
    show ?thesis
    proof (cases "memberKey s")
      case (Some p)
      obtain k t where p: "p = (k, t)" by (cases p)
      from Some p have t: "length t < length s" using memberKey_shorter by blast
      have v: "jsonValue n d t = jsonValue m' d t" by (rule ih(1)) (use le m t in simp)
      have rest: "jsonMembers n d ms' t'' = jsonMembers m' d ms' t''"
        if "jsonValue m' d t = Some (w, t')" "skipSpace t' = e # t''" for w t' e t'' ms'
      proof -
        have "length t'' < length t" using that json_shorter[of m' w t'] skipSpace_Cons by (metis order.strict_trans)
        then show ?thesis by (intro ih(2)) (use t le m in simp)
      qed
      show ?thesis using Some p m v rest by (simp split: option.split list.split)
    qed (simp add: m)
  qed
  moreover have "jsonElements (Suc n) d vs s = jsonElements m d vs s"
    if le: "2 * length s + 1 < Suc n" "2 * length s + 1 < m" for m d vs s
  proof -
    obtain m' where m: "m = Suc m'" using le by (cases m) auto
    have v: "jsonValue n d s = jsonValue m' d s" by (rule ih(1)) (use le m in simp)
    have rest: "jsonElements n d vs' t'' = jsonElements m' d vs' t''"
      if "jsonValue m' d s = Some (w, t')" "skipSpace t' = e # t''" for w t' e t'' vs'
    proof -
      have "length t'' < length s" using that json_shorter[of m' w t'] skipSpace_Cons by (metis order.strict_trans)
      then show ?thesis by (intro ih(3)) (use le m in simp)
    qed
    show ?thesis using m v rest by (simp split: option.split list.split)
  qed
  ultimately show ?case by blast
qed simp

lemma decode_fuel_enough:
  assumes "2 * length s + 2 \<le> n"
  shows "decodeJson s = map_option fst (jsonValue n 0 s)"
proof -
  have "2 * length s < 2 * length s + 2 \<and> 2 * length s < n" using assms by linarith
  then have "jsonValue (2 * length s + 2) 0 s = jsonValue n 0 s" using json_fuel by blast
  then show ?thesis unfolding decodeJson_def by (rule arg_cong)
qed

text \<open>A decoded object has each key once, at every level.\<close>

fun keysDistinct :: "json \<Rightarrow> bool" where
  "keysDistinct (JArr vs) = (\<forall>v \<in> set vs. keysDistinct v)"
| "keysDistinct (JObj m) = (distinct (map fst m) \<and> (\<forall>kv \<in> set m. keysDistinct (snd kv)))"
| "keysDistinct _ = True"

lemma set_setKey: "x \<in> set (setKey k v m) \<Longrightarrow> x = (k, v) \<or> x \<in> set m"
  by (induction k v m rule: setKey.induct) (auto split: if_splits)

lemma jsonValue_Suc_keys:
  assumes "jsonValue (Suc n) d s = Some (v, r)"
  shows "keysDistinct v \<or>
    (\<exists>t. jsonMembers n (Suc d) [] t = Some (v, r) \<or> jsonElements n (Suc d) [] t = Some (v, r))"
  using assms by (auto simp: literalText_def split: list.splits if_splits)

lemma json_keysDistinct:
  "(\<forall>d s v r. jsonValue n d s = Some (v, r) \<longrightarrow> keysDistinct v) \<and>
   (\<forall>d m s v r. jsonMembers n d m s = Some (v, r) \<longrightarrow> keysDistinct (JObj m) \<longrightarrow> keysDistinct v) \<and>
   (\<forall>d vs s v r. jsonElements n d vs s = Some (v, r) \<longrightarrow> keysDistinct (JArr vs) \<longrightarrow> keysDistinct v)"
proof (induction n)
  case (Suc n)
  then have ih: "jsonValue n d s = Some (v, r) \<Longrightarrow> keysDistinct v"
    "jsonMembers n d m s = Some (v, r) \<Longrightarrow> keysDistinct (JObj m) \<Longrightarrow> keysDistinct v"
    "jsonElements n d vs s = Some (v, r) \<Longrightarrow> keysDistinct (JArr vs) \<Longrightarrow> keysDistinct v"
    for d m vs s v r by blast+
  have add: "keysDistinct (JObj (setKey k w m))" if "keysDistinct w" "keysDistinct (JObj m)" for k w m
    using that by (auto simp: distinct_setKey dest!: set_setKey)
  have "keysDistinct v" if "jsonValue (Suc n) d s = Some (v, r)" for d s v r
    using jsonValue_Suc_keys[OF that] ih(2,3)[of _ "[]"] by fastforce
  moreover have "keysDistinct v" if "jsonMembers (Suc n) d m s = Some (v, r)" "keysDistinct (JObj m)" for d m s v r
  proof -
    from that(1) obtain k t w t' t'' where t: "jsonValue n d t = Some (w, t')"
      "jsonMembers n d (setKey k w m) t'' = Some (v, r) \<or> v = JObj (setKey k w m)"
      by (simp split: option.splits list.splits if_splits prod.splits) blast+
    from add[OF ih(1)[OF t(1)] that(2)] t(2) ih(2) show ?thesis by blast
  qed
  moreover have "keysDistinct v" if "jsonElements (Suc n) d vs s = Some (v, r)" "keysDistinct (JArr vs)" for d vs s v r
  proof -
    from that(1) obtain w t' t'' where t: "jsonValue n d s = Some (w, t')"
      "jsonElements n d (vs @ [w]) t'' = Some (v, r) \<or> v = JArr (vs @ [w])"
      by (simp split: option.splits list.splits if_splits prod.splits) blast+
    have "keysDistinct (JArr (vs @ [w]))" using ih(1)[OF t(1)] that(2) by auto
    with t(2) ih(3) show ?thesis by blast
  qed
  ultimately show ?case by blast
qed simp

lemma decodeJson_keysDistinct:
  assumes "decodeJson s = Some v"
  shows "keysDistinct v"
proof -
  obtain r where "jsonValue (2 * length s + 2) 0 s = Some (v, r)"
    using assms unfolding decodeJson_def by auto
  with json_keysDistinct show ?thesis by blast
qed

end
