(* ===== verification/CatValue.thy ===== *)
theory CatValue
  imports CatParser GoArith GoJsonDecode StoreSort
begin

text \<open>
  The catalog engine's values and the operations on them: truth, ordering, conversions, \<open>LIKE\<close>,
  casts (the second half of \<open>internal/catalog/eval.go\<close>), the type numbers and the static type
  table of \<open>pgtypes.go\<close> and \<open>typeinfo.go\<close>, and the shaping of cells for the wire of
  \<open>coerce.go\<close>.

  Two parts of the standard library are parameters, gathered in a record: the Unicode case
  tables, and the regular-expression engine for patterns that clients write. The expressions
  that \<open>LIKE\<close> builds use anchors, literals, \<open>.\<close> and \<open>.*\<close> only, and are modelled.
\<close>

record golib =
  glLower :: "string \<Rightarrow> string"                  \<comment> \<open>\<open>strings.ToLower\<close>\<close>
  glUpper :: "string \<Rightarrow> string"                  \<comment> \<open>\<open>strings.ToUpper\<close>\<close>
  glFold :: "nat \<Rightarrow> nat"                         \<comment> \<open>a rune's representative under simple folding\<close>
  glRegexp :: "string \<Rightarrow> string \<Rightarrow> string + bool"  \<comment> \<open>\<open>regexp.MatchString\<close>: the error's message, or the answer\<close>

subsection \<open>Type numbers\<close>

abbreviation (input) OIDBool :: nat where "OIDBool \<equiv> 16"
abbreviation (input) OIDBytea :: nat where "OIDBytea \<equiv> 17"
abbreviation (input) OIDChar :: nat where "OIDChar \<equiv> 18"
abbreviation (input) OIDName :: nat where "OIDName \<equiv> 19"
abbreviation (input) OIDInt8 :: nat where "OIDInt8 \<equiv> 20"
abbreviation (input) OIDInt2 :: nat where "OIDInt2 \<equiv> 21"
abbreviation (input) OIDInt4 :: nat where "OIDInt4 \<equiv> 23"
abbreviation (input) OIDText :: nat where "OIDText \<equiv> 25"
abbreviation (input) OIDOID :: nat where "OIDOID \<equiv> 26"
abbreviation (input) OIDJSON :: nat where "OIDJSON \<equiv> 114"
abbreviation (input) OIDFloat4 :: nat where "OIDFloat4 \<equiv> 700"
abbreviation (input) OIDFloat8 :: nat where "OIDFloat8 \<equiv> 701"
abbreviation (input) OIDBpChar :: nat where "OIDBpChar \<equiv> 1042"
abbreviation (input) OIDVarChar :: nat where "OIDVarChar \<equiv> 1043"
abbreviation (input) OIDDate :: nat where "OIDDate \<equiv> 1082"
abbreviation (input) OIDTime :: nat where "OIDTime \<equiv> 1083"
abbreviation (input) OIDTs :: nat where "OIDTs \<equiv> 1114"
abbreviation (input) OIDTsTz :: nat where "OIDTsTz \<equiv> 1184"
abbreviation (input) OIDNumeric :: nat where "OIDNumeric \<equiv> 1700"
abbreviation (input) OIDUUID :: nat where "OIDUUID \<equiv> 2950"
abbreviation (input) OIDJSONB :: nat where "OIDJSONB \<equiv> 3802"
abbreviation (input) OIDOIDVector :: nat where "OIDOIDVector \<equiv> 30"
abbreviation (input) OIDInt2Array :: nat where "OIDInt2Array \<equiv> 1005"
abbreviation (input) OIDInt4Array :: nat where "OIDInt4Array \<equiv> 1007"
abbreviation (input) OIDTextArray :: nat where "OIDTextArray \<equiv> 1009"
abbreviation (input) OIDInt8Array :: nat where "OIDInt8Array \<equiv> 1016"
abbreviation (input) OIDBoolArray :: nat where "OIDBoolArray \<equiv> 1000"
abbreviation (input) OIDOIDArray :: nat where "OIDOIDArray \<equiv> 1028"
abbreviation (input) OIDFloatArray :: nat where "OIDFloatArray \<equiv> 1022"

record sysType =
  stOid :: nat
  stName :: string
  stLen :: int
  stType :: string
  stCategory :: string
  stArrayOf :: nat

definition sysTypeOf :: "nat \<times> string \<times> int \<times> string \<times> string \<times> nat \<Rightarrow> sysType" where
  "sysTypeOf r = (case r of (i, name, len, ty, cat, arr) \<Rightarrow>
     \<lparr>stOid = i, stName = name, stLen = len, stType = ty, stCategory = cat, stArrayOf = arr\<rparr>)"

definition sysTypes :: "sysType list" where
  "sysTypes = map sysTypeOf
    [(OIDBool, ''bool'', 1, ''b'', ''B'', OIDBoolArray),
     (OIDBytea, ''bytea'', -1, ''b'', ''U'', 0),
     (OIDChar, ''char'', 1, ''b'', ''S'', 0),
     (OIDName, ''name'', 64, ''b'', ''S'', 0),
     (OIDInt8, ''int8'', 8, ''b'', ''N'', OIDInt8Array),
     (OIDInt2, ''int2'', 2, ''b'', ''N'', OIDInt2Array),
     (OIDInt4, ''int4'', 4, ''b'', ''N'', OIDInt4Array),
     (OIDText, ''text'', -1, ''b'', ''S'', 0),
     (OIDOID, ''oid'', 4, ''b'', ''N'', OIDOIDArray),
     (OIDJSON, ''json'', -1, ''b'', ''U'', 0),
     (OIDFloat4, ''float4'', 4, ''b'', ''N'', OIDFloatArray),
     (OIDFloat8, ''float8'', 8, ''b'', ''N'', 0),
     (OIDBpChar, ''bpchar'', -1, ''b'', ''S'', 0),
     (OIDVarChar, ''varchar'', -1, ''b'', ''S'', 0),
     (OIDDate, ''date'', 4, ''b'', ''D'', 0),
     (OIDTime, ''time'', 8, ''b'', ''D'', 0),
     (OIDTs, ''timestamp'', 8, ''b'', ''D'', 0),
     (OIDTsTz, ''timestamptz'', 8, ''b'', ''D'', 0),
     (OIDNumeric, ''numeric'', -1, ''b'', ''N'', 0),
     (OIDUUID, ''uuid'', 16, ''b'', ''U'', 0),
     (OIDJSONB, ''jsonb'', -1, ''b'', ''U'', 0),
     (OIDOIDVector, ''oidvector'', -1, ''b'', ''P'', 0),
     (OIDBoolArray, ''_bool'', -1, ''b'', ''A'', 0),
     (OIDInt2Array, ''_int2'', -1, ''b'', ''A'', 0),
     (OIDInt4Array, ''_int4'', -1, ''b'', ''A'', 0),
     (OIDTextArray, ''_text'', -1, ''b'', ''A'', 0),
     (OIDInt8Array, ''_int8'', -1, ''b'', ''A'', 0),
     (OIDOIDArray, ''_oid'', -1, ''b'', ''A'', 0),
     (OIDFloatArray, ''_float4'', -1, ''b'', ''A'', 0)]"

definition oidByType :: "nat \<Rightarrow> sysType option" where
  "oidByType i = find (\<lambda>t. stOid t = i) sysTypes"

definition typName :: "nat \<Rightarrow> string" where
  "typName i = (case oidByType i of Some t \<Rightarrow> stName t | None \<Rightarrow> ''???'')"

definition FieldTypeOID :: "fieldType \<Rightarrow> nat" where
  "FieldTypeOID t = (case t of
      TypeNumber \<Rightarrow> OIDFloat8 | TypeBool \<Rightarrow> OIDBool
    | TypeKeyword \<Rightarrow> OIDText | TypeText \<Rightarrow> OIDText | TypeDate \<Rightarrow> OIDText | _ \<Rightarrow> OIDJSON)"

definition FieldTypeName :: "fieldType \<Rightarrow> string" where
  "FieldTypeName t = typName (FieldTypeOID t)"

subsection \<open>Truth, numbers and texts\<close>

definition truth :: "cval \<Rightarrow> bool" where
  "truth v \<longleftrightarrow> v = CBool True"

definition isNumber :: "cval \<Rightarrow> bool" where
  "isNumber v \<longleftrightarrow> (case v of CNum _ \<Rightarrow> True | _ \<Rightarrow> False)"

definition toFloat :: "cval \<Rightarrow> gofloat option" where
  "toFloat v = (case v of CNum x \<Rightarrow> Some x | CStr s \<Rightarrow> ParseFloat64 s | _ \<Rightarrow> None)"

fun cat_toString :: "cval \<Rightarrow> string" where
  "cat_toString (CStr s) = s"
| "cat_toString CNil = []"
| "cat_toString (CNum x) = formatG round64 x"
| "cat_toString (CBool b) = (if b then ''t'' else ''f'')"
| "cat_toString (CArr xs) = ''{'' @ joinStr '','' (map cat_toString xs) @ ''}''"

text \<open>\<open>float64\<close> of a number the source writes as an integer.\<close>

abbreviation cint :: "int \<Rightarrow> cval" where "cint i \<equiv> CNum (floatOfInt i)"

definition compareValues :: "cval \<Rightarrow> cval \<Rightarrow> int" where
  "compareValues a b =
     (if a = CNil \<and> b = CNil then 0 else if a = CNil then 1 else if b = CNil then -1
      else (case (toFloat a, toFloat b) of
          (Some x, Some y) \<Rightarrow>
            if isNumber a \<or> isNumber b then compareFloat x y
            else compareStr (cat_toString a) (cat_toString b)
        | _ \<Rightarrow> compareStr (cat_toString a) (cat_toString b)))"

subsection \<open>Patterns\<close>

definition runeOf :: "string \<Rightarrow> nat" where
  "runeOf s = (let b = (\<lambda>i. byte (s ! i)) in
     case runeLen s of
       0 \<Rightarrow> 65533
     | Suc 0 \<Rightarrow> b 0
     | Suc (Suc 0) \<Rightarrow> (b 0 - 192) * 64 + (b 1 - 128)
     | Suc (Suc (Suc 0)) \<Rightarrow> ((b 0 - 224) * 64 + (b 1 - 128)) * 64 + (b 2 - 128)
     | _ \<Rightarrow> (((b 0 - 240) * 64 + (b 1 - 128)) * 64 + (b 2 - 128)) * 64 + (b 3 - 128))"

text \<open>The runes of a string; a byte that is not UTF-8 counts as U+FFFD.\<close>

function runes :: "string \<Rightarrow> nat list" where
  "runes [] = []"
| "runes (c # s) = runeOf (c # s) # runes (drop (max 1 (runeLen (c # s))) (c # s))"
  by pat_completeness auto
termination by (relation "measure length") auto

declare runes.simps(2) [simp del]

datatype likeItem = LikeAny | LikeOne | LikeRune nat

definition likeItems :: "string \<Rightarrow> likeItem list" where
  "likeItems p = map (\<lambda>r. if r = byte CHR ''%'' then LikeAny else if r = byte CHR ''_'' then LikeOne else LikeRune r) (runes p)"

text \<open>The anchored expression against the whole text: \<open>.\<close> is any rune but a newline.\<close>

fun likeRunes :: "(nat \<Rightarrow> nat \<Rightarrow> bool) \<Rightarrow> likeItem list \<Rightarrow> nat list \<Rightarrow> bool" where
  "likeRunes eq [] rs \<longleftrightarrow> rs = []"
| "likeRunes eq (LikeRune r # is) [] \<longleftrightarrow> False"
| "likeRunes eq (LikeRune r # is) (x # rs) \<longleftrightarrow> eq r x \<and> likeRunes eq is rs"
| "likeRunes eq (LikeOne # is) [] \<longleftrightarrow> False"
| "likeRunes eq (LikeOne # is) (x # rs) \<longleftrightarrow> x \<noteq> 10 \<and> likeRunes eq is rs"
| "likeRunes eq (LikeAny # is) [] \<longleftrightarrow> likeRunes eq is []"
| "likeRunes eq (LikeAny # is) (x # rs) \<longleftrightarrow>
     likeRunes eq is (x # rs) \<or> x \<noteq> 10 \<and> likeRunes eq (LikeAny # is) rs"

definition likeMatch :: "golib \<Rightarrow> cval \<Rightarrow> cval \<Rightarrow> bool \<Rightarrow> bool" where
  "likeMatch lib v pattern insensitive =
     (if v = CNil \<or> pattern = CNil then False
      else likeRunes (\<lambda>a b. if insensitive then glFold lib a = glFold lib b else a = b)
             (likeItems (cat_toString pattern)) (runes (cat_toString v)))"

definition regexMatch :: "golib \<Rightarrow> cval \<Rightarrow> cval \<Rightarrow> bool \<Rightarrow> string + bool" where
  "regexMatch lib v pattern insensitive =
     (if v = CNil \<or> pattern = CNil then Inr False
      else glRegexp lib ((if insensitive then ''(?i)'' else []) @ cat_toString pattern) (cat_toString v))"

subsection \<open>Casts and cells\<close>

definition textTargets :: "string list" where
  "textTargets = [''text'', ''varchar'', ''bpchar'', ''char'', ''name'', ''string'']"

definition numberTargets :: "string list" where
  "numberTargets = [''int2'', ''int4'', ''int8'', ''integer'', ''smallint'', ''bigint'',
     ''float4'', ''float8'', ''real'', ''double precision'', ''numeric'']"

definition coerceCast :: "cval \<Rightarrow> string \<Rightarrow> cval" where
  "coerceCast v target =
     (if target \<in> set textTargets then CStr (cat_toString v)
      else if target \<in> set numberTargets then
        (case toFloat v of Some x \<Rightarrow> CNum x | None \<Rightarrow> CNil)
      else if target = ''bool'' \<or> target = ''boolean'' then
        (if v = CNil then CNil else CBool (truth v))
      else CStr (cat_toString v))"

text \<open>What the wire is given: Go values of fixed types.\<close>

datatype wireCell =
    WNull | WBool bool | WInt16 int | WInt32 int | WInt64 int | WUint32 int | WFloat gofloat | WText string
  | WInt16s "int list" | WInt32s "int list" | WInt64s "int list" | WBools "bool list"

definition coerceInts :: "(gofloat \<Rightarrow> int) \<Rightarrow> cval list \<Rightarrow> int list" where
  "coerceInts conv xs = List.map_filter (\<lambda>e. map_option conv (toFloat e)) xs"

text \<open>A column type with a conversion that applies keeps it; everything else is text.\<close>

definition Coerce :: "nat \<Rightarrow> cval \<Rightarrow> wireCell" where
  "Coerce oid v =
     (let text' = WText (cat_toString v);
          num = (\<lambda>f. case toFloat v of Some x \<Rightarrow> f x | None \<Rightarrow> text');
          arr = (\<lambda>f. case v of CArr xs \<Rightarrow> f xs | _ \<Rightarrow> text')
      in if v = CNil then WNull
         else if oid = OIDBool then (case v of CBool b \<Rightarrow> WBool b | _ \<Rightarrow> WNull)
         else if oid = OIDInt2 then num (\<lambda>x. WInt16 (int16OfFloat x))
         else if oid = OIDInt4 then num (\<lambda>x. WInt32 (int32OfFloat x))
         else if oid = OIDInt8 then num (\<lambda>x. WInt64 (intOfFloat x))
         else if oid = OIDOID then num (\<lambda>x. WUint32 (uint32OfFloat x))
         else if oid = OIDFloat4 \<or> oid = OIDFloat8 then num WFloat
         else if oid = OIDInt2Array then arr (\<lambda>xs. WInt16s (coerceInts int16OfFloat xs))
         else if oid = OIDInt4Array then arr (\<lambda>xs. WInt32s (coerceInts int32OfFloat xs))
         else if oid = OIDInt8Array then arr (\<lambda>xs. WInt64s (coerceInts intOfFloat xs))
         else if oid = OIDBoolArray then arr (\<lambda>xs. WBools (map truth xs))
         else text')"

subsection \<open>Ordering\<close>

lemma compareFloat_refl [simp]: "compareFloat x x = 0"
  by (cases x) (simp_all add: compareFloat_def)

lemma compareFloat_swap: "compareFloat y x = - compareFloat x y"
  using fless_asym[of x y] by (auto simp: compareFloat_def)

lemma compareStr_refl [simp]: "compareStr s s = 0"
  by (simp add: compareStr_def)

lemma compareStr_swap: "compareStr t s = - compareStr s t"
  using strLess_total[of s t] strLess_asym[of s t] by (auto simp: compareStr_def)

lemma compareValues_refl [simp]: "compareValues v v = 0"
  by (auto simp: compareValues_def split: option.split)

lemma compareValues_swap: "compareValues b a = - compareValues a b"
  using compareFloat_swap[of "the (toFloat b)" "the (toFloat a)"] compareStr_swap[of "cat_toString b" "cat_toString a"]
  by (auto simp: compareValues_def split: option.split)

text \<open>Among texts, or among numbers and texts that read as numbers, the comparison is a preorder;
  across the two it is not: "10" is less than "9", "9" equals 9, and 9 is less than "10".\<close>

lemma compareValues_cycle:
  "compareValues (CStr ''10'') (CStr ''9'') < 0" "compareValues (CStr ''9'') (cint 9) = 0"
  "compareValues (cint 9) (CStr ''10'') < 0"
proof -
  have read: "ParseFloat64 ''9'' = Some (floatOfInt 9)" "ParseFloat64 ''10'' = Some (floatOfInt 10)"
  proof -
    have "FormatInt 9 = ''9''" "FormatInt 10 = ''10''" by code_simp+
    with ParseFloat64_FormatInt[of 9] ParseFloat64_FormatInt[of 10]
    show "ParseFloat64 ''9'' = Some (floatOfInt 9)" "ParseFloat64 ''10'' = Some (floatOfInt 10)"
      by (simp_all add: in64_def minInt64_def maxInt64_def)
  qed
  show "compareValues (CStr ''10'') (CStr ''9'') < 0"
    by (simp add: compareValues_def toFloat_def read isNumber_def compareStr_def)
  show "compareValues (CStr ''9'') (cint 9) = 0"
    by (simp add: compareValues_def toFloat_def read isNumber_def)
  have "0 < unitsPerOne" using unitsPerOne_nonzero by (metis gr0I)
  then have "fless (floatOfInt 9) (floatOfInt 10)"
    by (simp add: floatOfInt_eq in64_def minInt64_def maxInt64_def roundInt_small units_def)
  then show "compareValues (cint 9) (CStr ''10'') < 0"
    by (simp add: compareValues_def toFloat_def read isNumber_def compareFloat_def)
qed

subsection \<open>Patterns\<close>

definition itemTakes :: "(nat \<Rightarrow> nat \<Rightarrow> bool) \<Rightarrow> likeItem \<Rightarrow> nat list \<Rightarrow> bool" where
  "itemTakes eq i xs \<longleftrightarrow> (case i of
      LikeAny \<Rightarrow> 10 \<notin> set xs
    | LikeOne \<Rightarrow> (\<exists>x. xs = [x] \<and> x \<noteq> 10)
    | LikeRune r \<Rightarrow> (\<exists>x. xs = [x] \<and> eq r x))"

lemma itemTakes_simps [simp]:
  "itemTakes eq LikeAny []" "itemTakes eq LikeAny (x # xs) \<longleftrightarrow> x \<noteq> 10 \<and> itemTakes eq LikeAny xs"
  "itemTakes eq LikeOne xs \<longleftrightarrow> (\<exists>x. xs = [x] \<and> x \<noteq> 10)" "itemTakes eq (LikeRune r) xs \<longleftrightarrow> (\<exists>x. xs = [x] \<and> eq r x)"
  by (auto simp: itemTakes_def)

lemma parts_one:
  assumes "\<And>xs. itemTakes eq i xs \<longleftrightarrow> (\<exists>y. xs = [y] \<and> A y)"
  shows "(\<exists>parts. x # rs = concat parts \<and> list_all2 (itemTakes eq) (i # is) parts) \<longleftrightarrow>
    A x \<and> (\<exists>parts. rs = concat parts \<and> list_all2 (itemTakes eq) is parts)" (is "?l \<longleftrightarrow> ?r")
proof
  assume ?r
  then obtain parts where "A x" "rs = concat parts" "list_all2 (itemTakes eq) is parts" by blast
  then show ?l by (intro exI[of _ "[x] # parts"]) (simp add: assms)
qed (auto simp: list_all2_Cons1 assms)

lemma likeRunes_parts:
  "likeRunes eq is rs \<longleftrightarrow> (\<exists>parts. rs = concat parts \<and> list_all2 (itemTakes eq) is parts)"
proof (induction eq "is" rs rule: likeRunes.induct)
  case (7 eq "is" x rs)
  show ?case (is "_ = ?split")
  proof
    assume "likeRunes eq (LikeAny # is) (x # rs)"
    then consider "likeRunes eq is (x # rs)" | "x \<noteq> 10" "likeRunes eq (LikeAny # is) rs" by auto
    then show ?split
    proof cases
      case 1
      with 7(1) obtain parts where "x # rs = concat parts" "list_all2 (itemTakes eq) is parts" by blast
      then show ?thesis by (intro exI[of _ "[] # parts"]) simp
    next
      case 2
      with 7(2) obtain p parts where "rs = p @ concat parts" "itemTakes eq LikeAny p" "list_all2 (itemTakes eq) is parts"
        by (auto simp: list_all2_Cons1)
      with 2 show ?thesis by (intro exI[of _ "(x # p) # parts"]) simp
    qed
  next
    assume ?split
    then obtain p parts where p: "x # rs = p @ concat parts" "itemTakes eq LikeAny p" "list_all2 (itemTakes eq) is parts"
      by (auto simp: list_all2_Cons1)
    show "likeRunes eq (LikeAny # is) (x # rs)"
    proof (cases p)
      case Nil
      with p have "likeRunes eq is (x # rs)" using 7(1) by (metis concat.simps(2) append_Nil)
      then show ?thesis by simp
    next
      case (Cons y q)
      with p have "x \<noteq> 10" "rs = concat (q # parts)" "list_all2 (itemTakes eq) (LikeAny # is) (q # parts)"
        by auto
      with 7(2) have "likeRunes eq (LikeAny # is) rs" by blast
      with \<open>x \<noteq> 10\<close> show ?thesis by simp
    qed
  qed
next
  case (3 eq r "is" x rs)
  then show ?case by (simp add: parts_one[where A = "eq r"])
next
  case (5 eq "is" x rs)
  then show ?case by (simp add: parts_one[where A = "\<lambda>x. x \<noteq> 10"])
next
  case (6 eq "is")
  have "(\<exists>parts. [] = concat parts \<and> list_all2 (itemTakes eq) (LikeAny # is) parts) \<longleftrightarrow>
      (\<exists>parts. [] = concat parts \<and> list_all2 (itemTakes eq) is parts)" (is "?l \<longleftrightarrow> ?r")
  proof
    assume ?r
    then obtain parts where "[] = concat parts" "list_all2 (itemTakes eq) is parts" by blast
    then show ?l by (intro exI[of _ "[] # parts"]) simp
  next
    assume ?l
    then obtain p parts where "[] = p @ concat parts" "list_all2 (itemTakes eq) is parts"
      by (auto simp: list_all2_Cons1)
    then show ?r by (intro exI[of _ parts]) simp
  qed
  with 6 show ?case by simp
qed (auto simp: list_all2_Cons1)


text \<open>A text with a newline is not even matched by the pattern of everything.\<close>

lemma like_newline: "\<not> likeMatch lib (CStr [CHR 97, CHR 10]) (CStr ''%'') False"
proof -
  have "likeItems ''%'' = [LikeAny]" "runes [CHR 97, CHR 10] = [97, 10]" by code_simp+
  then show ?thesis by (simp add: likeMatch_def)
qed

end
