(* ===== verification/CatTables.thy ===== *)
theory CatTables
  imports CatValue Cluster
begin

text \<open>
  The virtual catalog tables, \<open>internal/catalog/tables.go\<close>: the snapshot of one execution, the
  registry with the columns and the row builder of every table, and the settings.

  A computation of the engine is a function of the snapshot, which carries the session's data,
  the tables built so far and the state behind the provider; it ends with a value or a failure.
  The provider is a record of the calls of the interface \<open>Provider\<close>, as the cluster answers them.
\<close>

subsection \<open>Snapshots\<close>

record 's provider =
  prDatabases :: "('s, string list) call"
  prListCollections :: "string \<Rightarrow> ('s, string list) call"
  prCollection :: "string \<Rightarrow> string \<Rightarrow> ('s, collectionMeta) call"

record 's snapshot =
  snDb :: string
  snTables :: "(string \<times> cval list list) list"
  snSettings :: "(string \<times> string) list"
  snParams :: "cval list"
  snMetas :: "(collectionMeta \<times> nat) list"
  snMetasDone :: bool
  snMetasErr :: "storeError option"
  snStore :: 's

definition newSnapshot :: "string \<Rightarrow> cval list \<Rightarrow> 's \<Rightarrow> 's snapshot" where
  "newSnapshot db params s = \<lparr>snDb = db, snTables = [], snSettings = [], snParams = params,
     snMetas = [], snMetasDone = False, snMetasErr = None, snStore = s\<rparr>"

datatype catFailure =
    CatFail catError
  | ProviderFail storeError
  | RegexpFail string      \<comment> \<open>a pattern the regular-expression engine refuses\<close>

type_synonym ('s, 'a) cat = "'s snapshot \<Rightarrow> (catFailure + 'a) \<times> 's snapshot"

definition bindC :: "('s, 'a) cat \<Rightarrow> ('a \<Rightarrow> ('s, 'b) cat) \<Rightarrow> ('s, 'b) cat" where
  "bindC m f = (\<lambda>sn. case m sn of (Inl e, sn') \<Rightarrow> (Inl e, sn') | (Inr x, sn') \<Rightarrow> f x sn')"

definition returnC :: "'a \<Rightarrow> ('s, 'a) cat" where
  "returnC x = (\<lambda>sn. (Inr x, sn))"

definition failC :: "catFailure \<Rightarrow> ('s, 'a) cat" where
  "failC e = (\<lambda>sn. (Inl e, sn))"

definition ofE :: "catError + 'a \<Rightarrow> ('s, 'a) cat" where
  "ofE r = (case r of Inl e \<Rightarrow> failC (CatFail e) | Inr x \<Rightarrow> returnC x)"

definition liftCall :: "('s, 'a) call \<Rightarrow> ('s, 'a) cat" where
  "liftCall m = (\<lambda>sn. case m (snStore sn) of
     (Inl e, s') \<Rightarrow> (Inl (ProviderFail e), sn\<lparr>snStore := s'\<rparr>)
   | (Inr x, s') \<Rightarrow> (Inr x, sn\<lparr>snStore := s'\<rparr>))"

text \<open>A loop that collects results and stops at the first failure, and one that keeps elements.\<close>

fun mapC :: "('a \<Rightarrow> ('s, 'b) cat) \<Rightarrow> 'a list \<Rightarrow> ('s, 'b list) cat" where
  "mapC f [] = returnC []"
| "mapC f (x # xs) = bindC (f x) (\<lambda>y. bindC (mapC f xs) (\<lambda>ys. returnC (y # ys)))"

fun filterC :: "('a \<Rightarrow> ('s, bool) cat) \<Rightarrow> 'a list \<Rightarrow> ('s, 'a list) cat" where
  "filterC f [] = returnC []"
| "filterC f (x # xs) =
     bindC (f x) (\<lambda>b. bindC (filterC f xs) (\<lambda>ys. returnC (if b then x # ys else ys)))"

named_theorems catrun \<open>running a computation of the engine\<close>

lemma bindC_eq [catrun]:
  "bindC m f sn = (Inr y, sn') \<longleftrightarrow> (\<exists>x t. m sn = (Inr x, t) \<and> f x t = (Inr y, sn'))"
  by (auto simp: bindC_def split: prod.splits sum.splits)

lemma returnC_eq [catrun]: "returnC x sn = (Inr y, sn') \<longleftrightarrow> y = x \<and> sn' = sn"
  by (auto simp: returnC_def)

lemma failC_eq [catrun]: "failC e sn = (Inr y, sn') \<longleftrightarrow> False"
  by (simp add: failC_def)

lemma ofE_eq [catrun]: "ofE r sn = (Inr y, sn') \<longleftrightarrow> r = Inr y \<and> sn' = sn"
  by (auto simp: ofE_def failC_def returnC_def split: sum.splits)

lemma liftCall_eq [catrun]:
  "liftCall m sn = (Inr y, sn') \<longleftrightarrow> (\<exists>s'. m (snStore sn) = (Inr y, s') \<and> sn' = sn\<lparr>snStore := s'\<rparr>)"
  by (auto simp: liftCall_def split: prod.splits sum.splits)

lemma mapC_Inr:
  "mapC f xs sn = (Inr ys, sn') \<Longrightarrow> list_all2 (\<lambda>x y. \<exists>t t'. f x t = (Inr y, t')) xs ys"
  by (induction xs arbitrary: ys sn) (fastforce simp: catrun)+

lemma mapC_length: "mapC f xs sn = (Inr ys, sn') \<Longrightarrow> length ys = length xs"
  by (drule mapC_Inr) (simp add: list_all2_lengthD)

lemma filterC_set: "filterC f xs sn = (Inr ys, sn') \<Longrightarrow> set ys \<subseteq> set xs"
  by (induction xs arbitrary: ys sn) (fastforce simp: catrun split: if_splits)+

lemma bindC_return [simp]: "bindC (returnC x) f = f x"
  by (simp add: bindC_def returnC_def)

lemma bindC_fail [simp]: "bindC (failC e) f = failC e"
  by (simp add: bindC_def failC_def)

subsection \<open>Collections\<close>

definition firstTableOID :: nat where "firstTableOID = 16384"
definition publicNSOID :: nat where "publicNSOID = 2200"
definition ownerOID :: nat where "ownerOID = 10"
definition collationDefaultOID :: nat where "collationDefaultOID = 100"

text \<open>The descriptions of the current database's collections, fetched once; the object
  numbers follow the order of the listing.\<close>

fun describeFrom :: "'s provider \<Rightarrow> nat \<Rightarrow> string list \<Rightarrow> ('s, unit) cat" where
  "describeFrom pr i [] = returnC ()"
| "describeFrom pr i (name # names) = (\<lambda>sn.
     case prCollection pr (snDb sn) name (snStore sn) of
       (Inl e, s') \<Rightarrow> (Inl (ProviderFail e), sn\<lparr>snStore := s', snMetasErr := Some e\<rparr>)
     | (Inr coll, s') \<Rightarrow>
         describeFrom pr (i + 1) names
           (sn\<lparr>snStore := s', snMetas := snMetas sn @ [(coll, firstTableOID + i)]\<rparr>))"

definition collectionMetas :: "'s provider \<Rightarrow> ('s, (collectionMeta \<times> nat) list) cat" where
  "collectionMetas pr = (\<lambda>sn.
     if snMetasDone sn then
       (case snMetasErr sn of Some e \<Rightarrow> (Inl (ProviderFail e), sn) | None \<Rightarrow> (Inr (snMetas sn), sn))
     else (case prListCollections pr (snDb sn) (snStore sn) of
         (Inl e, s') \<Rightarrow> (Inl (ProviderFail e), sn\<lparr>snStore := s', snMetasDone := True, snMetasErr := Some e\<rparr>)
       | (Inr names, s') \<Rightarrow>
           bindC (describeFrom pr 0 names) (\<lambda>_ sn. (Inr (snMetas sn), sn))
             (sn\<lparr>snStore := s', snMetasDone := True\<rparr>)))"

definition collectionRows ::
  "'s provider \<Rightarrow> (collectionMeta \<Rightarrow> nat \<Rightarrow> cval list list) \<Rightarrow> ('s, cval list list) cat" where
  "collectionRows pr shape =
     bindC (collectionMetas pr) (\<lambda>metas. returnC (concat (map (\<lambda>(meta, i). shape meta i) metas)))"

subsection \<open>Types and texts of columns\<close>

definition typLen :: "nat \<Rightarrow> int" where
  "typLen i = (case oidByType i of Some t \<Rightarrow> stLen t | None \<Rightarrow> -1)"

definition typMod :: "fieldMeta \<Rightarrow> int" where
  "typMod f = (if 0 < fmMaxLength f \<and> FieldTypeOID (fmType f) = OIDVarChar then fmMaxLength f + 4 else -1)"

definition typByVal :: "nat \<Rightarrow> bool" where
  "typByVal i \<longleftrightarrow> 0 < typLen i \<and> typLen i \<le> 8"

definition typAlign :: "nat \<Rightarrow> string" where
  "typAlign i = (if typLen i = 8 then ''d'' else ''i'')"

definition typStorage :: "nat \<Rightarrow> string" where
  "typStorage i = (if typLen i < 0 then ''x'' else ''p'')"

definition dataTypeName :: "nat \<Rightarrow> string" where
  "dataTypeName i =
     (if i = OIDVarChar then ''character varying'' else if i = OIDText then ''text''
      else if i = OIDFloat8 then ''double precision'' else if i = OIDBool then ''boolean''
      else if i = OIDJSON then ''json'' else typName i)"

definition boolText :: "bool \<Rightarrow> string" where
  "boolText b = (if b then ''YES'' else ''NO'')"

subsection \<open>Settings\<close>

record settingRow =
  seName :: string
  seValue :: string
  seCategory :: string
  seVartype :: string

definition VersionString :: string where "VersionString = ''PostgreSQL 16.0 (lyrebird)''"

definition settingOf :: "string \<times> string \<times> string \<times> string \<Rightarrow> settingRow" where
  "settingOf r = (case r of (name, v, cat, ty) \<Rightarrow>
     \<lparr>seName = name, seValue = v, seCategory = cat, seVartype = ty\<rparr>)"

definition settings :: "settingRow list" where
  "settings = map settingOf
    [(''server_version'', VersionString, ''Preset Options'', ''string''),
     (''server_version_num'', ''160000'', ''Preset Options'', ''integer''),
     (''server_encoding'', ''UTF8'', ''Client Connection Defaults'', ''string''),
     (''client_encoding'', ''UTF8'', ''Client Connection Defaults'', ''string''),
     (''standard_conforming_strings'', ''on'', ''Version and Platform Compatibility'', ''bool''),
     (''integer_datetimes'', ''on'', ''Preset Options'', ''bool''),
     (''DateStyle'', ''ISO, MDY'', ''Client Connection Defaults'', ''string''),
     (''TimeZone'', ''UTC'', ''Client Connection Defaults'', ''string''),
     (''IntervalStyle'', ''postgres'', ''Client Connection Defaults'', ''string''),
     (''search_path'', ''public'', ''Client Connection Defaults'', ''string''),
     (''transaction_isolation'', ''read committed'', ''Client Connection Defaults'', ''enum''),
     (''transaction_read_only'', ''off'', ''Client Connection Defaults'', ''bool''),
     (''default_transaction_isolation'', ''read committed'', ''Client Connection Defaults'', ''enum''),
     (''default_transaction_read_only'', ''off'', ''Client Connection Defaults'', ''bool''),
     (''max_index_keys'', ''32'', ''Preset Options'', ''integer''),
     (''max_identifier_length'', ''63'', ''Preset Options'', ''integer''),
     (''application_name'', '''', ''Reporting and Logging'', ''string''),
     (''is_superuser'', ''on'', ''Preset Options'', ''bool''),
     (''session_authorization'', ''lyrebird'', ''Client Connection Defaults'', ''string''),
     (''in_hot_standby'', ''off'', ''Preset Options'', ''bool'')]"

definition settingsByName :: "string \<Rightarrow> string option" where
  "settingsByName name = map_of (map (\<lambda>s. (map lowerChar (seName s), seValue s)) settings) name"

definition setting :: "string \<Rightarrow> string option" where
  "setting name = settingsByName name"

definition Setting :: "golib \<Rightarrow> string \<Rightarrow> string option" where
  "Setting lib name = settingsByName (glLower lib name)"

definition AllSettings :: "(string \<times> string \<times> string) list" where
  "AllSettings = map (\<lambda>s. (seName s, seValue s, ''lyrebird gateway setting'')) settings"

definition settingCells :: "(string \<times> string) list \<Rightarrow> settingRow \<Rightarrow> cval list" where
  "settingCells overlays s =
     (let v = CStr (case map_of overlays (seName s) of Some o' \<Rightarrow> o' | None \<Rightarrow> seValue s) in
      [CStr (seName s), v, CNil, CStr (seCategory s), CStr ''lyrebird gateway setting'', CStr ''user'',
       CStr (seVartype s), CStr ''default'', CNil, CNil, v, v, CBool False])"

definition settingsRows :: "'s snapshot \<Rightarrow> cval list list" where
  "settingsRows sn = map (settingCells (snSettings sn)) settings"

subsection \<open>Rows\<close>

abbreviation onat :: "nat \<Rightarrow> cval" where "onat i \<equiv> cint (int i)"

definition databaseRow :: "nat \<Rightarrow> string \<Rightarrow> cval list" where
  "databaseRow i name =
     [onat (firstTableOID + i), CStr name, onat ownerOID,
      cint 6, CBool False, CBool True, cint (-1), cint 1663, CStr ''C'', CStr ''C'',
      CStr ''c'', CNil, CNil, CNil, CNil]"

definition classRow :: "collectionMeta \<Rightarrow> nat \<Rightarrow> cval list" where
  "classRow coll i =
     [onat i, CStr (cmName coll), onat publicNSOID,
      CStr ''r'', onat ownerOID, cint 0,
      cint 0, cint 0, cint 0,
      CBool False, CBool False, CBool False,
      CStr ''p'', onat (length (cmFields coll)), CBool False,
      cint 0, cint 0, CBool False, CBool False,
      CBool True, CStr ''d'', cint 0,
      CNil]"

definition attributeRow :: "nat \<Rightarrow> nat \<Rightarrow> fieldMeta \<Rightarrow> cval list" where
  "attributeRow tableOID i f =
     (let ty = FieldTypeOID (fmType f) in
      [onat tableOID, CStr (fmName f), onat ty,
       cint (typLen ty), onat (i + 1), cint (typMod f),
       CBool (\<not> fmNullable f), CBool False, CBool True,
       cint 0, CStr [], CStr [],
       CBool (typByVal ty), CStr (typAlign ty), CStr (typStorage ty),
       cint (-1), cint 0, cint (-1),
       CNil, onat collationDefaultOID])"

definition attributeRows :: "collectionMeta \<Rightarrow> nat \<Rightarrow> cval list list" where
  "attributeRows coll i = map (\<lambda>(k, f). attributeRow i k f) (enumerate 0 (cmFields coll))"

text \<open>The positions of the primary-key fields, counted from 1.\<close>

definition keyPositions :: "collectionMeta \<Rightarrow> cval list" where
  "keyPositions coll = map (\<lambda>(k, f). onat (k + 1)) (filter (\<lambda>(k, f). fmPrimary f) (enumerate 0 (cmFields coll)))"

definition constraintRows :: "collectionMeta \<Rightarrow> nat \<Rightarrow> cval list list" where
  "constraintRows coll i =
     (let key = keyPositions coll in
      if key = [] then []
      else [[onat (firstTableOID + 100000 + length (cmName coll)), CStr (cmName coll @ ''_pkey''), onat publicNSOID,
        CStr ''p'', CBool False, CBool False,
        CBool True, onat i, cint 0,
        cint 0, cint 0, CStr [], CStr [], CStr [],
        CBool True, CBool False, CBool True,
        CArr key, CNil]])"

definition indexRows :: "collectionMeta \<Rightarrow> nat \<Rightarrow> cval list list" where
  "indexRows coll i =
     (let key = keyPositions coll in
      if key = [] then []
      else [[onat (firstTableOID + 200000 + length (cmName coll)), onat i, onat (length key),
        onat (length key), CBool True, CBool True,
        CBool False, CBool True, CBool False,
        CBool True, CBool False, CBool True,
        CBool True, CBool False,
        CArr key, CArr [], CNil, CNil]])"

definition typeRow :: "sysType \<Rightarrow> cval list" where
  "typeRow t =
     [onat (stOid t), CStr (stName t), cint 11,
      onat ownerOID, cint (stLen t), CStr (stType t),
      CBool True, CStr '','', cint 0,
      cint 0, onat (stArrayOf t), CStr ''i'',
      CStr ''p'', CStr (stCategory t), CNil,
      cint 0]"

definition columnRow :: "string \<Rightarrow> string \<Rightarrow> nat \<Rightarrow> fieldMeta \<Rightarrow> cval list" where
  "columnRow db name i f =
     (let ty = FieldTypeOID (fmType f) in
      [CStr db, CStr ''public'', CStr name, CStr (fmName f),
       onat (i + 1), CNil,
       CStr (boolText (fmNullable f)), CStr (dataTypeName ty),
       (if 0 < fmMaxLength f then cint (fmMaxLength f) else CNil), CNil,
       CStr (typName ty)])"

subsection \<open>Tables\<close>

record 's tableDef =
  tdName :: string
  tdCols :: "(string \<times> nat) list"
  tdBuild :: "'s provider \<Rightarrow> ('s, cval list list) cat"

definition constRows :: "cval list list \<Rightarrow> 's provider \<Rightarrow> ('s, cval list list) cat" where
  "constRows rows pr = returnC rows"

text \<open>A table without rows; a nil builder of the source answers the same.\<close>

definition emptyTable' :: "string \<Rightarrow> (string \<times> nat) list \<Rightarrow> 's tableDef" where
  "emptyTable' name cols = \<lparr>tdName = name, tdCols = cols, tdBuild = constRows []\<rparr>"

definition pgDatabase :: "'s tableDef" where
  "pgDatabase = \<lparr>tdName = ''pg_database'', tdCols =
      [(''oid'', OIDOID), (''datname'', OIDName), (''datdba'', OIDOID), (''encoding'', OIDInt4),
       (''datistemplate'', OIDBool), (''datallowconn'', OIDBool), (''datconnlimit'', OIDInt4),
       (''dattablespace'', OIDOID), (''datcollate'', OIDText), (''datctype'', OIDText),
       (''datlocprovider'', OIDChar), (''datlocale'', OIDText), (''daticulocale'', OIDText),
       (''daticurules'', OIDText), (''datacl'', OIDTextArray)],
     tdBuild = (\<lambda>pr. bindC (liftCall (prDatabases pr)) (\<lambda>dbs.
       returnC (map (\<lambda>(i, name). databaseRow i name) (enumerate 0 dbs))))\<rparr>"

definition pgNamespace :: "'s tableDef" where
  "pgNamespace = \<lparr>tdName = ''pg_namespace'', tdCols =
      [(''oid'', OIDOID), (''nspname'', OIDName), (''nspowner'', OIDOID), (''nspacl'', OIDTextArray)],
     tdBuild = constRows
       [[cint 99, CStr ''pg_toast'', onat ownerOID, CNil],
        [cint 11, CStr ''pg_catalog'', onat ownerOID, CNil],
        [cint 13003, CStr ''information_schema'', onat ownerOID, CNil],
        [onat publicNSOID, CStr ''public'', onat ownerOID, CNil]]\<rparr>"

definition pgClass :: "'s tableDef" where
  "pgClass = \<lparr>tdName = ''pg_class'', tdCols =
      [(''oid'', OIDOID), (''relname'', OIDName), (''relnamespace'', OIDOID), (''relkind'', OIDChar),
       (''relowner'', OIDOID), (''relam'', OIDOID), (''reltablespace'', OIDOID),
       (''relpages'', OIDInt4), (''reltuples'', OIDFloat4), (''relhasindex'', OIDBool),
       (''relhasrules'', OIDBool), (''relhastriggers'', OIDBool), (''relpersistence'', OIDChar),
       (''relnatts'', OIDInt2), (''relrowsecurity'', OIDBool), (''relchecks'', OIDInt2),
       (''reloftype'', OIDOID), (''relforcerowsecurity'', OIDBool), (''relispartition'', OIDBool),
       (''relispopulated'', OIDBool), (''relreplident'', OIDChar), (''reltoastrelid'', OIDOID),
       (''relacl'', OIDText)],
     tdBuild = (\<lambda>pr. collectionRows pr (\<lambda>coll i. [classRow coll i]))\<rparr>"

definition pgAttribute :: "'s tableDef" where
  "pgAttribute = \<lparr>tdName = ''pg_attribute'', tdCols =
      [(''attrelid'', OIDOID), (''attname'', OIDName), (''atttypid'', OIDOID), (''attlen'', OIDInt2),
       (''attnum'', OIDInt2), (''atttypmod'', OIDInt4), (''attnotnull'', OIDBool),
       (''attisdropped'', OIDBool), (''attislocal'', OIDBool), (''attinhcount'', OIDInt4),
       (''attidentity'', OIDChar), (''attgenerated'', OIDChar), (''attbyval'', OIDBool),
       (''attalign'', OIDChar), (''attstorage'', OIDChar), (''attstattarget'', OIDInt4),
       (''attndims'', OIDInt2), (''attcacheoff'', OIDInt4), (''attacl'', OIDText),
       (''attcollation'', OIDOID)],
     tdBuild = (\<lambda>pr. collectionRows pr attributeRows)\<rparr>"

definition pgConstraint :: "'s tableDef" where
  "pgConstraint = \<lparr>tdName = ''pg_constraint'', tdCols =
      [(''oid'', OIDOID), (''conname'', OIDName), (''connamespace'', OIDOID), (''contype'', OIDChar),
       (''condeferrable'', OIDBool), (''condeferred'', OIDBool), (''convalidated'', OIDBool),
       (''conrelid'', OIDOID), (''contypid'', OIDOID), (''conindid'', OIDOID), (''confrelid'', OIDOID),
       (''confupdtype'', OIDChar), (''confdeltype'', OIDChar), (''confmatchtype'', OIDChar),
       (''conislocal'', OIDBool), (''coninheritable'', OIDBool), (''connoinherit'', OIDBool),
       (''conkey'', OIDInt2Array), (''confkey'', OIDInt2Array)],
     tdBuild = (\<lambda>pr. collectionRows pr constraintRows)\<rparr>"

definition pgIndex :: "'s tableDef" where
  "pgIndex = \<lparr>tdName = ''pg_index'', tdCols =
      [(''indexrelid'', OIDOID), (''indrelid'', OIDOID), (''indnatts'', OIDInt2),
       (''indnkeyatts'', OIDInt2), (''indisunique'', OIDBool), (''indisprimary'', OIDBool),
       (''indisexclusion'', OIDBool), (''indimmediate'', OIDBool), (''indisclustered'', OIDBool),
       (''indisvalid'', OIDBool), (''indcheckxmin'', OIDBool), (''indisready'', OIDBool),
       (''indislive'', OIDBool), (''indisreplident'', OIDBool), (''indkey'', OIDInt2Array),
       (''indoption'', OIDInt2Array), (''indexprs'', OIDText), (''indpred'', OIDText)],
     tdBuild = (\<lambda>pr. collectionRows pr indexRows)\<rparr>"

definition pgType :: "'s tableDef" where
  "pgType = \<lparr>tdName = ''pg_type'', tdCols =
      [(''oid'', OIDOID), (''typname'', OIDName), (''typnamespace'', OIDOID), (''typowner'', OIDOID),
       (''typlen'', OIDInt2), (''typtype'', OIDChar), (''typisdefined'', OIDBool),
       (''typdelim'', OIDChar), (''typrelid'', OIDOID), (''typelem'', OIDOID), (''typarray'', OIDOID),
       (''typalign'', OIDChar), (''typstorage'', OIDChar), (''typcategory'', OIDChar),
       (''typdefault'', OIDText), (''typcollation'', OIDOID)],
     tdBuild = constRows (map typeRow sysTypes)\<rparr>"

definition pgDescription :: "'s tableDef" where
  "pgDescription = \<lparr>tdName = ''pg_description'', tdCols =
      [(''objoid'', OIDOID), (''classoid'', OIDOID), (''objsubid'', OIDInt4),
       (''description'', OIDText)],
     tdBuild = constRows []\<rparr>"

definition pgAttrdef :: "'s tableDef" where
  "pgAttrdef = \<lparr>tdName = ''pg_attrdef'', tdCols =
      [(''oid'', OIDOID), (''adrelid'', OIDOID), (''adnum'', OIDInt2), (''adbin'', OIDText),
       (''adsrc'', OIDText)],
     tdBuild = constRows []\<rparr>"

definition pgProc :: "'s tableDef" where
  "pgProc = \<lparr>tdName = ''pg_proc'', tdCols =
      [(''oid'', OIDOID), (''proname'', OIDName), (''pronamespace'', OIDOID), (''prokind'', OIDChar),
       (''prorettype'', OIDOID), (''pronargs'', OIDInt2), (''proretset'', OIDBool),
       (''proargtypes'', OIDOIDVector), (''proallargtypes'', OIDOIDArray),
       (''proargmodes'', OIDTextArray), (''proargnames'', OIDTextArray), (''prosrc'', OIDText)],
     tdBuild = constRows []\<rparr>"

definition pgRoles :: "'s tableDef" where
  "pgRoles = \<lparr>tdName = ''pg_roles'', tdCols =
      [(''oid'', OIDOID), (''rolname'', OIDName), (''rolsuper'', OIDBool), (''rolinherit'', OIDBool),
       (''rolcreaterole'', OIDBool), (''rolcreatedb'', OIDBool), (''rolcanlogin'', OIDBool),
       (''rolreplication'', OIDBool), (''rolconnlimit'', OIDInt4), (''rolpassword'', OIDText),
       (''rolvaliduntil'', OIDTsTz), (''rolbypassrls'', OIDBool), (''rolconfig'', OIDTextArray)],
     tdBuild = constRows
       [[onat ownerOID, CStr ''lyrebird'', CBool True, CBool True, CBool True, CBool True, CBool True, CBool True,
         cint (-1), CNil, CNil, CBool True, CNil]]\<rparr>"

definition pgUser :: "'s tableDef" where
  "pgUser = \<lparr>tdName = ''pg_user'', tdCols =
      [(''usename'', OIDName), (''usesysid'', OIDOID), (''usecreatedb'', OIDBool),
       (''usesuper'', OIDBool), (''userepl'', OIDBool), (''usebypassrls'', OIDBool),
       (''passwd'', OIDText), (''valuntil'', OIDTsTz), (''useconfig'', OIDTextArray)],
     tdBuild = constRows
       [[CStr ''lyrebird'', onat ownerOID, CBool True, CBool True, CBool True, CBool True, CNil, CNil, CNil]]\<rparr>"

definition pgAm :: "'s tableDef" where
  "pgAm = \<lparr>tdName = ''pg_am'', tdCols =
      [(''oid'', OIDOID), (''amname'', OIDName), (''amhandler'', OIDOID), (''amtype'', OIDChar)],
     tdBuild = constRows
       [[cint 403, CStr ''btree'', cint 0, CStr ''i''],
        [cint 405, CStr ''hash'', cint 0, CStr ''h''],
        [cint 2745, CStr ''gin'', cint 0, CStr ''i'']]\<rparr>"

definition schemataTable :: "'s tableDef" where
  "schemataTable = \<lparr>tdName = ''schemata'', tdCols =
      [(''catalog_name'', OIDText), (''schema_name'', OIDName), (''schema_owner'', OIDName)],
     tdBuild = (\<lambda>pr sn. (Inr [[CStr (snDb sn), CStr ''public'', CStr ''lyrebird'']], sn))\<rparr>"

definition tablesTable :: "'s tableDef" where
  "tablesTable = \<lparr>tdName = ''tables'', tdCols =
      [(''table_catalog'', OIDText), (''table_schema'', OIDName), (''table_name'', OIDName),
       (''table_type'', OIDText), (''is_insertable_into'', OIDText), (''commit_action'', OIDText)],
     tdBuild = (\<lambda>pr sn. bindC (liftCall (prListCollections pr (snDb sn))) (\<lambda>names. returnC
       (map (\<lambda>name. [CStr (snDb sn), CStr ''public'', CStr name, CStr ''BASE TABLE'', CStr ''YES'', CNil]) names)) sn)\<rparr>"

definition columnsTable :: "'s tableDef" where
  "columnsTable = \<lparr>tdName = ''columns'', tdCols =
      [(''table_catalog'', OIDText), (''table_schema'', OIDName), (''table_name'', OIDName),
       (''column_name'', OIDName), (''ordinal_position'', OIDInt4), (''column_default'', OIDText),
       (''is_nullable'', OIDText), (''data_type'', OIDText), (''character_maximum_length'', OIDInt4),
       (''numeric_precision'', OIDInt4), (''udt_name'', OIDName)],
     tdBuild = (\<lambda>pr sn. bindC (liftCall (prListCollections pr (snDb sn))) (\<lambda>names.
       bindC (mapC (\<lambda>name. bindC (liftCall (prCollection pr (snDb sn) name)) (\<lambda>coll.
         returnC (map (\<lambda>(i, f). columnRow (snDb sn) name i f) (enumerate 0 (cmFields coll))))) names)
       (\<lambda>parts. returnC (concat parts))) sn)\<rparr>"

definition pgSettings :: "'s tableDef" where
  "pgSettings = \<lparr>tdName = ''pg_settings'', tdCols =
      [(''name'', OIDText), (''setting'', OIDText), (''unit'', OIDText), (''category'', OIDText),
       (''short_desc'', OIDText), (''context'', OIDText), (''vartype'', OIDText),
       (''source'', OIDText), (''min_val'', OIDText), (''max_val'', OIDText), (''boot_val'', OIDText),
       (''reset_val'', OIDText), (''pending_restart'', OIDBool)],
     tdBuild = (\<lambda>pr sn. (Inr (settingsRows sn), sn))\<rparr>"

definition pgCollation :: "'s tableDef" where
  "pgCollation = \<lparr>tdName = ''pg_collation'', tdCols =
      [(''oid'', OIDOID), (''collname'', OIDName), (''collnamespace'', OIDOID),
       (''collprovider'', OIDChar), (''collisdeterministic'', OIDBool)],
     tdBuild = constRows
       [[onat collationDefaultOID, CStr ''default'', cint 11, CStr ''d'', CBool True]]\<rparr>"

definition pgPolicy :: "'s tableDef" where
  "pgPolicy = \<lparr>tdName = ''pg_policy'', tdCols =
      [(''oid'', OIDOID), (''polname'', OIDName), (''polrelid'', OIDOID), (''polcmd'', OIDChar),
       (''polpermissive'', OIDBool), (''polroles'', OIDOIDArray), (''polqual'', OIDText),
       (''polwithcheck'', OIDText)],
     tdBuild = constRows []\<rparr>"

definition catalogTables :: "'s tableDef list" where
  "catalogTables = [pgDatabase, pgNamespace, pgClass, pgAttribute, pgConstraint, pgIndex, pgType, pgDescription,
     pgAttrdef, pgProc, pgRoles, pgUser, pgAm, schemataTable, tablesTable, columnsTable]"

definition emptySystemTables :: "'s tableDef list" where
  "emptySystemTables =
    [
     emptyTable' ''pg_trigger''
       [(''oid'', OIDOID), (''tgname'', OIDName), (''tgrelid'', OIDOID), (''tgfoid'', OIDOID),
        (''tgtype'', OIDInt2), (''tgenabled'', OIDChar), (''tgparentid'', OIDOID),
        (''tgattr'', OIDInt2Array), (''tgargs'', OIDBytea), (''tgqual'', OIDText),
        (''tgisinternal'', OIDBool)],
     emptyTable' ''pg_rewrite''
       [(''oid'', OIDOID), (''rulename'', OIDName), (''ev_class'', OIDOID), (''ev_type'', OIDChar),
        (''ev_enabled'', OIDChar), (''is_instead'', OIDBool), (''ev_action'', OIDText)],
     emptyTable' ''pg_inherits''
       [(''inhrelid'', OIDOID), (''inhparent'', OIDOID), (''inhseqno'', OIDInt4),
        (''inhdetachpending'', OIDBool)],
     emptyTable' ''pg_partitioned_table''
       [(''partrelid'', OIDOID), (''partstrat'', OIDChar), (''partnatts'', OIDInt2),
        (''partdefid'', OIDOID), (''partattrs'', OIDInt2Array), (''partclass'', OIDOIDArray)],
     emptyTable' ''pg_depend''
       [(''classid'', OIDOID), (''objid'', OIDOID), (''objsubid'', OIDInt4), (''refclassid'', OIDOID),
        (''refobjid'', OIDOID), (''refobjsubid'', OIDInt4), (''deptype'', OIDChar)],
     emptyTable' ''pg_statistic_ext''
       [(''oid'', OIDOID), (''stxrelid'', OIDOID), (''stxname'', OIDName), (''stxnamespace'', OIDOID),
        (''stxowner'', OIDOID), (''stxstattarget'', OIDInt4), (''stxkeys'', OIDInt2Array),
        (''stxkind'', OIDTextArray)],
     emptyTable' ''pg_publication''
       [(''oid'', OIDOID), (''pubname'', OIDName), (''pubowner'', OIDOID), (''puballtables'', OIDBool),
        (''pubinsert'', OIDBool), (''pubupdate'', OIDBool), (''pubdelete'', OIDBool),
        (''pubtruncate'', OIDBool), (''pubviaroot'', OIDBool)],
     emptyTable' ''pg_publication_rel''
       [(''oid'', OIDOID), (''prpubid'', OIDOID), (''prrelid'', OIDOID), (''prqual'', OIDText),
        (''prattrs'', OIDInt2Array)],
     emptyTable' ''pg_publication_namespace''
       [(''oid'', OIDOID), (''pnpubid'', OIDOID), (''pnnspid'', OIDOID)],
     emptyTable' ''pg_foreign_table''
       [(''ftrelid'', OIDOID), (''ftserver'', OIDOID), (''ftoptions'', OIDTextArray)],
     emptyTable' ''pg_foreign_server''
       [(''oid'', OIDOID), (''srvname'', OIDName), (''srvowner'', OIDOID), (''srvfdw'', OIDOID),
        (''srvoptions'', OIDTextArray)],
     emptyTable' ''pg_foreign_data_wrapper''
       [(''oid'', OIDOID), (''fdwname'', OIDName), (''fdwowner'', OIDOID),
        (''fdwoptions'', OIDTextArray)],
     emptyTable' ''pg_user_mapping''
       [(''oid'', OIDOID), (''umuser'', OIDOID), (''umdb'', OIDOID), (''umoptions'', OIDTextArray)],
     emptyTable' ''pg_extension''
       [(''oid'', OIDOID), (''extname'', OIDName), (''extnamespace'', OIDOID), (''extowner'', OIDOID),
        (''extversion'', OIDText)],
     emptyTable' ''pg_event_trigger''
       [(''oid'', OIDOID), (''evtname'', OIDName), (''evtevent'', OIDName), (''evtowner'', OIDOID),
        (''evtenabled'', OIDChar)],
     emptyTable' ''pg_subscription''
       [(''oid'', OIDOID), (''subname'', OIDName), (''subowner'', OIDOID), (''subenabled'', OIDBool),
        (''subconninfo'', OIDText)],
     emptyTable' ''pg_shdepend''
       [(''dbid'', OIDOID), (''classid'', OIDOID), (''objid'', OIDOID), (''refclassid'', OIDOID),
        (''refobjid'', OIDOID), (''deptype'', OIDChar)],
     emptyTable' ''pg_seclabel''
       [(''objoid'', OIDOID), (''classoid'', OIDOID), (''objsubid'', OIDInt4), (''provider'', OIDText),
        (''label'', OIDText)]
    ]"

definition tableRegistry :: "string \<Rightarrow> 's tableDef option" where
  "tableRegistry name =
     find (\<lambda>d. tdName d = name) (catalogTables @ emptySystemTables @ [pgSettings, pgCollation, pgPolicy])"

definition colIndex :: "(string \<times> nat) list \<Rightarrow> string \<Rightarrow> nat option" where
  "colIndex cols name = (case filter (\<lambda>(i, c). fst c = name) (enumerate 0 cols) of
     [] \<Rightarrow> None | (i, c) # _ \<Rightarrow> Some i)"

text \<open>A table is built once in an execution; a failed build is not remembered.\<close>

definition table :: "'s provider \<Rightarrow> 's tableDef \<Rightarrow> ('s, cval list list) cat" where
  "table pr d = (\<lambda>sn. case map_of (snTables sn) (tdName d) of
     Some rows \<Rightarrow> (Inr rows, sn)
   | None \<Rightarrow> bindC (tdBuild d pr) (\<lambda>rows sn. (Inr rows, sn\<lparr>snTables := (tdName d, rows) # snTables sn\<rparr>)) sn)"

subsection \<open>Rows fit their columns\<close>

definition rowsFit :: "(string \<times> nat) list \<Rightarrow> cval list list \<Rightarrow> bool" where
  "rowsFit cols rows \<longleftrightarrow> (\<forall>r \<in> set rows. length r = length cols)"

lemma rowsFit_simps [simp]:
  "rowsFit cols []" "rowsFit cols (r # rows) \<longleftrightarrow> length r = length cols \<and> rowsFit cols rows"
  by (auto simp: rowsFit_def)

definition builds :: "'s tableDef \<Rightarrow> bool" where
  "builds d \<longleftrightarrow> (\<forall>pr sn rows sn'. tdBuild d pr sn = (Inr rows, sn') \<longrightarrow> rowsFit (tdCols d) rows)"

lemma builds_const [simp]: "rowsFit cs rows \<Longrightarrow> builds \<lparr>tdName = n, tdCols = cs, tdBuild = constRows rows\<rparr>"
  by (simp add: builds_def constRows_def catrun)

lemma builds_collections [simp]:
  "(\<And>coll i. rowsFit cs (shape coll i)) \<Longrightarrow>
   builds \<lparr>tdName = n, tdCols = cs, tdBuild = (\<lambda>pr. collectionRows pr shape)\<rparr>"
  by (fastforce simp: builds_def collectionRows_def catrun rowsFit_def)

lemma builds_empty [simp]: "builds (emptyTable' name cols)"
  by (simp add: emptyTable'_def)

lemma length_rows [simp]:
  "length (databaseRow i name) = 15" "length (classRow coll i) = 23" "length (attributeRow t i f) = 20"
  "length (typeRow ty) = 16" "length (columnRow db name i f) = 11" "length (settingCells ov se) = 13"
  by (simp_all add: databaseRow_def classRow_def attributeRow_def typeRow_def columnRow_def settingCells_def Let_def)

lemma rowsFit_attributeRows [simp]: "length cs = 20 \<Longrightarrow> rowsFit cs (attributeRows coll i)"
  by (auto simp: attributeRows_def rowsFit_def)

lemma mapC_rowsFit:
  assumes "mapC f xs sn = (Inr parts, sn')" "\<And>x t part t'. f x t = (Inr part, t') \<Longrightarrow> rowsFit cs part"
  shows "rowsFit cs (concat parts)"
  using assms(1)
proof (induction xs arbitrary: parts sn)
  case (Cons x xs)
  then obtain part t ps where "f x sn = (Inr part, t)" "mapC f xs t = (Inr ps, sn')" "parts = part # ps"
    by (auto simp: catrun)
  with Cons.IH assms(2) show ?case by (auto simp: rowsFit_def)
qed (simp add: catrun)

lemma builds_columnsTable: "builds columnsTable"
  unfolding builds_def
proof (intro allI impI)
  fix pr :: "'s provider" and sn rows sn'
  assume "tdBuild columnsTable pr sn = (Inr rows, sn')"
  then obtain names t parts where rows: "rows = concat parts"
    and parts: "mapC (\<lambda>name. bindC (liftCall (prCollection pr (snDb sn) name)) (\<lambda>coll.
       returnC (map (\<lambda>(i, f). columnRow (snDb sn) name i f) (enumerate 0 (cmFields coll))))) names t = (Inr parts, sn')"
    by (auto simp: columnsTable_def catrun)
  show "rowsFit (tdCols columnsTable) rows"
    unfolding rows by (rule mapC_rowsFit[OF parts]) (auto simp: columnsTable_def rowsFit_def catrun)
qed

lemma builds_catalogTables: "\<forall>d \<in> set catalogTables. builds d"
proof -
  have "builds pgDatabase" by (auto simp: builds_def pgDatabase_def catrun rowsFit_def)
  moreover have "builds pgNamespace" by (simp add: pgNamespace_def)
  moreover have "builds pgClass" by (simp add: pgClass_def)
  moreover have "builds pgAttribute" by (simp add: pgAttribute_def)
  moreover have "builds pgConstraint" by (simp add: pgConstraint_def constraintRows_def Let_def)
  moreover have "builds pgIndex" by (simp add: pgIndex_def indexRows_def Let_def)
  moreover have "builds pgType" by (auto simp: pgType_def rowsFit_def)
  moreover have "builds pgDescription" "builds pgAttrdef" "builds pgProc"
    by (simp_all add: pgDescription_def pgAttrdef_def pgProc_def)
  moreover have "builds pgRoles" "builds pgUser" "builds pgAm"
    by (simp_all add: pgRoles_def pgUser_def pgAm_def)
  moreover have "builds schemataTable" by (simp add: builds_def schemataTable_def)
  moreover have "builds tablesTable" by (auto simp: builds_def tablesTable_def catrun rowsFit_def)
  moreover have "builds columnsTable" by (rule builds_columnsTable)
  ultimately show ?thesis by (simp add: catalogTables_def)
qed

lemma tableRegistry_builds: "tableRegistry name = Some d \<Longrightarrow> builds d"
proof -
  assume "tableRegistry name = Some d"
  then have "d \<in> set (catalogTables @ emptySystemTables @ [pgSettings, pgCollation, pgPolicy])"
    unfolding tableRegistry_def by (auto simp: find_Some_iff in_set_conv_nth simp del: set_append)
  moreover have "\<forall>d \<in> set emptySystemTables. builds d" by (simp add: emptySystemTables_def)
  moreover have "builds pgSettings" by (auto simp: builds_def pgSettings_def settingsRows_def rowsFit_def)
  moreover have "builds pgCollation" by (simp add: pgCollation_def)
  moreover have "builds pgPolicy" by (simp add: pgPolicy_def)
  ultimately show ?thesis using builds_catalogTables by auto
qed

lemma colIndex_Some: "colIndex cols name = Some i \<Longrightarrow> i < length cols \<and> fst (cols ! i) = name"
proof (cases "filter (\<lambda>(i, c). fst c = name) (enumerate 0 cols)")
  case (Cons x xs)
  assume "colIndex cols name = Some i"
  with Cons have "fst x = i" by (simp add: colIndex_def split: prod.splits)
  moreover have "x \<in> set (filter (\<lambda>(i, c). fst c = name) (enumerate 0 cols))" using Cons by simp
  ultimately show ?thesis by (auto simp: in_set_enumerate_eq)
qed (simp add: colIndex_def)

lemma colIndex_None: "colIndex cols name = None \<longleftrightarrow> name \<notin> fst ` set cols"
proof -
  have "colIndex cols name = None \<longleftrightarrow> filter (\<lambda>(i, c). fst c = name) (enumerate 0 cols) = []"
    by (auto simp: colIndex_def split: list.split)
  also have "\<dots> \<longleftrightarrow> name \<notin> fst ` set cols"
  proof
    assume none: "filter (\<lambda>(i, c). fst c = name) (enumerate 0 cols) = []"
    show "name \<notin> fst ` set cols"
    proof
      assume "name \<in> fst ` set cols"
      then obtain i where "i < length cols" "fst (cols ! i) = name" by (auto simp: in_set_conv_nth)
      then have "(i, cols ! i) \<in> set (filter (\<lambda>(i, c). fst c = name) (enumerate 0 cols))"
        by (simp add: in_set_enumerate_eq)
      with none show False by simp
    qed
  next
    assume absent: "name \<notin> fst ` set cols"
    have "fst c \<noteq> name" if "(i, c) \<in> set (enumerate 0 cols)" for i c
      using that absent by (auto simp: in_set_enumerate_eq dest!: nth_mem)
    then show "filter (\<lambda>(i, c). fst c = name) (enumerate 0 cols) = []"
      by (auto simp: filter_empty_conv)
  qed
  finally show ?thesis .
qed

subsection \<open>One numbering per snapshot\<close>

lemma describeFrom_metas:
  "describeFrom pr i names sn = (Inr u, sn') \<Longrightarrow>
   \<exists>metas. length metas = length names \<and> snMetas sn' = snMetas sn @ map (\<lambda>(k, m). (m, firstTableOID + k)) (enumerate i metas) \<and>
     snMetasDone sn' = snMetasDone sn \<and> snMetasErr sn' = snMetasErr sn"
proof (induction pr i names arbitrary: sn rule: describeFrom.induct)
  case (2 pr i name names)
  from "2.prems" obtain coll s' where
    coll: "prCollection pr (snDb sn) name (snStore sn) = (Inr coll, s')"
    and rest: "describeFrom pr (i + 1) names
        (sn\<lparr>snStore := s', snMetas := snMetas sn @ [(coll, firstTableOID + i)]\<rparr>) = (Inr u, sn')"
    by (auto split: prod.splits sum.splits)
  from "2.IH"[OF coll[symmetric] refl rest] obtain metas where
    "length metas = length names" "snMetas sn' = snMetas sn @ (coll, firstTableOID + i) #
       map (\<lambda>(k, m). (m, firstTableOID + k)) (enumerate (i + 1) metas)"
    "snMetasDone sn' = snMetasDone sn" "snMetasErr sn' = snMetasErr sn"
    by auto
  then show ?case by (intro exI[of _ "coll # metas"]) simp
qed (simp add: catrun)

lemma collectionMetas_fresh:
  assumes "\<not> snMetasDone sn" "snMetas sn = []" "snMetasErr sn = None" "collectionMetas pr sn = (Inr ms, sn')"
  shows "\<exists>metas. ms = map (\<lambda>(k, m). (m, firstTableOID + k)) (enumerate 0 metas) \<and>
    snMetasDone sn' \<and> snMetas sn' = ms \<and> snMetasErr sn' = None"
proof -
  from assms obtain names s' where
    "describeFrom pr 0 names (sn\<lparr>snStore := s', snMetasDone := True\<rparr>) = (Inr (), sn')" "ms = snMetas sn'"
    by (auto simp: collectionMetas_def bindC_def split: prod.splits sum.splits)
  from describeFrom_metas[OF this(1)] this(2) assms show ?thesis by auto
qed

lemma collectionMetas_again:
  "snMetasDone sn \<Longrightarrow> snMetasErr sn = None \<Longrightarrow> collectionMetas pr sn = (Inr (snMetas sn), sn)"
  by (simp add: collectionMetas_def)

lemma newSnapshot_fresh [simp]:
  "\<not> snMetasDone (newSnapshot db params s)" "snMetas (newSnapshot db params s) = []"
  "snMetasErr (newSnapshot db params s) = None" "snTables (newSnapshot db params s) = []"
  by (simp_all add: newSnapshot_def)

subsection \<open>Properties\<close>

text \<open>Every row a catalog table is built with has as many cells as the table has columns,
  whatever the provider answers: the engine's column-by-column reading of a row never runs past
  its end. (No check of the source enforces this.)\<close>

theorem catalog_rows_fit:
  assumes "tableRegistry name = Some d" "tdBuild d pr sn = (Inr rows, sn')"
  shows "\<forall>r \<in> set rows. length r = length (tdCols d)"
proof -
  have "rowsFit (tdCols d) rows" using tableRegistry_builds[OF assms(1)] assms(2) unfolding builds_def by blast
  then show ?thesis by (simp add: rowsFit_def)
qed

theorem catalog_rows_fit_witness:
  "\<exists>d rows. tableRegistry ''schemata'' = Some (d :: unit tableDef) \<and>
     (\<exists>pr sn. fst (tdBuild d pr sn) = Inr rows) \<and> rows \<noteq> [] \<and> list_all (\<lambda>r. length r = length (tdCols d)) rows"
proof -
  let ?d = "schemataTable :: unit tableDef" and ?sn = "newSnapshot ''db'' [] ()"
  have d: "tableRegistry ''schemata'' = Some ?d"
    by (simp add: tableRegistry_def catalogTables_def pgDatabase_def pgNamespace_def pgClass_def pgAttribute_def
        pgConstraint_def pgIndex_def pgType_def pgDescription_def pgAttrdef_def pgProc_def pgRoles_def pgUser_def
        pgAm_def schemataTable_def)
  have b: "tdBuild ?d pr ?sn = (Inr [[CStr ''db'', CStr ''public'', CStr ''lyrebird'']], ?sn)" for pr
    by (simp add: schemataTable_def newSnapshot_def)
  have fit: "list_all (\<lambda>r. length r = length (tdCols ?d)) [[CStr ''db'', CStr ''public'', CStr ''lyrebird'']]"
    unfolding list_all_iff by (rule catalog_rows_fit[OF d b])
  have "\<exists>pr sn. fst (tdBuild ?d pr sn) = Inr [[CStr ''db'', CStr ''public'', CStr ''lyrebird'']]"
    using b by (metis fst_conv)
  with d fit show ?thesis by blast
qed


text \<open>A provider with one collection of a single key field.\<close>

definition oneField :: fieldMeta where
  "oneField = \<lparr>fmName = ''id'', fmType = TypeNumber, fmPrimary = True, fmNullable = False, fmDim = 0,
     fmMaxLength = 0, fmNative = ''Int64'', fmAutoID = False, fmElement = ''None''\<rparr>"

definition oneCollection :: "unit provider" where
  "oneCollection = \<lparr>prDatabases = (\<lambda>s. (Inr [''db''], s)), prListCollections = (\<lambda>_ s. (Inr [''books''], s)),
     prCollection = (\<lambda>_ name s. (Inr \<lparr>cmName = name, cmFields = [oneField], cmFunctionOutputs = []\<rparr>, s))\<rparr>"


text \<open>The number of a primary-key constraint is made from the length of the collection's name: two
  collections with names of one length share it.\<close>

lemma constraint_oid_shared:
  assumes "length (cmName a) = length (cmName b)" "keyPositions a \<noteq> []" "keyPositions b \<noteq> []"
  shows "hd (hd (constraintRows a i)) = hd (hd (constraintRows b j))"
  using assms by (simp add: constraintRows_def Let_def)

text \<open>No field type is described as a varchar, so no attribute carries its length.\<close>

lemma typMod_unmodified: "typMod f = -1"
  by (simp add: typMod_def FieldTypeOID_def split: fieldType.split)

text \<open>The settings are kept under lower-case names, and \<open>current_setting\<close> looks a name up as written.\<close>

lemma setting_mixed_case: "setting ''TimeZone'' = None \<and> setting ''timezone'' = Some ''UTC''"
  by code_simp

end
