(* ===== verification/CatFunctions.thy ===== *)
theory CatFunctions
  imports CatTables
begin

text \<open>
  The scalar functions catalog queries may call, \<open>internal/catalog/functions.go\<close>: a registry from
  names to the type the result is announced with, the arity (\<open>None\<close> for any number of
  arguments) and the implementation over evaluated arguments. An implementation may read and
  write the snapshot (\<open>current_setting\<close>, \<open>set_config\<close>).
\<close>

record 's funcDef =
  fdRet :: nat
  fdArgs :: "nat option"
  fdFn :: "golib \<Rightarrow> cval list \<Rightarrow> ('s, cval) cat"

abbreviation textC :: "string \<Rightarrow> ('s, cval) cat" where "textC s \<equiv> returnC (CStr s)"

subsection \<open>Strings\<close>

text \<open>\<open>strings.ReplaceAll\<close>: an empty pattern stands before every rune and at the end.\<close>

function betweenRunes :: "string \<Rightarrow> string \<Rightarrow> string" where
  "betweenRunes new [] = new"
| "betweenRunes new (c # s) =
     (let n = max 1 (runeLen (c # s)) in new @ take n (c # s) @ betweenRunes new (drop n (c # s)))"
  by pat_completeness auto
termination by (relation "measure (length \<circ> snd)") auto

function replaceFrom :: "string \<Rightarrow> string \<Rightarrow> string \<Rightarrow> string" where
  "replaceFrom old new [] = []"
| "replaceFrom old new (c # s) =
     (if old \<noteq> [] \<and> hasPrefix (c # s) old then new @ replaceFrom old new (drop (length old) (c # s))
      else c # replaceFrom old new s)"
  by pat_completeness auto
termination by (relation "measure (length \<circ> snd \<circ> snd)") (auto simp: neq_Nil_conv)

definition ReplaceAll :: "string \<Rightarrow> string \<Rightarrow> string \<Rightarrow> string" where
  "ReplaceAll s old new = (if old = [] then betweenRunes new s else replaceFrom old new s)"

definition quoteText :: "cval list \<Rightarrow> ('s, cval) cat" where
  "quoteText args =
     (if args = [] \<or> hd args = CNil then returnC CNil
      else textC ([CHR 34] @ ReplaceAll (cat_toString (hd args)) [CHR 34] [CHR 34, CHR 34] @ [CHR 34]))"

text \<open>\<open>format\<close>: the verbs take the arguments in order; a verb without an argument is dropped.\<close>

fun formatFrom :: "string \<Rightarrow> cval list \<Rightarrow> string" where
  "formatFrom [] args = []"
| "formatFrom [c] args = (if c = CHR ''%'' then [] else [c])"
| "formatFrom (c # v # s) args =
     (if c \<noteq> CHR ''%'' then c # formatFrom (v # s) args
      else if v \<in> set ''sIL'' then
        (case args of [] \<Rightarrow> formatFrom s [] | a # as \<Rightarrow> cat_toString a @ formatFrom s as)
      else if v = CHR ''%'' then CHR ''%'' # formatFrom s args
      else CHR ''%'' # v # formatFrom s args)"

definition substringFn :: "cval list \<Rightarrow> ('s, cval) cat" where
  "substringFn args =
     (if length args < 2 \<or> hd args = CNil then returnC CNil
      else let s = cat_toString (hd args); len = int (length s) in
        (case toFloat (args ! 1) of
           None \<Rightarrow> failC (CatFail (cat_errf [T ''substring start must be a number'']))
         | Some x \<Rightarrow>
             let start = min len (max 0 (wrap64 (intOfFloat x - 1))) in
             if length args > 2 then
               (case toFloat (args ! 2) of
                  None \<Rightarrow> failC (CatFail (cat_errf [T ''substring length must be a number'']))
                | Some n \<Rightarrow>
                    let stop = max start (min len (wrap64 (start + intOfFloat n))) in
                    textC (take (nat (stop - start)) (drop (nat start) s)))
             else textC (drop (nat start) s)))"

subsection \<open>Settings and types\<close>

definition unrecognized :: "string \<Rightarrow> catError" where
  "unrecognized name = CatError ''42704'' [T ''unrecognized configuration parameter '', Q name]"

definition currentSetting :: "cval list \<Rightarrow> ('s, cval) cat" where
  "currentSetting args = (\<lambda>sn.
     if args = [] then failC (CatFail (cat_errf [T ''current_setting requires a setting name''])) sn
     else let name = cat_toString (hd args) in
       (case map_of (snSettings sn) name of
          Some v \<Rightarrow> textC v sn
        | None \<Rightarrow> (case setting name of
            Some v \<Rightarrow> textC v sn
          | None \<Rightarrow>
              if length args > 1 \<and> \<not> truth (args ! 1) then returnC CNil sn
              else failC (CatFail (unrecognized name)) sn)))"

definition setConfig :: "cval list \<Rightarrow> ('s, cval) cat" where
  "setConfig args = (\<lambda>sn.
     let name = cat_toString (args ! 0); v = cat_toString (args ! 1) in
     (Inr (CStr v), sn\<lparr>snSettings := (name, v) # snSettings sn\<rparr>))"

definition formatType :: "cval list \<Rightarrow> ('s, cval) cat" where
  "formatType args =
     (if args = [] then returnC CNil
      else let oid = (case toFloat (hd args) of Some x \<Rightarrow> nat (uint32OfFloat x) | None \<Rightarrow> 0);
               name = typName oid;
               m = (if length args > 1 then toFloat (args ! 1) else None)
        in (case m of
              None \<Rightarrow> textC name
            | Some x \<Rightarrow>
                if fless (floatOfInt 4) x \<and> name = ''varchar''
                then textC (name @ ''('' @ FormatInt (wrap64 (intOfFloat x - 4)) @ '')'')
                else textC name))"

definition currentSchemas :: "cval list \<Rightarrow> ('s, cval) cat" where
  "currentSchemas args =
     returnC (CArr (if hd args = CBool False then [CStr ''public''] else [CStr ''pg_catalog'', CStr ''public'']))"

subsection \<open>Arrays\<close>

definition arrayToString :: "cval list \<Rightarrow> ('s, cval) cat" where
  "arrayToString args =
     (if length args < 2 then returnC CNil
      else (case hd args of
          CArr xs \<Rightarrow> textC (joinStr (cat_toString (args ! 1)) (map cat_toString (filter (\<lambda>e. e \<noteq> CNil) xs)))
        | v \<Rightarrow> textC (cat_toString v)))"

definition cardinality :: "cval list \<Rightarrow> ('s, cval) cat" where
  "cardinality args = returnC (case hd args of CArr xs \<Rightarrow> onat (length xs) | _ \<Rightarrow> cint 0)"

definition replaceFn :: "cval list \<Rightarrow> ('s, cval) cat" where
  "replaceFn args =
     (if hd args = CNil then returnC CNil
      else textC (ReplaceAll (cat_toString (args ! 0)) (cat_toString (args ! 1)) (cat_toString (args ! 2))))"

definition formatFn :: "cval list \<Rightarrow> ('s, cval) cat" where
  "formatFn args =
     (if args = [] \<or> hd args = CNil then returnC CNil
      else textC (formatFrom (cat_toString (hd args)) (tl args)))"

subsection \<open>The registry\<close>

definition register ::
  "nat \<Rightarrow> nat option \<Rightarrow> (golib \<Rightarrow> cval list \<Rightarrow> ('s, cval) cat) \<Rightarrow> 's funcDef" where
  "register ret args fn = \<lparr>fdRet = ret, fdArgs = args, fdFn = fn\<rparr>"

definition constantFn :: "nat \<Rightarrow> nat option \<Rightarrow> cval \<Rightarrow> 's funcDef" where
  "constantFn ret args v = register ret args (\<lambda>_ _. returnC v)"

definition registerNul :: "nat option \<Rightarrow> 's funcDef" where
  "registerNul args = constantFn OIDText args CNil"

definition registerTrue :: "nat option \<Rightarrow> 's funcDef" where
  "registerTrue args = constantFn OIDBool args (CBool True)"

definition nullFunctions :: "(string \<times> nat option) list" where
  "nullFunctions =
    [(''obj_description'', None), (''shobj_description'', None), (''col_description'', Some 2),
     (''pg_get_expr'', None), (''pg_get_statisticsobjdef_columns'', Some 1), (''pg_get_partkeydef'', Some 1),
     (''pg_get_viewdef'', None), (''pg_get_triggerdef'', None), (''pg_get_constraintdef'', None),
     (''pg_get_indexdef'', None), (''pg_get_functiondef'', None), (''pg_get_serial_sequence'', Some 2),
     (''pg_relation_filenode'', Some 1), (''pg_relation_filepath'', Some 1),
     (''to_regclass'', Some 1), (''to_regnamespace'', Some 1), (''to_regproc'', Some 1),
     (''to_regprocedure'', Some 1), (''to_regtype'', Some 1),
     (''pg_get_function_result'', Some 1), (''pg_get_function_arguments'', Some 1),
     (''pg_get_function_identity_arguments'', Some 1)]"

definition trueFunctions :: "(string \<times> nat option) list" where
  "trueFunctions =
    [(''pg_table_is_visible'', Some 1), (''pg_type_is_visible'', Some 1), (''pg_database_is_visible'', Some 1),
     (''pg_function_is_visible'', Some 1), (''pg_operator_is_visible'', Some 1),
     (''pg_conversion_is_visible'', Some 1), (''pg_ts_config_is_visible'', Some 1),
     (''has_table_privilege'', None), (''has_any_column_privilege'', None), (''has_column_privilege'', None),
     (''has_schema_privilege'', None), (''has_database_privilege'', None), (''has_function_privilege'', None),
     (''has_sequence_privilege'', None), (''pg_column_is_updatable'', None), (''pg_relation_is_updatable'', None)]"

definition otherFunctions :: "(string \<times> 's funcDef) list" where
  "otherFunctions =
    [(''version'', constantFn OIDText (Some 0) (CStr VersionString)),
     (''current_database'', register OIDText (Some 0) (\<lambda>_ _ sn. textC (snDb sn) sn)),
     (''current_schema'', constantFn OIDText (Some 0) (CStr ''public'')),
     (''current_schemas'', register OIDTextArray (Some 1) (\<lambda>_. currentSchemas)),
     (''pg_backend_pid'', constantFn OIDInt4 (Some 0) (cint 1963)),
     (''pg_is_in_recovery'', constantFn OIDBool (Some 0) (CBool False)),
     (''pg_postmaster_start_time'', constantFn OIDTsTz (Some 0) (CStr ''2026-01-01 00:00:00+00'')),
     (''current_setting'', register OIDText None (\<lambda>_. currentSetting)),
     (''set_config'', register OIDText (Some 3) (\<lambda>_. setConfig)),
     (''format_type'', register OIDText None (\<lambda>_. formatType)),
     (''pg_get_userbyid'', constantFn OIDText (Some 1) (CStr ''lyrebird'')),
     (''pg_encoding_to_char'', constantFn OIDText (Some 1) (CStr ''UTF8'')),
     (''pg_relation_size'', constantFn OIDFloat8 None (cint 0)),
     (''pg_total_relation_size'', constantFn OIDFloat8 None (cint 0)),
     (''pg_table_size'', constantFn OIDFloat8 (Some 1) (cint 0)),
     (''pg_indexes_size'', constantFn OIDFloat8 (Some 1) (cint 0)),
     (''pg_database_size'', constantFn OIDFloat8 None (cint 0)),
     (''quote_ident'', register OIDText (Some 1) (\<lambda>_. quoteText)),
     (''quote_literal'', register OIDText (Some 1) (\<lambda>_. quoteText)),
     (''quote_nullable'', register OIDText (Some 1) (\<lambda>_. quoteText)),
     (''format'', register OIDText None (\<lambda>_. formatFn)),
     (''lower'', register OIDText (Some 1) (\<lambda>lib args. textC (glLower lib (cat_toString (hd args))))),
     (''upper'', register OIDText (Some 1) (\<lambda>lib args. textC (glUpper lib (cat_toString (hd args))))),
     (''array_to_string'', register OIDText None (\<lambda>_. arrayToString)),
     (''cardinality'', register OIDInt4 (Some 1) (\<lambda>_. cardinality)),
     (''txid_current'', constantFn OIDInt8 (Some 0) (cint 1)),
     (''replace'', register OIDText (Some 3) (\<lambda>_. replaceFn)),
     (''substring'', register OIDText None (\<lambda>_. substringFn))]"

definition functionRegistry :: "(string \<times> 's funcDef) list" where
  "functionRegistry = otherFunctions @ map (\<lambda>(n, a). (n, registerNul a)) nullFunctions @
     map (\<lambda>(n, a). (n, registerTrue a)) trueFunctions"

text \<open>A schema qualifier of the catalog is decoration.\<close>

definition bareFunction :: "string \<Rightarrow> string" where
  "bareFunction name =
     (if hasPrefix name ''pg_catalog.'' then trimPrefix name ''pg_catalog.''
      else if hasPrefix name ''information_schema.'' then trimPrefix name ''information_schema.''
      else name)"

definition lookupFunction :: "string \<Rightarrow> 's funcDef option" where
  "lookupFunction name = map_of functionRegistry (bareFunction name)"

text \<open>The arity check in front of every call.\<close>

definition callFunction :: "golib \<Rightarrow> string \<Rightarrow> 's funcDef \<Rightarrow> nat \<Rightarrow> ('s, cval list) cat \<Rightarrow> ('s, cval) cat" where
  "callFunction lib name fd n args =
     (case fdArgs fd of
        Some k \<Rightarrow>
          if n \<noteq> k then failC (CatFail (cat_errf [T ''function '', S name, T '' expects '', D (int k),
              T '' argument(s), got '', D (int n)]))
          else bindC args (fdFn fd lib)
      | None \<Rightarrow> bindC args (fdFn fd lib))"

end
