(* ===== verification/CatEval.thy ===== *)
theory CatEval
  imports CatFunctions
begin

text \<open>
  The catalog query evaluator, \<open>internal/catalog/eval.go\<close>, and the static half of a query,
  its output columns (\<open>inferColumns\<close> of \<open>api.go\<close>).

  An expression is translated to its meaning: a computation over a context and a row
  combination. The translation \<open>eval\<close> is primitive recursive on the syntax tree, together with
  \<open>evalItem\<close>, \<open>evalFrom\<close> and \<open>evalQuery\<close>, so every query ends, subqueries included. The
  context holds the sources of the statement and, for a subquery, the enclosing sources with
  their current combination, from the inside out.
\<close>

subsection \<open>Contexts\<close>

type_synonym crow = "string \<Rightarrow> cval option"      \<comment> \<open>\<open>map[string]any\<close>\<close>
type_synonym combo = "crow option list"           \<comment> \<open>\<open>None\<close> is the null row of a left join\<close>

record boundSource =
  bsAlias :: string
  bsCols :: "(string \<times> nat) list"
  bsRows :: "crow list"

type_synonym frame = "boundSource list \<times> combo"

record ectx =
  ecSources :: "boundSource list"
  ecOuter :: "frame list"

type_synonym ('s, 'a) evaluator = "ectx \<Rightarrow> combo \<Rightarrow> ('s, 'a) cat"

text \<open>A source of the FROM clause: reference, kind and join condition.\<close>

type_synonym 'e sourceSpec = "tableRef \<times> string \<times> 'e option"

primrec flattenFrom :: "tableExpr \<Rightarrow> catError + cexpr sourceSpec list" where
  "flattenFrom (TableSource r) = Inr [(r, ''first'', None)]"
| "flattenFrom (JoinExpr l r kind on) =
     bindE (flattenFrom l) (\<lambda>out. case r of
         TableSource ref \<Rightarrow> Inr (out @ [(ref, kind, on)])
       | JoinExpr _ _ _ _ \<Rightarrow> Inl CatPanic)"

definition rowMap :: "(string \<times> nat) list \<Rightarrow> cval list \<Rightarrow> crow" where
  "rowMap cols r = map_of (rev (zip (map fst cols) r))"

definition bindSource :: "'s provider \<Rightarrow> tableRef \<Rightarrow> ('s, boundSource) cat" where
  "bindSource pr r = (case tableRegistry (trName r) of
     None \<Rightarrow> failC (CatFail CatPanic)
   | Some d \<Rightarrow> bindC (table pr d) (\<lambda>rows.
       if list_all (\<lambda>row. length (tdCols d) \<le> length row) rows
       then returnC \<lparr>bsAlias = trAlias r, bsCols = tdCols d, bsRows = map (rowMap (tdCols d)) rows\<rparr>
       else failC (CatFail CatPanic)))"

subsection \<open>Columns\<close>

definition pseudoVars :: "string \<Rightarrow> (string \<Rightarrow> string) option" where
  "pseudoVars name =
     map_of [(''current_user'', \<lambda>db. ''lyrebird''), (''session_user'', \<lambda>db. ''lyrebird''),
       (''current_catalog'', \<lambda>db. db), (''current_schema'', \<lambda>db. ''public''), (''current_timezone'', \<lambda>db. ''UTC'')] name"

text \<open>The cell of a source's row; a combination built so far may be shorter than the source list.\<close>

definition cellAt :: "combo \<Rightarrow> nat \<Rightarrow> string \<Rightarrow> catError + cval" where
  "cellAt c i name =
     (if i < length c
      then Inr (case c ! i of None \<Rightarrow> CNil | Some row \<Rightarrow> (case row name of None \<Rightarrow> CNil | Some v \<Rightarrow> v))
      else Inl CatPanic)"

definition undefinedColumn :: "reason \<Rightarrow> catError" where
  "undefinedColumn r = CatError ''42703'' r"

definition ambiguousColumn :: "string \<Rightarrow> catError" where
  "ambiguousColumn name = CatError ''42702'' [T ''column reference '', Q name, T '' is ambiguous'']"

definition missingFrom :: "string \<Rightarrow> catError" where
  "missingFrom tbl = CatError ''42P01'' [T ''missing FROM-clause entry for table '', Q tbl]"

definition columnSources :: "string \<Rightarrow> boundSource list \<Rightarrow> nat list" where
  "columnSources name srcs = map fst (filter (\<lambda>(i, b). colIndex (bsCols b) name \<noteq> None) (enumerate 0 srcs))"

text \<open>\<open>byAlias\<close>: of two sources under one alias the later one counts.\<close>

definition byAlias :: "boundSource list \<Rightarrow> string \<Rightarrow> nat option" where
  "byAlias srcs a = (case rev (filter (\<lambda>(i, b). bsAlias b = a) (enumerate 0 srcs)) of
     [] \<Rightarrow> None | (i, b) # _ \<Rightarrow> Some i)"

fun evalColumn ::
  "string \<Rightarrow> boundSource list \<Rightarrow> frame list \<Rightarrow> combo \<Rightarrow> string \<Rightarrow> string \<Rightarrow> catError + cval" where
  "evalColumn db srcs outer c tbl name =
     (if tbl = [] then
        (case pseudoVars name of
           Some v \<Rightarrow> Inr (CStr (v db))
         | None \<Rightarrow>
             (case columnSources name srcs of
                [] \<Rightarrow> (case outer of
                    [] \<Rightarrow> Inl (undefinedColumn [T ''column '', Q name, T '' does not exist''])
                  | (srcs', c') # os \<Rightarrow> evalColumn db srcs' os c' tbl name)
              | [i] \<Rightarrow> cellAt c i name
              | i # _ \<Rightarrow> bindE (cellAt c i name) (\<lambda>_. Inl (ambiguousColumn name))))
      else
        (case byAlias srcs tbl of
           None \<Rightarrow> (case outer of
               [] \<Rightarrow> Inl (missingFrom tbl)
             | (srcs', c') # os \<Rightarrow> evalColumn db srcs' os c' tbl name)
         | Some i \<Rightarrow>
             if colIndex (bsCols (srcs ! i)) name = None
             then Inl (undefinedColumn [T ''column '', S tbl, T ''.'', S name, T '' does not exist''])
             else cellAt c i name))"

declare evalColumn.simps [simp del]

subsection \<open>Operators\<close>

text \<open>\<open>fmt.Sprint\<close> of a cell.\<close>

fun sprintCell :: "cval \<Rightarrow> string" where
  "sprintCell CNil = ''<nil>''"
| "sprintCell (CStr s) = s"
| "sprintCell (CNum x) = formatG round64 x"
| "sprintCell (CBool b) = (if b then ''true'' else ''false'')"
| "sprintCell (CArr xs) = bracketed (map sprintCell xs)"

abbreviation failE :: "reason \<Rightarrow> ('s, 'a) cat" where "failE r \<equiv> failC (CatFail (cat_errf r))"
abbreviation boolC :: "bool \<Rightarrow> ('s, cval) cat" where "boolC b \<equiv> returnC (CBool b)"

definition comparisonOps :: "string list" where
  "comparisonOps = [''='', ''<>'', ''<'', ''>'', ''<='', ''>='']"

definition compareAs :: "string \<Rightarrow> int \<Rightarrow> bool" where
  "compareAs op cmp =
     (if op = ''='' then cmp = 0 else if op = ''<>'' then cmp \<noteq> 0 else if op = ''<'' then cmp < 0
      else if op = ''>'' then cmp > 0 else if op = ''<='' then cmp \<le> 0 else cmp \<ge> 0)"

definition arith :: "string \<Rightarrow> gofloat \<Rightarrow> gofloat \<Rightarrow> catError + gofloat" where
  "arith op x y =
     (if op = ''+'' then Inr (fadd x y) else if op = ''-'' then Inr (fsub x y)
      else if op = ''*'' then Inr (fmul x y)
      else if fzero y then Inl (cat_errf [T ''division by zero'']) else Inr (fdiv x y))"

text \<open>The operators over values. The right operand of \<open>BETWEEN\<close> has been evaluated before the
  operator is looked at, which fails for the only shape the parser builds; what stands behind is
  reached with no such operand.\<close>

definition applyOp :: "golib \<Rightarrow> string \<Rightarrow> bool \<Rightarrow> bool \<Rightarrow> cval \<Rightarrow> cval \<Rightarrow> ('s, cval) cat" where
  "applyOp lib op neg anyList l r =
     (if op \<in> set comparisonOps then
        (if anyList then
           (case r of CArr xs \<Rightarrow> boolC ((\<exists>x \<in> set xs. compareValues l x = 0) \<noteq> neg) | _ \<Rightarrow> boolC False)
         else boolC (compareAs op (compareValues l r) \<noteq> neg))
      else if op = ''like'' \<or> op = ''ilike'' then boolC (likeMatch lib l r (op = ''ilike'') \<noteq> neg)
      else if op \<in> {''~'', ''!~'', ''~*'', ''!~*''} then
        (case regexMatch lib l r (hasSuffix op ''*'') of
           Inl m \<Rightarrow> failC (RegexpFail m)
         | Inr b \<Rightarrow> boolC (b \<noteq> hasPrefix op ''!''))
      else if op = ''BETWEEN'' then failE [T ''internal: malformed BETWEEN'']
      else if op = ''||'' then returnC (CStr (cat_toString l @ cat_toString r))
      else if op \<in> {''+'', ''-'', ''*'', ''/''} then
        (case (toFloat l, toFloat r) of
           (Some x, Some y) \<Rightarrow> ofE (bindE (arith op x y) (\<lambda>z. Inr (CNum z)))
         | _ \<Rightarrow> failE [T ''arithmetic over non-numeric values''])
      else failE [T ''unknown operator '', S op])"

definition evalBinary ::
  "golib \<Rightarrow> string \<Rightarrow> bool \<Rightarrow> bool \<Rightarrow> ('s, cval) cat \<Rightarrow> ('s, cval) cat \<Rightarrow> ('s, cval) cat" where
  "evalBinary lib op neg anyList l r =
     (if op = ''AND'' then
        bindC l (\<lambda>lv. if \<not> truth lv then boolC False else bindC r (\<lambda>rv. boolC (truth rv)))
      else if op = ''OR'' then
        bindC l (\<lambda>lv. if truth lv then boolC True else bindC r (\<lambda>rv. boolC (truth rv)))
      else bindC l (\<lambda>lv. bindC r (\<lambda>rv. applyOp lib op neg anyList lv rv)))"

fun findEqual :: "cval \<Rightarrow> ('s, cval) cat list \<Rightarrow> ('s, bool) cat" where
  "findEqual v [] = returnC False"
| "findEqual v (m # ms) =
     bindC m (\<lambda>lv. if compareValues v lv = 0 then returnC True else findEqual v ms)"

fun evalWhens ::
  "cval option \<Rightarrow> (('s, cval) cat \<times> ('s, cval) cat) list \<Rightarrow> ('s, cval) cat \<Rightarrow> ('s, cval) cat" where
  "evalWhens operand [] els = els"
| "evalWhens operand ((cond, body) # ws) els =
     bindC cond (\<lambda>v.
       if (case operand of Some x \<Rightarrow> compareValues x v = 0 | None \<Rightarrow> truth v) then body
       else evalWhens operand ws els)"

definition evalUnary :: "string \<Rightarrow> ('s, cval) cat \<Rightarrow> ('s, cval) cat" where
  "evalUnary op m =
     (if op = ''NOT'' then bindC m (\<lambda>v. boolC (\<not> truth v))
      else if op = ''NEG'' then bindC m (\<lambda>v. case toFloat v of
           Some x \<Rightarrow> returnC (CNum (fneg x))
         | None \<Rightarrow> failE [T ''cannot negate '', V (sprintCell v)])
      else failE [T ''unknown unary operator '', S op])"

definition subscript :: "cval \<Rightarrow> cval \<Rightarrow> catError + cval" where
  "subscript base idx = (case base of
     CArr xs \<Rightarrow> (case toFloat idx of
        None \<Rightarrow> Inl (cat_errf [T ''array subscript must be a number''])
      | Some x \<Rightarrow> let n = intOfFloat x in
          Inr (if n < 1 \<or> n > int (length xs) then CNil else xs ! nat (n - 1)))
   | _ \<Rightarrow> Inl (cat_errf [T ''cannot subscript a non-array value'']))"

definition paramValue :: "cval list \<Rightarrow> int \<Rightarrow> catError + cval" where
  "paramValue params n =
     (if n < 1 \<or> n > int (length params)
      then Inl (cat_errf [T ''there is no parameter $'', D n]) else Inr (params ! nat (n - 1)))"

definition evalFunction :: "golib \<Rightarrow> string \<Rightarrow> ('s, cval) cat list \<Rightarrow> ('s, cval) cat" where
  "evalFunction lib name args = (case lookupFunction name of
     None \<Rightarrow> failC (CatFail (funcErrf name))
   | Some fd \<Rightarrow> callFunction lib name fd (length args) (mapC (\<lambda>m. m) args))"

text \<open>The scalar value of a subquery's rows, and their first column.\<close>

definition scalarOf :: "cval list list \<Rightarrow> cval" where
  "scalarOf rows = (case rows of (v # _) # _ \<Rightarrow> v | _ \<Rightarrow> CNil)"

definition firstColumn :: "cval list list \<Rightarrow> cval" where
  "firstColumn rows = CArr (map hd (filter (\<lambda>r. r \<noteq> []) rows))"

subsection \<open>Joining, filtering, projecting\<close>

type_synonym ('s) step = "boundSource \<times> string \<times> ('s, cval) evaluator option"

definition extendCombo :: "ectx \<Rightarrow> 's step \<Rightarrow> combo \<Rightarrow> ('s, combo list) cat" where
  "extendCombo cx st c = (case st of (b, kind, on) \<Rightarrow>
     bindC (filterC (\<lambda>c2. case on of None \<Rightarrow> returnC True | Some f \<Rightarrow> bindC (f cx c2) (\<lambda>v. returnC (truth v)))
             (map (\<lambda>row. c @ [Some row]) (bsRows b)))
       (\<lambda>next. returnC (if kind = ''left'' \<and> next = [] then [c @ [None]] else next)))"

fun joinFrom :: "ectx \<Rightarrow> 's step list \<Rightarrow> combo list \<Rightarrow> ('s, combo list) cat" where
  "joinFrom cx [] combos = returnC combos"
| "joinFrom cx (st # sts) combos =
     bindC (mapC (extendCombo cx st) combos) (\<lambda>parts. joinFrom cx sts (concat parts))"

definition joinRows :: "ectx \<Rightarrow> 's step list \<Rightarrow> ('s, combo list) cat" where
  "joinRows cx sts = joinFrom cx sts [[]]"

definition filterRows :: "ectx \<Rightarrow> ('s, cval) evaluator option \<Rightarrow> combo list \<Rightarrow> ('s, combo list) cat" where
  "filterRows cx cond combos = (case cond of
     None \<Rightarrow> returnC combos
   | Some f \<Rightarrow> filterC (\<lambda>c. bindC (f cx c) (\<lambda>v. returnC (truth v))) combos)"

text \<open>The cells of a star: of every source, or of those under one alias.\<close>

definition starCells :: "ectx \<Rightarrow> combo \<Rightarrow> string \<Rightarrow> catError + cval list" where
  "starCells cx c tbl =
     bindE (mapE (\<lambda>(i, b). mapE (\<lambda>col. cellAt c i (fst col)) (bsCols b))
             (filter (\<lambda>(i, b). tbl = [] \<or> bsAlias b = tbl) (enumerate 0 (ecSources cx))))
       (\<lambda>parts. Inr (concat parts))"

definition project :: "ectx \<Rightarrow> ('s, cval list) evaluator list \<Rightarrow> combo list \<Rightarrow> ('s, cval list list) cat" where
  "project cx items combos =
     mapC (\<lambda>c. bindC (mapC (\<lambda>f. f cx c) items) (\<lambda>parts. returnC (concat parts))) combos"

text \<open>Rows count as equal when they print alike.\<close>

definition rowKey :: "cval list \<Rightarrow> string" where
  "rowKey r = bracketed (map sprintCell r)"

fun distinctFrom :: "string list \<Rightarrow> cval list list \<Rightarrow> cval list list" where
  "distinctFrom seen [] = []"
| "distinctFrom seen (r # rs) =
     (if rowKey r \<in> set seen then distinctFrom seen rs else r # distinctFrom (rowKey r # seen) rs)"

definition distinctRows :: "cval list list \<Rightarrow> cval list list" where
  "distinctRows rows = distinctFrom [] rows"

subsection \<open>Output columns\<close>

type_synonym col = "string \<times> nat"
type_synonym boundDef = "string \<times> (string \<times> nat) list"   \<comment> \<open>alias and columns\<close>

definition columnOID :: "boundDef list \<Rightarrow> string \<Rightarrow> string \<Rightarrow> nat" where
  "columnOID bound tbl name =
     (if tbl = [] \<and> pseudoVars name \<noteq> None then OIDText
      else (case List.map_filter (\<lambda>(a, cols). if tbl = [] \<or> a = tbl
                then map_option (\<lambda>i. snd (cols ! i)) (colIndex cols name) else None) bound of
          oid # _ \<Rightarrow> oid | [] \<Rightarrow> OIDText))"

definition boolOps :: "string list" where
  "boolOps = [''AND'', ''OR'', ''='', ''<>'', ''<'', ''>'', ''<='', ''>='', ''LIKE'', ''ILIKE'',
     ''~'', ''!~'', ''~*'', ''!~*'', ''BETWEEN'']"

definition numberCastTargets :: "string list" where
  "numberCastTargets = [''int2'', ''int4'', ''int8'', ''integer'', ''smallint'', ''bigint'', ''oid'',
     ''float4'', ''float8'', ''real'', ''double precision'', ''numeric'']"

fun inferOID :: "boundDef list \<Rightarrow> cexpr \<Rightarrow> nat" where
  "inferOID bound (Literal v) = (case v of CBool _ \<Rightarrow> OIDBool | CNum _ \<Rightarrow> OIDFloat8 | _ \<Rightarrow> OIDText)"
| "inferOID bound (ColRef tbl name) = columnOID bound tbl name"
| "inferOID bound (FuncCall name args) =
     (case lookupFunction name of Some fd \<Rightarrow> fdRet (fd :: unit funcDef) | None \<Rightarrow> OIDText)"
| "inferOID bound (BinExpr op l r neg al) = (if op \<in> set boolOps then OIDBool else OIDFloat8)"
| "inferOID bound (IsNullExpr e neg) = OIDBool"
| "inferOID bound (InExpr e xs neg) = OIDBool"
| "inferOID bound (CaseExpr operand ((cond, body) # ws) els) = inferOID bound body"
| "inferOID bound (CastExpr e target) =
     (if target = ''bool'' \<or> target = ''boolean'' then OIDBool
      else if target \<in> set numberCastTargets then OIDFloat8 else OIDText)"
| "inferOID bound (UnaryExpr op e) = OIDFloat8"
| "inferOID bound e = OIDText"

definition unknownRelation :: "string \<Rightarrow> catError" where
  "unknownRelation name = CatError ''42P01'' [T ''relation '', T [CHR 34], S name, T [CHR 34], T '' does not exist'']"

definition starColumns :: "boundDef list \<Rightarrow> string \<Rightarrow> catError + col list" where
  "starColumns bound tbl =
     (case filter (\<lambda>(a, cols). tbl = [] \<or> a = tbl) bound of
        [] \<Rightarrow> Inl (if tbl \<noteq> [] then unknownRelation tbl
                 else cat_errf [T ''cannot expand *: no FROM tables''])
      | bs \<Rightarrow> Inr (concat (map snd bs)))"

definition itemColumns :: "boundDef list \<Rightarrow> selectItem \<Rightarrow> catError + col list" where
  "itemColumns bound item = (case item of
     ItemExpr e name \<Rightarrow> Inr [(name, inferOID bound e)]
   | ItemStar tbl \<Rightarrow> starColumns bound tbl)"

definition inferColumns :: "selectItem list \<Rightarrow> boundDef list \<Rightarrow> catError + col list" where
  "inferColumns items bound = bindE (mapE (itemColumns bound) items) (\<lambda>parts. Inr (concat parts))"

subsection \<open>Ordering and the window\<close>

text \<open>\<open>sort.SliceStable\<close> on a block of at most 20 rows: each row moves left past its neighbours
  while it is less than them. Longer inputs are merged from such blocks; for a consistent order
  the stable result is the same.\<close>

fun insertBack :: "('a \<Rightarrow> 'a \<Rightarrow> bool) \<Rightarrow> 'a \<Rightarrow> 'a list \<Rightarrow> 'a list" where
  "insertBack lt x [] = [x]"
| "insertBack lt x (y # ys) = (if lt x y then y # insertBack lt x ys else x # y # ys)"

definition sliceStable :: "('a \<Rightarrow> 'a \<Rightarrow> bool) \<Rightarrow> 'a list \<Rightarrow> 'a list" where
  "sliceStable lt xs = rev (foldl (\<lambda>ys x. insertBack lt x ys) [] xs)"

fun compareKeys :: "bool list \<Rightarrow> cval list \<Rightarrow> cval list \<Rightarrow> int" where
  "compareKeys (d # ds) (a # as) (b # bs) =
     (let c = (if d then - compareValues a b else compareValues a b) in
      if c \<noteq> 0 then c else compareKeys ds as bs)"
| "compareKeys _ _ _ = 0"

text \<open>An output column by position, or by name (of two columns with one name the later).\<close>

definition orderColumn :: "col list \<Rightarrow> cexpr \<Rightarrow> nat option" where
  "orderColumn cols e = (case e of
     Literal (CNum x) \<Rightarrow>
       (let n = intOfFloat x in
        if x = floatOfInt n \<and> 1 \<le> n \<and> n \<le> int (length cols) then Some (nat (n - 1)) else None)
   | ColRef tbl name \<Rightarrow>
       if tbl = [] then
         (case rev (filter (\<lambda>(i, c). fst c = name) (enumerate 0 cols)) of [] \<Rightarrow> None | (i, c) # _ \<Rightarrow> Some i)
       else None
   | _ \<Rightarrow> None)"

definition termKeys ::
  "ectx \<Rightarrow> col list \<Rightarrow> combo list \<Rightarrow> cval list list \<Rightarrow> cexpr \<times> ('s, cval) evaluator \<Rightarrow> ('s, cval list) cat" where
  "termKeys cx cols combos proj t = (case orderColumn cols (fst t) of
     Some i \<Rightarrow> mapC (\<lambda>r. if i < length r then returnC (r ! i) else failC (CatFail CatPanic)) proj
   | None \<Rightarrow> mapC (\<lambda>k. if k < length combos then snd t cx (combos ! k) else failC (CatFail CatPanic))
       [0..<length proj])"

definition cat_sortRows ::
  "ectx \<Rightarrow> col list \<Rightarrow> combo list \<Rightarrow> ((cexpr \<times> ('s, cval) evaluator) \<times> bool) list \<Rightarrow> cval list list \<Rightarrow>
   ('s, cval list list) cat" where
  "cat_sortRows cx cols combos order proj =
     (if order = [] then returnC proj
      else bindC (mapC (termKeys cx cols combos proj) (map fst order)) (\<lambda>keys.
        returnC (map snd (sliceStable (\<lambda>a b. compareKeys (map snd order) (fst a) (fst b) < 0)
          (map (\<lambda>k. (map (\<lambda>col. col ! k) keys, proj ! k)) [0..<length proj])))))"

definition constInt :: "ectx \<Rightarrow> ('s, cval) evaluator option \<Rightarrow> ('s, int) cat" where
  "constInt cx e = (case e of
     None \<Rightarrow> returnC (-1)
   | Some f \<Rightarrow> (\<lambda>sn. case f cx [] sn of
        (Inl (CatFail CatPanic), sn') \<Rightarrow> (Inl (CatFail CatPanic), sn')
      | (Inr (CNum x), sn') \<Rightarrow> (Inr (intOfFloat x), sn')
      | (_, sn') \<Rightarrow> (Inr (-1), sn')))"

definition windowOf :: "int \<Rightarrow> int \<Rightarrow> 'a list \<Rightarrow> 'a list" where
  "windowOf offset lim rows =
     (let rows = (if 0 < offset then (if int (length rows) \<le> offset then [] else drop (nat offset) rows) else rows) in
      if 0 \<le> lim \<and> lim < int (length rows) then take (nat lim) rows else rows)"

definition windowRows ::
  "ectx \<Rightarrow> ('s, cval) evaluator option \<Rightarrow> ('s, cval) evaluator option \<Rightarrow> cval list list \<Rightarrow> ('s, cval list list) cat" where
  "windowRows cx offset lim rows =
     bindC (constInt cx offset) (\<lambda>off. bindC (constInt cx lim) (\<lambda>n. returnC (windowOf off n rows)))"

subsection \<open>Queries\<close>

text \<open>A statement with its expressions translated; the items and the order terms also as written.\<close>

record 's query =
  qyItems :: "selectItem list"
  qyCells :: "('s, cval list) evaluator list"
  qyFrom :: "catError + ('s, cval) evaluator sourceSpec list"
  qyWhere :: "('s, cval) evaluator option"
  qyOrder :: "((cexpr \<times> ('s, cval) evaluator) \<times> bool) list"
  qyLimit :: "('s, cval) evaluator option"
  qyOffset :: "('s, cval) evaluator option"
  qyDistinct :: bool
  qyUnion :: "((frame list \<Rightarrow> ('s, cval list list) cat) \<times> bool) list"

definition bindSources :: "'s provider \<Rightarrow> ('s, cval) evaluator sourceSpec list \<Rightarrow> ('s, boundSource list) cat" where
  "bindSources pr specs = mapC (\<lambda>sp. bindSource pr (fst sp)) specs"

definition projected ::
  "ectx \<Rightarrow> 's query \<Rightarrow> ('s, cval) evaluator sourceSpec list \<Rightarrow> ('s, combo list \<times> cval list list) cat" where
  "projected cx q specs =
     bindC (joinRows cx (zip (ecSources cx) (map snd specs))) (\<lambda>combos.
     bindC (filterRows cx (qyWhere q) combos) (\<lambda>combos.
     bindC (project cx (qyCells q) combos) (\<lambda>proj.
     returnC (combos, if qyDistinct q then distinctRows proj else proj))))"

definition unionRows ::
  "((frame list \<Rightarrow> ('s, cval list list) cat) \<times> bool) list \<Rightarrow> frame list \<Rightarrow> cval list list \<Rightarrow> ('s, cval list list) cat" where
  "unionRows branches outer proj =
     bindC (mapC (\<lambda>branch. fst branch outer) branches) (\<lambda>parts.
       let rows = proj @ concat parts in
       returnC (if branches \<noteq> [] \<and> \<not> snd (last branches) then distinctRows rows else rows))"

definition runQuery :: "'s provider \<Rightarrow> 's query \<Rightarrow> frame list \<Rightarrow> ('s, cval list list) cat" where
  "runQuery pr q outer =
     bindC (ofE (qyFrom q)) (\<lambda>specs.
     bindC (bindSources pr specs) (\<lambda>srcs.
     let cx = \<lparr>ecSources = srcs, ecOuter = outer\<rparr> in
     bindC (projected cx q specs) (\<lambda>(combos, proj).
     bindC (unionRows (qyUnion q) outer proj) (\<lambda>proj.
     bindC (ofE (inferColumns (qyItems q) (map (\<lambda>b. (bsAlias b, bsCols b)) srcs))) (\<lambda>cols.
     bindC (cat_sortRows cx cols combos (qyOrder q) proj) (\<lambda>proj.
     windowRows cx (qyOffset q) (qyLimit q) proj))))))"

definition subFrames :: "ectx \<Rightarrow> combo \<Rightarrow> frame list" where
  "subFrames cx c = (ecSources cx, c) # ecOuter cx"

primrec eval :: "golib \<Rightarrow> 's provider \<Rightarrow> cexpr \<Rightarrow> ('s, cval) evaluator"
  and evalItem :: "golib \<Rightarrow> 's provider \<Rightarrow> selectItem \<Rightarrow> ('s, cval list) evaluator"
  and evalFrom :: "golib \<Rightarrow> 's provider \<Rightarrow> tableExpr \<Rightarrow> catError + ('s, cval) evaluator sourceSpec list"
  and evalQuery :: "golib \<Rightarrow> 's provider \<Rightarrow> stmt \<Rightarrow> frame list \<Rightarrow> ('s, cval list list) cat" where
  "eval lib pr (Literal v) = (\<lambda>cx c. returnC v)"
| "eval lib pr (ParamRef n) = (\<lambda>cx c sn. ofE (paramValue (snParams sn) n) sn)"
| "eval lib pr (ColRef tbl name) = (\<lambda>cx c sn. ofE (evalColumn (snDb sn) (ecSources cx) (ecOuter cx) c tbl name) sn)"
| "eval lib pr (FuncCall name args) =
     (let fs = map (eval lib pr) args in (\<lambda>cx c. evalFunction lib name (map (\<lambda>f. f cx c) fs)))"
| "eval lib pr (IsNullExpr e neg) =
     (let f = eval lib pr e in (\<lambda>cx c. bindC (f cx c) (\<lambda>v. boolC ((v = CNil) \<noteq> neg))))"
| "eval lib pr (InExpr e xs neg) =
     (let f = eval lib pr e; fs = map (eval lib pr) xs in (\<lambda>cx c.
        bindC (f cx c) (\<lambda>v. bindC (findEqual v (map (\<lambda>g. g cx c) fs)) (\<lambda>found. boolC (found \<noteq> neg)))))"
| "eval lib pr (BinExpr op l r neg anyList) =
     (let f = eval lib pr l; g = eval lib pr r in (\<lambda>cx c. evalBinary lib op neg anyList (f cx c) (g cx c)))"
| "eval lib pr (UnaryExpr op e) = (let f = eval lib pr e in (\<lambda>cx c. evalUnary op (f cx c)))"
| "eval lib pr (CaseExpr operand whens els) =
     (let f = map_option (eval lib pr) operand; ws = map (map_prod (eval lib pr) (eval lib pr)) whens;
          g = map_option (eval lib pr) els in (\<lambda>cx c.
        bindC (case f of None \<Rightarrow> returnC None | Some m \<Rightarrow> bindC (m cx c) (\<lambda>v. returnC (Some v))) (\<lambda>operand.
        evalWhens operand (map (\<lambda>(a, b). (a cx c, b cx c)) ws)
          (case g of None \<Rightarrow> returnC CNil | Some m \<Rightarrow> m cx c))))"
| "eval lib pr (CastExpr e target) =
     (let f = eval lib pr e in (\<lambda>cx c. bindC (f cx c) (\<lambda>v. returnC (coerceCast v target))))"
| "eval lib pr (SubscriptExpr base idx) =
     (let f = eval lib pr base; g = eval lib pr idx in (\<lambda>cx c.
        bindC (f cx c) (\<lambda>a. bindC (g cx c) (\<lambda>i. ofE (subscript a i)))))"
| "eval lib pr (SubqueryExpr st) =
     (let q = evalQuery lib pr st in (\<lambda>cx c. bindC (q (subFrames cx c)) (\<lambda>rows. returnC (scalarOf rows))))"
| "eval lib pr (ArraySubqueryExpr st) =
     (let q = evalQuery lib pr st in (\<lambda>cx c. bindC (q (subFrames cx c)) (\<lambda>rows. returnC (firstColumn rows))))"
| "eval lib pr (BetweenTail lo hi) =
     (\<lambda>cx c. failE [T ''cannot evaluate expression node '', V ''catalog.betweenTail''])"
| "evalItem lib pr (ItemExpr e name) = (let f = eval lib pr e in (\<lambda>cx c. bindC (f cx c) (\<lambda>v. returnC [v])))"
| "evalItem lib pr (ItemStar tbl) = (\<lambda>cx c. ofE (starCells cx c tbl))"
| "evalFrom lib pr (TableSource r) = Inr [(r, ''first'', None)]"
| "evalFrom lib pr (JoinExpr l r kind on) =
     bindE (evalFrom lib pr l) (\<lambda>out. case r of
         TableSource ref \<Rightarrow> Inr (out @ [(ref, kind, map_option (eval lib pr) on)])
       | JoinExpr _ _ _ _ \<Rightarrow> Inl CatPanic)"
| "evalQuery lib pr (Stmt items src cond order lim off dist mp branches) =
     runQuery pr \<lparr>qyItems = items, qyCells = map (evalItem lib pr) items,
       qyFrom = (case map_option (evalFrom lib pr) src of None \<Rightarrow> Inr [] | Some specs \<Rightarrow> specs),
       qyWhere = map_option (eval lib pr) cond,
       qyOrder = map2 (\<lambda>o' f. ((fst o', fst f), snd o')) order (map (map_prod (eval lib pr) id) order),
       qyLimit = map_option (eval lib pr) lim, qyOffset = map_option (eval lib pr) off,
       qyDistinct = dist, qyUnion = map (map_prod (evalQuery lib pr) id) branches\<rparr>"

end
