(* ===== verification/CatSpecial.thy ===== *)
theory CatSpecial
  imports CatEval
begin

text \<open>
  The named special cases, \<open>internal/catalog/special.go\<close>: queries of the JDBC driver whose shape
  the engine cannot parse, recognised by landmarks in their text and answered by dedicated row
  generators.
\<close>

subsection \<open>Recognition\<close>

definition matchLandmarks :: "string \<Rightarrow> string list \<Rightarrow> bool" where
  "matchLandmarks q landmarks \<longleftrightarrow> list_all (containsStr q) landmarks"

definition matchGetColumns :: "string \<Rightarrow> bool" where
  "matchGetColumns q \<longleftrightarrow> matchLandmarks q [''row_number() OVER (PARTITION BY a.attrelid'']"

text \<open>A landmark with single quotes: \<open>con.contype = 'p'\<close> and the like.\<close>

definition contypeIs :: "string \<Rightarrow> string" where
  "contypeIs k = ''con.contype = '' @ [CHR 39] @ k @ [CHR 39]"

definition matchGetPrimaryKeys :: "string \<Rightarrow> bool" where
  "matchGetPrimaryKeys q \<longleftrightarrow> matchLandmarks q [''_pg_expandarray'', contypeIs ''p'']"

definition matchGetPrimaryUniqueKeys :: "string \<Rightarrow> bool" where
  "matchGetPrimaryUniqueKeys q \<longleftrightarrow> matchLandmarks q [''_pg_expandarray'', ''indpred IS NULL'', ''indexprs IS NULL'']"

definition matchGetBestRowIdentifier :: "string \<Rightarrow> bool" where
  "matchGetBestRowIdentifier q \<longleftrightarrow> matchLandmarks q [''_pg_expandarray'', ''i.indisprimary''] \<and>
     \<not> containsStr q (contypeIs ''p'') \<and> \<not> containsStr q ''indpred IS NULL''"

definition matchGetImportedExportedKeys :: "string \<Rightarrow> bool" where
  "matchGetImportedExportedKeys q \<longleftrightarrow> matchLandmarks q [''generate_series'', contypeIs ''f'' @ '' '']"

definition matchGetTypeInfo :: "string \<Rightarrow> bool" where
  "matchGetTypeInfo q \<longleftrightarrow> matchLandmarks q [''SELECT t.typname,t.oid FROM pg_catalog.pg_type'']"

definition matchGetUDTs :: "string \<Rightarrow> bool" where
  "matchGetUDTs q \<longleftrightarrow>
     matchLandmarks q [''typtype IN ('' @ [CHR 39] @ ''c'' @ [CHR 39] @ '','' @ [CHR 39] @ ''d'' @ [CHR 39] @ '')'']"

definition matchGetIndexInfo :: "string \<Rightarrow> bool" where
  "matchGetIndexInfo q \<longleftrightarrow> matchLandmarks q [''pg_get_indexdef'', ''_pg_expandarray'', ''indoption'']"

definition matchGetFunctionColumns :: "string \<Rightarrow> bool" where
  "matchGetFunctionColumns q \<longleftrightarrow>
     matchLandmarks q [''AS '' @ [CHR 34] @ ''FUNCTION_CAT'' @ [CHR 34], ''ORDER BY FUNCTION_SCHEM'']"

subsection \<open>Parameter slots\<close>

record paramSlot =
  psColumn :: string
  psLike :: bool

text \<open>The regular expression of the source: a name with at most one qualifier, white space,
  \<open>LIKE\<close> or \<open>=\<close>, and a marker. Each of its choices is settled by the next character, so it can
  be matched from the left without going back; the rest behind the match is returned.\<close>

definition regexSpace :: "char \<Rightarrow> bool" where
  "regexSpace c \<longleftrightarrow> byte c \<in> {9, 10, 12, 13, 32}"

definition nameStart :: "char \<Rightarrow> bool" where
  "nameStart c \<longleftrightarrow> isLetter c \<or> c = CHR ''_''"

definition namePart :: "char \<Rightarrow> bool" where
  "namePart c \<longleftrightarrow> nameStart c \<or> isDigit c"

definition slotName :: "string \<Rightarrow> (string \<times> string) option" where
  "slotName s =
     (if s \<noteq> [] \<and> nameStart (hd s) then
        (let a = takeWhile namePart s; r = dropWhile namePart s in
         if length r > 1 \<and> hd r = CHR ''.'' \<and> nameStart (r ! 1)
         then Some (takeWhile namePart (tl r), dropWhile namePart (tl r)) else Some (a, r))
      else None)"

definition slotMarker :: "string \<Rightarrow> string option" where
  "slotMarker s =
     (if s \<noteq> [] \<and> hd s = CHR ''?'' then Some (tl s)
      else if length s > 1 \<and> hd s = CHR ''$'' \<and> isDigit (s ! 1) then Some (dropWhile isDigit (tl s))
      else None)"

definition slotAt :: "string \<Rightarrow> (paramSlot \<times> string) option" where
  "slotAt s = (case slotName s of
     None \<Rightarrow> None
   | Some (col, r) \<Rightarrow>
       if r = [] \<or> \<not> regexSpace (hd r) then None
       else let r = dropWhile regexSpace r;
                op = (if hasPrefix r ''LIKE'' then Some (True, drop 4 r)
                      else if hasPrefix r ''='' then Some (False, drop 1 r) else None)
         in (case op of
               None \<Rightarrow> None
             | Some (like, r) \<Rightarrow>
                 map_option (\<lambda>r. (\<lparr>psColumn = map lowerChar col, psLike = like\<rparr>, r))
                   (slotMarker (dropWhile regexSpace r))))"

function scanParamSlots :: "string \<Rightarrow> paramSlot list" where
  "scanParamSlots [] = []"
| "scanParamSlots (c # s) = (case slotAt (c # s) of
     Some (slot, r) \<Rightarrow> if length r < length (c # s) then slot # scanParamSlots r else []
   | None \<Rightarrow> scanParamSlots s)"
  by pat_completeness auto
termination by (relation "measure length") auto

definition slotFilter :: "paramSlot list \<Rightarrow> cval list \<Rightarrow> string list \<Rightarrow> string" where
  "slotFilter slots params aliases =
     (case filter (\<lambda>(i, sl). psColumn sl \<in> set (map (map lowerChar) aliases) \<and> i < length params) (enumerate 0 slots) of
        [] \<Rightarrow> []
      | (i, _) # _ \<Rightarrow> (case params ! i of CStr v \<Rightarrow> v | _ \<Rightarrow> []))"

definition likeFilter :: "golib \<Rightarrow> string \<Rightarrow> string \<Rightarrow> bool" where
  "likeFilter lib pattern name \<longleftrightarrow> pattern = [] \<or> likeMatch lib (CStr name) (CStr pattern) False"

subsection \<open>Row vocabulary\<close>

definition jdbcType :: "nat \<Rightarrow> cval" where
  "jdbcType oid = cint
     (if oid = OIDBool then -7 else if oid = OIDBytea then -2
      else if oid \<in> {OIDChar, OIDBpChar} then 1
      else if oid \<in> {OIDName, OIDText, OIDVarChar} then 12
      else if oid \<in> {OIDInt8, OIDOID} then -5
      else if oid = OIDInt2 then 5 else if oid = OIDInt4 then 4
      else if oid = OIDFloat4 then 7 else if oid = OIDFloat8 then 8 else if oid = OIDNumeric then 2
      else if oid = OIDDate then 91 else if oid = OIDTime then 92
      else if oid \<in> {OIDTs, OIDTsTz} then 93
      else if oid \<in> {OIDInt2Array, OIDInt4Array, OIDInt8Array, OIDTextArray, OIDOIDArray} then 2003
      else 1111)"

definition jdbcPrecision :: "nat \<Rightarrow> fieldMeta \<Rightarrow> cval" where
  "jdbcPrecision oid f = cint
     (if oid = OIDVarChar then (if fmMaxLength f > 0 then fmMaxLength f else 2147483647)
      else if oid = OIDFloat8 then 53 else if oid = OIDFloat4 then 24
      else if oid \<in> {OIDBool, OIDChar, OIDBpChar} then 1
      else if oid \<in> {OIDInt8, OIDOID} then 19
      else if oid = OIDInt4 then 10 else if oid = OIDInt2 then 5 else 2147483647)"

definition nullableCode :: "bool \<Rightarrow> cval" where
  "nullableCode b = cint (if b then 1 else 0)"

definition catalogMetas :: "'s provider \<Rightarrow> ('s, collectionMeta list) cat" where
  "catalogMetas pr = bindC (collectionMetas pr) (\<lambda>metas. returnC (map fst metas))"

definition pkKeyFields :: "collectionMeta \<Rightarrow> fieldMeta list" where
  "pkKeyFields coll = filter fmPrimary (cmFields coll)"

subsection \<open>Columns and rows of the cases\<close>

abbreviation textCol :: "string \<Rightarrow> col" where "textCol name \<equiv> (name, OIDText)"

definition getColumnsCols :: "col list" where
  "getColumnsCols =
    [textCol ''TABLE_CAT'', textCol ''TABLE_SCHEM'', textCol ''TABLE_NAME'', textCol ''COLUMN_NAME'',
     (''DATA_TYPE'', OIDInt2), textCol ''TYPE_NAME'', (''COLUMN_SIZE'', OIDInt4),
     textCol ''BUFFER_LENGTH'', (''DECIMAL_DIGITS'', OIDInt4), (''NUM_PREC_RADIX'', OIDInt4),
     (''NULLABLE'', OIDInt4), textCol ''REMARKS'', textCol ''COLUMN_DEF'',
     (''SQL_DATA_TYPE'', OIDInt4), (''SQL_DATETIME_SUB'', OIDInt4),
     (''CHAR_OCTET_LENGTH'', OIDInt4), (''ORDINAL_POSITION'', OIDInt4), textCol ''IS_NULLABLE'',
     textCol ''SCOPE_CATALOG'', textCol ''SCOPE_SCHEMA'', textCol ''SCOPE_TABLE'',
     (''SOURCE_DATA_TYPE'', OIDInt2), textCol ''IS_AUTOINCREMENT'', textCol ''IS_GENERATEDCOLUMN'']"

definition getColumnsRow :: "string \<Rightarrow> collectionMeta \<Rightarrow> nat \<Rightarrow> fieldMeta \<Rightarrow> cval list" where
  "getColumnsRow db coll i f =
     (let oid = FieldTypeOID (fmType f); size' = jdbcPrecision oid f in
      [CStr db, CStr ''public'', CStr (cmName coll), CStr (fmName f),
       jdbcType oid, CStr (typName oid), size',
       CNil, cint 0, cint 10,
       nullableCode (fmNullable f), CNil, CNil,
       CNil, CNil,
       size', onat (i + 1), CStr (boolText (fmNullable f)),
       CNil, CNil, CNil,
       CNil, CStr ''NO'', CStr ''NO''])"

definition schemaFilter :: "string \<Rightarrow> cval list \<Rightarrow> string" where
  "schemaFilter query params = slotFilter (scanParamSlots query) params [''nspname'', ''table_schem'']"

definition tableFilter :: "string \<Rightarrow> cval list \<Rightarrow> string" where
  "tableFilter query params = slotFilter (scanParamSlots query) params [''relname'', ''table_name'']"

definition runGetColumns :: "golib \<Rightarrow> 's provider \<Rightarrow> string \<Rightarrow> ('s, cval list list) cat" where
  "runGetColumns lib pr query = (\<lambda>sn.
     let params = snParams sn;
         columnFilter = slotFilter (scanParamSlots query) params [''attname'', ''column_name'']
     in bindC (catalogMetas pr) (\<lambda>metas. returnC (concat (map (\<lambda>coll.
          if likeFilter lib (schemaFilter query params) ''public'' \<and> likeFilter lib (tableFilter query params) (cmName coll)
          then map (\<lambda>(i, f). getColumnsRow (snDb sn) coll i f)
            (filter (\<lambda>(i, f). likeFilter lib columnFilter (fmName f)) (enumerate 0 (cmFields coll)))
          else []) metas))) sn)"

definition primaryKeyCols :: "col list" where
  "primaryKeyCols =
    [textCol ''TABLE_CAT'', textCol ''TABLE_SCHEM'', textCol ''TABLE_NAME'',
     textCol ''COLUMN_NAME'', (''KEY_SEQ'', OIDInt4), textCol ''PK_NAME'']"

definition primaryKeyUniqueCols :: "col list" where
  "primaryKeyUniqueCols =
    [textCol ''TABLE_CAT'', textCol ''TABLE_SCHEM'', textCol ''TABLE_NAME'',
     textCol ''COLUMN_NAME'', (''KEY_SEQ'', OIDInt4), textCol ''PK_NAME'',
     (''IS_NOT_NULL'', OIDBool)]"

definition bestRowCols :: "col list" where
  "bestRowCols =
    [(''SCOPE'', OIDInt2), textCol ''COLUMN_NAME'', (''DATA_TYPE'', OIDInt2),
     textCol ''TYPE_NAME'', (''COLUMN_SIZE'', OIDInt4), (''BUFFER_LENGTH'', OIDInt4),
     (''DECIMAL_DIGITS'', OIDInt2), (''PSEUDO_COLUMN'', OIDInt2)]"

definition primaryKeyRow :: "string \<Rightarrow> bool \<Rightarrow> collectionMeta \<Rightarrow> nat \<Rightarrow> fieldMeta \<Rightarrow> cval list" where
  "primaryKeyRow db withNotNull coll i f =
     [CStr db, CStr ''public'', CStr (cmName coll), CStr (fmName f), onat (i + 1), CStr (cmName coll @ ''_pkey'')]
     @ (if withNotNull then [CBool (\<not> fmNullable f)] else [])"

definition primaryKeyRows :: "bool \<Rightarrow> golib \<Rightarrow> 's provider \<Rightarrow> string \<Rightarrow> ('s, cval list list) cat" where
  "primaryKeyRows withNotNull lib pr query = (\<lambda>sn.
     let params = snParams sn in
     bindC (catalogMetas pr) (\<lambda>metas. returnC (concat (map (\<lambda>coll.
       if likeFilter lib (schemaFilter query params) ''public'' \<and> likeFilter lib (tableFilter query params) (cmName coll)
       then map (\<lambda>(i, f). primaryKeyRow (snDb sn) withNotNull coll i f) (enumerate 0 (pkKeyFields coll))
       else []) metas))) sn)"

definition bestRow :: "fieldMeta \<Rightarrow> cval list" where
  "bestRow f =
     (let oid = FieldTypeOID (fmType f) in
      [cint 2, CStr (fmName f), jdbcType oid, CStr (typName oid), jdbcPrecision oid f, CNil, cint 0, cint 1])"

definition runGetBestRowIdentifier :: "golib \<Rightarrow> 's provider \<Rightarrow> string \<Rightarrow> ('s, cval list list) cat" where
  "runGetBestRowIdentifier lib pr query = (\<lambda>sn.
     bindC (catalogMetas pr) (\<lambda>metas. returnC (concat (map (\<lambda>coll.
       if likeFilter lib (tableFilter query (snParams sn)) (cmName coll) then map bestRow (pkKeyFields coll) else [])
       metas))) sn)"

text \<open>No foreign keys, user types and functions exist.\<close>

definition runEmpty :: "golib \<Rightarrow> 's provider \<Rightarrow> string \<Rightarrow> ('s, cval list list) cat" where
  "runEmpty lib pr query = returnC []"

definition importedKeyCols :: "col list" where
  "importedKeyCols =
    [textCol ''PKTABLE_CAT'', textCol ''PKTABLE_SCHEM'', textCol ''PKTABLE_NAME'', textCol ''PKCOLUMN_NAME'',
     textCol ''FKTABLE_CAT'', textCol ''FKTABLE_SCHEM'', textCol ''FKTABLE_NAME'', textCol ''FKCOLUMN_NAME'',
     (''KEY_SEQ'', OIDInt2), (''UPDATE_RULE'', OIDInt2), (''DELETE_RULE'', OIDInt2),
     textCol ''FK_NAME'', textCol ''PK_NAME'', (''DEFERRABILITY'', OIDInt2)]"

definition typeInfoCols :: "col list" where
  "typeInfoCols =
    [textCol ''TYPE_NAME'', (''DATA_TYPE'', OIDInt2), (''PRECISION'', OIDInt4),
     textCol ''LITERAL_PREFIX'', textCol ''LITERAL_SUFFIX'', textCol ''CREATE_PARAMS'',
     (''NULLABLE'', OIDInt2), (''CASE_SENSITIVE'', OIDBool),
     (''SEARCHABLE'', OIDInt2), (''UNSIGNED_ATTRIBUTE'', OIDBool),
     (''FIXED_PREC_SCALE'', OIDBool), (''AUTO_INCREMENT'', OIDBool),
     textCol ''LOCAL_TYPE_NAME'', (''MINIMUM_SCALE'', OIDInt2), (''MAXIMUM_SCALE'', OIDInt2),
     (''SQL_DATA_TYPE'', OIDInt4), (''SQL_DATETIME_SUB'', OIDInt4), (''NUM_PREC_RADIX'', OIDInt4)]"

definition numericMaxScale :: "nat \<Rightarrow> cval" where
  "numericMaxScale oid = cint (if oid = OIDNumeric then 1000 else 0)"

definition typeInfoRow :: "sysType \<Rightarrow> cval list" where
  "typeInfoRow t =
     (let quoted = (stCategory t = ''S''); prefix = (if quoted then CStr [CHR 39] else CNil) in
      [CStr (stName t), jdbcType (stOid t), cint 2147483647,
       prefix, prefix, CNil,
       cint 1, CBool quoted,
       cint 3, CBool False,
       CBool False, CBool False,
       CNil, cint 0, numericMaxScale (stOid t),
       CNil, CNil, cint 10])"

definition runGetTypeInfo :: "golib \<Rightarrow> 's provider \<Rightarrow> string \<Rightarrow> ('s, cval list list) cat" where
  "runGetTypeInfo lib pr query =
     returnC (map typeInfoRow (filter (\<lambda>t. \<not> hasPrefix (stName t) ''_'') sysTypes))"

definition udtCols :: "col list" where
  "udtCols =
    [textCol ''TYPE_CAT'', textCol ''TYPE_SCHEM'', textCol ''TYPE_NAME'', textCol ''CLASS_NAME'',
     (''DATA_TYPE'', OIDInt4), textCol ''REMARKS'', (''BASE_TYPE'', OIDInt2)]"

definition functionColumnsCols :: "col list" where
  "functionColumnsCols =
    [textCol ''FUNCTION_CAT'', textCol ''FUNCTION_SCHEM'', textCol ''FUNCTION_NAME'',
     textCol ''COLUMN_NAME'', (''COLUMN_TYPE'', OIDInt2), (''DATA_TYPE'', OIDInt2),
     textCol ''TYPE_NAME'', (''PRECISION'', OIDInt4), (''LENGTH'', OIDInt4),
     (''SCALE'', OIDInt2), (''RADIX'', OIDInt2), (''NULLABLE'', OIDInt2),
     textCol ''REMARKS'', textCol ''COLUMN_DEF'', (''SQL_DATA_TYPE'', OIDInt4),
     (''SQL_DATETIME_SUB'', OIDInt4), (''CHAR_OCTET_LENGTH'', OIDInt4),
     (''ORDINAL_POSITION'', OIDInt4), textCol ''IS_NULLABLE'', textCol ''SPECIFIC_NAME'']"

definition indexInfoCols :: "col list" where
  "indexInfoCols =
    [textCol ''TABLE_CAT'', textCol ''TABLE_SCHEM'', textCol ''TABLE_NAME'',
     (''NON_UNIQUE'', OIDBool), textCol ''INDEX_QUALIFIER'', textCol ''INDEX_NAME'',
     (''TYPE'', OIDInt2), (''ORDINAL_POSITION'', OIDInt2), textCol ''COLUMN_NAME'',
     textCol ''ASC_OR_DESC'', (''CARDINALITY'', OIDInt8), (''PAGES'', OIDInt8),
     textCol ''FILTER_CONDITION'', textCol ''REMARKS'']"

definition indexInfoRow :: "string \<Rightarrow> collectionMeta \<Rightarrow> nat \<Rightarrow> fieldMeta \<Rightarrow> cval list" where
  "indexInfoRow db coll i f =
     [CStr db, CStr ''public'', CStr (cmName coll),
      CBool False, CNil, CStr (cmName coll @ ''_pkey''),
      cint 3, onat (i + 1), CStr (fmName f),
      CStr ''A'', cint 0, cint 0,
      CNil, CNil]"

definition runGetIndexInfo :: "golib \<Rightarrow> 's provider \<Rightarrow> string \<Rightarrow> ('s, cval list list) cat" where
  "runGetIndexInfo lib pr query = (\<lambda>sn.
     bindC (catalogMetas pr) (\<lambda>metas. returnC (concat (map (\<lambda>coll.
       if likeFilter lib (tableFilter query (snParams sn)) (cmName coll)
       then map (\<lambda>(i, f). indexInfoRow (snDb sn) coll i f) (enumerate 0 (pkKeyFields coll)) else [])
       metas))) sn)"

subsection \<open>The registry\<close>

record 's specialCase =
  spName :: string
  spMatch :: "string \<Rightarrow> bool"
  spCols :: "col list"
  spRun :: "golib \<Rightarrow> 's provider \<Rightarrow> string \<Rightarrow> ('s, cval list list) cat"

definition specialCases :: "'s specialCase list" where
  "specialCases =
    [\<lparr>spName = ''pgjdbc.getColumns'', spMatch = matchGetColumns, spCols = getColumnsCols, spRun = runGetColumns\<rparr>,
     \<lparr>spName = ''pgjdbc.getPrimaryKeys'', spMatch = matchGetPrimaryKeys, spCols = primaryKeyCols, spRun = primaryKeyRows False\<rparr>,
     \<lparr>spName = ''pgjdbc.getPrimaryUniqueKeys'', spMatch = matchGetPrimaryUniqueKeys, spCols = primaryKeyUniqueCols, spRun = primaryKeyRows True\<rparr>,
     \<lparr>spName = ''pgjdbc.getBestRowIdentifier'', spMatch = matchGetBestRowIdentifier, spCols = bestRowCols, spRun = runGetBestRowIdentifier\<rparr>,
     \<lparr>spName = ''pgjdbc.getImportedExportedKeys'', spMatch = matchGetImportedExportedKeys, spCols = importedKeyCols, spRun = runEmpty\<rparr>,
     \<lparr>spName = ''pgjdbc.getTypeInfo'', spMatch = matchGetTypeInfo, spCols = typeInfoCols, spRun = runGetTypeInfo\<rparr>,
     \<lparr>spName = ''pgjdbc.getUDTs'', spMatch = matchGetUDTs, spCols = udtCols, spRun = runEmpty\<rparr>,
     \<lparr>spName = ''pgjdbc.getIndexInfo'', spMatch = matchGetIndexInfo, spCols = indexInfoCols, spRun = runGetIndexInfo\<rparr>,
     \<lparr>spName = ''pgjdbc.getFunctionColumns'', spMatch = matchGetFunctionColumns, spCols = functionColumnsCols, spRun = runEmpty\<rparr>]"

definition matchSpecial :: "string \<Rightarrow> 's specialCase option" where
  "matchSpecial query = find (\<lambda>sc. spMatch sc query) specialCases"

subsection \<open>Rows fit the columns\<close>

lemma length_special_rows [simp]:
  "length (getColumnsRow db coll i f) = length getColumnsCols"
  "length (primaryKeyRow db False coll i f) = length primaryKeyCols"
  "length (primaryKeyRow db True coll i f) = length primaryKeyUniqueCols"
  "length (bestRow f) = length bestRowCols" "length (typeInfoRow t) = length typeInfoCols"
  "length (indexInfoRow db coll i f) = length indexInfoCols"
  by (simp_all add: getColumnsRow_def getColumnsCols_def primaryKeyRow_def primaryKeyCols_def primaryKeyUniqueCols_def
      bestRow_def bestRowCols_def typeInfoRow_def typeInfoCols_def indexInfoRow_def indexInfoCols_def Let_def)

definition runFits :: "'s specialCase \<Rightarrow> bool" where
  "runFits sc \<longleftrightarrow> (\<forall>lib pr query sn rows sn'. spRun sc lib pr query sn = (Inr rows, sn') \<longrightarrow> rowsFit (spCols sc) rows)"

lemma specialCases_fit: "list_all runFits (specialCases :: 's specialCase list)"
  by (auto simp: specialCases_def runFits_def rowsFit_def runGetColumns_def primaryKeyRows_def
      runGetBestRowIdentifier_def runGetIndexInfo_def runGetTypeInfo_def runEmpty_def catrun Let_def
      split: if_splits)

lemma special_width:
  assumes "matchSpecial query = Some sc" "spRun sc lib pr q sn = (Inr rows, sn')"
  shows "rowsFit (spCols sc) rows"
proof -
  have "sc \<in> set specialCases" using assms(1) by (auto simp: matchSpecial_def find_Some_iff in_set_conv_nth)
  with specialCases_fit assms(2) show ?thesis by (force simp: list_all_iff runFits_def)
qed

text \<open>What the slot scanner leaves is shorter, so the test in its recursion never fails.\<close>

lemma slotMarker_shorter: "slotMarker s = Some r \<Longrightarrow> length r < length s"
  by (cases s) (auto simp: slotMarker_def less_Suc_eq_le length_dropWhile_le split: if_splits)

lemma slotAt_shorter:
  assumes "slotAt s = Some (slot, r)"
  shows "length r < length s"
proof -
  from assms obtain col r1 r2 k where
    r1: "slotName s = Some (col, r1)" "r1 \<noteq> []" and
    r2: "r2 = drop k (dropWhile regexSpace r1)" and
    r: "slotMarker (dropWhile regexSpace r2) = Some r"
    by (auto simp: slotAt_def Let_def split: option.splits if_splits prod.splits)
  have "length r < length (dropWhile regexSpace r2)" by (rule slotMarker_shorter[OF r])
  also have "\<dots> \<le> length r2" by (rule length_dropWhile_le)
  also have "\<dots> \<le> length r1" using length_dropWhile_le[of regexSpace r1] by (simp add: r2)
  also have "\<dots> \<le> length s" using r1(1) length_dropWhile_le[of namePart s] length_dropWhile_le[of namePart "tl (dropWhile namePart s)"]
    by (auto simp: slotName_def Let_def split: if_splits)
  finally show ?thesis .
qed

end
