(* ===== verification/CatGrammar.thy ===== *)
theory CatGrammar
  imports CatParser
begin

text \<open>
  What the catalog parser guarantees (\<open>internal/catalog/parser.go\<close>): the trees it builds are
  well-formed, its loops and its recursion end, and the only run-time panic it can raise is the
  one of an empty \<open>OPERATOR()\<close>.

  \<open>okC\<close> is the guarantee of one method, under the assumption that the tokens at hand come from the
  lexer; it is proved method by method with the rules for sequencing and for loops, and
  closed at the knot by induction on the fuel.
\<close>

subsection \<open>Well-formed trees\<close>

definition isTail :: "cexpr \<Rightarrow> bool" where
  "isTail e \<longleftrightarrow> (case e of BetweenTail _ _ \<Rightarrow> True | _ \<Rightarrow> False)"

definition plainOps :: "string list" where
  "plainOps = [''AND'', ''OR'', ''like'', ''ilike'', ''BETWEEN'', ''+'', ''-'', ''*'', ''/'', ''||'',
     ''='', ''<>'', ''<'', ''>'', ''<='', ''>='', ''~'', ''!~'', ''~*'', ''!~*'']"

text \<open>Operators the evaluator knows, unary ones of two kinds, a \<open>BETWEEN\<close> range exactly under
  \<open>BETWEEN\<close>, joins that extend a left-deep tree by one table, and no \<open>UNION\<close> branch.\<close>

fun wfE :: "cexpr \<Rightarrow> bool" and wfI :: "selectItem \<Rightarrow> bool" and wfT :: "tableExpr \<Rightarrow> bool" and wfS :: "stmt \<Rightarrow> bool"
where
  "wfE (Literal v) = True"
| "wfE (ColRef q name) = True"
| "wfE (FuncCall f args) = (\<forall>e \<in> set args. wfE e \<and> \<not> isTail e)"
| "wfE (ParamRef n) = True"
| "wfE (BinExpr op l r neg anyList) =
     (op \<in> set (if anyList then compareTokens else plainOps) \<and> (neg \<longrightarrow> op \<in> {''like'', ''ilike'', ''BETWEEN''}) \<and>
      wfE l \<and> \<not> isTail l \<and> wfE r \<and> (isTail r \<longleftrightarrow> op = ''BETWEEN''))"
| "wfE (IsNullExpr e neg) = (wfE e \<and> \<not> isTail e)"
| "wfE (InExpr e xs neg) = (wfE e \<and> \<not> isTail e \<and> xs \<noteq> [] \<and> (\<forall>x \<in> set xs. wfE x \<and> \<not> isTail x))"
| "wfE (CaseExpr operand whens els) =
     ((\<forall>e \<in> set_option operand. wfE e \<and> \<not> isTail e) \<and> whens \<noteq> [] \<and>
      (\<forall>w \<in> set whens. wfE (fst w) \<and> \<not> isTail (fst w) \<and> wfE (snd w) \<and> \<not> isTail (snd w)) \<and>
      (\<forall>e \<in> set_option els. wfE e \<and> \<not> isTail e))"
| "wfE (CastExpr e target) = (wfE e \<and> \<not> isTail e)"
| "wfE (SubscriptExpr b i) = (wfE b \<and> \<not> isTail b \<and> wfE i \<and> \<not> isTail i)"
| "wfE (SubqueryExpr st) = wfS st"
| "wfE (ArraySubqueryExpr st) = wfS st"
| "wfE (UnaryExpr op e) = (op \<in> {''NOT'', ''NEG''} \<and> wfE e \<and> \<not> isTail e)"
| "wfE (BetweenTail lo hi) = (wfE lo \<and> \<not> isTail lo \<and> wfE hi \<and> \<not> isTail hi)"
| "wfI (ItemExpr e name) = (wfE e \<and> \<not> isTail e)"
| "wfI (ItemStar q) = True"
| "wfT (TableSource r) = True"
| "wfT (JoinExpr l r kind on) =
     (wfT l \<and> (\<exists>t. r = TableSource t) \<and> kind \<in> {''join'', ''left'', ''right'', ''full'', ''cross''} \<and>
      (on = None \<longleftrightarrow> kind = ''cross'') \<and> (\<forall>e \<in> set_option on. wfE e \<and> \<not> isTail e))"
| "wfS (Stmt items src cond order lim off dist mp branches) =
     (items \<noteq> [] \<and> (\<forall>i \<in> set items. wfI i) \<and> (\<forall>t \<in> set_option src. wfT t) \<and>
      (\<forall>e \<in> set_option cond. wfE e \<and> \<not> isTail e) \<and> (\<forall>t \<in> set order. wfE (fst t) \<and> \<not> isTail (fst t)) \<and>
      (\<forall>e \<in> set_option lim. wfE e \<and> \<not> isTail e) \<and> (\<forall>e \<in> set_option off. wfE e \<and> \<not> isTail e) \<and>
      branches = [])"

definition proper :: "cexpr \<Rightarrow> bool" where
  "proper e \<longleftrightarrow> wfE e \<and> \<not> isTail e"

lemma isTail_simps [simp]:
  "\<not> isTail (Literal v)" "\<not> isTail (ColRef q name)" "\<not> isTail (FuncCall f args)" "\<not> isTail (ParamRef n)"
  "\<not> isTail (BinExpr op l r neg anyList)" "\<not> isTail (IsNullExpr e neg)" "\<not> isTail (InExpr e xs neg)"
  "\<not> isTail (CaseExpr operand whens els)" "\<not> isTail (CastExpr e target)" "\<not> isTail (SubscriptExpr b i)"
  "\<not> isTail (SubqueryExpr st)" "\<not> isTail (ArraySubqueryExpr st)" "\<not> isTail (UnaryExpr op e)"
  "isTail (BetweenTail lo hi)"
  by (simp_all add: isTail_def)

subsection \<open>Guarantees of a method\<close>

text \<open>Tokens as the lexer leaves them, or what a parser has left of them.\<close>

definition toksOk :: "token list \<Rightarrow> bool" where
  "toksOk ts \<longleftrightarrow> (\<exists>us e. ts = us @ [e] \<and> list_all cat_wfToken us \<and> tkKind e = TkEOF)"

definition emptyOperator :: "token list \<Rightarrow> bool" where
  "emptyOperator ts \<longleftrightarrow> (\<exists>us a b c vs. ts = us @ a # b # c # vs \<and>
     tkKind a = TkIdent \<and> equalFoldWord (tkText a) ''operator'' \<and>
     tkKind b = TkOp \<and> tkText b = ''('' \<and> tkKind c = TkOp \<and> tkText c = '')'')"

definition okErr :: "token list \<Rightarrow> catError \<Rightarrow> bool" where
  "okErr ts e \<longleftrightarrow> (\<exists>r. e = cat_errf r) \<or> (\<exists>r. e = capErrf r) \<or> e = CatPanic \<and> emptyOperator ts"

definition leavesC :: "cparser \<Rightarrow> cparser \<Rightarrow> bool" where
  "leavesC p q \<longleftrightarrow> suffix (cpToks q) (cpToks p) \<and> toksOk (cpToks q)"

abbreviation rest :: "cparser \<Rightarrow> nat" where "rest p \<equiv> length (cpToks p)"

definition okP :: "cparser \<Rightarrow> catError + 'b \<Rightarrow> ('b \<Rightarrow> bool) \<Rightarrow> bool" where
  "okP p r post \<longleftrightarrow> (toksOk (cpToks p) \<longrightarrow>
     (case r of Inl e \<Rightarrow> okErr (cpToks p) e | Inr y \<Rightarrow> post y))"

definition okC :: "('a \<Rightarrow> bool) \<Rightarrow> cparser \<Rightarrow> 'a cparse \<Rightarrow> bool" where
  "okC P p r \<longleftrightarrow> okP p r (\<lambda>(x, q). leavesC p q \<and> P x)"

text \<open>The guarantee of a loop's body: another round starts with fewer than \<open>b\<close> tokens.\<close>

definition okS :: "nat \<Rightarrow> ('a \<Rightarrow> bool) \<Rightarrow> cparser \<Rightarrow> catError + ('a \<times> cparser) option \<Rightarrow> bool" where
  "okS b P p r \<longleftrightarrow> okP p r (\<lambda>y. case y of None \<Rightarrow> True | Some (x, q) \<Rightarrow> leavesC p q \<and> rest q < b \<and> P x)"

lemma okErr_simps [simp]: "okErr ts (cat_errf r)" "okErr ts (capErrf r)" "okErr ts (expectedErr w t)"
  by (auto simp: okErr_def expectedErr_def)

lemma emptyOperator_suffix: "emptyOperator ts' \<Longrightarrow> suffix ts' ts \<Longrightarrow> emptyOperator ts"
  unfolding emptyOperator_def suffix_def by (metis append_assoc)

lemma okErr_suffix: "okErr ts' e \<Longrightarrow> suffix ts' ts \<Longrightarrow> okErr ts e"
  unfolding okErr_def using emptyOperator_suffix by blast

lemma leavesC_refl: "toksOk (cpToks p) \<Longrightarrow> leavesC p p"
  by (simp add: leavesC_def)

lemma leavesC_trans: "leavesC p q \<Longrightarrow> leavesC q r \<Longrightarrow> leavesC p r"
  unfolding leavesC_def by (meson suffix_order.trans)

lemma leavesC_rest: "leavesC p q \<Longrightarrow> rest q \<le> rest p"
  by (simp add: leavesC_def suffix_length_le)

lemma okC_Inl [simp]: "okC P p (Inl (cat_errf r))" "okC P p (Inl (capErrf r))" "okC P p (Inl (expectedErr w t))"
  by (simp_all add: okC_def okP_def)

lemma okS_Inl [simp]: "okS b P p (Inl (cat_errf r))" "okS b P p (Inl (capErrf r))" "okS b P p (Inl (expectedErr w t))"
  by (simp_all add: okS_def okP_def)

lemma okC_Inr [simp]: "okC P p (Inr (x, p)) \<longleftrightarrow> (toksOk (cpToks p) \<longrightarrow> P x)"
  by (auto simp: okC_def okP_def leavesC_refl)

lemma okS_None [simp]: "okS b P p (Inr None)"
  by (simp add: okS_def okP_def)

lemma okS_Some [simp]: "rest p < b \<Longrightarrow> okS b P p (Inr (Some (x, p))) \<longleftrightarrow> (toksOk (cpToks p) \<longrightarrow> P x)"
  by (auto simp: okS_def okP_def leavesC_refl)

lemma okC_from: "okC P q r \<Longrightarrow> (toksOk (cpToks p) \<Longrightarrow> leavesC p q) \<Longrightarrow> okC P p r"
  unfolding okC_def okP_def
  by (auto split: sum.splits intro: leavesC_trans okErr_suffix simp: leavesC_def)

lemma okS_from: "okS b P q r \<Longrightarrow> (toksOk (cpToks p) \<Longrightarrow> leavesC p q) \<Longrightarrow> okS b P p r"
  unfolding okS_def okP_def
  by (auto split: sum.splits option.splits intro: leavesC_trans okErr_suffix simp: leavesC_def)

lemma okC_mono: "okC P p r \<Longrightarrow> (\<And>x. P x \<Longrightarrow> R x) \<Longrightarrow> okC R p r"
  unfolding okC_def okP_def by (auto split: sum.splits)

lemma okC_bind:
  assumes "okC P p m" "\<And>x q. P x \<Longrightarrow> rest q \<le> rest p \<Longrightarrow> okC R q (f (x, q))"
  shows "okC R p (bindE m f)"
proof (cases m)
  case (Inr y)
  then obtain x q where y: "m = Inr (x, q)" by (cases y) auto
  show ?thesis
  proof (cases "toksOk (cpToks p)")
    case True
    with assms(1) y have q: "leavesC p q" "P x" by (simp_all add: okC_def okP_def)
    from assms(2)[OF q(2) leavesC_rest[OF q(1)]] y q(1) show ?thesis by (simp add: okC_from)
  qed (simp add: okC_def okP_def)
qed (use assms(1) in \<open>simp add: okC_def okP_def\<close>)

lemma okS_bind:
  assumes "okC P p m" "\<And>x q. P x \<Longrightarrow> rest q \<le> rest p \<Longrightarrow> okS b R q (f (x, q))"
  shows "okS b R p (bindE m f)"
proof (cases m)
  case (Inr y)
  then obtain x q where y: "m = Inr (x, q)" by (cases y) auto
  show ?thesis
  proof (cases "toksOk (cpToks p)")
    case True
    with assms(1) y have q: "leavesC p q" "P x" by (simp_all add: okC_def okP_def)
    from assms(2)[OF q(2) leavesC_rest[OF q(1)]] y q(1) show ?thesis by (simp add: okS_from)
  qed (simp add: okS_def okP_def)
qed (use assms(1) in \<open>simp add: okC_def okS_def okP_def\<close>)

subsection \<open>The cursor\<close>

lemma toksOk_advance: "toksOk ts \<Longrightarrow> suffix (advance ts) ts \<and> toksOk (advance ts)"
proof -
  assume ts: "toksOk ts"
  then obtain us e where u: "ts = us @ [e]" "list_all cat_wfToken us" "tkKind e = TkEOF" by (auto simp: toksOk_def)
  show ?thesis
  proof (cases us)
    case Nil
    with u show ?thesis by (auto simp: toksOk_def)
  next
    case (Cons t vs)
    with u have "tkKind t \<noteq> TkEOF" by (auto simp: cat_wfToken_def elim: cat_tokenShape.elims(2))
    with Cons u show ?thesis by (auto simp: toksOk_def suffix_def)
  qed
qed

lemma cpToks_next [simp]: "cpToks (cat_next p) = advance (cpToks p)"
  by (simp add: cat_next_def)

lemma leavesC_next: "toksOk (cpToks p) \<Longrightarrow> leavesC p (cat_next p)"
  using toksOk_advance by (simp add: leavesC_def)

lemma okC_next: "okC P (cat_next p) r \<Longrightarrow> okC P p r"
  by (erule okC_from) (rule leavesC_next)

lemma okS_next: "okS b P (cat_next p) r \<Longrightarrow> okS b P p r"
  by (erule okS_from) (rule leavesC_next)

lemma rest_next: "rest (cat_next p) \<le> rest p"
  by (cases "cpToks p") auto

lemma rest_next_less: "tkKind (cat_peek p) \<noteq> TkEOF \<Longrightarrow> rest (cat_next p) < rest p"
  using advance_shorter[of "cpToks p"] peek_nonempty[of "cpToks p"] by (simp add: cat_peek_def)

lemma notEOF [simp]:
  "isKeyword p w \<Longrightarrow> tkKind (cat_peek p) \<noteq> TkEOF" "isOp p w \<Longrightarrow> tkKind (cat_peek p) \<noteq> TkEOF"
  "isIdent p \<Longrightarrow> tkKind (cat_peek p) \<noteq> TkEOF" "compareAhead p \<Longrightarrow> tkKind (cat_peek p) \<noteq> TkEOF"
  "predicateAhead t \<Longrightarrow> tkKind t \<noteq> TkEOF"
  by (auto simp: isKeyword_def isOp_def isIdent_def compareAhead_def predicateAhead_def)

text \<open>Reading a token that is there leaves fewer.\<close>

lemma okC_step:
  "(rest (cat_next p) < rest p \<Longrightarrow> okC P (cat_next p) r) \<Longrightarrow> tkKind (cat_peek p) \<noteq> TkEOF \<Longrightarrow> okC P p r"
  using rest_next_less okC_next by blast

lemma okS_step:
  "(rest (cat_next p) < rest p \<Longrightarrow> okS b P (cat_next p) r) \<Longrightarrow> tkKind (cat_peek p) \<noteq> TkEOF \<Longrightarrow> okS b P p r"
  using rest_next_less okS_next by blast

lemma rest_accept: "rest (snd (acceptKeyword p w)) \<le> rest p"
  by (simp add: acceptKeyword_def rest_next del: cpToks_next)

lemma okC_accept: "okC P (snd (acceptKeyword p w)) r \<Longrightarrow> okC P p r"
  by (cases "isKeyword p w") (simp_all add: acceptKeyword_def okC_next[of P p])

lemma okS_accept: "okS b P (snd (acceptKeyword p w)) r \<Longrightarrow> okS b P p r"
  by (cases "isKeyword p w") (simp_all add: acceptKeyword_def okS_next[of b P p])

lemma okC_expectOp:
  "(\<And>q. rest q \<le> rest p \<Longrightarrow> rest q < rest p \<Longrightarrow> okC R q (f q)) \<Longrightarrow> okC R p (bindE (cat_expectOp p w) f)"
  by (auto simp: cat_expectOp_def intro!: okC_step[of p])

lemma okS_expectOp:
  "(\<And>q. rest q \<le> rest p \<Longrightarrow> rest q < rest p \<Longrightarrow> okS b R q (f q)) \<Longrightarrow> okS b R p (bindE (cat_expectOp p w) f)"
  by (auto simp: cat_expectOp_def intro!: okS_step[of p])

lemma okC_expectKeyword:
  "(\<And>q. rest q \<le> rest p \<Longrightarrow> rest q < rest p \<Longrightarrow> okC R q (f q)) \<Longrightarrow> okC R p (bindE (cat_expectKeyword p w) f)"
  by (auto simp: cat_expectKeyword_def intro!: okC_step[of p])

lemma okS_expectKeyword:
  "(\<And>q. rest q \<le> rest p \<Longrightarrow> rest q < rest p \<Longrightarrow> okS b R q (f q)) \<Longrightarrow> okS b R p (bindE (cat_expectKeyword p w) f)"
  by (auto simp: cat_expectKeyword_def intro!: okS_step[of p])

lemma nameHere_ok: "okC (\<lambda>_. True) p (nameHere what p)"
  by (auto simp: nameHere_def intro: okC_next)

text \<open>A loop whose every round reads a token.\<close>

lemma loopP_ok:
  assumes body: "\<And>x q. P x \<Longrightarrow> rest q \<le> n \<Longrightarrow> okS (rest q) P q (body x q)"
    and "P x" "rest p \<le> n"
  shows "okC P p (loopP body x p)"
proof -
  have "P x \<Longrightarrow> rest p \<le> n \<Longrightarrow> rest p < m \<Longrightarrow> okC P p (loopN m body x p)" for m x p
  proof (induction m arbitrary: x p)
    case (Suc m)
    from body[OF Suc.prems(1,2)] have step: "okS (rest p) P p (body x p)" .
    show ?case
    proof (cases "toksOk (cpToks p)")
      case True
      show ?thesis
      proof (cases "body x p")
        case (Inr r)
        show ?thesis
        proof (cases r)
          case (Some yq)
          then obtain y q where r: "r = Some (y, q)" by (cases yq) auto
          with step Inr True have "leavesC p q" "rest q < rest p" "P y" by (simp_all add: okS_def okP_def)
          then have "okC P q (loopN m body y q)" using Suc.prems by (intro Suc.IH) auto
          then show ?thesis using Inr r \<open>leavesC p q\<close> by (simp add: okC_from)
        qed (use Inr Suc.prems in simp)
      qed (use step True in \<open>simp add: okS_def okC_def okP_def\<close>)
    qed (simp add: okC_def okP_def)
  qed simp
  from this[of x p "Suc (rest p)"] assms show ?thesis by (simp add: loopP_def)
qed

lemma moreItems_ok:
  assumes "\<And>q. rest q < n \<Longrightarrow> okC P q (item q)" "\<And>q. sep q \<Longrightarrow> tkKind (cat_peek q) \<noteq> TkEOF"
    "\<forall>x \<in> set xs. P x" "rest p \<le> n"
  shows "okS (rest p) (\<lambda>xs. xs \<noteq> [] \<and> (\<forall>x \<in> set xs. P x)) p (moreItems sep item xs p)"
proof (cases "sep p")
  case True
  then have less: "rest (cat_next p) < rest p" using assms(2) rest_next_less by blast
  then have "okC P (cat_next p) (item (cat_next p))" using assms(1,4) by simp
  then show ?thesis
    unfolding moreItems_def using True assms(3) less by (auto intro!: okS_next[of _ _ p] okS_bind)
qed (simp add: moreItems_def)

lemma listOf_ok:
  assumes "\<And>q. rest q \<le> n \<Longrightarrow> okC P q (item q)" "rest p \<le> n"
  shows "okC (\<lambda>xs. xs \<noteq> [] \<and> (\<forall>x \<in> set xs. P x)) p (listOf item p)"
  unfolding listOf_def
proof (intro okC_bind[OF assms(1)[OF assms(2)]])
  fix x q
  assume x: "P x" and q: "rest q \<le> rest p"
  have "okC (\<lambda>xs. xs \<noteq> [] \<and> (\<forall>x \<in> set xs. P x)) q (loopP (moreItems (\<lambda>p. isOp p '','') item) [x] q)"
    using assms x q by (intro loopP_ok[where n = n] moreItems_ok[where n = n]) (auto simp: isOp_def)
  then show "okC (\<lambda>xs. xs \<noteq> [] \<and> (\<forall>x \<in> set xs. P x)) q
      (case (x, q) of (x, p) \<Rightarrow> loopP (moreItems (\<lambda>p. isOp p '','') item) [x] p)" by simp
qed

subsection \<open>Type names\<close>

lemma dottedTail_ok: "parts \<noteq> [] \<Longrightarrow> okC (\<lambda>xs. xs \<noteq> []) p (dottedTail what parts p)"
proof -
  assume "parts \<noteq> []"
  then have "okC (\<lambda>xs. xs \<noteq> []) p (loopP (moreItems (\<lambda>p. isOp p ''.'') (nameHere what)) parts p)"
  proof (rule loopP_ok[where n = "rest p", rotated])
    fix xs q
    assume "rest q \<le> rest p"
    then have "okS (rest q) (\<lambda>xs. xs \<noteq> [] \<and> (\<forall>x \<in> set xs. True)) q (moreItems (\<lambda>p. isOp p ''.'') (nameHere what) xs q)"
      by (intro moreItems_ok[where n = "rest p"]) (auto simp: isOp_def nameHere_ok)
    then show "okS (rest q) (\<lambda>xs. xs \<noteq> []) q (moreItems (\<lambda>p. isOp p ''.'') (nameHere what) xs q)" by simp
  qed simp
  then show ?thesis by (simp add: dottedTail_def)
qed

lemma skipParens_ok: "toksOk ts \<Longrightarrow> suffix (skipParens d ts) ts \<and> toksOk (skipParens d ts)"
proof (induction d ts rule: skipParens.induct)
  case (3 d t ts)
  show ?case
  proof (cases "tkKind t = TkEOF")
    case False
    with 3(4) toksOk_advance[of "t # ts"] have "toksOk ts" by simp
    with 3(1-3)[OF False] False show ?thesis by (auto intro: suffix_ConsI)
  qed (use 3(4) in auto)
qed auto

lemma parseTypeName_ok: "okC (\<lambda>_. True) p (parseTypeName p)"
proof -
  have words: "okC (\<lambda>_. True) q (loopP typeWord () q)" for q
  proof (rule loopP_ok[where n = "rest q"])
    show "okS (rest q) (\<lambda>_. True) q (typeWord x q)" for x q
      by (auto simp: typeWord_def intro!: okS_step[of q])
  qed simp_all
  have skip: "okC (\<lambda>_. True) q (bindE (loopP typeWord () (q\<lparr>cpToks := skipParens 1 (cpToks (cat_next q))\<rparr>)) (\<lambda>(_, p). Inr (x, p)))"
    for q and x :: string
  proof (rule okC_from[of _ "q\<lparr>cpToks := skipParens 1 (cpToks (cat_next q))\<rparr>"])
    show "toksOk (cpToks q) \<Longrightarrow> leavesC q (q\<lparr>cpToks := skipParens 1 (cpToks (cat_next q))\<rparr>)"
      using toksOk_advance[of "cpToks q"] skipParens_ok[of "advance (cpToks q)" 1]
      by (auto simp: leavesC_def intro: suffix_order.trans)
  qed (auto intro: okC_bind[OF words])
  show ?thesis
    unfolding parseTypeName_def Let_def
    by (auto intro!: okC_bind[OF nameHere_ok] okC_bind[OF dottedTail_ok] okC_bind[OF words] skip[simplified])
qed

subsection \<open>Expressions\<close>

locale knot =
  fixes pe :: "cparser \<Rightarrow> cexpr cparse" and ps :: "cparser \<Rightarrow> stmt cparse" and n :: nat
  assumes pe: "rest q < n \<Longrightarrow> okC proper q (pe q)"
    and ps: "rest q < n \<Longrightarrow> okC wfS q (ps q)"
begin

lemma postfix_ok: "proper e \<Longrightarrow> rest p \<le> n \<Longrightarrow> okC proper p (postfix pe e p)"
  unfolding postfix_def
proof (rule loopP_ok[where n = n])
  fix e q
  assume e: "proper e" and q: "rest q \<le> n"
  then show "okS (rest q) proper q (postfixStep pe e q)"
    unfolding postfixStep_def
    by (auto intro!: okS_step[of q] okS_bind[OF pe] okS_bind[OF parseTypeName_ok] okS_expectOp simp: proper_def)
qed

lemma optExpr_ok:
  "rest p < n \<or> rest p \<le> n \<and> \<not> present \<Longrightarrow> okC (\<lambda>r. \<forall>e \<in> set_option r. proper e) p (optExpr present pe p)"
  unfolding optExpr_def by (auto intro!: okC_bind[OF pe])

lemma clauseExpr_ok: "rest p \<le> n \<Longrightarrow> okC (\<lambda>r. \<forall>e \<in> set_option r. proper e) p (clauseExpr w pe p)"
  by (auto simp: clauseExpr_def acceptKeyword_def intro!: optExpr_ok okC_step[of p] split: if_splits)

lemma parseCast_ok: "rest p \<le> n \<Longrightarrow> okC proper p (parseCast pe p)"
  unfolding parseCast_def using rest_next[of p]
  by (intro okC_next[of _ p])
    (auto intro!: okC_expectOp okC_expectKeyword okC_bind[OF pe] okC_bind[OF parseTypeName_ok] postfix_ok simp: proper_def)


lemma whenStep_ok:
  "rest p \<le> n \<Longrightarrow> \<forall>w \<in> set whens. proper (fst w) \<and> proper (snd w) \<Longrightarrow>
   okS (rest p) (\<lambda>ws. \<forall>w \<in> set ws. proper (fst w) \<and> proper (snd w)) p (whenStep pe whens p)"
  unfolding whenStep_def
  by (auto intro!: okS_step[of p] okS_bind[OF pe] okS_expectKeyword)

lemma parseCase_ok:
  assumes "rest p \<le> n" "tkKind (cat_peek p) \<noteq> TkEOF"
  shows "okC proper p (parseCase pe p)"
proof -
  have whens: "okC (\<lambda>ws. \<forall>w \<in> set ws. proper (fst w) \<and> proper (snd w)) q (loopP (whenStep pe) [] q)"
    if "rest q \<le> n" for q
    by (rule loopP_ok[where n = n]) (use that in \<open>simp_all add: whenStep_ok\<close>)
  show ?thesis
    unfolding parseCase_def Let_def using assms
    by (intro okC_step[of p])
      (auto intro!: okC_bind[OF optExpr_ok] okC_bind[OF whens] okC_bind[OF clauseExpr_ok] okC_expectKeyword
        postfix_ok simp: proper_def)
qed

lemma parseFunctionArgs_ok:
  assumes "rest p < n"
  shows "okC (\<lambda>xs. \<forall>x \<in> set xs. proper x) p (parseFunctionArgs pe p)"
proof -
  have arg: "okC proper q (pe (snd (acceptKeyword q w)))" if "rest q < n" for q w
    using rest_accept[of q w] that by (intro okC_accept[of _ q w] pe) simp
  have args: "okC (\<lambda>xs. \<forall>x \<in> set xs. proper x) q (loopP (argStep pe) [x] q)" if "rest q \<le> n" "proper x" for q x
  proof -
    have "okC (\<lambda>xs. xs \<noteq> [] \<and> (\<forall>x \<in> set xs. proper x)) q (loopP (argStep pe) [x] q)"
      unfolding argStep_def using that
      by (intro loopP_ok[where n = n] moreItems_ok[where n = n]) (auto intro: arg)
    then show ?thesis by (rule okC_mono) simp
  qed
  have one: "proper (Literal v)" for v by (simp add: proper_def)
  show ?thesis
    unfolding parseFunctionArgs_def
  proof (rule okC_bind[OF pe[OF assms]], unfold prod.case)
    fix x q
    assume "proper x" "rest q \<le> rest p"
    then show "okC (\<lambda>xs. \<forall>x \<in> set xs. proper x) q
        (if isKeyword q ''FROM'' then
           bindE (pe (cat_next q)) (\<lambda>(start, p).
           bindE (clauseExpr ''FOR'' pe p) (\<lambda>(len, p).
           Inr (case len of None \<Rightarrow> [x, start] | Some n \<Rightarrow> [x, start, n], p)))
         else if isKeyword q ''FOR'' then
           bindE (pe (cat_next q)) (\<lambda>(len, p). Inr ([x, Literal (CNum (floatOfInt 1)), len], p))
         else loopP (argStep pe) [x] q)"
      using assms
      by (auto intro!: okC_step[of q] okC_bind[OF pe] okC_bind[OF clauseExpr_ok] args one split: option.splits)
  qed
qed


lemma parseIdentExpr_ok:
  assumes "rest p \<le> n" "tkKind (cat_peek p) \<noteq> TkEOF"
  shows "okC proper p (parseIdentExpr pe p)"
proof (rule okC_step[of p])
  assume less: "rest (cat_next p) < rest p"
  show "okC proper (cat_next p) (parseIdentExpr pe p)"
    unfolding parseIdentExpr_def Let_def
  proof (rule okC_bind[OF dottedTail_ok], simp, unfold prod.case)
    fix parts q
    assume "rest q \<le> rest (cat_next p)"
    then have q: "rest q < n" using less assms by simp
    then show "okC proper q
        (if isOp q ''('' then
           bindE (if isOp (cat_next q) '')'' then Inr ([], cat_next q) else parseFunctionArgs pe (cat_next q)) (\<lambda>(args, p).
           bindE (cat_expectOp p '')'') (\<lambda>p. postfix pe (FuncCall (joinStr ''.'' parts) args) p))
         else if length parts = 1 then postfix pe (ColRef [] (hd parts)) q
         else postfix pe (ColRef (parts ! (length parts - 2)) (last parts)) q)"
      by (auto intro!: okC_step[of q] okC_bind[OF parseFunctionArgs_ok] okC_expectOp postfix_ok simp: proper_def)
  qed
qed (use assms in simp)

lemma okC_max: "okC P (p\<lparr>cpMax := m\<rparr>) r \<Longrightarrow> okC P p r"
  by (cases r) (simp_all add: okC_def okP_def leavesC_def)

lemma parsePrimary_ok:
  assumes "rest p \<le> n"
  shows "okC proper p (parsePrimary pe ps p)"
proof -
  have lit: "okC proper p (postfix pe e (cat_next p))"
    if "proper e" "tkKind (cat_peek p) \<noteq> TkEOF" for e
    using that assms by (intro okC_step[of p] postfix_ok) auto
  have param: "okC proper p (postfix pe (ParamRef m) ((cat_next p)\<lparr>cpMax := k\<rparr>))"
    if "tkKind (cat_peek p) \<noteq> TkEOF" for m k
    using that assms by (intro okC_step[of p] okC_max[where p = "cat_next p" and m = k] postfix_ok) (auto simp: proper_def)
  have sub: "okC proper q (bindE (ps q) (\<lambda>(sub, p). bindE (cat_expectOp p '')'') (\<lambda>p. postfix pe (f sub) p)))"
    if "rest q < n" "\<And>st. wfS st \<Longrightarrow> proper (f st)" for q f
    using that by (auto intro!: okC_bind[OF ps] okC_expectOp postfix_ok)
  have paren: "okC proper q (bindE (pe q) (\<lambda>(e, p). bindE (cat_expectOp p '')'') (\<lambda>p. postfix pe e p)))"
    if "rest q < n" for q
    using that by (auto intro!: okC_bind[OF pe] okC_expectOp postfix_ok)
  have two: "okC proper p (bindE (ps (cat_next (cat_next p))) (\<lambda>(sub, p). bindE (cat_expectOp p '')'') (\<lambda>p. postfix pe (ArraySubqueryExpr sub) p)))"
    if "arrayAhead p"
  proof (intro okC_step[of p] okC_next[of _ "cat_next p"] sub)
    assume "rest (cat_next p) < rest p"
    then show "rest (cat_next (cat_next p)) < n" using assms rest_next[of "cat_next p"] by simp
  qed (use that in \<open>simp_all add: arrayAhead_def proper_def\<close>)
  have group: "okC proper p (if isKeyword (cat_next p) ''SELECT''
      then bindE (ps (cat_next p)) (\<lambda>(sub, p). bindE (cat_expectOp p '')'') (\<lambda>p. postfix pe (SubqueryExpr sub) p))
      else bindE (pe (cat_next p)) (\<lambda>(e, p). bindE (cat_expectOp p '')'') (\<lambda>p. postfix pe e p)))"
    if "isOp p ''(''"
  proof (rule okC_step[of p])
    assume "rest (cat_next p) < rest p"
    then have "rest (cat_next p) < n" using assms by simp
    then show "okC proper (cat_next p) (if isKeyword (cat_next p) ''SELECT''
        then bindE (ps (cat_next p)) (\<lambda>(sub, p). bindE (cat_expectOp p '')'') (\<lambda>p. postfix pe (SubqueryExpr sub) p))
        else bindE (pe (cat_next p)) (\<lambda>(e, p). bindE (cat_expectOp p '')'') (\<lambda>p. postfix pe e p)))"
      using sub[of "cat_next p" SubqueryExpr] paren[of "cat_next p"] by (simp add: proper_def)
  qed (use that in simp)
  have atoms: "proper (Literal v)" for v by (simp add: proper_def)
  show ?thesis
    unfolding parsePrimary_def Let_def using assms
    by (simp add: lit param two group parseCase_ok parseCast_ok parseIdentExpr_ok atoms split: option.split)
qed

lemma prefixN_ok:
  assumes "\<And>q. rest q \<le> n \<Longrightarrow> okC proper q (operand q)" "\<And>q. here q \<Longrightarrow> tkKind (cat_peek q) \<noteq> TkEOF"
    "op \<in> {''NOT'', ''NEG''}"
  shows "rest p \<le> n \<Longrightarrow> rest p < m \<Longrightarrow> okC proper p (prefixN m here op operand p)"
proof (induction m arbitrary: p)
  case (Suc m)
  show ?case
  proof (cases "here p")
    case True
    have "okC proper p (bindE (prefixN m here op operand (cat_next p)) (\<lambda>(e, p). Inr (UnaryExpr op e, p)))"
    proof (rule okC_step[of p])
      assume "rest (cat_next p) < rest p"
      then have "okC proper (cat_next p) (prefixN m here op operand (cat_next p))"
        using Suc.prems by (intro Suc.IH) auto
      then show "okC proper (cat_next p) (bindE (prefixN m here op operand (cat_next p)) (\<lambda>(e, p). Inr (UnaryExpr op e, p)))"
        using assms(3) by (auto intro!: okC_bind simp: proper_def)
    qed (rule assms(2)[OF True])
    then show ?thesis using True by simp
  qed (use Suc.prems assms(1) in simp)
qed simp

lemma leftLevel_ok:
  assumes "\<And>q. rest q \<le> n \<Longrightarrow> okC proper q (operand q)" "\<And>q. here q \<Longrightarrow> tkKind (cat_peek q) \<noteq> TkEOF"
    "\<And>q. here q \<Longrightarrow> tkText (cat_peek q) \<in> set plainOps - {''BETWEEN''}" "rest p \<le> n"
  shows "okC proper p (leftLevel here operand p)"
  unfolding leftLevel_def
proof (rule okC_bind[OF assms(1)[OF assms(4)]], unfold prod.case, rule loopP_ok[where n = n])
  fix l q
  assume l: "proper l" and q: "rest q \<le> n"
  show "okS (rest q) proper q (leftStep here operand l q)"
  proof (cases "here q")
    case True
    note h = assms(2)[OF True] assms(3)[OF True]
    show ?thesis
      unfolding leftStep_def using True l q h
      by (auto intro!: okS_step[of q] okS_bind[OF assms(1)] simp: proper_def)
  qed (simp add: leftStep_def)
qed (use assms(4) in auto)

lemma parseUnary_ok: "rest p \<le> n \<Longrightarrow> okC proper p (parseUnary pe ps p)"
  unfolding parseUnary_def by (rule prefixN_ok) (auto intro: parsePrimary_ok)

lemma parseMultiplicative_ok: "rest p \<le> n \<Longrightarrow> okC proper p (parseMultiplicative pe ps p)"
  unfolding parseMultiplicative_def
  by (rule leftLevel_ok[OF parseUnary_ok]) (auto simp: plainOps_def, auto simp: isOp_def)

lemma parseAdditive_ok: "rest p \<le> n \<Longrightarrow> okC proper p (parseAdditive pe ps p)"
  unfolding parseAdditive_def
  by (rule leftLevel_ok[OF parseMultiplicative_ok]) (auto simp: plainOps_def, auto simp: isOp_def)


lemma skipQualifiedName_ok:
  "(\<And>q. rest q \<le> rest p \<Longrightarrow> okS b P q (f q)) \<Longrightarrow> okS b P p (bindE (skipQualifiedName p) f)"
  unfolding skipQualifiedName_def
  by (auto intro!: okS_bind[OF nameHere_ok] okS_bind[OF dottedTail_ok]
      simp: bindE_assoc prod.case_distrib[of "\<lambda>m. bindE m f"])

lemma operatorParts_ok:
  "toksOk ts \<Longrightarrow> operatorParts ts = Some (parts, r) \<Longrightarrow>
   (\<exists>us c. ts = us @ c # r \<and> tkKind c = TkOp \<and> tkText c = '')'' \<and> map tkText us = parts) \<and> toksOk r"
proof (induction ts arbitrary: parts)
  case (Cons t ts)
  show ?case
  proof (cases "tkKind t = TkEOF")
    case True
    then show ?thesis using Cons.prems by auto
  next
    case kind: False
    with Cons.prems(1) toksOk_advance[of "t # ts"] have ts: "toksOk ts" by simp
    show ?thesis
    proof (cases "tkKind t = TkOp \<and> tkText t = '')''")
      case True
      then have "parts = []" "ts = r" using Cons.prems(2) by auto
      with ts True show ?thesis by (intro conjI exI[of _ "[]"]) auto
    next
      case False
      with kind Cons.prems(2) obtain ps' where ps: "operatorParts ts = Some (ps', r)" "parts = tkText t # ps'"
        by (auto split: if_splits)
      from Cons.IH[OF ts ps(1)] obtain us c where
        "ts = us @ c # r" "tkKind c = TkOp" "tkText c = '')''" "map tkText us = ps'" "toksOk r" by blast
      with ps(2) show ?thesis by (intro conjI exI[of _ "t # us"]) auto
    qed
  qed
qed simp

lemma operatorAhead_toks:
  assumes "operatorAhead p"
  obtains a b ts where "cpToks p = a # b # ts" "tkKind a = TkIdent" "equalFoldWord (tkText a) ''operator''"
    "tkKind b = TkOp" "tkText b = ''(''"
  using assms that
  by (cases "cpToks p"; cases "tl (cpToks p)")
    (auto simp: operatorAhead_def isIdent_def cat_peek_def cat_peekAt_def eofToken_def)

lemma parseOperatorWrapper_ok:
  assumes operand: "\<And>q. rest q < n \<Longrightarrow> okC proper q (operand q)"
    and "proper l" "rest p \<le> n" "operatorAhead p"
  shows "okS (rest p) proper p (parseOperatorWrapper operand l p)"
proof -
  obtain a b ts where p: "cpToks p = a # b # ts" "tkKind a = TkIdent" "equalFoldWord (tkText a) ''operator''"
    "tkKind b = TkOp" "tkText b = ''(''"
    by (rule operatorAhead_toks[OF assms(4)])
  then have next2: "cpToks (cat_next (cat_next p)) = ts" by simp
  show ?thesis
  proof (cases "toksOk (cpToks p)")
    case True
    then have "toksOk (b # ts)" using toksOk_advance[of "a # b # ts"] p by simp
    then have ts: "toksOk ts" using toksOk_advance[of "b # ts"] p by simp
    show ?thesis
    proof (cases "operatorParts ts")
      case (Some pr)
      then obtain parts r where pr: "operatorParts ts = Some (parts, r)" by (cases pr) auto
      from operatorParts_ok[OF ts pr] obtain us c where
        us: "ts = us @ c # r" "tkKind c = TkOp" "tkText c = '')''" "map tkText us = parts" and r: "toksOk r" by blast
      show ?thesis
      proof (cases "parts = []")
        case True
        with us p have "emptyOperator (cpToks p)" unfolding emptyOperator_def
          by (intro exI[of _ "[]"] exI[of _ a] exI[of _ b] exI[of _ c] exI[of _ r]) simp
        then show ?thesis
          using pr next2 True by (simp add: parseOperatorWrapper_def okS_def okP_def okErr_def)
      next
        case False
        have leaves: "leavesC p (p\<lparr>cpToks := r\<rparr>)" using p us r
          by (auto simp: leavesC_def suffix_def intro!: exI[of _ "a # b # us @ [c]"])
        have ops: "set wrappedOps \<subseteq> set plainOps - {''BETWEEN''}" by (simp add: wrappedOps_def plainOps_def)
        have "okS (rest p) proper p
            (bindE (operand (p\<lparr>cpToks := r\<rparr>)) (\<lambda>(right, p). Inr (Some (binary (last parts) l right, p))))"
          if "last parts \<in> set wrappedOps"
          using ops that assms(2,3) p us
          by (intro okS_from[OF _ leaves] okS_bind[OF operand]) (auto simp: proper_def)
        with pr next2 False show ?thesis by (simp add: parseOperatorWrapper_def)
      qed
    qed (use p in \<open>simp add: parseOperatorWrapper_def\<close>)
  qed (simp add: okS_def okP_def)
qed

lemma compareTokens_plain: "set compareTokens - {''!=''} \<subseteq> set plainOps - {''BETWEEN''}"
  by (auto simp: compareTokens_def plainOps_def)

lemma parseCompareTail_ok:
  assumes operand: "\<And>q. rest q < n \<Longrightarrow> okC proper q (operand q)"
    and "proper l" "rest p \<le> n" "compareAhead p"
  shows "okS (rest p) proper p (parseCompareTail pe operand l p)"
proof (rule okS_step[of p])
  assume less: "rest (cat_next p) < rest p"
  let ?op = "tkText (cat_peek p)"
  have op: "?op \<in> set compareTokens" using assms(4) by (simp add: compareAhead_def)
  then have plain: "(if ?op = ''!='' then ''<>'' else ?op) \<in> set plainOps - {''BETWEEN''}"
    using compareTokens_plain by (auto simp: plainOps_def)
  have "okS (rest p) proper (cat_next p)
      (bindE (operand (cat_next p)) (\<lambda>(right, q). Inr (Some (binary (if ?op = ''!='' then ''<>'' else ?op) l right, q))))"
    using less assms(2,3) plain by (intro okS_bind[OF operand]) (simp_all only: prod.case okS_Some, auto simp: proper_def)
  moreover have "okS (rest p) proper (cat_next p)
      (bindE (cat_expectOp (cat_next (cat_next p)) ''('') (\<lambda>p.
        bindE (pe p) (\<lambda>(right, p).
        bindE (cat_expectOp p '')'') (\<lambda>p. Inr (Some (BinExpr ?op l right False True, p))))))"
    using less assms(2,3) op rest_next[of "cat_next p"]
    by (intro okS_next[of _ _ "cat_next p"])
      (auto intro!: okS_expectOp okS_bind[OF pe] simp: proper_def isTail_def compareTokens_def)
  ultimately show "okS (rest p) proper (cat_next p) (parseCompareTail pe operand l p)"
    unfolding parseCompareTail_def Let_def by simp
qed (use assms(4) in simp)


lemma parseParenList_ok:
  "rest p \<le> n \<Longrightarrow> okC (\<lambda>xs. xs \<noteq> [] \<and> (\<forall>x \<in> set xs. proper x)) p (parseParenList pe p)"
  unfolding parseParenList_def
proof (rule okC_expectOp)
  fix q
  assume q: "rest p \<le> n" "rest q < rest p"
  then have "okC (\<lambda>xs. xs \<noteq> [] \<and> (\<forall>x \<in> set xs. proper x)) q (listOf pe q)"
    by (intro listOf_ok[where n = "n - 1"] pe) auto
  then show "okC (\<lambda>xs. xs \<noteq> [] \<and> (\<forall>x \<in> set xs. proper x)) q
      (bindE (listOf pe q) (\<lambda>(xs, p). bindE (cat_expectOp p '')'') (\<lambda>p. Inr (xs, p))))"
    by (auto intro!: okC_bind okC_expectOp)
qed

lemma cat_parseBetweenTail_ok:
  assumes "\<And>q. rest q < n \<Longrightarrow> okC proper q (operand q)" "rest p < n"
  shows "okC (\<lambda>e. wfE e \<and> isTail e) p (cat_parseBetweenTail operand p)"
  unfolding cat_parseBetweenTail_def using assms(2)
  by (auto intro!: okC_bind[OF assms(1)] okC_expectKeyword simp: proper_def)

lemma cat_parsePredicate_ok:
  assumes operand: "\<And>q. rest q < n \<Longrightarrow> okC proper q (operand q)"
    and "proper l" "rest p \<le> n" "predicateAhead (cat_peek p)" "rest p \<le> b"
  shows "okS b proper p (cat_parsePredicate pe operand neg l p)"
proof (rule okS_step[of p])
  assume less: "rest (cat_next p) < rest p"
  let ?word = "tkText (cat_peek p)"
  have word: "?word \<in> set predicateWords" using assms(4) by (simp add: predicateAhead_def)
  have "map lowerChar ''LIKE'' = ''like''" "map lowerChar ''ILIKE'' = ''ilike''" by code_simp+
  then have "map lowerChar ?word \<in> {''like'', ''ilike''}" if "?word \<noteq> ''IN''" "?word \<noteq> ''BETWEEN''"
    using word that unfolding predicateWords_def by auto
  then show "okS b proper (cat_next p) (cat_parsePredicate pe operand neg l p)"
    unfolding cat_parsePredicate_def Let_def using less assms(2,3,5)
    by (auto intro!: okS_bind[OF parseParenList_ok] okS_bind[OF cat_parseBetweenTail_ok[OF operand]] okS_bind[OF operand]
        simp: proper_def plainOps_def)
qed (use assms(4) in simp)

lemma parseIs_ok:
  assumes "proper l" "isKeyword p ''IS''"
  shows "okS (rest p) proper p (parseIs l p)"
proof -
  have "okS (rest p) proper q
      (if isKeyword q ''NULL'' then Inr (Some (IsNullExpr l neg, cat_next q))
       else if isKeyword q ''TRUE'' \<or> isKeyword q ''FALSE'' then Inr (Some (l, cat_next q))
       else Inl (cat_errf [T ''unsupported IS form: ['', S (tokenText (cat_peek q)), T '']'']))"
    if "rest q < rest p" for q neg
    using assms(1) that by (auto intro!: okS_step[of q] simp: proper_def)
  from this[of "cat_next (cat_next p)" True] this[of "cat_next p" False] show ?thesis
    unfolding parseIs_def acceptKeyword_def using assms(2) rest_next[of "cat_next p"]
    by (intro okS_step[of p]) (auto intro: okS_next[of _ _ "cat_next p"] simp del: cpToks_next)
qed

lemma comparisonStep_ok:
  assumes operand: "\<And>q. rest q \<le> n \<Longrightarrow> okC proper q (operand q)" and "proper l" "rest p \<le> n"
  shows "okS (rest p) proper p (comparisonStep pe operand l p)"
proof -
  have operand': "rest q < n \<Longrightarrow> okC proper q (operand q)" for q using operand by simp
  have collate: "okS (rest p) proper p (bindE (skipQualifiedName (cat_next p)) (\<lambda>p. Inr (Some (l, p))))"
    if "isKeyword p ''COLLATE''"
    using that assms(2) by (intro okS_step[of p] skipQualifiedName_ok) auto
  have negated: "okS (rest p) proper p (cat_parsePredicate pe operand True l (cat_next p))"
    if "isKeyword p ''NOT''" "predicateAhead (cat_peekAt 1 p)"
  proof (rule okS_step[of p])
    assume "rest (cat_next p) < rest p"
    moreover have "cat_peekAt 1 p = cat_peek (cat_next p)"
      using that(1) by (cases "cpToks p") (auto simp: cat_peekAt_def cat_peek_def isKeyword_def eofToken_def)
    ultimately show "okS (rest p) proper (cat_next p) (cat_parsePredicate pe operand True l (cat_next p))"
      using that(2) assms(2,3) by (intro cat_parsePredicate_ok[OF operand']) auto
  qed (use that in simp)
  show ?thesis
    unfolding comparisonStep_def using assms(2,3)
    by (simp add: collate negated parseOperatorWrapper_ok[OF operand'] parseCompareTail_ok[OF operand']
        cat_parsePredicate_ok[OF operand'] parseIs_ok)
qed

lemma parseComparison_ok: "rest p \<le> n \<Longrightarrow> okC proper p (parseComparison pe ps p)"
  unfolding parseComparison_def Let_def
  by (rule okC_bind[OF parseAdditive_ok])
    (auto intro!: loopP_ok[where n = n] comparisonStep_ok parseAdditive_ok)

lemma cat_parseNot_ok: "rest p \<le> n \<Longrightarrow> okC proper p (cat_parseNot pe ps p)"
  unfolding cat_parseNot_def by (rule prefixN_ok) (auto intro: parseComparison_ok)

lemma cat_parseAnd_ok: "rest p \<le> n \<Longrightarrow> okC proper p (cat_parseAnd pe ps p)"
  unfolding cat_parseAnd_def
  by (rule leftLevel_ok[OF cat_parseNot_ok]) (auto simp: plainOps_def, auto simp: isKeyword_def)

lemma cat_parseOr_ok: "rest p \<le> n \<Longrightarrow> okC proper p (cat_parseOr pe ps p)"
  unfolding cat_parseOr_def
  by (rule leftLevel_ok[OF cat_parseAnd_ok]) (auto simp: plainOps_def, auto simp: isKeyword_def)


lemma parseAlias_ok: "okC (\<lambda>_. True) p (parseAlias ok p)"
  unfolding parseAlias_def by (auto intro!: okC_next[of _ p] okC_bind[OF nameHere_ok])

lemma cat_parseTableRef_ok: "okC (\<lambda>_. True) p (cat_parseTableRef p)"
proof -
  have dotted: "okC (\<lambda>_. True) q (if isOp q ''.''
      then bindE (nameHere what (cat_next q)) (\<lambda>(second, p). Inr ((first, second), p))
      else Inr (([], first), q))" for q what and first :: string
    by (auto intro!: okC_next[of _ q] okC_bind[OF nameHere_ok])
  show ?thesis
    unfolding cat_parseTableRef_def
    by (auto intro!: okC_bind[OF nameHere_ok] okC_bind[OF dotted] okC_bind[OF parseAlias_ok])
qed

lemma joinKind_Some:
  assumes "joinKind p = Some (kind, q)"
  shows "kind \<in> {''join'', ''left'', ''right'', ''full'', ''cross''} \<and> rest q \<le> rest p"
    and "okS b P q r \<Longrightarrow> okS b P p r"
  using assms rest_next[of p] rest_accept[of "cat_next p" "''OUTER''"]
  by (auto simp: joinKind_def Let_def split: if_splits intro: okS_next[of _ _ p] okS_accept[of _ _ "cat_next p"])

lemma fromStep_ok:
  assumes "wfT l" "rest p \<le> n"
  shows "okS (rest p) wfT p (fromStep pe l p)"
proof -
  have cross: "okS (rest p) wfT p (bindE (cat_parseTableRef (cat_next p)) (\<lambda>(r, p).
      Inr (Some (JoinExpr l (TableSource r) ''cross'' None, p))))" if "isOp p '',''"
    using that assms by (intro okS_step[of p] okS_bind[OF cat_parseTableRef_ok]) auto
  have join: "okS (rest p) wfT q (bindE (cat_expectKeyword q ''JOIN'') (\<lambda>p.
            bindE (cat_parseTableRef p) (\<lambda>(r, p).
            if kind = ''cross'' then Inr (Some (JoinExpr l (TableSource r) kind None, p))
            else
              bindE (cat_expectKeyword p ''ON'') (\<lambda>p.
              bindE (pe p) (\<lambda>(on, p).
              Inr (Some (JoinExpr l (TableSource r) kind (Some on), p)))))))"
    if "kind \<in> {''join'', ''left'', ''right'', ''full'', ''cross''}" "rest q \<le> rest p" for kind q
    using that assms
    by (intro okS_expectKeyword okS_bind[OF cat_parseTableRef_ok])
      (auto intro!: okS_expectKeyword okS_bind[OF pe] simp: proper_def)
  show ?thesis
  proof (cases "isOp p '',''")
    case False
    show ?thesis
    proof (cases "joinKind p")
      case (Some kq)
      then obtain kind q where k: "joinKind p = Some (kind, q)" by (cases kq) auto
      note kind = joinKind_Some(1)[OF k]
      from joinKind_Some(2)[OF k join[OF conjunct1[OF kind] conjunct2[OF kind]]] False k
      show ?thesis by (simp add: fromStep_def)
    qed (simp add: fromStep_def False)
  qed (simp add: fromStep_def cross)
qed

lemma parseFrom_ok: "rest p \<le> n \<Longrightarrow> okC wfT p (parseFrom pe p)"
  unfolding parseFrom_def
  by (rule okC_bind[OF cat_parseTableRef_ok]) (auto intro!: loopP_ok[where n = n] fromStep_ok)

lemma cat_parseSelectItem_ok: "rest p < n \<Longrightarrow> okC wfI p (cat_parseSelectItem pe p)"
proof -
  assume "rest p < n"
  then have item: "okC wfI p (bindE (pe p) (\<lambda>(e, p). bindE (parseAlias (\<lambda>_. True) p) (\<lambda>(alias, p).
      Inr (ItemExpr e (case alias of None \<Rightarrow> derivedName e | Some a \<Rightarrow> a), p))))"
    by (auto intro!: okC_bind[OF pe] okC_bind[OF parseAlias_ok] simp: proper_def)
  have "okC wfI p (Inr (ItemStar q, cat_next (cat_next (cat_next p))))" for q
    by (intro okC_next[of _ p] okC_next[of _ "cat_next p"] okC_next[of _ "cat_next (cat_next p)"]) simp
  moreover have "okC wfI p (Inr (ItemStar q, cat_next p))" for q by (intro okC_next[of _ p]) simp
  ultimately show ?thesis unfolding cat_parseSelectItem_def using item by simp
qed

lemma refuseKeywords_ok: "(\<And>u. okC P p (f u)) \<Longrightarrow> okC P p (bindE (refuseKeywords ws p) f)"
  by (simp add: refuseKeywords_def)

lemma parseSelectCore_ok:
  assumes "rest p \<le> n"
  shows "okC (\<lambda>st. wfS st) p (parseSelectCore pe p)"
proof (cases "isKeyword p ''SELECT''")
  case True
  have src: "okC (\<lambda>r. \<forall>t \<in> set_option r. wfT t) q (optFrom pe q)" if "rest q \<le> n" for q
    unfolding optFrom_def using that by (auto intro!: okC_step[of q] okC_bind[OF parseFrom_ok])
  have body: "okC wfS q (bindE (listOf (cat_parseSelectItem pe) q) (\<lambda>(items, p).
      bindE (optFrom pe p) (\<lambda>(src, p).
      bindE (clauseExpr ''WHERE'' pe p) (\<lambda>(cond, p).
      bindE (refuseKeywords beyondCore p) (\<lambda>_.
      Inr (Stmt items src cond [] None None dist 0 [], p))))))" if "rest q < n" for q dist
    using that
    by (intro okC_bind[OF listOf_ok[OF cat_parseSelectItem_ok, where n = "rest q"]])
      (auto intro!: okC_bind[OF src] okC_bind[OF clauseExpr_ok] refuseKeywords_ok simp: proper_def)
  show ?thesis
    unfolding parseSelectCore_def using True assms rest_next[of "cat_next p"]
    by (auto simp: acceptKeyword_def simp del: cpToks_next
        intro!: okC_step[of p] okC_next[of _ "cat_next p"] body)
qed (simp add: parseSelectCore_def)

text \<open>\<open>UNION\<close> is no reserved word, so no \<open>UNION\<close> branch is ever read.\<close>

lemma no_union: "okC (\<lambda>bs. bs = []) p (loopP (unionStep core) [] p)"
proof (rule loopP_ok[where n = "rest p"])
  fix bs :: "(stmt \<times> bool) list" and q
  assume bs: "bs = []"
  show "okS (rest q) (\<lambda>bs. bs = []) q (unionStep core bs q)"
  proof (cases "toksOk (cpToks q)")
    case True
    then have "\<not> isKeyword q ''UNION''"
      by (cases "cpToks q") (auto simp: toksOk_def isKeyword_def cat_peek_def Cons_eq_append_conv
          cat_wfToken_def cat_keywords_def)
    then show ?thesis by (simp add: unionStep_def)
  qed (simp add: okS_def okP_def)
qed auto

lemma cat_parseOrderItem_ok: "rest p < n \<Longrightarrow> okC (\<lambda>t. proper (fst t)) p (cat_parseOrderItem pe p)"
  unfolding cat_parseOrderItem_def
proof (rule okC_bind[OF pe], assumption, unfold prod.case)
  fix e q
  assume "proper e"
  then show "okC (\<lambda>t. proper (fst t)) q (Inr (if isKeyword q ''DESC'' then ((e, True), cat_next q)
      else ((e, False), snd (acceptKeyword q ''ASC''))))"
    by (cases "isKeyword q ''DESC''") (simp_all add: okC_next[of _ q] okC_accept[of _ q "''ASC''"])
qed

lemma parseOrder_ok:
  assumes "rest p \<le> n"
  shows "okC (\<lambda>ts. \<forall>t \<in> set ts. proper (fst t)) p (parseOrder pe p)"
proof (cases "isKeyword p ''ORDER''")
  case True
  have terms: "okC (\<lambda>ts. \<forall>t \<in> set ts. proper (fst t)) q (listOf (cat_parseOrderItem pe) q)" if "rest q < n" for q
    using that by (intro okC_mono[OF listOf_ok[OF cat_parseOrderItem_ok, where n = "rest q"]]) auto
  show ?thesis unfolding parseOrder_def using True assms
    by (auto intro!: okC_step[of p] okC_expectKeyword terms)
qed (simp add: parseOrder_def)

lemma cat_parseSelect_ok:
  assumes "rest p \<le> n"
  shows "okC wfS p (cat_parseSelect pe p)"
  unfolding cat_parseSelect_def Let_def
proof (rule okC_bind[OF parseSelectCore_ok[OF assms]], unfold prod.case)
  fix st q
  assume st: "wfS st" and q: "rest q \<le> rest p"
  then show "okC wfS q (bindE (loopP (unionStep (parseSelectCore pe)) [] q) (\<lambda>(branches, p).
     bindE (parseOrder pe p) (\<lambda>(order, p).
     bindE (clauseExpr ''LIMIT'' pe p) (\<lambda>(lim, p).
     bindE (clauseExpr ''OFFSET'' pe p) (\<lambda>(off, p).
     bindE (refuseKeywords beyondTail p) (\<lambda>_.
     Inr (Stmt (stItems st) (stFrom st) (stWhere st) order lim off (stDistinct st) (cpMax q) branches, p)))))))"
    using assms
    by (cases st) (auto intro!: okC_bind[OF no_union] okC_bind[OF parseOrder_ok] okC_bind[OF clauseExpr_ok] refuseKeywords_ok
        simp: proper_def)
qed

end

lemma knot_ok: "rest p < k \<Longrightarrow> okC proper p (exprN k p)" "rest p < k \<Longrightarrow> okC wfS p (selectN k p)"
proof (induction k arbitrary: p)
  case (Suc k)
  {
    case 1
    from Suc.IH have "knot (exprN k) (selectN k) k" by unfold_locales
    then show ?case using 1 by (simp add: knot.cat_parseOr_ok)
  next
    case 2
    from Suc.IH have "knot (exprN k) (selectN k) k" by unfold_locales
    then show ?case using 2 by (simp add: knot.cat_parseSelect_ok)
  }
qed simp_all

interpretation parser: knot "exprN k" "selectN k" k for k
  by unfold_locales (simp_all add: knot_ok)

subsection \<open>Properties\<close>

lemma parseSQL_ok:
  assumes "cat_lex src = Inr ts"
  shows "okC wfS \<lparr>cpToks = ts, cpMax = 0\<rparr> (selectN (Suc (length ts)) \<lparr>cpToks = ts, cpMax = 0\<rparr>)" "toksOk ts"
proof -
  from assms obtain us where us: "ts = us @ [mkToken TkEOF [] (length src)]" "list_all cat_wfToken us"
    by (rule cat_stream)
  show "toksOk ts" unfolding toksOk_def by (rule exI[of _ us], rule exI[of _ "mkToken TkEOF [] (length src)"]) (simp add: us)
  show "okC wfS \<lparr>cpToks = ts, cpMax = 0\<rparr> (selectN (Suc (length ts)) \<lparr>cpToks = ts, cpMax = 0\<rparr>)"
    by (rule knot_ok) simp
qed

lemma parseSQL_shape:
  assumes "parseSQL src = Inr st"
  shows "wfS st"
proof -
  from assms obtain ts st' p where ts: "cat_lex src = Inr ts"
    and st': "selectN (Suc (length ts)) \<lparr>cpToks = ts, cpMax = 0\<rparr> = Inr (st', p)"
    and st: "st = Stmt (stItems st') (stFrom st') (stWhere st') (stOrder st') (stLimit st') (stOffset st')
       (stDistinct st') (cpMax p) (stUnion st')"
    unfolding parseSQL_def by (auto simp: bindE_eq_Inr Let_def split: if_splits)
  from parseSQL_ok[OF ts] st' have "wfS st'" by (simp add: okC_def okP_def)
  with st show ?thesis by (cases st') simp
qed


lemma parseSQL_outcome:
  assumes "parseSQL src = Inl e"
  shows "(\<exists>r. e = cat_errf r) \<or> (\<exists>r. e = capErrf r) \<or>
    e = CatPanic \<and> (\<exists>ts. cat_lex src = Inr ts \<and> emptyOperator ts)"
proof (cases "cat_lex src")
  case (Inl e')
  then show ?thesis using assms cat_lex_error[OF Inl] by (auto simp: parseSQL_def syntaxError_def)
next
  case (Inr ts)
  then consider "selectN (Suc (length ts)) \<lparr>cpToks = ts, cpMax = 0\<rparr> = Inl e" | r where "e = cat_errf r"
    using assms unfolding parseSQL_def by (auto simp: bindE_eq_Inl Let_def split: if_splits)
  then show ?thesis
  proof cases
    case 1
    with parseSQL_ok[OF Inr] have "okErr ts e" by (simp add: okC_def okP_def)
    with Inr show ?thesis by (auto simp: okErr_def)
  qed blast
qed

text \<open>C20. The catalog parser answers every statement: with a tree, or with a syntax error or an
  error about what is beyond the dialect; its loops and its recursion never run out. Its only
  other outcome is a run-time panic, and only for a statement that contains the tokens of
  \<open>OPERATOR()\<close>.\<close>

theorem parseSQL_errors:
  assumes "parseSQL src = Inl e"
  shows "(\<exists>r. e = cat_errf r) \<or> (\<exists>r. e = capErrf r) \<or>
    e = CatPanic \<and> (\<exists>ts. cat_lex src = Inr ts \<and> emptyOperator ts)"
  using assms by (rule parseSQL_outcome)

text \<open>The panic happens, and the caller does not recover from it.\<close>

lemma parse_empty_operator: "parseSQL ''SELECT a OPERATOR()'' = Inl CatPanic"
  by code_simp

text \<open>\<open>IS FALSE\<close> is read as the expression itself, exactly like \<open>IS TRUE\<close>; \<open>ALL\<close> is read as
  \<open>ANY\<close>; \<open>SOME\<close> is not read at all.\<close>

lemma parse_is_false: "parseSQL ''SELECT a IS FALSE'' = parseSQL ''SELECT a IS TRUE''"
  by code_simp

lemma parse_all_is_any: "parseSQL ''SELECT a <> ALL (b)'' = parseSQL ''SELECT a <> ANY (b)''"
  by code_simp

lemma parse_some_refused: "parseSQL ''SELECT a = SOME (b)'' = Inl (cat_errf [T ''unexpected token ['', S ''SOME'', T '']''])"
  by code_simp

lemma parse_union_refused: "parseSQL ''SELECT a FROM t UNION SELECT b FROM u'' =
    Inl (cat_errf [T ''unexpected content after the statement''])"
  by code_simp


lemma parseSQL_errors_witness:
  "(\<exists>r. CatPanic = cat_errf r) \<or> (\<exists>r. CatPanic = capErrf r) \<or>
   CatPanic = CatPanic \<and> (\<exists>ts. cat_lex ''SELECT a OPERATOR()'' = Inr ts \<and> emptyOperator ts)"
  by (rule parseSQL_errors) code_simp

end
