(* ===== verification/CatApi.thy ===== *)
theory CatApi
  imports CatSpecial CatGrammar
begin

text \<open>
  The catalog package's interface, \<open>internal/catalog/api.go\<close> (with \<open>Statement\<close> and \<open>Exec\<close> of
  \<open>eval.go\<close>): a query is prepared without the provider - recognised as a special case, or parsed,
  its tables and functions checked, its output columns inferred - and executed any number of
  times over a fresh snapshot.
\<close>

subsection \<open>Validation\<close>

fun allOk :: "('e + unit) list \<Rightarrow> 'e + unit" where
  "allOk [] = Inr ()"
| "allOk (r # rs) = bindE r (\<lambda>_. allOk rs)"

definition optOk :: "('e + unit) option \<Rightarrow> 'e + unit" where
  "optOk r = (case r of None \<Rightarrow> Inr () | Some x \<Rightarrow> x)"

definition knownTable :: "string \<Rightarrow> bool" where
  "knownTable name \<longleftrightarrow> tableRegistry name \<noteq> (None :: unit tableDef option)"

definition knownFunction :: "string \<Rightarrow> bool" where
  "knownFunction name \<longleftrightarrow> lookupFunction name \<noteq> (None :: unit funcDef option)"

definition sourceOk :: "(catError + unit) sourceSpec \<Rightarrow> catError + unit" where
  "sourceOk sp = (case sp of (r, kind, on) \<Rightarrow>
     if \<not> knownTable (trName r) then Inl (unknownRelation (trName r)) else optOk on)"

text \<open>The checks of an expression and, in second place, those of a \<open>BETWEEN\<close> range, which is no
  expression of its own.\<close>

primrec validate :: "cexpr \<Rightarrow> (catError + unit) \<times> (catError + unit)"
  and validateItem :: "selectItem \<Rightarrow> catError + unit"
  and validateFrom :: "tableExpr \<Rightarrow> catError + (catError + unit) sourceSpec list"
  and validateSubquery :: "stmt \<Rightarrow> catError + unit" where
  "validate (Literal v) = (Inr (), Inr ())"
| "validate (ColRef tbl name) = (Inr (), Inr ())"
| "validate (ParamRef n) = (Inr (), Inr ())"
| "validate (FuncCall name args) =
     (if \<not> knownFunction name then Inl (funcErrf name) else allOk (map fst (map validate args)), Inr ())"
| "validate (BinExpr op l r neg anyList) = (allOk [fst (validate l), fst (validate r), snd (validate r)], Inr ())"
| "validate (UnaryExpr op e) = (fst (validate e), Inr ())"
| "validate (IsNullExpr e neg) = (fst (validate e), Inr ())"
| "validate (InExpr e xs neg) = (allOk (fst (validate e) # map fst (map validate xs)), Inr ())"
| "validate (CaseExpr operand whens els) =
     (allOk [optOk (map_option fst (map_option validate operand)),
        allOk (map (\<lambda>w. allOk [fst (fst w), fst (snd w)]) (map (map_prod validate validate) whens)),
        optOk (map_option fst (map_option validate els))], Inr ())"
| "validate (CastExpr e target) = (fst (validate e), Inr ())"
| "validate (SubscriptExpr base idx) = (allOk [fst (validate base), fst (validate idx)], Inr ())"
| "validate (SubqueryExpr st) = (validateSubquery st, Inr ())"
| "validate (ArraySubqueryExpr st) = (validateSubquery st, Inr ())"
| "validate (BetweenTail lo hi) = (Inr (), allOk [fst (validate lo), fst (validate hi)])"
| "validateItem (ItemExpr e name) = fst (validate e)"
| "validateItem (ItemStar tbl) = Inr ()"
| "validateFrom (TableSource r) = Inr [(r, ''first'', None)]"
| "validateFrom (JoinExpr l r kind on) =
     bindE (validateFrom l) (\<lambda>out. case r of
         TableSource ref \<Rightarrow> Inr (out @ [(ref, kind, map_option fst (map_option validate on))])
       | JoinExpr _ _ _ _ \<Rightarrow> Inl CatPanic)"
| "validateSubquery (Stmt items src cond order lim off dist mp branches) =
     bindE (case map_option validateFrom src of None \<Rightarrow> Inr [] | Some specs \<Rightarrow> specs) (\<lambda>specs.
     allOk [allOk (map sourceOk specs), allOk (map validateItem items),
       optOk (map_option fst (map_option validate cond)),
       allOk (map (\<lambda>t. fst (fst t)) (map (map_prod validate id) order)),
       allOk (map fst (map (map_prod validateSubquery id) branches))])"

definition validateFunctions :: "cexpr \<Rightarrow> catError + unit" where
  "validateFunctions e = fst (validate e)"

subsection \<open>Statements\<close>

record 's statement =
  smCols :: "col list"
  smStmt :: stmt
  smSpecial :: "('s specialCase \<times> string) option"

definition emptyStmt :: "int \<Rightarrow> stmt" where
  "emptyStmt n = Stmt [] None None [] None None False n []"

definition bindDef :: "cexpr sourceSpec \<Rightarrow> catError + boundDef" where
  "bindDef sp = (case sp of (r, kind, on) \<Rightarrow>
     (case tableRegistry (trName r) of
        None \<Rightarrow> Inl (unknownRelation (trName r))
      | Some d \<Rightarrow>
          if kind = ''right'' \<or> kind = ''full''
          then Inl (capErrf [T ''catalog queries support [LEFT] JOIN, not '', S (map upperChar kind), T '' JOIN''])
          else Inr (trAlias r, tdCols (d :: unit tableDef))))"

definition prepareStmt :: "stmt \<Rightarrow> catError + col list" where
  "prepareStmt st =
     bindE (case stFrom st of None \<Rightarrow> Inr [] | Some t \<Rightarrow> flattenFrom t) (\<lambda>sources.
     bindE (mapE bindDef sources) (\<lambda>bound.
     bindE (allOk (map (\<lambda>(r, kind, on). optOk (map_option validateFunctions on)) sources)) (\<lambda>_.
     bindE (allOk (map validateItem (stItems st))) (\<lambda>_.
     bindE (optOk (map_option validateFunctions (stWhere st))) (\<lambda>_.
     bindE (allOk (map (\<lambda>t. validateFunctions (fst t)) (stOrder st))) (\<lambda>_.
     inferColumns (stItems st) bound))))))"

definition cat_Prepare :: "string \<Rightarrow> catError + 's statement" where
  "cat_Prepare query = (case matchSpecial query of
     Some sc \<Rightarrow> Inr \<lparr>smCols = spCols sc, smStmt = emptyStmt (maxParamOf query), smSpecial = Some (sc, query)\<rparr>
   | None \<Rightarrow>
       bindE (parseSQL query) (\<lambda>st.
       bindE (prepareStmt st) (\<lambda>cols. Inr \<lparr>smCols = cols, smStmt = st, smSpecial = None\<rparr>)))"

definition ParamCount :: "'s statement \<Rightarrow> int" where
  "ParamCount sm = stMaxParam (smStmt sm)"

text \<open>An execution starts from a fresh snapshot over the provider's state.\<close>

definition cat_Exec ::
  "golib \<Rightarrow> 's provider \<Rightarrow> 's statement \<Rightarrow> string \<Rightarrow> cval list \<Rightarrow> 's \<Rightarrow> (catFailure + cval list list) \<times> 's" where
  "cat_Exec lib pr sm db params s =
     (let sn = newSnapshot db params s;
          (r, sn') = (case smSpecial sm of
             Some (sc, query) \<Rightarrow> spRun sc lib pr query sn
           | None \<Rightarrow> evalQuery lib pr (smStmt sm) [] sn)
      in (r, snStore sn'))"

subsection \<open>The dispatcher's test\<close>

definition referencePosition :: "token \<Rightarrow> bool" where
  "referencePosition t \<longleftrightarrow>
     tkKind t = TkKeyword \<and> (tkText t = ''FROM'' \<or> tkText t = ''JOIN'') \<or> tkKind t = TkOp \<and> tkText t = '',''"

fun referencesFrom :: "golib \<Rightarrow> token option \<Rightarrow> token list \<Rightarrow> bool" where
  "referencesFrom lib prev [] \<longleftrightarrow> False"
| "referencesFrom lib prev (t # ts) \<longleftrightarrow>
     tkKind t = TkIdent \<and>
       (let name = glLower lib (tkText t) in
        name = ''pg_catalog'' \<or> name = ''information_schema'' \<or>
        (case prev of None \<Rightarrow> False | Some p \<Rightarrow> referencePosition p \<and> knownTable name)) \<or>
     referencesFrom lib (Some t) ts"

definition ReferencesCatalogTables :: "golib \<Rightarrow> string \<Rightarrow> bool" where
  "ReferencesCatalogTables lib sql =
     (case cat_lex sql of Inl _ \<Rightarrow> False | Inr toks \<Rightarrow> referencesFrom lib None toks)"

end
