(* ===== verification/PgServer.thy ===== *)
theory PgServer
  imports PgWrite Cluster CatApi GoFmt
begin

text \<open>
  The PostgreSQL server, \<open>internal/pgserver\<close>: the dispatch of a query string (\<open>server.go\<close>), session
  statements (\<open>session.go\<close>), catalog statements (\<open>catalog.go\<close>), reads (\<open>query.go\<close>), writes (\<open>write.go\<close>)
  and the error mapping (\<open>errors.go\<close>).

  The wire library psql-wire is not part of the repository. It calls \<open>parse\<close> with a query string,
  announces the columns of each prepared statement and calls its body with the bound parameters,
  each a text or NULL. A body writes rows through the library's writer, which may refuse a row
  (\<open>gwEncode\<close>), and ends with a command tag or an error; it recovers from panics below, while \<open>parse\<close>
  does not. The cluster, its default database and the provider of the catalog are parameters, as is
  the test whether an error of the store was a cancelled context. The names of the library's error
  codes are kept as names.
\<close>

subsection \<open>Errors\<close>

datatype pgCode =
    Internal | Syntax | UndefinedTable | UndefinedObject | FeatureNotSupported | QueryCanceled
  | Code string

datatype pgError =
    PgError pgCode reason
  | RowError reason        \<comment> \<open>the writer's own error, handed on as it is\<close>

datatype pipelineError =
    OfTranslate terror
  | OfCatalog string reason   \<comment> \<open>\<open>catalog.Error\<close>: its type and its reason\<close>
  | OfStore storeError
  | OfOther string

definition wireError :: "(storeError \<Rightarrow> bool) \<Rightarrow> pipelineError \<Rightarrow> pgError" where
  "wireError canceled e =
     (case e of
        OfTranslate te \<Rightarrow> PgError (Code (Type te)) (Reason te)
      | OfCatalog ty r \<Rightarrow> PgError (Code ty) r
      | OfStore se \<Rightarrow>
          if canceled se then PgError QueryCanceled [T ''canceling statement due to user request'']
          else PgError Internal [V ''err'']
      | OfOther msg \<Rightarrow> PgError Internal [S msg])"

fun sqlstateOf :: "writeClass \<Rightarrow> string" where
  "sqlstateOf ClassUnknownField = ''42703''"
| "sqlstateOf ClassMissing = ''23502''"
| "sqlstateOf ClassNull = ''23502''"
| "sqlstateOf ClassType = ''42804''"
| "sqlstateOf ClassRange = ''22003''"
| "sqlstateOf ClassLength = ''22001''"
| "sqlstateOf ClassDim = ''22023''"
| "sqlstateOf ClassFunctionField = ''428C9''"
| "sqlstateOf ClassAutoID = ''428C9''"
| "sqlstateOf ClassUnsupported = ''0A000''"

definition writeWireError :: "(storeError \<Rightarrow> bool) \<Rightarrow> storeError \<Rightarrow> pgError" where
  "writeWireError canceled e =
     (case e of
        WriteFail (Rejected we) \<Rightarrow> PgError (Code (sqlstateOf (weClass we))) (weReason we)
      | _ \<Rightarrow> wireError canceled (OfStore e))"

definition recoveredError :: pgError where
  "recoveredError = PgError Internal [T ''internal error while executing the statement: '', V ''p'']"

definition storePanics :: "storeError \<Rightarrow> bool" where
  "storePanics e \<longleftrightarrow> e = StorePanic \<or> e = WriteFail Panicked"

text \<open>An error of a call below, as the body's recovery and its own handling leave it.\<close>

definition failed :: "(storeError \<Rightarrow> pgError) \<Rightarrow> storeError \<Rightarrow> pgError" where
  "failed render e = (if storePanics e then recoveredError else render e)"

subsection \<open>Prepared statements\<close>

record wireColumn =
  wcName :: string
  wcOid :: nat

record answer =
  anRows :: "wireCell list list"
  anEnd :: "pgError + string"     \<comment> \<open>an error, or the tag of the completed command\<close>

type_synonym 's body = "string option list \<Rightarrow> 's \<Rightarrow> (answer \<times> 's) option"

record 's prepared =
  ppColumns :: "wireColumn list"
  ppParams :: int
  ppBody :: "'s body"

datatype refusal =
    Refused pgError
  | GatewayDown      \<comment> \<open>a panic nothing recovers from\<close>

record 's gateway =
  gwLib :: golib
  gwDatabase :: "string \<Rightarrow> ('s, 's cluster) call"   \<comment> \<open>\<open>Cluster.Database\<close>\<close>
  gwDefault :: string                                \<comment> \<open>\<open>Cluster.DefaultDatabase\<close>\<close>
  gwProvider :: "'s provider"
  gwCanceled :: "storeError \<Rightarrow> bool"
  gwEncode :: "wireColumn list \<Rightarrow> wireCell list \<Rightarrow> reason option"
  gwMarshal :: "string \<Rightarrow> string option"            \<comment> \<open>\<open>json.Marshal\<close> of a value known by its text only\<close>

definition stopped :: "pgError \<Rightarrow> answer" where
  "stopped e = \<lparr>anRows = [], anEnd = Inl e\<rparr>"

definition completed :: "string \<Rightarrow> answer" where
  "completed tag = \<lparr>anRows = [], anEnd = Inr tag\<rparr>"

text \<open>Rows are shaped and written one after the other; \<open>shape\<close> may panic (\<open>None\<close>).\<close>

fun sendRows ::
  "('r \<Rightarrow> wireCell list option) \<Rightarrow> (wireCell list \<Rightarrow> reason option) \<Rightarrow> 'r list \<Rightarrow> wireCell list list \<times> pgError option" where
  "sendRows shape enc [] = ([], None)"
| "sendRows shape enc (r # rs) =
     (case shape r of
        None \<Rightarrow> ([], Some recoveredError)
      | Some cells \<Rightarrow>
          (case enc cells of
             Some msg \<Rightarrow> ([], Some (RowError msg))
           | None \<Rightarrow> let (out, e) = sendRows shape enc rs in (cells # out, e)))"

definition sent :: "string \<Rightarrow> wireCell list list \<times> pgError option \<Rightarrow> answer" where
  "sent tag res = (case res of (out, e) \<Rightarrow>
     \<lparr>anRows = out, anEnd = (case e of Some err \<Rightarrow> Inl err | None \<Rightarrow> Inr tag)\<rparr>)"

definition countTag :: "string \<Rightarrow> int \<Rightarrow> string" where
  "countTag command n = command @ '' '' @ FormatInt n"

definition sentRows :: "wireCell list list \<times> pgError option \<Rightarrow> answer" where
  "sentRows res = sent (countTag ''SELECT'' (int (length (fst res)))) res"

subsection \<open>Session statements\<close>

definition isSessionStatement :: "string \<Rightarrow> bool" where
  "isSessionStatement word \<longleftrightarrow> word \<in> set [''SET'', ''SHOW'', ''RESET'', ''DISCARD'',
     ''BEGIN'', ''START'', ''COMMIT'', ''END'', ''ROLLBACK'', ''ABORT'']"

definition ackStatement :: "string \<Rightarrow> 's prepared" where
  "ackStatement tag = \<lparr>ppColumns = [], ppParams = 0, ppBody = (\<lambda>params s. Some (completed tag, s))\<rparr>"

definition showAliases :: "(string \<times> string) list" where
  "showAliases = [(''time zone'', ''TimeZone''),
     (''transaction isolation level'', ''transaction_isolation''),
     (''session authorization'', ''session_authorization'')]"

text \<open>The canonical name and, when there is one, its value.\<close>

definition showSetting :: "golib \<Rightarrow> string list \<Rightarrow> string \<times> string option" where
  "showSetting lib words =
     (if length words < 2 then ([], None)
      else case map_of showAliases (glLower lib (joinStr '' '' (tl words))) of
          Some canonical \<Rightarrow> (canonical, Setting lib canonical)
        | None \<Rightarrow> (glLower lib (words ! 1), Setting lib (words ! 1)))"

text \<open>A statement with fixed rows of text.\<close>

definition textStatement :: "'s gateway \<Rightarrow> string list \<Rightarrow> string list list \<Rightarrow> 's prepared" where
  "textStatement gw names rows =
     (let cols = map (\<lambda>n. \<lparr>wcName = n, wcOid = OIDText\<rparr>) names in
      \<lparr>ppColumns = cols, ppParams = 0, ppBody = (\<lambda>params s.
        Some (sent ''SHOW'' (sendRows (\<lambda>r. Some (map WText r)) (gwEncode gw cols) rows), s))\<rparr>)"

definition showAllStatement :: "'s gateway \<Rightarrow> 's prepared" where
  "showAllStatement gw = textStatement gw [''name'', ''setting'', ''description'']
     (map (\<lambda>(name, v, description). [name, v, description]) AllSettings)"

definition showStatement :: "'s gateway \<Rightarrow> string list \<Rightarrow> pgError + 's prepared list" where
  "showStatement gw words =
     (let lib = gwLib gw in
      if length words < 2 then Inl (PgError Syntax [T ''expected a setting name after SHOW''])
      else if glUpper lib (words ! 1) = ''ALL'' then Inr [showAllStatement gw]
      else case showSetting lib words of
          (name, None) \<Rightarrow>
            Inl (PgError UndefinedObject [T ''unrecognized configuration parameter '', Q (glLower lib (words ! 1))])
        | (name, Some v) \<Rightarrow> Inr [textStatement gw [name] [[v]]])"

definition sessionStatement :: "'s gateway \<Rightarrow> string list \<Rightarrow> pgError + 's prepared list" where
  "sessionStatement gw words =
     (let lib = gwLib gw; word = glUpper lib (hd words) in
      if word = ''SET'' then Inr [ackStatement ''SET'']
      else if word = ''RESET'' then Inr [ackStatement ''RESET'']
      else if word = ''DISCARD'' then
        Inr [ackStatement (''DISCARD '' @ (if length words > 1 then glUpper lib (words ! 1) else ''ALL''))]
      else if word \<in> {''BEGIN'', ''START''} then Inr [ackStatement ''BEGIN'']
      else if word \<in> {''COMMIT'', ''END''} then Inr [ackStatement ''COMMIT'']
      else if word \<in> {''ROLLBACK'', ''ABORT''} then Inr [ackStatement ''ROLLBACK'']
      else if word = ''SHOW'' then showStatement gw words
      else Inl (PgError Internal [T ''unhandled session statement '', Q (hd words)]))"

subsection \<open>Catalog statements\<close>

definition databaseName :: "'s gateway \<Rightarrow> string \<Rightarrow> string" where
  "databaseName gw db = (if db = [] \<or> db = ''postgres'' then gwDefault gw else db)"

definition paramCell :: "string option \<Rightarrow> cval" where
  "paramCell p = (case p of None \<Rightarrow> CNil | Some t \<Rightarrow> CStr t)"

text \<open>Coercing by position panics for a cell behind the announced columns.\<close>

definition coerceRow :: "nat list \<Rightarrow> cval list \<Rightarrow> wireCell list option" where
  "coerceRow oids r = (if length oids < length r then None else Some (map (\<lambda>(oid, v). Coerce oid v) (zip oids r)))"

definition catalogError :: "(storeError \<Rightarrow> bool) \<Rightarrow> catFailure \<Rightarrow> pgError" where
  "catalogError canceled e =
     (case e of
        CatFail (CatError ty r) \<Rightarrow> wireError canceled (OfCatalog ty r)
      | CatFail _ \<Rightarrow> recoveredError
      | ProviderFail se \<Rightarrow> failed (\<lambda>se. wireError canceled (OfStore se)) se
      | RegexpFail msg \<Rightarrow> wireError canceled (OfOther msg))"

definition execCatalog :: "'s gateway \<Rightarrow> string \<Rightarrow> wireColumn list \<Rightarrow> 's statement \<Rightarrow> 's body" where
  "execCatalog gw db cols sm params s =
     (case cat_Exec (gwLib gw) (gwProvider gw) sm (databaseName gw db) (map paramCell params) s of
        (Inl e, s') \<Rightarrow> Some (stopped (catalogError (gwCanceled gw) e), s')
      | (Inr rows, s') \<Rightarrow> Some (sentRows (sendRows (coerceRow (map wcOid cols)) (gwEncode gw cols) rows), s'))"

definition catalogStatement :: "'s gateway \<Rightarrow> string \<Rightarrow> 's statement \<Rightarrow> 's prepared" where
  "catalogStatement gw db sm =
     (let cols = map (\<lambda>(name, oid). \<lparr>wcName = name, wcOid = oid\<rparr>) (smCols sm) in
      \<lparr>ppColumns = cols, ppParams = ParamCount sm, ppBody = execCatalog gw db cols sm\<rparr>)"

subsection \<open>Reads\<close>

definition typeOID :: "fieldType \<Rightarrow> nat" where
  "typeOID t = FieldTypeOID t"

definition resultColumns :: "selectStmt \<Rightarrow> schema \<Rightarrow> wireColumn list \<times> fieldType list" where
  "resultColumns sel sch =
     (let names = selectedColumns sel (Some sch) in
      (map (\<lambda>n. \<lparr>wcName = n, wcOid = typeOID (FieldType sch n)\<rparr>) names, map (FieldType sch) names))"

text \<open>\<open>encoding/json\<close>: floats are positional between 1e-6 and 1e21, an exponent has no leading zero;
  NaN and the infinities are refused.\<close>

definition jsonDigits :: "nat \<Rightarrow> int \<Rightarrow> string" where
  "jsonDigits m k =
     (let ds = showNat m; x = int (length ds) - 1 + k in
      if x < - 6 \<or> 21 \<le> x
      then (let sig = stripZeros ds in
            hd sig # (if tl sig = [] then [] else ''.'' @ tl sig) @ ''e'' @
              (if x < 0 then ''-'' else ''+'') @ showNat (nat \<bar>x\<bar>))
      else positional m k)"

fun jsonFloat :: "(nat \<Rightarrow> nat \<Rightarrow> nat option) \<Rightarrow> gofloat \<Rightarrow> string option" where
  "jsonFloat rnd (Fin s u) = Some ((if s then ''-'' else '''') @
     (if u = 0 then ''0''
      else let (m, k) = shortestFor rnd u (leadExp 640 309 u) [1..<18] in jsonDigits m k))"
| "jsonFloat rnd _ = None"

definition jsonVector :: "gofloat list \<Rightarrow> string option" where
  "jsonVector xs = map_option (\<lambda>ws. ''['' @ joinStr '','' ws @ '']'') (those (map (jsonFloat round32) xs))"

definition marshal :: "(string \<Rightarrow> string option) \<Rightarrow> gval \<Rightarrow> string option" where
  "marshal other v =
     (case v of
        GBool _ \<Rightarrow> Some (showV v)
      | GInt64 _ \<Rightarrow> Some (showV v) | GInt _ \<Rightarrow> Some (showV v) | GInt32 _ \<Rightarrow> Some (showV v)
      | GInt16 _ \<Rightarrow> Some (showV v) | GInt8 _ \<Rightarrow> Some (showV v)
      | GFloat64 x \<Rightarrow> jsonFloat round64 x | GFloat32 x \<Rightarrow> jsonFloat round32 x
      | GVec xs \<Rightarrow> jsonVector xs | GFloatVector xs \<Rightarrow> jsonVector xs
      | _ \<Rightarrow> other (showV v))"

definition cellValue :: "(string \<Rightarrow> string option) \<Rightarrow> fieldType \<Rightarrow> gval \<Rightarrow> wireCell" where
  "cellValue other t v =
     (if v = GNil then WNull
      else case t of
          TypeNumber \<Rightarrow>
            (case v of GFloat64 x \<Rightarrow> WFloat x | GFloat32 x \<Rightarrow> WFloat x
             | GInt64 n \<Rightarrow> WFloat (floatOfInt n) | GInt32 n \<Rightarrow> WFloat (floatOfInt n)
             | GInt16 n \<Rightarrow> WFloat (floatOfInt n) | GInt8 n \<Rightarrow> WFloat (floatOfInt n)
             | _ \<Rightarrow> WText (showV v))
        | TypeBool \<Rightarrow> (case v of GBool b \<Rightarrow> WBool b | _ \<Rightarrow> WText (showV v))
        | TypeKeyword \<Rightarrow> WText (showV v) | TypeText \<Rightarrow> WText (showV v) | TypeDate \<Rightarrow> WText (showV v)
        | _ \<Rightarrow>
            (case v of GBytes x \<Rightarrow> WText x | GStr x \<Rightarrow> WText x
             | _ \<Rightarrow> (case marshal other v of Some x \<Rightarrow> WText x | None \<Rightarrow> WText (showV v))))"

definition hitCells :: "(string \<Rightarrow> string option) \<Rightarrow> wireColumn list \<Rightarrow> fieldType list \<Rightarrow> hit \<Rightarrow> wireCell list" where
  "hitCells other cols types h =
     map (\<lambda>(t, c). cellValue other t (cell (hitSource h) (wcName c))) (zip types cols)"

definition selectBody ::
  "'s gateway \<Rightarrow> 's cluster \<Rightarrow> selectStmt \<Rightarrow> plan \<Rightarrow> wireColumn list \<Rightarrow> fieldType list \<Rightarrow> 's body" where
  \<comment> \<open>the method \<open>search\<close>\<close>
  "selectBody gw cl sel p cols types params s =
     (if params \<noteq> []
      then Some (stopped (PgError FeatureNotSupported [T ''bind parameters are beyond the lyrebird SELECT subset'']), s)
      else case clSearch cl (selTable sel) p s of
          None \<Rightarrow> None
        | Some (Inl e, s') \<Rightarrow> Some (stopped (failed (\<lambda>e. wireError (gwCanceled gw) (OfStore e)) e), s')
        | Some (Inr result, s') \<Rightarrow>
            Some (sentRows (sendRows (\<lambda>h. Some (hitCells (gwMarshal gw) cols types h)) (gwEncode gw cols) (srHits result)), s'))"

subsection \<open>Writes\<close>

definition updateScanLimit :: int where "updateScanLimit = 10000"

definition relationMissing :: "string \<Rightarrow> pgError" where
  "relationMissing name = PgError UndefinedTable [T ''relation '', Q name, T '' does not exist'']"

definition schemaError :: "'s gateway \<Rightarrow> string \<Rightarrow> storeError \<Rightarrow> pgError" where
  "schemaError gw name e = failed (\<lambda>e. case e of
     CollectionNotFound _ \<Rightarrow> relationMissing name | _ \<Rightarrow> wireError (gwCanceled gw) (OfStore e)) e"

definition writeParams :: pgError where
  "writeParams =
     PgError FeatureNotSupported [T ''bind parameters are beyond the lyrebird write path: inline the literals'']"

definition writeInsertStatement :: "'s gateway \<Rightarrow> 's cluster \<Rightarrow> insertStmt \<Rightarrow> 's body" where
  "writeInsertStatement gw cl ins params s =
     (if params \<noteq> [] then Some (stopped writeParams, s)
      else case clSchema cl (insTable ins) s of
          (Inl e, s') \<Rightarrow> Some (stopped (schemaError gw (insTable ins) e), s')
        | (Inr sch, s') \<Rightarrow>
            (case insertRows ins (Some sch) of
               Inl e \<Rightarrow> Some (stopped (wireError (gwCanceled gw) (OfTranslate e)), s')
             | Inr rows \<Rightarrow>
                 (case clInsert cl (insTable ins) rows s' of
                    (Inl e, s'') \<Rightarrow> Some (stopped (failed (writeWireError (gwCanceled gw)) e), s'')
                  | (Inr wrote, s'') \<Rightarrow> Some (completed (countTag ''INSERT 0'' (wrCount wrote)), s''))))"

text \<open>The fetched row with the assigned columns replaced.\<close>

definition assignedRow :: "writeRow \<Rightarrow> hit \<Rightarrow> writeRow" where
  "assignedRow sets h = fold (\<lambda>(k, v) m. setKey k v m) sets (hitSource h)"

definition writeUpdateStatement :: "'s gateway \<Rightarrow> 's cluster \<Rightarrow> updateStmt \<Rightarrow> 's body" where
  "writeUpdateStatement gw cl upd params s =
     (if params \<noteq> [] then Some (stopped writeParams, s)
      else case clSchema cl (updTable upd) s of
          (Inl e, s1) \<Rightarrow> Some (stopped (schemaError gw (updTable upd) e), s1)
        | (Inr sch, s1) \<Rightarrow>
            (case updateLower upd (Some sch) of
               Inl e \<Rightarrow> Some (stopped (wireError (gwCanceled gw) (OfTranslate e)), s1)
             | Inr (sets, p) \<Rightarrow>
                 (case clSearch cl (updTable upd) (p\<lparr>pLimit := updateScanLimit\<rparr>) s1 of
                    None \<Rightarrow> None
                  | Some (Inl e, s2) \<Rightarrow> Some (stopped (failed (\<lambda>e. wireError (gwCanceled gw) (OfStore e)) e), s2)
                  | Some (Inr result, s2) \<Rightarrow>
                      (case clUpsert cl (updTable upd) (map (assignedRow sets) (srHits result)) s2 of
                         (Inl e, s3) \<Rightarrow> Some (stopped (failed (writeWireError (gwCanceled gw)) e), s3)
                       | (Inr wrote, s3) \<Rightarrow> Some (completed (countTag ''UPDATE'' (wrCount wrote)), s3)))))"

subsection \<open>Dispatch\<close>

definition serverParameters :: "(string \<times> string) list" where
  "serverParameters = [(''server_version'', VersionString), (''server_encoding'', ''UTF8''),
     (''client_encoding'', ''UTF8''), (''standard_conforming_strings'', ''on''),
     (''DateStyle'', ''ISO, MDY''), (''integer_datetimes'', ''on''), (''TimeZone'', ''UTC'')]"

type_synonym ('s, 'a) prepare = "'s \<Rightarrow> (refusal + 'a) \<times> 's"

definition refuse :: "pgError \<Rightarrow> ('s, 'a) prepare" where
  "refuse e = (\<lambda>s. (Inl (Refused e), s))"

text \<open>Nothing recovers from a panic of a call made while a statement is prepared.\<close>

definition refusedCall :: "(storeError \<Rightarrow> pgError) \<Rightarrow> storeError \<Rightarrow> refusal" where
  "refusedCall render e = (if storePanics e then GatewayDown else Refused (render e))"

definition callP :: "(storeError \<Rightarrow> pgError) \<Rightarrow> ('s, 'a) call \<Rightarrow> ('a \<Rightarrow> ('s, 'b) prepare) \<Rightarrow> ('s, 'b) prepare" where
  "callP render m f = (\<lambda>s. case m s of (Inl e, s') \<Rightarrow> (Inl (refusedCall render e), s') | (Inr x, s') \<Rightarrow> f x s')"

definition databaseView :: "'s gateway \<Rightarrow> string \<Rightarrow> ('s, 's cluster) call" where
  "databaseView gw db = gwDatabase gw (if db = [] \<or> db = ''postgres'' then [] else db)"

definition withView :: "'s gateway \<Rightarrow> string \<Rightarrow> ('s cluster \<Rightarrow> ('s, 'a) prepare) \<Rightarrow> ('s, 'a) prepare" where
  "withView gw db = callP (\<lambda>e. wireError (gwCanceled gw) (OfStore e)) (databaseView gw db)"

definition bodyStatement :: "'s body \<Rightarrow> 's prepared" where
  "bodyStatement b = \<lparr>ppColumns = [], ppParams = 0, ppBody = b\<rparr>"

definition writeStatement ::
  "'s gateway \<Rightarrow> string \<Rightarrow> terror + 'st \<Rightarrow> ('s cluster \<Rightarrow> 'st \<Rightarrow> 's body) \<Rightarrow> ('s, 's prepared list) prepare" where
  "writeStatement gw db parsed body =
     (case parsed of
        Inl e \<Rightarrow> refuse (wireError (gwCanceled gw) (OfTranslate e))
      | Inr st \<Rightarrow> withView gw db (\<lambda>cl s. (Inr [bodyStatement (body cl st)], s)))"

definition readStatement :: "'s gateway \<Rightarrow> string \<Rightarrow> string \<Rightarrow> ('s, 's prepared list) prepare" where
  "readStatement gw db query =
     (case pg_Parse query of
        Inl e \<Rightarrow> refuse (wireError (gwCanceled gw) (OfTranslate e))
      | Inr sel \<Rightarrow>
          withView gw db (\<lambda>cl.
          callP (\<lambda>e. case e of CollectionNotFound _ \<Rightarrow> relationMissing (selTable sel)
                   | _ \<Rightarrow> wireError (gwCanceled gw) (OfStore e)) (clSchema cl (selTable sel)) (\<lambda>sch.
            case selectPlan sel (Some sch) of
              Inl e \<Rightarrow> refuse (wireError (gwCanceled gw) (OfTranslate e))
            | Inr p \<Rightarrow> (\<lambda>s.
                let (cols, types) = resultColumns sel sch in
                (Inr [\<lparr>ppColumns = cols, ppParams = 0, ppBody = selectBody gw cl sel p cols types\<rparr>], s)))))"

definition firstWord :: "golib \<Rightarrow> string \<Rightarrow> string" where
  "firstWord lib query = (case Words query of Inr (w # _) \<Rightarrow> glUpper lib w | _ \<Rightarrow> [])"

definition collectionStatement :: "'s gateway \<Rightarrow> string \<Rightarrow> string \<Rightarrow> ('s, 's prepared list) prepare" where
  "collectionStatement gw db query =
     (let word = firstWord (gwLib gw) query in
      if word = ''INSERT'' then writeStatement gw db (pg_ParseInsert query) (writeInsertStatement gw)
      else if word = ''UPDATE'' then writeStatement gw db (pg_ParseUpdate query) (writeUpdateStatement gw)
      else readStatement gw db query)"

definition parseOne :: "'s gateway \<Rightarrow> string \<Rightarrow> string \<Rightarrow> ('s, 's prepared list) prepare" where
  "parseOne gw db query =
     (if isSessionStatement (firstWord (gwLib gw) query)
      then (case Words query of
          Inr words \<Rightarrow> (case sessionStatement gw words of Inl e \<Rightarrow> refuse e | Inr sts \<Rightarrow> (\<lambda>s. (Inr sts, s)))
        | Inl _ \<Rightarrow> collectionStatement gw db query)
      else if Prepareable query then
        (case cat_Prepare query of
           Inr sm \<Rightarrow> (\<lambda>s. (Inr [catalogStatement gw db sm], s))
         | Inl (CatError ty r) \<Rightarrow>
             if ReferencesCatalogTables (gwLib gw) query
             then refuse (wireError (gwCanceled gw) (OfCatalog ty r))
             else collectionStatement gw db query
         | Inl _ \<Rightarrow> (\<lambda>s. (Inl GatewayDown, s)))
      else collectionStatement gw db query)"

fun parseParts :: "'s gateway \<Rightarrow> string \<Rightarrow> string list \<Rightarrow> ('s, 's prepared list) prepare" where
  "parseParts gw db [] s = (Inr [], s)"
| "parseParts gw db (q # qs) s =
     (case parseOne gw db q s of
        (Inl e, s') \<Rightarrow> (Inl e, s')
      | (Inr sts, s') \<Rightarrow>
          (case parseParts gw db qs s' of
             (Inl e, s'') \<Rightarrow> (Inl e, s'')
           | (Inr later, s'') \<Rightarrow> (Inr (sts @ later), s'')))"

definition gatewayParse :: "'s gateway \<Rightarrow> string \<Rightarrow> string \<Rightarrow> ('s, 's prepared list) prepare" where
  \<comment> \<open>the method \<open>parse\<close>, for a connection to \<open>db\<close>\<close>
  "gatewayParse gw db query = parseParts gw db (SplitStatements query)"

end
