(* ===== verification/CatQuery.thy ===== *)
theory CatQuery
  imports CatApi
begin

text \<open>
  What a prepared catalog query keeps of its promises: the rows of an execution fit the announced
  columns, joins produce combinations of the sources' rows, windows and orders take rows of
  the result only, and a query that was prepared calls known functions.
\<close>

subsection \<open>The registries do not depend on the provider's state\<close>

lemma find_as_map: "map_option g (find (\<lambda>d. f d = n) ds) = map_of (map (\<lambda>d. (f d, g d)) ds) n"
  by (induction ds) auto

lemma tableRegistry_cols:
  "map_option tdCols (tableRegistry name :: 's tableDef option) = map_option tdCols (tableRegistry name :: 't tableDef option)"
proof -
  let ?all = "\<lambda>_. catalogTables @ emptySystemTables @ [pgSettings, pgCollation, pgPolicy]"
  have "map (\<lambda>d. (tdName d, tdCols d)) (catalogTables @ emptySystemTables @ [pgSettings, pgCollation, pgPolicy] :: 's tableDef list) =
      map (\<lambda>d. (tdName d, tdCols d)) (catalogTables @ emptySystemTables @ [pgSettings, pgCollation, pgPolicy] :: 't tableDef list)"
    by (simp add: catalogTables_def emptySystemTables_def pgDatabase_def pgNamespace_def pgClass_def pgAttribute_def
        pgConstraint_def pgIndex_def pgType_def pgDescription_def pgAttrdef_def pgProc_def pgRoles_def pgUser_def
        pgAm_def schemataTable_def tablesTable_def columnsTable_def pgSettings_def pgCollation_def pgPolicy_def
        emptyTable'_def)
  then show ?thesis by (simp only: tableRegistry_def find_as_map)
qed

lemma tableRegistry_same:
  "tableRegistry name = Some (d :: 's tableDef) \<Longrightarrow> \<exists>d'. tableRegistry name = Some (d' :: 't tableDef) \<and> tdCols d' = tdCols d"
  using tableRegistry_cols[where ?'s = 's and ?'t = 't, of name] by (cases "tableRegistry name :: 't tableDef option") auto

lemma map_of_ret: "map_option fdRet (map_of fs n) = map_of (map (\<lambda>(n, f). (n, fdRet f)) fs) n"
  by (induction fs) auto

lemma lookupFunction_ret:
  "map_option fdRet (lookupFunction name :: 's funcDef option) = map_option fdRet (lookupFunction name :: 't funcDef option)"
proof -
  have "map (\<lambda>(n, f). (n, fdRet f)) (functionRegistry :: (string \<times> 's funcDef) list) =
      map (\<lambda>(n, f). (n, fdRet f)) (functionRegistry :: (string \<times> 't funcDef) list)"
    by (simp add: functionRegistry_def otherFunctions_def register_def constantFn_def registerNul_def registerTrue_def
        split_def)
  then show ?thesis by (simp only: lookupFunction_def map_of_ret)
qed

lemma knownFunction_iff: "knownFunction name \<longleftrightarrow> lookupFunction name \<noteq> (None :: 's funcDef option)"
  using lookupFunction_ret[where ?'s = 's and ?'t = unit, of name] unfolding knownFunction_def
  by (cases "lookupFunction name :: 's funcDef option"; cases "lookupFunction name :: unit funcDef option") auto

lemma knownTable_iff: "knownTable name \<longleftrightarrow> tableRegistry name \<noteq> (None :: 's tableDef option)"
  using tableRegistry_cols[where ?'s = 's and ?'t = unit, of name] unfolding knownTable_def
  by (cases "tableRegistry name :: 's tableDef option"; cases "tableRegistry name :: unit tableDef option") auto

subsection \<open>Loops\<close>

lemma mapC_out: "mapC f xs sn = (Inr ys, sn') \<Longrightarrow> y \<in> set ys \<Longrightarrow> \<exists>x \<in> set xs. \<exists>t t'. f x t = (Inr y, t')"
  by (induction xs arbitrary: ys sn) (fastforce simp: catrun)+

lemma mapC_in: "mapC f xs sn = (Inr ys, sn') \<Longrightarrow> x \<in> set xs \<Longrightarrow> \<exists>y \<in> set ys. \<exists>t t'. f x t = (Inr y, t')"
  by (induction xs arbitrary: ys sn) (fastforce simp: catrun)+

subsection \<open>Sources\<close>

lemma evalFrom_flatten:
  "evalFrom lib pr t = bindE (flattenFrom t) (\<lambda>specs. Inr (map (\<lambda>(r, kind, on). (r, kind, map_option (eval lib pr) on)) specs))"
proof -
  have "True" "True" "evalFrom lib pr t = bindE (flattenFrom t) (\<lambda>specs. Inr (map (\<lambda>(r, kind, on). (r, kind, map_option (eval lib pr) on)) specs))" "True"
    for e :: cexpr and i :: selectItem and t and st :: stmt
    by (induction e and i and t and st) (auto simp: bindE_assoc split: bindE_split tableExpr.split)
  then show ?thesis by blast
qed

lemma bindSource_def_of:
  fixes pr :: "'s provider"
  assumes "bindSource pr r sn = (Inr b, sn')" "tableRegistry (trName r) = Some (d :: 't tableDef)"
  shows "bsAlias b = trAlias r \<and> bsCols b = tdCols d"
proof -
  from assms(1) obtain d' where "tableRegistry (trName r) = Some (d' :: 's tableDef)" "bsAlias b = trAlias r" "bsCols b = tdCols d'"
    by (auto simp: bindSource_def catrun split: option.splits if_splits)
  then show ?thesis using tableRegistry_same[OF assms(2), where ?'t = 's] by auto
qed

text \<open>What a source is known by when its rows are bound is what it was checked by beforehand.\<close>

lemma bound_as_prepared:
  assumes "mapE bindDef specs = Inr bound" "bindSources pr (map (\<lambda>(r, kind, on). (r, kind, h on)) specs) sn = (Inr srcs, sn')"
  shows "map (\<lambda>b. (bsAlias b, bsCols b)) srcs = bound"
  using assms
proof (induction specs arbitrary: bound srcs sn)
  case (Cons sp specs)
  obtain r kind on where sp: "sp = (r, kind, on)" by (cases sp)
  from Cons.prems sp obtain b sn1 bs d ds where
    b: "bindSource pr r sn = (Inr b, sn1)" and
    bs: "bindSources pr (map (\<lambda>(r, kind, on). (r, kind, h on)) specs) sn1 = (Inr bs, sn')" "srcs = b # bs" and
    d: "bindDef sp = Inr d" "mapE bindDef specs = Inr ds" "bound = d # ds"
    by (auto simp: bindSources_def catrun bindE_eq_Inr)
  from d(1) sp obtain dd :: "unit tableDef" where dd: "tableRegistry (trName r) = Some dd" "d = (trAlias r, tdCols dd)"
    by (auto simp: bindDef_def split: if_splits option.splits)
  from bindSource_def_of[OF b dd(1)] dd(2) have "d = (bsAlias b, bsCols b)" by simp
  with Cons.IH[OF d(2) bs(1)] d bs show ?case by simp
qed (simp add: bindSources_def catrun)

subsection \<open>Widths\<close>

definition itemWidth :: "boundDef list \<Rightarrow> selectItem \<Rightarrow> nat" where
  "itemWidth bound item = (case item of
     ItemExpr e name \<Rightarrow> 1
   | ItemStar tbl \<Rightarrow> sum_list (map (length \<circ> snd) (filter (\<lambda>(a, cols). tbl = [] \<or> a = tbl) bound)))"

definition boundOf :: "boundSource list \<Rightarrow> boundDef list" where
  "boundOf srcs = map (\<lambda>b. (bsAlias b, bsCols b)) srcs"

lemma inferColumns_width:
  "inferColumns items bound = Inr cols \<Longrightarrow> length cols = sum_list (map (itemWidth bound) items)"
proof -
  assume "inferColumns items bound = Inr cols"
  then obtain parts where cols: "cols = concat parts" and "list_all2 (\<lambda>i p. itemColumns bound i = Inr p) items parts"
    by (auto simp: inferColumns_def bindE_eq_Inr mapE_eq_Inr)
  from this(2) have "map length parts = map (itemWidth bound) items"
    by (induction rule: list_all2_induct)
      (auto simp: itemColumns_def itemWidth_def starColumns_def length_concat comp_def split: selectItem.splits list.splits)
  with cols show ?thesis by (simp add: length_concat)
qed

lemma starCells_width:
  assumes "starCells cx c tbl = Inr cells"
  shows "length cells = itemWidth (boundOf (ecSources cx)) (ItemStar tbl)"
proof -
  have enum: "map (\<lambda>p. length (bsCols (snd p))) (filter (\<lambda>p. Q (snd p)) (enumerate k srcs)) =
      map (\<lambda>b. length (bsCols b)) (filter Q srcs)" for Q k and srcs :: "boundSource list"
    by (induction srcs arbitrary: k) auto
  from assms obtain parts where cells: "cells = concat parts" and
    "list_all2 (\<lambda>(i, b) p. mapE (\<lambda>col. cellAt c i (fst col)) (bsCols b) = Inr p)
       (filter (\<lambda>(i, b). tbl = [] \<or> bsAlias b = tbl) (enumerate 0 (ecSources cx))) parts"
    by (auto simp: starCells_def bindE_eq_Inr mapE_eq_Inr split_def)
  from this(2) have "map length parts = map (\<lambda>(i, b). length (bsCols b))
      (filter (\<lambda>(i, b). tbl = [] \<or> bsAlias b = tbl) (enumerate 0 (ecSources cx)))"
    by (induction rule: list_all2_induct) (auto dest: mapE_Inr_length)
  then show ?thesis
    using enum[of "\<lambda>b. tbl = [] \<or> bsAlias b = tbl" 0 "ecSources cx"]
    by (simp add: cells length_concat itemWidth_def boundOf_def filter_map comp_def split_def)
qed

lemma evalItem_width:
  "evalItem lib pr item cx c sn = (Inr cells, sn') \<Longrightarrow> length cells = itemWidth (boundOf (ecSources cx)) item"
  by (cases item) (auto simp: catrun starCells_width, simp add: itemWidth_def)

lemma project_width:
  assumes "project cx (map (evalItem lib pr) items) combos sn = (Inr rows, sn')" "r \<in> set rows"
  shows "length r = sum_list (map (itemWidth (boundOf (ecSources cx))) items)"
proof -
  let ?row = "\<lambda>c. bindC (mapC (\<lambda>f. f cx c) (map (evalItem lib pr) items)) (\<lambda>parts. returnC (concat parts))"
  from mapC_out[OF assms(1)[unfolded project_def] assms(2)] obtain c t t' where "?row c t = (Inr r, t')"
    by blast
  then obtain parts where r: "r = concat parts" and "mapC (\<lambda>f. f cx c) (map (evalItem lib pr) items) t = (Inr parts, t')"
    by (auto simp: catrun)
  from mapC_Inr[OF this(2)] have "list_all2 (\<lambda>i p. \<exists>t t'. evalItem lib pr i cx c t = (Inr p, t')) items parts"
    by (simp add: list_all2_map1)
  then have "map length parts = map (itemWidth (boundOf (ecSources cx))) items"
    by (induction rule: list_all2_induct) (auto dest: evalItem_width)
  then show ?thesis by (simp add: r length_concat)
qed

subsection \<open>Rows of the result\<close>

lemma distinctFrom_subset: "set (distinctFrom seen rows) \<subseteq> set rows"
  by (induction seen rows rule: distinctFrom.induct) auto

lemma insertBack_mset [simp]: "mset (insertBack lt x ys) = add_mset x (mset ys)"
  by (induction ys) auto

lemma sliceStable_mset [simp]: "mset (sliceStable lt xs) = mset xs"
proof -
  have "mset (foldl (\<lambda>ys x. insertBack lt x ys) acc xs) = mset acc + mset xs" for acc
    by (induction xs arbitrary: acc) auto
  then show ?thesis by (simp add: sliceStable_def)
qed

lemma cat_sortRows_mset:
  assumes "cat_sortRows cx cols combos order proj sn = (Inr rows, sn')"
  shows "mset rows = mset proj"
proof (cases "order = []")
  case False
  with assms obtain keys where
    rows: "rows = map snd (sliceStable (\<lambda>a b. compareKeys (map snd order) (fst a) (fst b) < 0)
          (map (\<lambda>k. (map (\<lambda>col. col ! k) keys, proj ! k)) [0..<length proj]))"
    by (auto simp: cat_sortRows_def catrun)
  have "mset rows = image_mset snd (mset (map (\<lambda>k. (map (\<lambda>col. col ! k) keys, proj ! k)) [0..<length proj]))"
    by (simp only: rows mset_map sliceStable_mset)
  also have "\<dots> = mset (map (\<lambda>k. proj ! k) [0..<length proj])" by (simp add: multiset.map_comp comp_def)
  finally show ?thesis by (simp add: map_nth)
qed (use assms in \<open>simp add: cat_sortRows_def catrun\<close>)

lemma windowOf_subset: "set (windowOf off n rows) \<subseteq> set rows"
  by (auto simp: windowOf_def Let_def dest: in_set_takeD in_set_dropD split: if_splits)

lemma runQuery_parts:
  assumes "runQuery pr q outer sn = (Inr rows, sn')"
  obtains specs srcs sn1 sn2 sn3 combos proj parts cols where
    "qyFrom q = Inr specs" "bindSources pr specs sn = (Inr srcs, sn1)"
    "projected \<lparr>ecSources = srcs, ecOuter = outer\<rparr> q specs sn1 = (Inr (combos, proj), sn2)"
    "unionRows (qyUnion q) outer proj sn2 = (Inr parts, sn3)"
    "inferColumns (qyItems q) (boundOf srcs) = Inr cols"
    "set rows \<subseteq> set parts"
proof -
  from assms obtain specs srcs sn1 combos proj sn2 parts sn3 cols sorted sn4 where
    *: "qyFrom q = Inr specs" "bindSources pr specs sn = (Inr srcs, sn1)"
    "projected \<lparr>ecSources = srcs, ecOuter = outer\<rparr> q specs sn1 = (Inr (combos, proj), sn2)"
    "unionRows (qyUnion q) outer proj sn2 = (Inr parts, sn3)"
    "inferColumns (qyItems q) (boundOf srcs) = Inr cols" and
    sorted: "cat_sortRows \<lparr>ecSources = srcs, ecOuter = outer\<rparr> cols combos (qyOrder q) parts sn3 = (Inr sorted, sn4)" and
    window: "windowRows \<lparr>ecSources = srcs, ecOuter = outer\<rparr> (qyOffset q) (qyLimit q) sorted sn4 = (Inr rows, sn')"
    by (auto simp: runQuery_def catrun Let_def boundOf_def)
  from window have "set rows \<subseteq> set sorted" using windowOf_subset by (force simp: windowRows_def catrun)
  also have "\<dots> = set parts" using cat_sortRows_mset[OF sorted] by (metis set_mset_mset)
  finally show thesis using * that by blast
qed

lemma projected_width:
  assumes "projected cx q specs sn = (Inr (combos, proj), sn')" "qyCells q = map (evalItem lib pr) items" "r \<in> set proj"
  shows "length r = sum_list (map (itemWidth (boundOf (ecSources cx))) items)"
proof -
  from assms(1,2) obtain sn1 cs rows sn2 where
    rows: "project cx (map (evalItem lib pr) items) cs sn1 = (Inr rows, sn2)" and
    proj: "proj = (if qyDistinct q then distinctRows rows else rows)"
    by (auto simp: projected_def catrun)
  from proj have "set proj \<subseteq> set rows" using distinctFrom_subset[of "[]" rows] by (simp add: distinctRows_def)
  with assms(3) have "r \<in> set rows" by blast
  with rows show ?thesis by (rule project_width)
qed

lemma evalQuery_width:
  assumes "evalQuery lib pr (Stmt items src cond order lim off dist mp []) outer sn = (Inr rows, sn')"
    "(case src of None \<Rightarrow> Inr [] | Some t \<Rightarrow> flattenFrom t) = Inr specs" "mapE bindDef specs = Inr bound"
    "inferColumns items bound = Inr cols" "r \<in> set rows"
  shows "length r = length cols"
proof -
  have from': "(case map_option (evalFrom lib pr) src of None \<Rightarrow> Inr [] | Some specs \<Rightarrow> specs) =
      Inr (map (\<lambda>(r, kind, on). (r, kind, map_option (eval lib pr) on)) specs)"
    using assms(2) by (cases src) (auto simp: evalFrom_flatten)
  let ?q = "\<lparr>qyItems = items, qyCells = map (evalItem lib pr) items,
       qyFrom = (case map_option (evalFrom lib pr) src of None \<Rightarrow> Inr [] | Some specs \<Rightarrow> specs),
       qyWhere = map_option (eval lib pr) cond,
       qyOrder = map2 (\<lambda>o' f. ((fst o', fst f), snd o')) order (map (map_prod (eval lib pr) id) order),
       qyLimit = map_option (eval lib pr) lim, qyOffset = map_option (eval lib pr) off,
       qyDistinct = dist, qyUnion = []\<rparr>"
  from assms(1) have "runQuery pr ?q outer sn = (Inr rows, sn')" by simp
  then obtain specs' srcs sn1 sn2 sn3 combos proj parts cols' where
    *: "qyFrom ?q = Inr specs'" "bindSources pr specs' sn = (Inr srcs, sn1)"
    "projected \<lparr>ecSources = srcs, ecOuter = outer\<rparr> ?q specs' sn1 = (Inr (combos, proj), sn2)"
    "unionRows (qyUnion ?q) outer proj sn2 = (Inr parts, sn3)"
    "inferColumns (qyItems ?q) (boundOf srcs) = Inr cols'" "set rows \<subseteq> set parts"
    by (rule runQuery_parts)
  have bound: "boundOf srcs = bound"
    using *(1,2) from' bound_as_prepared[OF assms(3), of pr "map_option (eval lib pr)"] by (simp add: boundOf_def)
  have "parts = proj" using *(4) by (simp add: unionRows_def catrun)
  with *(6) assms(5) have "r \<in> set proj" by blast
  from projected_width[OF *(3) _ this, of lib pr items] bound inferColumns_width[OF assms(4)] show ?thesis by simp
qed

lemma executed_width:
  assumes "cat_Prepare query = Inr sm" "cat_Exec lib pr sm db params s = (Inr rows, s')"
  shows "\<forall>r \<in> set rows. length r = length (smCols sm)"
proof (cases "matchSpecial query :: 'a specialCase option")
  case (Some sc)
  with assms(1) have sm: "smCols sm = spCols sc" "smSpecial sm = Some (sc, query)" by (auto simp: cat_Prepare_def)
  with assms(2) obtain sn' where "spRun sc lib pr query (newSnapshot db params s) = (Inr rows, sn')"
    by (auto simp: cat_Exec_def Let_def split: prod.splits)
  from special_width[OF Some this] sm show ?thesis by (simp add: rowsFit_def)
next
  case None
  with assms(1) obtain st where st: "parseSQL query = Inr st" "prepareStmt st = Inr (smCols sm)" "smStmt sm = st" "smSpecial sm = None"
    by (auto simp: cat_Prepare_def bindE_eq_Inr)
  obtain items src cond order lim off dist mp branches where
    shape: "st = Stmt items src cond order lim off dist mp branches" by (cases st)
  with parseSQL_shape[OF st(1)] have "branches = []" by simp
  from st(2) shape obtain specs bound where
    "(case src of None \<Rightarrow> Inr [] | Some t \<Rightarrow> flattenFrom t) = Inr specs" "mapE bindDef specs = Inr bound"
    "inferColumns items bound = Inr (smCols sm)"
    by (auto simp: prepareStmt_def bindE_eq_Inr)
  moreover from assms(2) st(3,4) shape \<open>branches = []\<close> obtain sn' where
    "evalQuery lib pr (Stmt items src cond order lim off dist mp []) [] (newSnapshot db params s) = (Inr rows, sn')"
    by (auto simp: cat_Exec_def Let_def simp del: evalQuery.simps split: prod.splits)
  ultimately show ?thesis using evalQuery_width by blast
qed

text \<open>C1. The rows of a prepared query fit the columns it announced. Whatever the query (one of the
  special cases or a statement of the engine), the parameters, the settings and the provider's
  answers: when an execution succeeds, each row has exactly one cell for each column of the
  description that was sent before.\<close>

theorem query_rows_fit:
  assumes "cat_Prepare query = Inr sm" "cat_Exec lib pr sm db params s = (Inr rows, s')"
  shows "\<forall>r \<in> set rows. length r = length (smCols sm)"
  using assms by (rule executed_width)

subsection \<open>Joins\<close>

definition cellOf :: "'s step \<Rightarrow> crow option \<Rightarrow> bool" where
  "cellOf st slot \<longleftrightarrow> (case slot of Some row \<Rightarrow> row \<in> set (bsRows (fst st)) | None \<Rightarrow> fst (snd st) = ''left'')"

lemma extendCombo_out:
  assumes "extendCombo cx st c sn = (Inr out, sn')" "c' \<in> set out"
  shows "\<exists>slot. c' = c @ [slot] \<and> cellOf st slot"
proof -
  obtain b kind on where st: "st = (b, kind, on)" by (cases st)
  from assms(1) obtain kept where
    kept: "filterC (\<lambda>c2. case on of None \<Rightarrow> returnC True | Some f \<Rightarrow> bindC (f cx c2) (\<lambda>v. returnC (truth v)))
             (map (\<lambda>row. c @ [Some row]) (bsRows b)) sn = (Inr kept, sn')" and
    out: "out = (if kind = ''left'' \<and> kept = [] then [c @ [None]] else kept)"
    by (auto simp: extendCombo_def st catrun)
  from filterC_set[OF kept] assms(2) out show ?thesis
    by (auto simp: cellOf_def st split: if_splits)
qed

lemma joinFrom_shape:
  assumes "joinFrom cx sts combos sn = (Inr out, sn')" "c' \<in> set out"
  shows "\<exists>c cells. c \<in> set combos \<and> c' = c @ cells \<and> list_all2 cellOf sts cells"
  using assms
proof (induction sts arbitrary: combos sn)
  case (Cons st sts)
  from Cons.prems(1) obtain parts sn1 where
    parts: "mapC (extendCombo cx st) combos sn = (Inr parts, sn1)" and
    rest: "joinFrom cx sts (concat parts) sn1 = (Inr out, sn')"
    by (auto simp: catrun)
  from Cons.IH[OF rest Cons.prems(2)] obtain c1 cells where
    c1: "c1 \<in> set (concat parts)" "c' = c1 @ cells" "list_all2 cellOf sts cells" by blast
  from c1(1) obtain p where "p \<in> set parts" "c1 \<in> set p" by auto
  from mapC_out[OF parts this(1)] obtain c t t' where "c \<in> set combos" "extendCombo cx st c t = (Inr p, t')"
    by blast
  with extendCombo_out[OF this(2) \<open>c1 \<in> set p\<close>] c1 show ?case
    by (metis append.assoc append_Cons append_Nil list_all2_Cons)
qed (auto simp: catrun)

text \<open>C33. Every combination a FROM clause produces holds one row for each source, in the order of the
  sources, and it is a row of that source's table; only a left-joined source may stand as the
  null row instead.\<close>

theorem joinRows_shape:
  assumes "joinRows cx sts sn = (Inr combos, sn')" "c \<in> set combos"
  shows "list_all2 cellOf sts c"
  using joinFrom_shape[OF assms[unfolded joinRows_def]] by auto

text \<open>C32. A left join loses no combination of the sources before it: each of them is continued by at
  least one of the result, with matching rows or with the null row.\<close>

theorem left_join_keeps:
  assumes "joinFrom cx [(b, ''left'', on)] combos sn = (Inr out, sn')" "c \<in> set combos"
  shows "\<exists>slot. c @ [slot] \<in> set out"
proof -
  from assms(1) obtain parts where
    parts: "mapC (extendCombo cx (b, ''left'', on)) combos sn = (Inr parts, sn')" and out: "out = concat parts"
    by (auto simp: catrun)
  from mapC_in[OF parts assms(2)] obtain p t t' where
    p: "p \<in> set parts" "extendCombo cx (b, ''left'', on) c t = (Inr p, t')"
    by blast
  then have "p \<noteq> []" by (auto simp: extendCombo_def catrun split: if_splits)
  then obtain c' where "c' \<in> set p" by (cases p) auto
  with extendCombo_out[OF p(2) this] p(1) out show ?thesis by auto
qed

subsection \<open>Functions\<close>

definition unknownFunction :: "catFailure \<Rightarrow> bool" where
  "unknownFunction e \<longleftrightarrow> (\<exists>r. e = CatFail (CatError ''42883'' r))"

definition known :: "('s, 'a) cat \<Rightarrow> bool" where
  "known m \<longleftrightarrow> (\<forall>sn e sn'. m sn = (Inl e, sn') \<longrightarrow> \<not> unknownFunction e)"

named_theorems knows \<open>computations that meet no unknown function\<close>

lemma knownD: "known m \<Longrightarrow> m sn = (Inl e, sn') \<Longrightarrow> \<not> unknownFunction e"
  unfolding known_def by blast

lemma known_return [knows]: "known (returnC x)"
  by (simp add: known_def returnC_def)

lemma known_fail: "known (failC e) \<longleftrightarrow> \<not> unknownFunction e"
  by (auto simp: known_def failC_def)

lemma unknownFunction_simps [simp]:
  "\<not> unknownFunction (CatFail (cat_errf r))" "\<not> unknownFunction (CatFail (capErrf r))"
  "\<not> unknownFunction (CatFail CatPanic)" "\<not> unknownFunction (ProviderFail p)" "\<not> unknownFunction (RegexpFail m)"
  "unknownFunction (CatFail (CatError s r)) \<longleftrightarrow> s = ''42883''"
  by (simp_all add: unknownFunction_def cat_errf_def capErrf_def)

lemma known_ofE [knows]: "(\<And>e. r = Inl e \<Longrightarrow> \<not> unknownFunction (CatFail e)) \<Longrightarrow> known (ofE r)"
  by (cases r) (auto simp: ofE_def known_fail known_return)

lemma known_bind [knows]: "known m \<Longrightarrow> (\<And>x. known (f x)) \<Longrightarrow> known (bindC m f)"
  by (auto simp: known_def bindC_def split: prod.splits sum.splits)

lemma known_mapC [knows]: "(\<And>x. x \<in> set xs \<Longrightarrow> known (f x)) \<Longrightarrow> known (mapC f xs)"
  by (induction xs) (auto intro!: knows)

lemma known_filterC [knows]: "(\<And>x. x \<in> set xs \<Longrightarrow> known (f x)) \<Longrightarrow> known (filterC f xs)"
  by (induction xs) (auto intro!: knows)

lemma known_liftCall [knows]: "known (liftCall m)"
  by (auto simp: known_def liftCall_def split: prod.splits sum.splits)

lemma known_if [knows]: "known m \<Longrightarrow> known n \<Longrightarrow> known (if b then m else n)"
  by simp

lemma known_describeFrom: "known (describeFrom pr i names)"
proof (induction names arbitrary: i)
  case (Cons name names)
  then show ?case by (auto simp: known_def unknownFunction_def split: prod.splits sum.splits)
qed (simp add: knows)

lemma known_collectionMetas [knows]: "known (collectionMetas pr)"
proof -
  have "known (bindC (describeFrom pr 0 names) (\<lambda>_ sn. (Inr (snMetas sn), sn)))" for names
    by (intro known_bind known_describeFrom) (simp add: known_def)
  then show ?thesis
    by (auto simp: known_def collectionMetas_def split: prod.splits sum.splits option.splits)
qed

lemma known_snapshot [knows]: "known (\<lambda>sn. (Inr (f sn), g sn))"
  by (simp add: known_def)

lemma known_with: "(\<And>sn. known (f sn)) \<Longrightarrow> known (\<lambda>sn. f sn sn)"
  by (auto simp: known_def)

lemma known_const [knows]: "known (constRows rows pr)"
  by (simp add: constRows_def known_return)

lemma known_collectionRows [knows]: "known (collectionRows pr shape)"
  unfolding collectionRows_def by (intro knows)

lemma known_tables: "known (tdBuild tablesTable pr)" "known (tdBuild columnsTable pr)"
  unfolding tablesTable_def columnsTable_def tableDef.simps
  by (rule known_with, intro knows)+

lemma known_builds:
  "\<forall>d \<in> set (catalogTables @ emptySystemTables @ [pgSettings, pgCollation, pgPolicy]). known (tdBuild d pr)"
proof -
  have "known (tdBuild pgDatabase pr)" unfolding pgDatabase_def tableDef.simps by (intro knows)
  moreover have "known (tdBuild pgSettings pr)" "known (tdBuild schemataTable pr)"
    unfolding pgSettings_def schemataTable_def tableDef.simps by (intro knows)+
  ultimately show ?thesis using known_tables[of pr]
    by (simp add: catalogTables_def emptySystemTables_def pgNamespace_def pgClass_def pgAttribute_def
        pgConstraint_def pgIndex_def pgType_def pgDescription_def pgAttrdef_def pgProc_def pgRoles_def pgUser_def
        pgAm_def pgCollation_def pgPolicy_def emptyTable'_def known_const known_collectionRows)
qed

lemma known_table:
  assumes "tableRegistry name = Some d"
  shows "known (table pr d)"
proof -
  from assms have "d \<in> set (catalogTables @ emptySystemTables @ [pgSettings, pgCollation, pgPolicy])"
    unfolding tableRegistry_def by (auto simp: find_Some_iff in_set_conv_nth simp del: set_append)
  then have "known (tdBuild d pr)" using known_builds by blast
  then have "known (bindC (tdBuild d pr) (\<lambda>rows sn. (Inr rows, sn\<lparr>snTables := (tdName d, rows) # snTables sn\<rparr>)))"
    by (intro known_bind) (simp_all add: known_def)
  then show ?thesis by (auto simp: known_def table_def split: option.splits)
qed

lemma known_bindSource [knows]: "known (bindSource pr r)"
proof (cases "tableRegistry (trName r) :: 'a tableDef option")
  case (Some d)
  then show ?thesis by (simp add: bindSource_def) (intro knows known_table, auto simp: known_fail)
qed (simp add: bindSource_def known_fail)

lemma known_currentSetting: "known (currentSetting args)"
  by (auto simp: known_def currentSetting_def returnC_def failC_def unrecognized_def Let_def split: option.splits if_splits)

lemma known_setConfig: "known (setConfig args)"
  unfolding setConfig_def Let_def by (intro knows)

lemma known_database: "known (\<lambda>sn. textC (snDb sn) sn)"
  by (rule known_with) (intro knows)

lemma known_registry:
  "list_all (\<lambda>(n, fd). \<forall>lib args. known (fdFn fd lib args)) functionRegistry"
  by (simp add: functionRegistry_def otherFunctions_def register_def constantFn_def registerNul_def registerTrue_def
      nullFunctions_def trueFunctions_def known_return known_currentSetting known_setConfig known_database
      currentSchemas_def formatType_def quoteText_def formatFn_def arrayToString_def cardinality_def
      replaceFn_def substringFn_def known_fail Let_def split: option.split cval.split)

lemma known_function [knows]: "lookupFunction name = Some fd \<Longrightarrow> known (fdFn fd lib args)"
  using known_registry by (auto simp: lookupFunction_def list_all_iff dest!: map_of_SomeD)

lemma allOk_iff: "allOk rs = Inr () \<longleftrightarrow> (\<forall>r \<in> set rs. r = Inr ())"
  by (induction rs) (auto simp: bindE_eq_Inr)

lemma optOk_iff: "optOk r = Inr () \<longleftrightarrow> (\<forall>x \<in> set_option r. x = Inr ())"
  by (cases r) (auto simp: optOk_def)

lemma evalColumn_known: "evalColumn db srcs outer c tbl name = Inl e \<Longrightarrow> \<not> unknownFunction (CatFail e)"
proof (induction db srcs outer c tbl name rule: evalColumn.induct)
  case (1 db srcs outer c tbl name)
  then show ?case
    by (subst (asm) (2) evalColumn.simps)
      (auto simp: cellAt_def undefinedColumn_def ambiguousColumn_def missingFrom_def bindE_eq_Inl
        split: if_splits option.splits list.splits)
qed

lemma known_applyOp [knows]: "known (applyOp lib op neg anyList l r)"
proof -
  have "known (case r of CArr xs \<Rightarrow> boolC ((\<exists>x \<in> set xs. compareValues l x = 0) \<noteq> neg) | _ \<Rightarrow> boolC False)"
    by (cases r) (simp_all add: known_return)
  moreover have "known (case regexMatch lib l r (hasSuffix op ''*'') of
      Inl m \<Rightarrow> failC (RegexpFail m) | Inr b \<Rightarrow> boolC (b \<noteq> hasPrefix op ''!''))"
    by (simp add: known_fail known_return split: sum.split)
  moreover have "arith op x y = Inl e \<Longrightarrow> \<not> unknownFunction (CatFail e)" for x y e
    by (auto simp: arith_def split: if_splits)
  then have "known (case (toFloat l, toFloat r) of
      (Some x, Some y) \<Rightarrow> ofE (bindE (arith op x y) (\<lambda>z. Inr (CNum z)))
    | _ \<Rightarrow> failE [T ''arithmetic over non-numeric values''])"
    by (auto simp: known_fail bindE_eq_Inl intro!: known_ofE split: option.split)
  ultimately show ?thesis
    unfolding applyOp_def by (intro known_if known_return) (simp_all add: known_fail)
qed

lemma known_binary [knows]: "known l \<Longrightarrow> known r \<Longrightarrow> known (evalBinary lib op neg anyList l r)"
  unfolding evalBinary_def by (intro knows)

lemma known_unary [knows]: "known m \<Longrightarrow> known (evalUnary op m)"
  by (auto simp: evalUnary_def known_fail intro!: knows split: option.split)

lemma known_findEqual [knows]: "(\<And>m. m \<in> set ms \<Longrightarrow> known m) \<Longrightarrow> known (findEqual v ms)"
  by (induction ms) (auto intro!: knows)

lemma known_whens [knows]:
  "(\<And>a b. (a, b) \<in> set ws \<Longrightarrow> known a \<and> known b) \<Longrightarrow> known els \<Longrightarrow> known (evalWhens operand ws els)"
proof (induction ws)
  case (Cons w ws)
  obtain a b where w: "w = (a, b)" by (cases w)
  with Cons.prems have "known a" "known b" "known (evalWhens operand ws els)" using Cons.IH by auto
  then show ?case by (simp add: w) (intro knows)
qed simp

lemma known_call [knows]:
  assumes "knownFunction name" "\<And>m. m \<in> set args \<Longrightarrow> known m"
  shows "known (evalFunction lib name args)"
proof -
  from assms(1) obtain fd where fd: "lookupFunction name = Some (fd :: 'a funcDef)"
    using knownFunction_iff[where ?'s = 'a, of name] by blast
  show ?thesis using assms(2)
    by (auto simp: evalFunction_def fd callFunction_def known_fail intro!: knows known_function[OF fd] split: option.split)
qed

lemma known_join [knows]:
  "(\<And>b kind f cx' c. (b, kind, Some f) \<in> set sts \<Longrightarrow> known (f cx' c)) \<Longrightarrow> known (joinFrom cx sts combos)"
proof (induction sts arbitrary: combos)
  case (Cons st sts)
  obtain b kind on where st: "st = (b, kind, on)" by (cases st)
  have "known (extendCombo cx st c)" for c
  proof (cases on)
    case (Some f)
    with Cons.prems st have "known (f cx' c')" for cx' c' by (metis list.set_intros(1))
    with Some st show ?thesis by (auto simp: extendCombo_def intro!: knows)
  qed (auto simp: extendCombo_def st intro!: knows)
  moreover have "known (joinFrom cx sts combos)" for combos
    using Cons.prems by (intro Cons.IH) (metis list.set_intros(2))
  ultimately show ?case by (auto intro!: knows)
qed (simp add: knows)

lemma known_constInt [knows]: "known (constInt cx e)"
proof (cases e)
  case (Some f)
  have "known (\<lambda>sn. case f cx [] sn of
        (Inl (CatFail CatPanic), sn') \<Rightarrow> (Inl (CatFail CatPanic), sn')
      | (Inr (CNum x), sn') \<Rightarrow> (Inr (intOfFloat x), sn')
      | (_, sn') \<Rightarrow> (Inr (-1), sn'))"
    by (auto simp: known_def split: prod.splits sum.splits catFailure.splits catError.splits cval.splits)
  then show ?thesis by (simp add: constInt_def Some)
qed (simp add: constInt_def knows)

lemma starCells_known: "starCells cx c tbl = Inl e \<Longrightarrow> \<not> unknownFunction (CatFail e)"
  by (auto simp: starCells_def bindE_eq_Inl cellAt_def dest!: mapE_eq_Inl split: if_splits)

lemma inferColumns_known: "inferColumns items bound = Inl e \<Longrightarrow> \<not> unknownFunction (CatFail e)"
  by (auto simp: inferColumns_def bindE_eq_Inl itemColumns_def starColumns_def unknownRelation_def
      dest!: mapE_eq_Inl split: if_splits selectItem.splits list.splits)

lemma known_sort [knows]:
  "(\<And>t d cx' c. (t, d) \<in> set order \<Longrightarrow> known (snd t cx' c)) \<Longrightarrow> known (cat_sortRows cx cols combos order proj)"
  by (auto simp: cat_sortRows_def termKeys_def known_fail intro!: knows split: option.split)

lemma known_runQuery:
  assumes "\<And>e. qyFrom q = Inl e \<Longrightarrow> \<not> unknownFunction (CatFail e)"
    "\<And>specs r kind f cx c. qyFrom q = Inr specs \<Longrightarrow> (r, kind, Some f) \<in> set specs \<Longrightarrow> known (f cx c)"
    "\<And>f cx c. f \<in> set (qyCells q) \<Longrightarrow> known (f cx c)"
    "\<And>f cx c. qyWhere q = Some f \<Longrightarrow> known (f cx c)"
    "\<And>t d cx c. (t, d) \<in> set (qyOrder q) \<Longrightarrow> known (snd t cx c)"
    "\<And>b d outer. (b, d) \<in> set (qyUnion q) \<Longrightarrow> known (b outer)"
  shows "known (runQuery pr q outer)"
proof (cases "qyFrom q")
  case (Inl e)
  with assms(1) show ?thesis by (simp add: runQuery_def ofE_def known_fail)
next
  case (Inr specs)
  have "known (projected cx q specs)" for cx
    using assms(2)[OF Inr] assms(3,4) unfolding projected_def joinRows_def filterRows_def project_def
    by (auto intro!: knows dest!: set_zip_rightD split: option.split)
  moreover have "known (unionRows (qyUnion q) outer proj)" for proj
    using assms(6) by (auto simp: unionRows_def Let_def intro!: knows)
  moreover have "known (windowRows cx off lim proj)" for cx proj and off lim :: "('a, cval) evaluator option"
    unfolding windowRows_def by (intro knows)
  moreover have "known (bindSources pr specs)" unfolding bindSources_def by (intro knows)
  ultimately show ?thesis
    by (auto simp: runQuery_def Inr ofE_def[of "Inr specs"] Let_def intro!: known_bind known_ofE known_sort
        dest: inferColumns_known assms(5))
qed

lemma evalFrom_errors: "evalFrom lib pr t = Inl e \<Longrightarrow> e = CatPanic"
proof -
  have "flattenFrom t = Inl e \<Longrightarrow> e = CatPanic"
  proof -
    have "True" "True" "flattenFrom t = Inl e \<longrightarrow> e = CatPanic" "True" for x :: cexpr and i :: selectItem and t and st :: stmt
      by (induction x and i and t and st) (auto simp: bindE_eq_Inl split: tableExpr.splits, metis tableExpr.exhaust)
    then show "flattenFrom t = Inl e \<Longrightarrow> e = CatPanic" by blast
  qed
  then show "evalFrom lib pr t = Inl e \<Longrightarrow> e = CatPanic" by (auto simp: evalFrom_flatten bindE_eq_Inl)
qed

lemma known_eval:
  "fst (validate e) = Inr () \<longrightarrow> (\<forall>cx c. known (eval lib pr e cx c))"
  "validateItem i = Inr () \<longrightarrow> (\<forall>cx c. known (evalItem lib pr i cx c))"
  "\<forall>vs specs r kind f cx c. validateFrom t = Inr vs \<longrightarrow> (\<forall>v \<in> set vs. sourceOk v = Inr ()) \<longrightarrow>
     evalFrom lib pr t = Inr specs \<longrightarrow> (r, kind, Some f) \<in> set specs \<longrightarrow> known (f cx c)"
  "validateSubquery st = Inr () \<longrightarrow> (\<forall>outer. known (evalQuery lib pr st outer))"
proof (induction e and i and t and st)
  case (CaseExpr operand whens els)
  show ?case
  proof (intro impI allI)
    fix cx c
    assume ok: "fst (validate (CaseExpr operand whens els)) = Inr ()"
    have "known (case map_option (eval lib pr) operand of None \<Rightarrow> returnC None | Some m \<Rightarrow> bindC (m cx c) (\<lambda>v. returnC (Some v)))"
      using ok CaseExpr(1) by (cases operand) (auto simp: optOk_def bindE_eq_Inr intro!: knows)
    moreover have "known (case map_option (eval lib pr) els of None \<Rightarrow> returnC CNil | Some m \<Rightarrow> m cx c)"
      using ok CaseExpr(4) by (cases els) (auto simp: optOk_def bindE_eq_Inr intro!: knows)
    moreover have "known a \<and> known b"
      if ab: "(a, b) \<in> set (map (\<lambda>(a, b). (a cx c, b cx c)) (map (map_prod (eval lib pr) (eval lib pr)) whens))" for a b
    proof -
      from ab obtain x y where xy: "(x, y) \<in> set whens" "a = eval lib pr x cx c" "b = eval lib pr y cx c" by auto
      with ok have "fst (validate x) = Inr ()" "fst (validate y) = Inr ()" by (auto simp: allOk_iff bindE_eq_Inr)
      moreover have "x \<in> Basic_BNFs.fsts (x, y)" "y \<in> Basic_BNFs.snds (x, y)" by simp_all
      ultimately show ?thesis using CaseExpr(2,3)[OF xy(1)] xy(2,3) by blast
    qed
    ultimately show "known (eval lib pr (CaseExpr operand whens els) cx c)"
      unfolding eval.simps Let_def by (intro known_bind known_whens) blast+
  qed
next
  case (FuncCall name args)
  then show ?case by (auto simp: Let_def allOk_iff intro!: knows split: if_splits)
next
  case (InExpr e xs neg)
  then show ?case by (auto simp: Let_def allOk_iff bindE_eq_Inr intro!: knows split: if_splits)
next
  case (SubscriptExpr base idx)
  then show ?case
    by (auto simp: Let_def allOk_iff bindE_eq_Inr subscript_def intro!: knows split: if_splits cval.splits option.splits)
next
  case (ParamRef n)
  then show ?case by (auto simp: paramValue_def known_def ofE_def failC_def returnC_def split: if_splits)
next
  case (ColRef tbl name)
  then show ?case
    by (auto simp: known_def ofE_def failC_def returnC_def dest: evalColumn_known split: sum.splits)
next
  case (JoinExpr l r kind on)
  show ?case
  proof (intro allI impI)
    fix vs specs r' kind' f cx c
    assume *: "validateFrom (JoinExpr l r kind on) = Inr vs" "\<forall>v \<in> set vs. sourceOk v = Inr ()"
      "evalFrom lib pr (JoinExpr l r kind on) = Inr specs" "(r', kind', Some f) \<in> set specs"
    then obtain ref vl sl where r: "r = TableSource ref" "validateFrom l = Inr vl" "evalFrom lib pr l = Inr sl"
      "vs = vl @ [(ref, kind, map_option fst (map_option validate on))]"
      "specs = sl @ [(ref, kind, map_option (eval lib pr) on)]"
      by (auto simp: bindE_eq_Inr split: tableExpr.splits)
    from *(4) r(5) consider "(r', kind', Some f) \<in> set sl" | e where "on = Some e" "f = eval lib pr e"
      by (cases on) auto
    then show "known (f cx c)"
    proof cases
      case 1
      with JoinExpr(1) r *(2) show ?thesis by auto
    next
      case 2
      with *(2) r(4) have "fst (validate e) = Inr ()" by (auto simp: sourceOk_def optOk_def split: if_splits)
      with 2 JoinExpr(3) show ?thesis by simp
    qed
  qed
next
  case (Stmt items src cond order lim off dist mp branches)
  show ?case
  proof (intro impI allI)
    fix outer
    assume ok: "validateSubquery (Stmt items src cond order lim off dist mp branches) = Inr ()"
    then obtain vs where vs: "(case map_option validateFrom src of None \<Rightarrow> Inr [] | Some specs \<Rightarrow> specs) = Inr vs"
      "\<forall>v \<in> set vs. sourceOk v = Inr ()" "\<forall>i \<in> set items. validateItem i = Inr ()"
      "\<forall>e \<in> set_option cond. fst (validate e) = Inr ()" "\<forall>t \<in> set order. fst (validate (fst t)) = Inr ()"
      "\<forall>b \<in> set branches. validateSubquery (fst b) = Inr ()"
      by (auto simp: bindE_eq_Inr allOk_iff optOk_iff)
    have bad: "\<not> unknownFunction (CatFail e)"
      if "(case map_option (evalFrom lib pr) src of None \<Rightarrow> Inr [] | Some specs \<Rightarrow> specs) = Inl e" for e
      using that by (cases src) (auto dest!: evalFrom_errors)
    have good: "known (f cx c)"
      if "(case map_option (evalFrom lib pr) src of None \<Rightarrow> Inr [] | Some specs \<Rightarrow> specs) = Inr specs"
        "(r, kind, Some f) \<in> set specs" for specs r kind f cx c
      using that vs(1,2) Stmt(2) by (cases src) auto
    have order': "known (snd t cx c)"
      if "(t, d) \<in> set (map2 (\<lambda>o' f. ((fst o', fst f), snd o')) order (map (map_prod (eval lib pr) id) order))" for t d cx c
    proof -
      from that obtain i where i: "i < length order" "snd t = eval lib pr (fst (order ! i))"
        by (auto simp: in_set_zip)
      then have "order ! i \<in> set order" by simp
      moreover have "fst (order ! i) \<in> Basic_BNFs.fsts (order ! i)" by (cases "order ! i") simp
      ultimately show ?thesis using i(2) vs(5) Stmt(4) by metis
    qed
    show "known (evalQuery lib pr (Stmt items src cond order lim off dist mp branches) outer)"
      unfolding evalQuery.simps
      by (rule known_runQuery) (use vs Stmt bad good order' in \<open>auto\<close>)
  qed
qed (auto simp: Let_def allOk_iff bindE_eq_Inr known_fail intro!: knows dest: starCells_known)

lemma validateFrom_flatten:
  "validateFrom t = bindE (flattenFrom t) (\<lambda>specs. Inr (map (\<lambda>(r, kind, on). (r, kind, map_option validateFunctions on)) specs))"
proof -
  have "True" "True" "validateFrom t = bindE (flattenFrom t)
      (\<lambda>specs. Inr (map (\<lambda>(r, kind, on). (r, kind, map_option validateFunctions on)) specs))" "True"
    for e :: cexpr and i :: selectItem and t and st :: stmt
    by (induction e and i and t and st)
      (auto simp: bindE_assoc validateFunctions_def[abs_def] option.map_comp comp_def split: bindE_split tableExpr.split)
  then show ?thesis by blast
qed

lemma bindDef_known: "bindDef sp = Inr b \<Longrightarrow> knownTable (trName (fst sp))"
  by (auto simp: bindDef_def knownTable_def split: prod.splits option.splits if_splits)

lemma prepared_validated:
  assumes "prepareStmt st = Inr cols" "stUnion st = []"
  shows "validateSubquery st = Inr ()"
proof -
  obtain items src cond order lim off dist mp where st: "st = Stmt items src cond order lim off dist mp []"
    using assms(2) by (cases st) auto
  from assms(1) st obtain specs bound where
    specs: "(case src of None \<Rightarrow> Inr [] | Some t \<Rightarrow> flattenFrom t) = Inr specs" "mapE bindDef specs = Inr bound" and
    ok: "\<forall>sp \<in> set specs. (case sp of (r, kind, on) \<Rightarrow> optOk (map_option validateFunctions on)) = Inr ()"
      "\<forall>i \<in> set items. validateItem i = Inr ()" "optOk (map_option validateFunctions cond) = Inr ()"
      "\<forall>t \<in> set order. validateFunctions (fst t) = Inr ()"
    by (auto simp: prepareStmt_def bindE_eq_Inr allOk_iff)
  have from': "(case map_option validateFrom src of None \<Rightarrow> Inr [] | Some specs \<Rightarrow> specs) =
      Inr (map (\<lambda>(r, kind, on). (r, kind, map_option validateFunctions on)) specs)"
    using specs(1) by (cases src) (auto simp: validateFrom_flatten)
  have "\<forall>sp \<in> set specs. knownTable (trName (fst sp))"
    using mapE_InrD[OF specs(2)] bindDef_known by blast
  with ok have "\<forall>v \<in> set (map (\<lambda>(r, kind, on). (r, kind, map_option validateFunctions on)) specs). sourceOk v = Inr ()"
    by (fastforce simp: sourceOk_def)
  with from' ok show ?thesis
    by (simp add: st allOk_iff bindE_eq_Inr validateFunctions_def[abs_def] option.map_comp comp_def)
qed

lemma known_special: "list_all (\<lambda>sc. \<forall>lib pr q. known (spRun sc lib pr q)) (specialCases :: 's specialCase list)"
proof -
  have "known (runGetColumns lib pr q)" "known (primaryKeyRows b lib pr q)" "known (runGetBestRowIdentifier lib pr q)"
    "known (runGetIndexInfo lib pr q)" for lib b q and pr :: "'s provider"
    unfolding runGetColumns_def primaryKeyRows_def runGetBestRowIdentifier_def runGetIndexInfo_def catalogMetas_def Let_def
    by (rule known_with, intro knows)+
  moreover have "known (runGetTypeInfo lib pr q)" "known (runEmpty lib pr q)" for lib q and pr :: "'s provider"
    by (simp_all add: runGetTypeInfo_def runEmpty_def known_return)
  ultimately show ?thesis by (simp add: specialCases_def)
qed

text \<open>C2. A query that was prepared calls no function the engine lacks: whatever an execution
  fails with, it is not the error about an unknown function. The check before the columns are
  announced reaches every expression whose error can surface, in subqueries too. (\<open>LIMIT\<close> and
  \<open>OFFSET\<close> are not checked, but their errors are swallowed.)\<close>

theorem prepared_functions:
  assumes "cat_Prepare query = Inr sm" "cat_Exec lib pr sm db params s = (Inl e, s')"
  shows "e \<noteq> CatFail (CatError ''42883'' r)"
proof (cases "matchSpecial query :: 'a specialCase option")
  case (Some sc)
  then have "sc \<in> set specialCases" by (auto simp: matchSpecial_def find_Some_iff in_set_conv_nth)
  then have "known (spRun sc lib pr query)" using known_special by (force simp: list_all_iff)
  moreover from assms Some obtain sn' where "spRun sc lib pr query (newSnapshot db params s) = (Inl e, sn')"
    by (auto simp: cat_Prepare_def cat_Exec_def Let_def split: prod.splits)
  ultimately have "\<not> unknownFunction e" by (rule knownD)
  then show ?thesis by (auto simp: unknownFunction_def)
next
  case None
  with assms(1) obtain st where st: "parseSQL query = Inr st" "prepareStmt st = Inr (smCols sm)" "smStmt sm = st" "smSpecial sm = None"
    by (auto simp: cat_Prepare_def bindE_eq_Inr)
  from parseSQL_shape[OF st(1)] have "stUnion st = []" by (cases st) simp
  with prepared_validated[OF st(2)] known_eval(4) have "known (evalQuery lib pr st [])" by blast
  moreover from assms(2) st(3,4) obtain sn' where "evalQuery lib pr st [] (newSnapshot db params s) = (Inl e, sn')"
    by (auto simp: cat_Exec_def Let_def split: prod.splits)
  ultimately have "\<not> unknownFunction e" by (rule knownD)
  then show ?thesis by (auto simp: unknownFunction_def)
qed

end
