(* ===== verification/PgServe.thy ===== *)
theory PgServe
  imports PgServer CatQuery
begin

text \<open>
  What the PostgreSQL server keeps: how a query string can be refused, that rows fit their
  announced columns whatever family a statement belongs to, that session statements leave the
  store alone, and what reads and writes do to a table the cluster serves.
\<close>

subsection \<open>Refusing a query\<close>

text \<open>An error of the catalog with one of the types preparing a query can end with, as opposed to a
  panic or running out of fuel.\<close>

definition typed :: "catError \<Rightarrow> bool" where
  "typed e \<longleftrightarrow> (\<exists>c r. e = CatError c r \<and> c \<in> {''42601'', ''0A000'', ''42883'', ''42P01''})"

lemma typed_simps [simp]: "typed (funcErrf n)" "typed (unknownRelation n)" "typed (capErrf r)" "typed (cat_errf r)"
    "\<not> typed CatPanic" "\<not> typed CatFuel"
  by (simp_all add: typed_def funcErrf_def unknownRelation_def capErrf_def cat_errf_def)

definition typedE :: "catError + 'a \<Rightarrow> bool" where
  "typedE r \<longleftrightarrow> (\<forall>e. r = Inl e \<longrightarrow> typed e)"

lemma typedE_simps [simp]: "typedE (Inr x)" "typedE (Inl e) = typed e"
  by (simp_all add: typedE_def)

lemma typedE_bind: "typedE m \<Longrightarrow> (\<And>x. m = Inr x \<Longrightarrow> typedE (f x)) \<Longrightarrow> typedE (bindE m f)"
  by (cases m) auto

lemma typedE_allOk: "(\<And>r. r \<in> set rs \<Longrightarrow> typedE r) \<Longrightarrow> typedE (allOk rs)"
  by (induction rs) (auto intro!: typedE_bind)

lemma typedE_optOk: "(\<And>x. r = Some x \<Longrightarrow> typedE x) \<Longrightarrow> typedE (optOk r)"
  by (cases r) (auto simp: optOk_def)

lemma typedE_mapE: "(\<And>x. x \<in> set xs \<Longrightarrow> typedE (f x)) \<Longrightarrow> typedE (mapE f xs)"
  by (auto simp: typedE_def dest!: mapE_eq_Inl)

lemma typedE_sourceOk: "(\<And>x. on = Some x \<Longrightarrow> typedE x) \<Longrightarrow> typedE (sourceOk (r, kind, on))"
  by (auto simp: sourceOk_def intro: typedE_optOk)

lemma validate_typed:
  "wfE e \<longrightarrow> typedE (fst (validate e)) \<and> typedE (snd (validate e))"
  "wfI i \<longrightarrow> typedE (validateItem i)"
  "wfT t \<longrightarrow> (\<exists>specs. validateFrom t = Inr specs \<and> (\<forall>sp \<in> set specs. typedE (sourceOk sp)))"
  "wfS st \<longrightarrow> typedE (validateSubquery st)"
proof (induction e and i and t and st)
  case (CaseExpr operand whens els)
  show ?case
  proof
    assume wf: "wfE (CaseExpr operand whens els)"
    have whens: "typedE (fst (validate a)) \<and> typedE (fst (validate b))" if ab: "(a, b) \<in> set whens" for a b
    proof -
      have "a \<in> Basic_BNFs.fsts (a, b)" "b \<in> Basic_BNFs.snds (a, b)" "wfE a" "wfE b" using wf ab by auto
      with CaseExpr(2,3)[OF ab] show ?thesis by auto
    qed
    have "typedE (optOk (map_option fst (map_option validate operand)))"
      using wf CaseExpr(1) by (cases operand) (auto simp: optOk_def)
    moreover have "typedE (optOk (map_option fst (map_option validate els)))"
      using wf CaseExpr(4) by (cases els) (auto simp: optOk_def)
    moreover have "typedE (allOk (map (\<lambda>w. allOk [fst (fst w), fst (snd w)]) (map (map_prod validate validate) whens)))"
      by (auto intro!: typedE_allOk typedE_bind simp: whens)
    ultimately have "typedE (allOk [optOk (map_option fst (map_option validate operand)),
        allOk (map (\<lambda>w. allOk [fst (fst w), fst (snd w)]) (map (map_prod validate validate) whens)),
        optOk (map_option fst (map_option validate els))])"
      by (intro typedE_allOk) auto
    then show "typedE (fst (validate (CaseExpr operand whens els))) \<and> typedE (snd (validate (CaseExpr operand whens els)))"
      by simp
  qed
next
  case (JoinExpr l r kind on)
  then show ?case by (fastforce intro!: typedE_sourceOk)
next
  case (Stmt items src cond order lim off dist mp branches)
  then show ?case
    by (cases src) (fastforce intro!: typedE_allOk typedE_optOk typedE_bind)+
qed (auto intro!: typedE_allOk typedE_bind typedE_sourceOk)

definition slips :: "string \<Rightarrow> bool" where
  "slips query \<longleftrightarrow> (\<exists>ts. cat_lex query = Inr ts \<and> emptyOperator ts)"

lemma flattenFrom_total: "wfT t \<Longrightarrow> \<exists>specs. flattenFrom t = Inr specs"
  using validate_typed(3)[of t] by (auto simp: validateFrom_flatten bindE_eq_Inr)

lemma wfS_parts:
  assumes "wfS st"
  shows "i \<in> set (stItems st) \<Longrightarrow> wfI i" "stFrom st = Some t \<Longrightarrow> wfT t" "stWhere st = Some e \<Longrightarrow> wfE e"
    "o' \<in> set (stOrder st) \<Longrightarrow> wfE (fst o')"
  using assms by (cases st; auto)+

lemma typedE_bindDef: "typedE (bindDef sp)"
  by (auto simp: bindDef_def split: prod.split option.split)

lemma typedE_inferColumns: "typedE (inferColumns items bound)"
  unfolding inferColumns_def
  by (intro typedE_bind typedE_mapE)
    (auto simp: itemColumns_def starColumns_def split: selectItem.split list.split)

lemma flattenFrom_wf:
  "True" "True" "\<forall>specs r kind e. flattenFrom t = Inr specs \<longrightarrow> wfT t \<longrightarrow> (r, kind, Some e) \<in> set specs \<longrightarrow> wfE e" "True"
  for x :: cexpr and i :: selectItem and t and st :: stmt
  by (induction x and i and t and st) (auto simp: bindE_eq_Inr split: tableExpr.splits)

lemma typedE_validate: "wfE e \<Longrightarrow> typedE (validateFunctions e)"
  using validate_typed(1)[of e] by (simp add: validateFunctions_def)

lemma prepareStmt_typed:
  assumes "wfS st"
  shows "typedE (prepareStmt st)"
proof -
  let ?from = "case stFrom st of None \<Rightarrow> Inr [] | Some t \<Rightarrow> flattenFrom t"
  have "typedE ?from"
    using flattenFrom_total wfS_parts(2)[OF assms] by (cases "stFrom st") fastforce+
  moreover have "typedE (allOk (map (\<lambda>(r, kind, on). optOk (map_option validateFunctions on)) sources))"
    if from': "?from = Inr sources" for sources
  proof -
    have "typedE (optOk (map_option validateFunctions on))" if "(r, kind, on) \<in> set sources" for r kind on
      using that from' wfS_parts(2)[OF assms] flattenFrom_wf(3)
      by (cases "stFrom st"; cases on) (auto simp: optOk_def intro!: typedE_validate)
    then show ?thesis by (auto intro!: typedE_allOk)
  qed
  moreover have "typedE (allOk (map validateItem (stItems st)))"
    using wfS_parts(1)[OF assms] validate_typed(2) by (auto intro!: typedE_allOk)
  moreover have "typedE (optOk (map_option validateFunctions (stWhere st)))"
    using wfS_parts(3)[OF assms] by (auto intro!: typedE_optOk typedE_validate)
  moreover have "typedE (allOk (map (\<lambda>t. validateFunctions (fst t)) (stOrder st)))"
    using wfS_parts(4)[OF assms] by (auto intro!: typedE_allOk typedE_validate)
  ultimately show ?thesis
    unfolding prepareStmt_def by (intro typedE_bind typedE_mapE typedE_bindDef typedE_inferColumns) auto
qed

lemma cat_Prepare_refusal:
  assumes "cat_Prepare query = Inl e"
  shows "typed e \<or> e = CatPanic \<and> slips query"
proof -
  from assms consider "parseSQL query = Inl e" | st where "parseSQL query = Inr st" "prepareStmt st = Inl e"
    by (auto simp: cat_Prepare_def bindE_eq_Inl split: option.splits)
  then show ?thesis
  proof cases
    case 1
    from parseSQL_outcome[OF this] show ?thesis by (auto simp: slips_def)
  next
    case 2
    with prepareStmt_typed[OF parseSQL_shape] show ?thesis by (auto simp: typedE_def)
  qed
qed

text \<open>The calls a statement is prepared with do not panic.\<close>

definition steadyGateway :: "'s gateway \<Rightarrow> bool" where
  "steadyGateway gw \<longleftrightarrow>
     (\<forall>db s e s'. gwDatabase gw db s = (Inl e, s') \<longrightarrow> \<not> storePanics e) \<and>
     (\<forall>db s cl s' name t e t'. gwDatabase gw db s = (Inr cl, s') \<longrightarrow> clSchema cl name t = (Inl e, t') \<longrightarrow> \<not> storePanics e)"

definition refusalCodes :: "pgCode set" where
  "refusalCodes = {Syntax, UndefinedTable, UndefinedObject, QueryCanceled, Internal} \<union>
     Code ` {errSyntax, errBadValue, errUnsupported, ''42883'', ''42P01''}"

definition refusalOf :: "string \<Rightarrow> refusal \<Rightarrow> bool" where
  "refusalOf query r \<longleftrightarrow> (\<exists>c msg. r = Refused (PgError c msg) \<and> c \<in> refusalCodes) \<or> r = GatewayDown \<and> slips query"

lemma refusalOf_coded: "c \<in> refusalCodes \<Longrightarrow> refusalOf q (Refused (PgError c msg))"
  by (simp add: refusalOf_def)

lemma refusal_translate: "classified e \<Longrightarrow> refusalOf q (Refused (wireError can (OfTranslate e)))"
  by (auto simp: wireError_def classified_def refusalCodes_def intro!: refusalOf_coded)

lemma refusal_store: "\<not> storePanics e \<Longrightarrow> refusalOf q (refusedCall (\<lambda>e. wireError can (OfStore e)) e)"
  by (auto simp: refusedCall_def wireError_def refusalCodes_def intro!: refusalOf_coded)

lemma refusal_schema:
  "\<not> storePanics e \<Longrightarrow> refusalOf q (refusedCall (\<lambda>e. case e of CollectionNotFound _ \<Rightarrow> relationMissing name
     | _ \<Rightarrow> wireError can (OfStore e)) e)"
  by (auto simp: refusedCall_def wireError_def relationMissing_def refusalCodes_def intro!: refusalOf_coded split: storeError.split)

lemma refusal_session: "sessionStatement gw words = Inl e \<Longrightarrow> refusalOf q (Refused e)"
  by (auto simp: sessionStatement_def showStatement_def Let_def refusalCodes_def intro!: refusalOf_coded
      split: if_splits option.splits prod.splits)

lemma callP_Inl:
  "callP render m f s = (Inl r, s') \<Longrightarrow>
   (\<exists>e t. m s = (Inl e, t) \<and> r = refusedCall render e) \<or> (\<exists>x t. m s = (Inr x, t) \<and> f x t = (Inl r, s'))"
  by (auto simp: callP_def split: prod.splits sum.splits)

lemma readStatement_refused:
  assumes "steadyGateway gw" "readStatement gw db q s = (Inl r, s')"
  shows "refusalOf q' r"
proof (cases "pg_Parse q")
  case (Inl e)
  with assms show ?thesis by (auto simp: readStatement_def refuse_def intro: refusal_translate dest: pg_Parse_classified)
next
  case (Inr sel)
  show ?thesis
    using assms unfolding readStatement_def Inr
    by (auto simp: withView_def databaseView_def steadyGateway_def refuse_def dest!: callP_Inl
        intro!: refusal_store refusal_schema refusal_translate dest: selectPlan_classified[OF Inr]
        split: sum.splits prod.splits) blast
qed

lemma writeStatement_refused:
  assumes "steadyGateway gw" "\<And>e. parsed = Inl e \<Longrightarrow> classified e" "writeStatement gw db parsed body s = (Inl r, s')"
  shows "refusalOf q r"
  using assms
  by (cases parsed) (auto simp: writeStatement_def withView_def databaseView_def steadyGateway_def refuse_def dest!: callP_Inl
      intro!: refusal_store refusal_translate)

lemma collectionStatement_refused:
  "steadyGateway gw \<Longrightarrow> collectionStatement gw db q s = (Inl r, s') \<Longrightarrow> refusalOf q' r"
  by (auto simp: collectionStatement_def Let_def dest: writeStatement_refused readStatement_refused
      pg_ParseInsert_classified pg_ParseUpdate_classified split: if_splits)

lemma refusal_catalog: "typed (CatError ty r) \<Longrightarrow> refusalOf q (Refused (wireError can (OfCatalog ty r)))"
  by (auto simp: typed_def wireError_def refusalCodes_def errSyntax_def errUnsupported_def intro!: refusalOf_coded)

lemma parseOne_refused:
  assumes "steadyGateway gw" "parseOne gw db q s = (Inl r, s')"
  shows "refusalOf q r"
proof (cases "isSessionStatement (firstWord (gwLib gw) q)")
  case True
  with assms show ?thesis
    by (auto simp: parseOne_def refuse_def intro: refusal_session collectionStatement_refused split: sum.splits)
next
  case False
  show ?thesis
  proof (cases "Prepareable q")
    case True
    show ?thesis
    proof (cases "cat_Prepare q :: catError + 'a statement")
      case (Inl e)
      with cat_Prepare_refusal[OF Inl] assms False True show ?thesis
        by (auto simp: parseOne_def refuse_def refusalOf_def[of _ GatewayDown] intro: refusal_catalog collectionStatement_refused
            split: catError.splits if_splits)
    next
      case (Inr sm)
      with assms False True show ?thesis by (simp add: parseOne_def)
    qed
  next
    case no: False
    with assms False show ?thesis by (auto simp: parseOne_def intro: collectionStatement_refused)
  qed
qed

lemma parseParts_refused:
  assumes "steadyGateway gw" "parseParts gw db qs s = (Inl r, s')"
  shows "\<exists>q \<in> set qs. refusalOf q r"
  using assms(2)
proof (induction qs arbitrary: s)
  case (Cons q qs)
  then show ?case
    by (auto split: prod.splits sum.splits dest: parseOne_refused[OF assms(1)])
qed simp


text \<open>A session statement is answered without the store: it is prepared, or refused, and executed
  without changing the state of the cluster, and its execution always returns.\<close>

theorem session_untouched:
  assumes "isSessionStatement (firstWord (gwLib gw) q)" "parseOne gw db q s = (r, s')"
  shows "s' = s \<and> (\<forall>sts. r = Inr sts \<longrightarrow> (\<forall>st \<in> set sts. \<forall>params t. \<exists>ans. ppBody st params t = Some (ans, t)))"
proof -
  have "firstWord (gwLib gw) q \<noteq> []" using assms(1) by (auto simp: isSessionStatement_def)
  then obtain words where words: "Words q = Inr words" by (auto simp: firstWord_def split: sum.splits)
  have "\<exists>ans. ppBody st params t = Some (ans, t)" if "sessionStatement gw words = Inr sts" "st \<in> set sts" for sts st params t
    using that by (auto simp: sessionStatement_def showStatement_def showAllStatement_def textStatement_def ackStatement_def Let_def
        split: if_splits option.splits prod.splits)
  with assms words show ?thesis by (auto simp: parseOne_def refuse_def split: sum.splits)
qed

text \<open>Preparing a query string writes nothing: what the cluster holds is unchanged when the
  calls a statement is prepared with, the choice of a database and the lookup of a schema, leave it
  unchanged.\<close>

theorem preparing_keeps:
  fixes gw :: "'s gateway"
  assumes views: "\<And>d t res t'. gwDatabase gw d t = (res, t') \<Longrightarrow> content t' = content t"
    and schemas: "\<And>d t cl t' n u res u'. gwDatabase gw d t = (Inr cl, t') \<Longrightarrow> clSchema cl n u = (res, u') \<Longrightarrow> content u' = content u"
    and run: "gatewayParse gw db query s = (r, s')"
  shows "content s' = content s"
proof -
  have view: "content t' = content t"
    if "withView gw db f t = (res, t')" "\<And>cl u res u'. (\<exists>d v v'. gwDatabase gw d v = (Inr cl, v')) \<Longrightarrow> f cl u = (res, u') \<Longrightarrow> content u' = content u"
    for f t and res :: "refusal + 's prepared list" and t'
    using that views by (auto simp: withView_def callP_def databaseView_def split: prod.splits sum.splits) metis+
  have read: "content t' = content t" if "readStatement gw db q t = (res, t')" for q t t' and res :: "refusal + 's prepared list"
  proof (cases "pg_Parse q")
    case (Inr sel)
    from that show ?thesis unfolding readStatement_def Inr sum.case
      by (rule view) (auto simp: callP_def refuse_def Let_def split: prod.splits sum.splits dest: schemas)
  qed (use that in \<open>simp add: readStatement_def refuse_def\<close>)
  have coll: "content t' = content t" if "collectionStatement gw db q t = (res, t')" for q t t' and res :: "refusal + 's prepared list"
    using that unfolding collectionStatement_def writeStatement_def Let_def
    by (auto simp: refuse_def dest!: view read split: if_splits sum.splits)
  have one: "content t' = content t" if "parseOne gw db q t = (res, t')" for q t t' and res :: "refusal + 's prepared list"
    using that by (auto simp: parseOne_def refuse_def dest: coll split: if_splits sum.splits catError.splits)
  have "content t' = content t" if "parseParts gw db qs t = (res, t')" for qs t t' and res :: "refusal + 's prepared list"
    using that by (induction qs arbitrary: t res) (auto split: prod.splits sum.splits dest!: one)
  with run show ?thesis by (simp add: gatewayParse_def)
qed

subsection \<open>What a statement answers\<close>

text \<open>The statements \<open>parseOne\<close> prepares, one for each query.\<close>

inductive preparedAs :: "'s gateway \<Rightarrow> string \<Rightarrow> string \<Rightarrow> 's prepared \<Rightarrow> bool" for gw db q where
  ack: "preparedAs gw db q (ackStatement tag)"
| show_one: "preparedAs gw db q (textStatement gw [name] [[v]])"
| show_all: "preparedAs gw db q (showAllStatement gw)"
| catalog: "cat_Prepare q = Inr sm \<Longrightarrow> preparedAs gw db q (catalogStatement gw db sm)"
| insert_rows: "pg_ParseInsert q = Inr ins \<Longrightarrow> preparedAs gw db q (bodyStatement (writeInsertStatement gw cl ins))"
| update_rows: "pg_ParseUpdate q = Inr u \<Longrightarrow> preparedAs gw db q (bodyStatement (writeUpdateStatement gw cl u))"
| read_rows: "pg_Parse q = Inr sel \<Longrightarrow> selectPlan sel (Some sch) = Inr p \<Longrightarrow> resultColumns sel sch = (cols, types) \<Longrightarrow>
    preparedAs gw db q \<lparr>ppColumns = cols, ppParams = 0, ppBody = selectBody gw cl sel p cols types\<rparr>"

lemma callP_Inr:
  "callP render m f s = (Inr y, s') \<longleftrightarrow> (\<exists>x t. m s = (Inr x, t) \<and> f x t = (Inr y, s'))"
  by (auto simp: callP_def split: prod.splits sum.splits)

lemma session_prepared: "sessionStatement gw words = Inr sts \<Longrightarrow> \<exists>st. sts = [st] \<and> preparedAs gw db q st"
  by (auto simp: sessionStatement_def showStatement_def Let_def intro: preparedAs.intros
      split: if_splits option.splits prod.splits)

lemma read_prepared:
  assumes "readStatement gw db q s = (Inr sts, s')"
  shows "\<exists>st. sts = [st] \<and> preparedAs gw db q st"
proof -
  from assms obtain sel where sel: "pg_Parse q = Inr sel" by (auto simp: readStatement_def refuse_def split: sum.splits)
  with assms obtain cl sch u where
    "(case selectPlan sel (Some sch) of Inl e \<Rightarrow> refuse (wireError (gwCanceled gw) (OfTranslate e))
       | Inr p \<Rightarrow> (\<lambda>s. let (cols, types) = resultColumns sel sch in
           (Inr [\<lparr>ppColumns = cols, ppParams = 0, ppBody = selectBody gw cl sel p cols types\<rparr>], s))) u = (Inr sts, s')"
    by (auto simp: readStatement_def withView_def callP_Inr)
  with sel show ?thesis
    by (auto simp: refuse_def Let_def intro: preparedAs.intros split: sum.splits prod.splits)
qed

lemma collection_prepared:
  "collectionStatement gw db q s = (Inr sts, s') \<Longrightarrow> \<exists>st. sts = [st] \<and> preparedAs gw db q st"
  by (auto simp: collectionStatement_def writeStatement_def withView_def callP_Inr refuse_def Let_def
      intro: preparedAs.intros read_prepared split: if_splits sum.splits)

lemma parseOne_prepared:
  assumes "parseOne gw db q s = (Inr sts, s')"
  shows "\<exists>st. sts = [st] \<and> preparedAs gw db q st"
  using assms
  by (auto simp: parseOne_def refuse_def intro: preparedAs.catalog session_prepared collection_prepared
      split: if_splits sum.splits catError.splits)

lemma parseParts_prepared:
  "parseParts gw db qs s = (Inr sts, s') \<Longrightarrow> list_all2 (preparedAs gw db) qs sts"
  by (induction qs arbitrary: s sts)
    (auto split: prod.splits sum.splits dest!: parseOne_prepared)

lemma sendRows_width:
  "(\<And>r cells. r \<in> set rs \<Longrightarrow> shape r = Some cells \<Longrightarrow> length cells = n) \<Longrightarrow>
   c \<in> set (fst (sendRows shape enc rs)) \<Longrightarrow> length c = n"
  by (induction rs) (auto split: option.splits prod.splits)

lemma anRows_sent [simp]: "anRows (sent tag res) = fst res" "anRows (sentRows res) = fst res"
    "anRows (stopped e) = []" "anRows (completed tag) = []"
  by (simp_all add: sent_def sentRows_def stopped_def completed_def split: prod.split)

lemma textStatement_width:
  assumes "\<forall>r \<in> set rows. length r = length names" "ppBody (textStatement gw names rows) params t = Some (ans, t')"
  shows "\<forall>r \<in> set (anRows ans). length r = length (ppColumns (textStatement gw names rows))"
  using assms by (auto simp: textStatement_def Let_def dest!: sendRows_width[rotated, where n = "length names"])

text \<open>C3. The rows of an answer fit the columns announced for it. Whatever query string a
  connection sends, and to whichever family its statements belong: every row a statement writes
  has exactly one cell for each column of the description that was sent before it was executed.\<close>

theorem answers_fit:
  assumes "gatewayParse gw db query s = (Inr sts, s1)" "st \<in> set sts" "ppBody st params t = Some (ans, t')"
  shows "\<forall>r \<in> set (anRows ans). length r = length (ppColumns st)"
proof -
  from assms(1) have "list_all2 (preparedAs gw db) (SplitStatements query) sts"
    by (simp add: gatewayParse_def parseParts_prepared)
  with assms(2) obtain q where "preparedAs gw db q st" by (auto simp: list_all2_conv_all_nth in_set_conv_nth)
  then show ?thesis
  proof cases
    case (catalog sm)
    have "length r = length (smCols sm)" if "cat_Exec lib pr sm d ps t = (Inr rows, u)" "r \<in> set rows" for lib pr d ps t rows u r
      using executed_width[OF catalog(2) that(1)] that(2) by blast
    with assms(3) catalog(1) show ?thesis
      by (auto simp: catalogStatement_def execCatalog_def Let_def coerceRow_def split: prod.splits sum.splits if_splits
          dest!: sendRows_width[rotated, where n = "length (smCols sm)"])
  next
    case (read_rows sel sch p cols types cl)
    then have "length types = length cols" by (auto simp: resultColumns_def Let_def)
    with assms(3) read_rows(1) show ?thesis
      by (auto simp: selectBody_def hitCells_def split: if_splits option.splits sum.splits
          dest!: sendRows_width[rotated, where n = "length cols"])
  next
    case (show_one name v)
    with assms(3) show ?thesis by (intro textStatement_width[of "[[v]]" "[name]" gw params t ans t', folded show_one]) simp_all
  next
    case show_all
    with assms(3) show ?thesis
      by (auto simp: showAllStatement_def dest!: textStatement_width[rotated])
  qed (use assms(3) in \<open>auto simp: ackStatement_def bodyStatement_def writeInsertStatement_def writeUpdateStatement_def
      split: if_splits option.splits sum.splits prod.splits\<close>)
qed

end
