(* ===== verification/CatOrder.thy ===== *)
theory CatOrder
  imports CatQuery
begin

text \<open>
  Order, windows, names and values in catalog queries: when ORDER BY sorts, what LIMIT keeps, how
  a column reference is resolved through the enclosing statements, and where the engine departs
  from its own comments.
\<close>

subsection \<open>Sorting\<close>

context comparison
begin

lemma insertBack_desc:
  "x \<in> A \<Longrightarrow> set ys \<subseteq> A \<Longrightarrow> sorted_wrt (\<lambda>a b. cmp b a \<le> 0) ys \<Longrightarrow>
   sorted_wrt (\<lambda>a b. cmp b a \<le> 0) (insertBack (\<lambda>a b. cmp a b < 0) x ys)"
proof (induction ys)
  case (Cons y ys)
  have members: "set (insertBack (\<lambda>a b. cmp a b < 0) x ys) = insert x (set ys)"
    by (metis insertBack_mset set_mset_add_mset_insert set_mset_mset)
  show ?case
  proof (cases "cmp x y < 0")
    case True
    with Cons show ?thesis by (auto simp: members)
  next
    case False
    then have "cmp y x \<le> 0" using swap[of x y] Cons.prems by simp
    moreover from this have "cmp z x \<le> 0" if "z \<in> set ys" for z
      using that Cons.prems trans[of z y x] by auto
    ultimately show ?thesis using False Cons.prems by auto
  qed
qed simp

lemma insertBack_stable:
  assumes "x \<in> A" "set ys \<subseteq> A" "z \<in> A"
  shows "filter (\<lambda>y. cmp z y = 0) (insertBack (\<lambda>a b. cmp a b < 0) x ys) = filter (\<lambda>y. cmp z y = 0) (x # ys)"
  using assms(2)
proof (induction ys)
  case (Cons y ys)
  have "\<not> (cmp z x = 0 \<and> cmp z y = 0)" if "cmp x y < 0"
    using that trans_eq[of x z y] swap[of z x] assms(1,3) Cons.prems by auto
  with Cons show ?case by auto
qed simp

lemma slice_spec:
  assumes "set xs \<subseteq> A"
  shows "sorted_wrt (\<lambda>a b. cmp a b \<le> 0) (sliceStable (\<lambda>a b. cmp a b < 0) xs)"
    and "z \<in> A \<Longrightarrow> filter (\<lambda>y. cmp z y = 0) (sliceStable (\<lambda>a b. cmp a b < 0) xs) = filter (\<lambda>y. cmp z y = 0) xs"
proof -
  let ?sort = "foldl (\<lambda>ys x. insertBack (\<lambda>a b. cmp a b < 0) x ys)"
  have "sorted_wrt (\<lambda>a b. cmp b a \<le> 0) (?sort acc xs) \<and>
      (\<forall>z \<in> A. filter (\<lambda>y. cmp z y = 0) (?sort acc xs) = rev (filter (\<lambda>y. cmp z y = 0) xs) @ filter (\<lambda>y. cmp z y = 0) acc)"
    if "set acc \<subseteq> A" "sorted_wrt (\<lambda>a b. cmp b a \<le> 0) acc" for acc
    using that assms
  proof (induction xs arbitrary: acc)
    case (Cons x xs)
    let ?acc = "insertBack (\<lambda>a b. cmp a b < 0) x acc"
    have "set ?acc \<subseteq> A" using Cons.prems by (metis insertBack_mset insert_subset list.set(2) set_mset_add_mset_insert set_mset_mset)
    moreover have "sorted_wrt (\<lambda>a b. cmp b a \<le> 0) ?acc" using Cons.prems by (intro insertBack_desc) auto
    ultimately show ?case using Cons.IH[of ?acc] insertBack_stable[of x acc] Cons.prems by auto
  qed simp
  from this[of "[]"] show "sorted_wrt (\<lambda>a b. cmp a b \<le> 0) (sliceStable (\<lambda>a b. cmp a b < 0) xs)"
    "z \<in> A \<Longrightarrow> filter (\<lambda>y. cmp z y = 0) (sliceStable (\<lambda>a b. cmp a b < 0) xs) = filter (\<lambda>y. cmp z y = 0) xs"
    by (simp_all add: sliceStable_def sorted_wrt_rev rev_filter[symmetric])
qed

end

text \<open>A column of sort keys is consistent when it holds no number, or only numbers and nulls.\<close>

definition textKeys :: "cval set" where
  "textKeys = {v. \<not> isNumber v}"

definition numberKeys :: "cval set" where
  "numberKeys = {v. v = CNil \<or> (\<exists>x. v = CNum x \<and> \<not> isNaN x)}"

lemma comparison_nil:
  assumes "comparison f B" "CNil \<notin> B"
    "\<And>x y. x \<in> B \<Longrightarrow> y \<in> B \<Longrightarrow> compareValues x y = f x y"
  shows "comparison compareValues (insert CNil B)"
proof
  fix x y
  show "compareValues y x = - compareValues x y" by (rule compareValues_swap)
next
  fix x y z
  assume A: "x \<in> insert CNil B" "y \<in> insert CNil B" "z \<in> insert CNil B"
    and le: "compareValues x y \<le> 0" "compareValues y z \<le> 0"
  have nil: "compareValues CNil v = (if v = CNil then 0 else 1)" "compareValues v CNil = (if v = CNil then 0 else -1)" for v
    by (simp_all add: compareValues_def)
  show "compareValues x z \<le> 0"
  proof (cases "x \<in> B \<and> y \<in> B \<and> z \<in> B")
    case True
    with le assms(3) comparison.trans[OF assms(1), of x y z] show ?thesis by simp
  next
    case False
    with A le assms(2) show ?thesis by (auto simp: nil split: if_splits)
  qed
qed

interpretation texts: comparison compareValues textKeys
proof -
  have "comparison (\<lambda>x y. compareStr (cat_toString x) (cat_toString y)) {v. \<not> isNumber v \<and> v \<noteq> CNil}"
    by (rule comparison_pull[of compareStr UNIV]) (use strings.comparison_axioms in simp_all)
  then have "comparison compareValues (insert CNil {v. \<not> isNumber v \<and> v \<noteq> CNil})"
    by (rule comparison_nil) (auto simp: compareValues_def split: option.split)
  moreover have "insert CNil {v. \<not> isNumber v \<and> v \<noteq> CNil} = textKeys" by (auto simp: textKeys_def isNumber_def)
  ultimately show "comparison compareValues textKeys" by simp
qed

interpretation numbers: comparison compareValues numberKeys
proof -
  have "comparison (\<lambda>x y. compareFloat (case x of CNum r \<Rightarrow> r | _ \<Rightarrow> Fin False 0) (case y of CNum r \<Rightarrow> r | _ \<Rightarrow> Fin False 0))
      {v. \<exists>x. v = CNum x \<and> \<not> isNaN x}"
    by (rule comparison_pull[OF floats.comparison_axioms]) auto
  then have "comparison compareValues (insert CNil {v. \<exists>x. v = CNum x \<and> \<not> isNaN x})"
    by (rule comparison_nil) (auto simp: compareValues_def toFloat_def isNumber_def)
  moreover have "insert CNil {v. \<exists>x. v = CNum x \<and> \<not> isNaN x} = numberKeys" by (auto simp: numberKeys_def)
  ultimately show "comparison compareValues numberKeys" by simp
qed

fun keysIn :: "cval set list \<Rightarrow> cval list \<Rightarrow> bool" where
  "keysIn [] ks \<longleftrightarrow> ks = []"
| "keysIn (K # Ks) [] \<longleftrightarrow> False"
| "keysIn (K # Ks) (k # ks) \<longleftrightarrow> k \<in> K \<and> keysIn Ks ks"

lemma comparison_keys:
  assumes "\<forall>K \<in> set Ks. comparison compareValues K" "length ds = length Ks"
  shows "comparison (compareKeys ds) {ks. keysIn Ks ks}"
  using assms(2,1)
proof (induction ds Ks rule: list_induct2)
  case Nil
  show ?case by unfold_locales auto
next
  case (Cons d ds K Ks)
  let ?A = "{ks. keysIn (K # Ks) ks}"
  have cons: "ks \<in> ?A \<Longrightarrow> ks = hd ks # tl ks \<and> hd ks \<in> K \<and> keysIn Ks (tl ks)" for ks by (cases ks) auto
  have K: "comparison compareValues K" using Cons.prems by simp
  have first: "comparison (\<lambda>a b. if d then - compareValues a b else compareValues a b) K"
    using K comparison_neg[OF K] by (cases d) simp_all
  have lex: "comparison (\<lambda>x y. if (if d then - compareValues (hd x) (hd y) else compareValues (hd x) (hd y)) \<noteq> 0
      then (if d then - compareValues (hd x) (hd y) else compareValues (hd x) (hd y)) else compareKeys ds (tl x) (tl y)) ?A"
    by (rule comparison_lex, rule comparison_pull[OF first], use cons in blast,
        rule comparison_pull[of "compareKeys ds" "{ks. keysIn Ks ks}"])
      (use Cons cons in auto)
  have eq: "compareKeys (d # ds) x y = (if (if d then - compareValues (hd x) (hd y) else compareValues (hd x) (hd y)) \<noteq> 0
      then (if d then - compareValues (hd x) (hd y) else compareValues (hd x) (hd y)) else compareKeys ds (tl x) (tl y))"
    if "x \<in> ?A" "y \<in> ?A" for x y
    using cons[OF that(1)] cons[OF that(2)] by (cases x; cases y) (auto simp: Let_def)
  show ?case
  proof
    fix x y assume A: "x \<in> ?A" "y \<in> ?A"
    show "compareKeys (d # ds) y x = - compareKeys (d # ds) x y"
      using comparison.swap[OF lex A] by (simp only: eq[OF A] eq[OF A(2,1)])
  next
    fix x y z assume A: "x \<in> ?A" "y \<in> ?A" "z \<in> ?A" "compareKeys (d # ds) x y \<le> 0" "compareKeys (d # ds) y z \<le> 0"
    then show "compareKeys (d # ds) x z \<le> 0"
      using comparison.trans[OF lex A(1-3)] by (simp only: eq[OF A(1,2)] eq[OF A(2,3)] eq[OF A(1,3)])
  qed
qed


subsection \<open>Windows\<close>

lemma evalQuery_window:
  assumes "evalQuery lib pr (Stmt items src cond order lim off dist mp branches) outer sn = (Inr rows, sn')"
  obtains cx sorted sn1 where "windowRows cx (map_option (eval lib pr) off) (map_option (eval lib pr) lim) sorted sn1 = (Inr rows, sn')"
  using assms by (auto simp: runQuery_def catrun Let_def)

lemma windowOf_length: "0 \<le> n \<Longrightarrow> length (windowOf off n rows) \<le> nat n"
  by (auto simp: windowOf_def Let_def)

text \<open>A query with a literal LIMIT answers at most that many rows.\<close>

theorem limit_literal:
  assumes "evalQuery lib pr (Stmt items src cond order (Some (Literal (CNum x))) off dist mp branches) outer sn = (Inr rows, sn')"
    "0 \<le> intOfFloat x"
  shows "int (length rows) \<le> intOfFloat x"
proof -
  from assms(1) obtain cx sorted sn1 where
    "windowRows cx (map_option (eval lib pr) off) (map_option (eval lib pr) (Some (Literal (CNum x)))) sorted sn1 = (Inr rows, sn')"
    by (rule evalQuery_window)
  then obtain k where "rows = windowOf k (intOfFloat x) sorted"
    by (auto simp: windowRows_def constInt_def catrun returnC_def)
  with windowOf_length[OF assms(2), of k sorted] show ?thesis by (simp add: le_nat_iff[OF assms(2)])
qed

text \<open>A limit that is no number literal has no effect: a bound parameter is a text, and any error is
  dropped.\<close>

lemma limit_parameter_ignored:
  "snParams sn = [CStr v] \<Longrightarrow> constInt cx (Some (eval lib pr (ParamRef 1))) sn = (Inr (-1), sn)"
  by (simp add: constInt_def paramValue_def ofE_def returnC_def)

lemma window_unlimited: "windowOf (-1) (-1) rows = rows"
  by (simp add: windowOf_def)

subsection \<open>Names\<close>

definition resolves :: "string \<Rightarrow> boundSource list \<Rightarrow> string \<Rightarrow> bool" where
  "resolves name srcs tbl \<longleftrightarrow> (if tbl = [] then columnSources name srcs \<noteq> [] else byAlias srcs tbl \<noteq> None)"

text \<open>C26. A column reference belongs to the innermost enclosing statement whose FROM knows it (by
  column when unqualified, by alias when qualified): statements inside of it are passed over,
  statements outside are not asked.\<close>

theorem evalColumn_scope:
  assumes "tbl = [] \<Longrightarrow> pseudoVars name = None"
    "\<forall>f \<in> set inner. \<not> resolves name (fst f) tbl" "resolves name srcs tbl"
  shows "(case inner @ (srcs, c) # outer of (s0, c0) # fs \<Rightarrow> evalColumn db s0 fs c0 tbl name | [] \<Rightarrow> Inl CatPanic) =
    evalColumn db srcs [] c tbl name"
  using assms(2)
proof (induction inner)
  case Nil
  show ?case using assms(1,3)
    by (cases "tbl = []")
      (auto simp: evalColumn.simps[of db srcs outer] evalColumn.simps[of db srcs "[]"] resolves_def split: list.split option.split)
next
  case (Cons f fs)
  obtain s0 c0 where f: "f = (s0, c0)" by (cases f)
  then have no: "\<not> resolves name s0 tbl" using Cons.prems by simp
  obtain s1 c1 gs where rest: "fs @ (srcs, c) # outer = (s1, c1) # gs"
    by (cases "fs @ (srcs, c) # outer") auto
  have "evalColumn db s0 (fs @ (srcs, c) # outer) c0 tbl name = evalColumn db s1 gs c1 tbl name"
    using no assms(1) by (simp add: evalColumn.simps[of db s0] resolves_def rest split: if_splits)
  with Cons rest f show ?case by simp
qed

subsection \<open>Where the engine departs from its comments\<close>

text \<open>The range of a \<open>BETWEEN\<close> is evaluated like an operand before the operator is looked at, so the
  predicate never has a value.\<close>

lemma between_fails: "fst (eval lib pr (BinExpr ''BETWEEN'' l (BetweenTail lo hi) neg False) cx c sn) \<noteq> Inr v"
  by (simp add: evalBinary_def bindC_def failC_def split: prod.split sum.split)

text \<open>A condition over NULL is not false: NULL equals NULL, and NULL is greater than any number.\<close>

lemma null_comparisons:
  "applyOp lib ''='' False False CNil CNil sn = (Inr (CBool True), sn)"
  "applyOp lib ''>'' False False CNil (cint 1) sn = (Inr (CBool True), sn)"
  by (simp_all add: applyOp_def comparisonOps_def compareAs_def compareValues_def returnC_def)

text \<open>\<open>a <> ANY (...)\<close> is computed as \<open>a = ANY (...)\<close>, \<open>a != ANY (...)\<close> is refused as an unknown operator.\<close>

lemma unequal_any_is_equal_any: "applyOp lib ''<>'' neg True l r = applyOp lib ''='' neg True l r"
  by (simp add: applyOp_def comparisonOps_def)

lemma bang_equal_any: "applyOp lib ''!='' neg True l r = failE [T ''unknown operator '', S ''!='']"
  by (simp add: applyOp_def comparisonOps_def)

text \<open>The columns of \<open>LIKE\<close> and \<open>NOT\<close> conditions and of concatenations are announced as numbers.\<close>

lemma like_announced_as_number:
  "inferOID bound (BinExpr ''like'' l r neg False) = 701" "inferOID bound (UnaryExpr ''NOT'' e) = 701"
  "inferOID bound (BinExpr ''||'' l r neg False) = 701"
  by (simp_all add: boolOps_def)

text \<open>DISTINCT compares printed rows: two different rows that print alike are merged.\<close>

lemma distinct_merges_rows:
  "distinctRows [[CStr ''a b'', CStr ''c''], [CStr ''a'', CStr ''b c'']] = [[CStr ''a b'', CStr ''c'']]"
  by code_simp

text \<open>A join condition that names a table joined later reads past the end of the combination.\<close>

lemma forward_join_panics:
  "evalColumn db [\<lparr>bsAlias = ''a'', bsCols = [(''x'', 25)], bsRows = []\<rparr>, \<lparr>bsAlias = ''b'', bsCols = [(''y'', 25)], bsRows = []\<rparr>]
     [] [None] ''b'' ''y'' = Inl CatPanic"
  by (simp add: evalColumn.simps byAlias_def colIndex_def cellAt_def)

text \<open>\<open>current_setting\<close> with \<open>missing_ok\<close> fails for a missing setting and answers NULL without it.\<close>

lemma missing_ok_inverted:
  assumes "map_of (snSettings sn) name = None" "setting name = None"
  shows "currentSetting [CStr name, CBool True] sn = (Inl (CatFail (unrecognized name)), sn)"
    "currentSetting [CStr name, CBool False] sn = (Inr CNil, sn)"
  using assms by (simp_all add: currentSetting_def truth_def failC_def returnC_def)

text \<open>ORDER BY an expression behind DISTINCT is evaluated for the combination at the row's place, which
  after duplicates were dropped is another row's combination.\<close>

lemma distinct_order_misaligned:
  assumes "rowKey r \<noteq> rowKey s"
  shows "fst (termKeys cx [] [a, b, c] (distinctRows [r, r, s]) (Literal CNil, \<lambda>cx c. returnC (g c)) sn) = Inr [g a, g b]"
  using assms by (simp add: termKeys_def orderColumn_def bindC_def returnC_def distinctRows_def upt_rec)

subsection \<open>Instances\<close>

definition asciiLib :: golib where
  "asciiLib = \<lparr>glLower = map lowerChar, glUpper = map upperChar, glFold = (\<lambda>n. n), glRegexp = (\<lambda>p s. Inr (p = s))\<rparr>"

text \<open>Two queries, prepared and executed, on which the theorems are applied.\<close>

definition versionStmt :: stmt where
  "versionStmt = Stmt [ItemExpr (FuncCall ''version'' []) ''version''] None None [] None None False 0 []"

definition paramStmt :: stmt where
  "paramStmt = Stmt [ItemExpr (ParamRef 1) ''?column?''] None None [] None None False 1 []"

lemma not_special: "matchSpecial ''SELECT version()'' = None" "matchSpecial ''SELECT $1'' = None"
proof -
  have "list_all (\<lambda>m. \<not> m ''SELECT version()'' \<and> \<not> m ''SELECT $1'')
    [matchGetColumns, matchGetPrimaryKeys, matchGetPrimaryUniqueKeys, matchGetBestRowIdentifier,
     matchGetImportedExportedKeys, matchGetTypeInfo, matchGetUDTs, matchGetIndexInfo, matchGetFunctionColumns]"
    by code_simp
  then show "matchSpecial ''SELECT version()'' = None" "matchSpecial ''SELECT $1'' = None"
    by (simp_all add: matchSpecial_def specialCases_def)
qed

lemma version_known: "lookupFunction ''version'' = Some (constantFn 25 (Some 0) (CStr VersionString))"
  by (simp add: lookupFunction_def functionRegistry_def otherFunctions_def bareFunction_def hasPrefix_def)

lemma prepared_version:
  "cat_Prepare ''SELECT version()'' = Inr \<lparr>smCols = [(''version'', 25)], smStmt = versionStmt, smSpecial = None\<rparr>"
proof -
  have "parseSQL ''SELECT version()'' = Inr versionStmt" by code_simp
  moreover have "prepareStmt versionStmt = Inr [(''version'', 25)]"
    by (simp add: prepareStmt_def versionStmt_def knownFunction_def version_known inferColumns_def itemColumns_def
        optOk_def constantFn_def register_def)
  ultimately show ?thesis by (simp add: cat_Prepare_def not_special)
qed

lemma prepared_param:
  "cat_Prepare ''SELECT $1'' = Inr \<lparr>smCols = [(''?column?'', 25)], smStmt = paramStmt, smSpecial = None\<rparr>"
proof -
  have "parseSQL ''SELECT $1'' = Inr paramStmt" by code_simp
  moreover have "prepareStmt paramStmt = Inr [(''?column?'', 25)]"
    by (simp add: prepareStmt_def paramStmt_def inferColumns_def itemColumns_def optOk_def)
  ultimately show ?thesis by (simp add: cat_Prepare_def not_special)
qed

lemma executed_version:
  "cat_Exec lib pr \<lparr>smCols = cs, smStmt = versionStmt, smSpecial = None\<rparr> db ps s = (Inr [[CStr VersionString]], s)"
  by (simp add: cat_Exec_def versionStmt_def runQuery_def bindSources_def projected_def joinRows_def filterRows_def
      project_def evalFunction_def version_known callFunction_def constantFn_def register_def unionRows_def
      inferColumns_def itemColumns_def cat_sortRows_def windowRows_def constInt_def windowOf_def ofE_def
      bindC_def returnC_def Let_def newSnapshot_def)

lemma executed_param:
  "cat_Exec lib pr \<lparr>smCols = cs, smStmt = paramStmt, smSpecial = None\<rparr> db [] s =
    (Inl (CatFail (cat_errf [T ''there is no parameter $'', D 1])), s)"
  by (simp add: cat_Exec_def paramStmt_def runQuery_def bindSources_def projected_def joinRows_def filterRows_def
      project_def paramValue_def ofE_def failC_def bindC_def returnC_def Let_def newSnapshot_def)

theorem query_rows_fit_witness:
  "\<exists>sm rows s'. cat_Prepare ''SELECT version()'' = Inr sm \<and>
     cat_Exec asciiLib oneCollection sm ''db'' [] () = (Inr rows, s') \<and> rows \<noteq> [] \<and>
     list_all (\<lambda>r. length r = length (smCols sm)) rows"
proof -
  let ?sm = "\<lparr>smCols = [(''version'', 25)], smStmt = versionStmt, smSpecial = None\<rparr> :: unit statement"
  have "list_all (\<lambda>r. length r = length (smCols ?sm)) [[CStr VersionString]]"
    unfolding list_all_iff
    by (rule query_rows_fit[OF prepared_version executed_version[where lib = asciiLib and pr = oneCollection]])
  then show ?thesis
    using prepared_version executed_version[where lib = asciiLib and pr = oneCollection] by blast
qed

theorem prepared_functions_witness:
  "\<exists>sm. cat_Prepare ''SELECT $1'' = Inr sm \<and>
     (\<exists>e s'. cat_Exec asciiLib oneCollection sm ''db'' [] () = (Inl e, s') \<and> e \<noteq> CatFail (CatError ''42883'' []))"
  using prepared_functions[OF prepared_param executed_param[where lib = asciiLib and pr = oneCollection]]
    prepared_param executed_param[where lib = asciiLib and pr = oneCollection] by blast

theorem limit_literal_witness:
  "\<exists>rows sn'. evalQuery asciiLib oneCollection (Stmt [ItemExpr (Literal CNil) ''x''] None None [] (Some (Literal (cint 1))) None False 0 []) []
      (newSnapshot ''db'' [] ()) = (Inr rows, sn') \<and> rows \<noteq> [] \<and> int (length rows) \<le> 1"
proof -
  have one: "intOfFloat (floatOfInt 1) = 1" by (rule intOfFloat_floatOfInt) simp
  let ?run = "evalQuery asciiLib oneCollection (Stmt [ItemExpr (Literal CNil) ''x''] None None [] (Some (Literal (cint 1))) None False 0 []) []
      (newSnapshot ''db'' [] ())"
  have run: "?run = (Inr [[CNil]], newSnapshot ''db'' [] ())"
    by (simp add: runQuery_def bindSources_def projected_def joinRows_def filterRows_def
      project_def unionRows_def inferColumns_def itemColumns_def cat_sortRows_def windowRows_def constInt_def windowOf_def ofE_def
      bindC_def returnC_def Let_def one)
  from limit_literal[OF run] one have "int (length [[CNil]]) \<le> 1" by simp
  with run show ?thesis by blast
qed

definition oneSource :: boundSource where
  "oneSource = \<lparr>bsAlias = ''t'', bsCols = [(''x'', 25)], bsRows = [rowMap [(''x'', 25)] [CStr ''v'']]\<rparr>"

theorem joinRows_shape_witness:
  "\<exists>combos. joinRows \<lparr>ecSources = [oneSource], ecOuter = []\<rparr> [(oneSource, ''first'', None)] (newSnapshot ''db'' [] ()) =
      (Inr combos, newSnapshot ''db'' [] ()) \<and> combos \<noteq> [] \<and> list_all (list_all2 cellOf [(oneSource, ''first'', None :: (unit, cval) evaluator option)]) combos"
proof -
  let ?sts = "[(oneSource, ''first'', None :: (unit, cval) evaluator option)]"
  have run: "joinRows \<lparr>ecSources = [oneSource], ecOuter = []\<rparr> ?sts (newSnapshot ''db'' [] ()) =
      (Inr [[Some (rowMap [(''x'', 25)] [CStr ''v''])]], newSnapshot ''db'' [] ())"
    by (simp add: joinRows_def extendCombo_def oneSource_def bindC_def returnC_def)
  have "list_all2 cellOf ?sts [Some (rowMap [(''x'', 25)] [CStr ''v''])]"
    by (rule joinRows_shape[OF run]) simp
  with run show ?thesis by (intro exI[of _ "[[Some (rowMap [(''x'', 25)] [CStr ''v''])]]"]) simp
qed

theorem left_join_keeps_witness:
  "\<exists>out. joinFrom \<lparr>ecSources = [oneSource], ecOuter = []\<rparr> [(oneSource, ''left'', Some (\<lambda>cx c. returnC CNil))] [[]] (newSnapshot ''db'' [] ()) =
      (Inr out, newSnapshot ''db'' [] ()) \<and> (\<exists>slot. [] @ [slot] \<in> set out)"
proof -
  have run: "joinFrom \<lparr>ecSources = [oneSource], ecOuter = []\<rparr> [(oneSource, ''left'', Some (\<lambda>cx c. returnC CNil))] [[]] (newSnapshot ''db'' [] ()) =
      (Inr [[None]], newSnapshot ''db'' [] ())"
    by (simp add: extendCombo_def oneSource_def bindC_def returnC_def truth_def)
  have "\<exists>slot. [] @ [slot] \<in> set [[None :: crow option]]" by (rule left_join_keeps[OF run]) simp
  with run show ?thesis by blast
qed

theorem evalColumn_scope_witness:
  "evalColumn ''db'' [] [([oneSource], [Some (rowMap [(''x'', 25)] [CStr ''v''])])] [] [] ''x'' = Inr (CStr ''v'')"
proof -
  have "evalColumn ''db'' [] [([oneSource], [Some (rowMap [(''x'', 25)] [CStr ''v''])])] [] [] ''x'' =
      evalColumn ''db'' [oneSource] [] [Some (rowMap [(''x'', 25)] [CStr ''v''])] [] ''x''"
    using evalColumn_scope[where tbl = "[]" and name = "''x''" and inner = "[([], [])]" and srcs = "[oneSource]" and
      c = "[Some (rowMap [(''x'', 25)] [CStr ''v''])]" and outer = "[]" and db = "''db''"]
    by (simp add: pseudoVars_def resolves_def columnSources_def oneSource_def colIndex_def)
  then show ?thesis
    by (simp add: evalColumn.simps pseudoVars_def columnSources_def oneSource_def colIndex_def cellAt_def rowMap_def)
qed


end
