(* ===== verification/PgTable.thy ===== *)
theory PgTable
  imports PgServe CatOrder
begin

text \<open>
  SQL statements end to end: what a SELECT shows and an UPDATE leaves of a table, when the cluster
  answers the plans it is sent.
\<close>

subsection \<open>A cluster that serves a table\<close>

text \<open>A table holds one row for each key. A search answers a plan: with rows the plan admits, each once,
  at most as many as the limit; when it finds fewer than the limit, and no offset was asked for,
  it has found all. A row is shown whole when the plan names no columns, and else
  at least in the named ones. An upsert puts each row under its key, as the store encodes it.\<close>

definition answersPlan ::
  "(expr \<Rightarrow> 'c \<Rightarrow> bool) \<Rightarrow> (row \<Rightarrow> string \<Rightarrow> 'c option) \<Rightarrow> (gval \<rightharpoonup> row) \<Rightarrow> plan \<Rightarrow> searchResult \<Rightarrow> bool" where
  "answersPlan atom vals t p found \<longleftrightarrow>
     (\<exists>rows. list_all2 (\<lambda>h r. if Includes (pSource p) = [] then hitSource h = r
               else \<forall>f \<in> set (Includes (pSource p)). cell (hitSource h) f = cell r f) (srHits found) rows \<and>
        distinct rows \<and> set rows \<subseteq> {r \<in> ran t. planAdmits atom (vals r) p} \<and>
        length rows \<le> nat (pLimit p) \<and>
        (pOffset p = 0 \<and> length rows < nat (pLimit p) \<longrightarrow> set rows = {r \<in> ran t. planAdmits atom (vals r) p}))"

definition servesTable ::
  "(expr \<Rightarrow> 'c \<Rightarrow> bool) \<Rightarrow> (row \<Rightarrow> string \<Rightarrow> 'c option) \<Rightarrow> 's cluster \<Rightarrow> string \<Rightarrow> schema \<Rightarrow> string \<Rightarrow>
   ('s \<Rightarrow> gval \<rightharpoonup> row) \<Rightarrow> (row \<Rightarrow> row) \<Rightarrow> bool" where
  "servesTable atom vals cl name sch pk tab stored \<longleftrightarrow>
     (\<forall>s k r. tab s k = Some r \<longrightarrow> cell r pk = k) \<and>
     (\<forall>s res s'. clSchema cl name s = (res, s') \<longrightarrow> tab s' = tab s \<and> (\<forall>v. res = Inr v \<longrightarrow> v = sch)) \<and>
     (\<forall>p s res s'. clSearch cl name p s = Some (res, s') \<longrightarrow>
        tab s' = tab s \<and> (\<forall>found. res = Inr found \<longrightarrow> answersPlan atom vals (tab s) p found)) \<and>
     (\<forall>rows s r s'. clUpsert cl name rows s = (Inr r, s') \<longrightarrow>
        tab s' = fold (\<lambda>r t. t(cell r pk \<mapsto> stored r)) rows (tab s))"

lemma servesTableD:
  assumes "servesTable atom vals cl name sch pk tab stored"
  shows "tab s k = Some r \<Longrightarrow> cell r pk = k"
    "clSchema cl name s = (answered_schema, s') \<Longrightarrow> tab s' = tab s"
    "clSchema cl name s = (Inr v, s') \<Longrightarrow> v = sch"
    "clSearch cl name p s = Some (res, s') \<Longrightarrow> tab s' = tab s"
    "clSearch cl name p s = Some (Inr found, s') \<Longrightarrow> answersPlan atom vals (tab s) p found"
    "clUpsert cl name rows s = (Inr wrote, s') \<Longrightarrow> tab s' = fold (\<lambda>r t. t(cell r pk \<mapsto> stored r)) rows (tab s)"
proof -
  note parts = assms[unfolded servesTable_def]
  note keys = conjunct1[OF parts, THEN spec, THEN spec, THEN spec, THEN mp]
    and schema' = conjunct1[OF conjunct2[OF parts], THEN spec, THEN spec, THEN spec, THEN mp]
    and search = conjunct1[OF conjunct2[OF conjunct2[OF parts]], THEN spec, THEN spec, THEN spec, THEN spec, THEN mp]
    and upsert = conjunct2[OF conjunct2[OF conjunct2[OF parts]], THEN spec, THEN spec, THEN spec, THEN spec, THEN mp]
  show "tab s k = Some r \<Longrightarrow> cell r pk = k" by (rule keys)
  show "clSchema cl name s = (answered_schema, s') \<Longrightarrow> tab s' = tab s" by (rule conjunct1[OF schema'])
  show "clSchema cl name s = (Inr v, s') \<Longrightarrow> v = sch" by (rule conjunct2[OF schema', THEN spec, THEN mp, OF _ refl])
  show "clSearch cl name p s = Some (res, s') \<Longrightarrow> tab s' = tab s" by (rule conjunct1[OF search])
  show "clSearch cl name p s = Some (Inr found, s') \<Longrightarrow> answersPlan atom vals (tab s) p found"
    by (rule conjunct2[OF search, THEN spec, THEN mp, OF _ refl])
  show "clUpsert cl name rows s = (Inr wrote, s') \<Longrightarrow> tab s' = fold (\<lambda>r t. t(cell r pk \<mapsto> stored r)) rows (tab s)"
    by (rule upsert)
qed

subsection \<open>Reading\<close>

lemma sendRows_all:
  "(\<And>r. r \<in> set rs \<Longrightarrow> shape r \<noteq> None) \<Longrightarrow> snd (sendRows shape enc rs) = None \<Longrightarrow>
   fst (sendRows shape enc rs) = map (\<lambda>r. the (shape r)) rs"
  by (induction rs) (auto split: option.splits prod.splits)

lemma sendRows_through:
  "(\<And>r. r \<in> set rs \<Longrightarrow> \<exists>cells. shape r = Some cells \<and> enc cells = None) \<Longrightarrow> snd (sendRows shape enc rs) = None"
  by (induction rs) (fastforce split: option.splits prod.splits)+

lemma sentRows_Inr: "anEnd (sentRows res) = Inr tag \<longleftrightarrow> snd res = None \<and> tag = countTag ''SELECT'' (int (length (fst res)))"
  by (auto simp: sentRows_def sent_def split: prod.split option.split)

lemma hitCells_row:
  assumes "resultColumns sel sch = (cols, types)" "Includes (pSource p) = selColumns sel"
    and "if Includes (pSource p) = [] then hitSource h = r
      else \<forall>f \<in> set (Includes (pSource p)). cell (hitSource h) f = cell r f"
    and "selStar sel \<Longrightarrow> selColumns sel = []"
  shows "hitCells other cols types h = map (\<lambda>f. cellValue other (FieldType sch f) (cell r f)) (map wcName cols)"
proof -
  from assms(1) have cols: "map wcName cols = selectedColumns sel (Some sch)" "types = map (FieldType sch) (map wcName cols)"
    by (auto simp: resultColumns_def Let_def comp_def)
  have "cell (hitSource h) f = cell r f" if "f \<in> set (map wcName cols)" for f
    using that assms(2-4) cols(1) by (auto simp: selectedColumns_def split: if_splits)
  then show ?thesis unfolding hitCells_def cols(2) by (auto simp: zip_map1 zip_same_conv_map)
qed

lemma select_rows:
  assumes serves: "servesTable atom vals cl (selTable sel) sch pk tab stored"
    and sel: "pg_Parse q = Inr sel" "selDistance sel = None" "selectPlan sel (Some sch) = Inr p"
    and cols: "resultColumns sel sch = (cols, types)"
    and run: "selectBody gw cl sel p cols types params s = Some (ans, s')" "anEnd ans = Inr tag"
  shows "tab s' = tab s \<and> (\<exists>rows.
    anRows ans = map (\<lambda>r. map (\<lambda>f. cellValue (gwMarshal gw) (FieldType sch f) (cell r f)) (map wcName cols)) rows \<and>
    distinct rows \<and> length rows \<le> nat (selLimit sel) \<and> tag = countTag ''SELECT'' (int (length rows)) \<and>
    set rows \<subseteq> {r \<in> ran (tab s). sqlEval atom (vals r) sch (selWhere sel) = Some True} \<and>
    (selOffset sel = 0 \<and> length rows < nat (selLimit sel) \<longrightarrow>
       set rows = {r \<in> ran (tab s). sqlEval atom (vals r) sch (selWhere sel) = Some True}))"
proof -
  from run obtain found where search: "clSearch cl (selTable sel) p s = Some (Inr found, s')"
    and ans: "ans = sentRows (sendRows (\<lambda>h. Some (hitCells (gwMarshal gw) cols types h)) (gwEncode gw cols) (srHits found))"
    by (auto simp: selectBody_def stopped_def split: if_splits option.splits sum.splits)
  from run(2) ans have out: "anRows ans = map (hitCells (gwMarshal gw) cols types) (srHits found)"
    "tag = countTag ''SELECT'' (int (length (srHits found)))"
    by (simp_all add: sentRows_Inr sendRows_all)
  obtain q' where q': "whereFilter sch (selWhere sel) q' = Inr p" "\<not> pNoMatch q'"
    and plan': "pOffset q' = selOffset sel" "pLimit q' = selLimit sel" "Includes (pSource q') = selColumns sel"
    by (rule selectPlan_cases[OF sel(3)]) (simp add: schemaOrEmpty_def)
  from whereFilter_exact(2)[OF q'] plan' have plan: "pOffset p = selOffset sel" "pLimit p = selLimit sel"
    "Includes (pSource p) = selColumns sel" by (simp_all add: sameWindow_def)
  have admits: "planAdmits atom (vals r) p \<longleftrightarrow> sqlEval atom (vals r) sch (selWhere sel) = Some True" for r
    by (rule whereFilter_exact(1)[OF q'])
  have star: "selStar sel \<Longrightarrow> selColumns sel = []" using pg_Parse_shape[OF sel(1)] by (auto simp: resolvedShape_def)
  from servesTableD(5)[OF serves search] obtain rows where
    hits: "list_all2 (\<lambda>h r. if Includes (pSource p) = [] then hitSource h = r
               else \<forall>f \<in> set (Includes (pSource p)). cell (hitSource h) f = cell r f) (srHits found) rows"
    and rows: "distinct rows" "set rows \<subseteq> {r \<in> ran (tab s). planAdmits atom (vals r) p}" "length rows \<le> nat (pLimit p)"
      "pOffset p = 0 \<and> length rows < nat (pLimit p) \<longrightarrow> set rows = {r \<in> ran (tab s). planAdmits atom (vals r) p}"
    unfolding answersPlan_def by blast
  from hits have "map (hitCells (gwMarshal gw) cols types) (srHits found) =
      map (\<lambda>r. map (\<lambda>f. cellValue (gwMarshal gw) (FieldType sch f) (cell r f)) (map wcName cols)) rows"
    by (induction rule: list_all2_induct) (simp_all add: hitCells_row[OF cols plan(3) _ star])
  with rows hits out plan servesTableD(4)[OF serves search] show ?thesis
    unfolding admits by (intro conjI exI[of _ rows]) (auto dest: list_all2_lengthD)
qed


subsection \<open>Writing\<close>

lemma map_of_assigned: "map_of sets f = None \<Longrightarrow> map_of (assignedRow sets h) f = map_of (hitSource h) f"
proof -
  have "map_of sets f = None \<Longrightarrow> map_of (fold (\<lambda>(k, v) m. setKey k v m) sets r) f = map_of r f" for r
    by (induction sets arbitrary: r) (auto split: if_splits)
  then show "map_of sets f = None \<Longrightarrow> ?thesis" by (simp add: assignedRow_def)
qed

lemma cell_assigned: "map_of sets f = None \<Longrightarrow> cell (assignedRow sets h) f = cell (hitSource h) f"
  by (simp add: cell_def map_of_assigned)

text \<open>Rows put under keys of their own, one after the other.\<close>

lemma fold_put_other: "k \<notin> key ` set xs \<Longrightarrow> fold (\<lambda>x t. t(key x \<mapsto> f x)) xs t k = t k"
  by (induction xs arbitrary: t) auto

lemma fold_put: "distinct (map key xs) \<Longrightarrow> x \<in> set xs \<Longrightarrow> fold (\<lambda>x t. t(key x \<mapsto> f x)) xs t (key x) = Some (f x)"
  by (induction xs arbitrary: t) (auto simp: fold_put_other)

lemma update_rows:
  assumes serves: "servesTable atom vals cl (updTable u) sch pk tab stored" "write_contract cl"
    and run: "writeUpdateStatement gw cl u params s = Some (ans, s')" "anEnd ans = Inr tag"
  obtains sets p rows where "updateLower u (Some sch) = Inr (sets, p)" "distinct rows" "length rows \<le> 10000"
    "set rows \<subseteq> {r \<in> ran (tab s). sqlEval atom (vals r) sch (updWhere u) = Some True}"
    "length rows < 10000 \<longrightarrow> set rows = {r \<in> ran (tab s). sqlEval atom (vals r) sch (updWhere u) = Some True}"
    "tag = countTag ''UPDATE'' (int (length rows))"
    "tab s' = fold (\<lambda>r t. t(cell r pk \<mapsto> stored r)) (map (\<lambda>r. assignedRow sets \<lparr>hitId = [], hitSource = r\<rparr>) rows) (tab s)"
proof -
  from run obtain v s1 sets p found s2 wrote where schema': "clSchema cl (updTable u) s = (Inr v, s1)"
    and lower: "updateLower u (Some v) = Inr (sets, p)"
    and search: "clSearch cl (updTable u) (p\<lparr>pLimit := updateScanLimit\<rparr>) s1 = Some (Inr found, s2)"
    and upsert: "clUpsert cl (updTable u) (map (assignedRow sets) (srHits found)) s2 = (Inr wrote, s')"
    and tag: "tag = countTag ''UPDATE'' (wrCount wrote)"
    by (auto simp: writeUpdateStatement_def stopped_def completed_def split: if_splits sum.splits prod.splits option.splits)
  note D = servesTableD[OF serves(1)]
  have v: "v = sch" by (rule D(3)[OF schema'])
  from lower obtain q where q: "whereFilter sch (updWhere u) q = Inr p" "\<not> pNoMatch q" "pOffset q = 0" "Includes (pSource q) = []"
    by (auto simp: v updateLower_def Let_def schemaOrEmpty_def bindE_eq_Inr emptyPlan_def)
  have plan: "pOffset p = 0" "Includes (pSource p) = []"
    using whereFilter_exact(2)[OF q(1,2)] q(3,4) by (simp_all add: sameWindow_def)
  have admits: "planAdmits atom (vals r) (p\<lparr>pLimit := updateScanLimit\<rparr>) \<longleftrightarrow> sqlEval atom (vals r) sch (updWhere u) = Some True" for r
    using whereFilter_exact(1)[OF q(1,2)] by (simp add: planAdmits_def)
  from D(5)[OF search] obtain rows where hits: "list_all2 (\<lambda>h r. hitSource h = r) (srHits found) rows"
    and rows: "distinct rows" "length rows \<le> 10000"
      "set rows \<subseteq> {r \<in> ran (tab s1). sqlEval atom (vals r) sch (updWhere u) = Some True}"
      "length rows < 10000 \<longrightarrow> set rows = {r \<in> ran (tab s1). sqlEval atom (vals r) sch (updWhere u) = Some True}"
    unfolding answersPlan_def admits by (auto simp: plan updateScanLimit_def)
  from hits have "rows = map hitSource (srHits found)" by (induction rule: list_all2_induct) auto
  then have put: "map (assignedRow sets) (srHits found) = map (\<lambda>r. assignedRow sets \<lparr>hitId = [], hitSource = r\<rparr>) rows"
    by (simp add: assignedRow_def)
  show thesis
  proof (rule that)
    show "updateLower u (Some sch) = Inr (sets, p)" using lower v by simp
    show "tag = countTag ''UPDATE'' (int (length rows))"
      using write_contract.counted_upsert[OF serves(2) upsert] hits by (simp add: tag list_all2_lengthD)
    show "tab s' = fold (\<lambda>r t. t(cell r pk \<mapsto> stored r)) (map (\<lambda>r. assignedRow sets \<lparr>hitId = [], hitSource = r\<rparr>) rows) (tab s)"
      using D(6)[OF upsert] D(4)[OF search] D(2)[OF schema'] put by simp
  qed (use rows D(2)[OF schema'] in auto)
qed

text \<open>The row an assignment leaves, as the store encodes it.\<close>

definition assigned :: "(row \<Rightarrow> row) \<Rightarrow> writeRow \<Rightarrow> row \<Rightarrow> row" where
  "assigned stored sets r = stored (assignedRow sets \<lparr>hitId = [], hitSource = r\<rparr>)"


text \<open>An assignment to the key does not move a row: the changed row is put under the assigned key,
  and whatever stands under another key, the row itself included, stays.\<close>

lemma map_of_assigned_last: "distinct (map fst sets) \<Longrightarrow> map_of sets f = Some v \<Longrightarrow> map_of (assignedRow sets h) f = Some v"
proof -
  have "map_of (fold (\<lambda>(k, v) m. setKey k v m) sets r) f = (case map_of sets f of None \<Rightarrow> map_of r f | Some v \<Rightarrow> Some v)"
    if "distinct (map fst sets)" for r
    using that by (induction sets arbitrary: r) (auto split: option.split simp: map_of_eq_None_iff[symmetric])
  then show "distinct (map fst sets) \<Longrightarrow> map_of sets f = Some v \<Longrightarrow> ?thesis" by (simp add: assignedRow_def)
qed

lemma update_key_copies:
  assumes "servesTable atom vals cl (updTable u) sch pk tab stored" "write_contract cl"
    and "writeUpdateStatement gw cl u params s = Some (ans, s')" "anEnd ans = Inr tag"
    and lower: "updateLower u (Some sch) = Inr (sets, p)" "map_of sets pk = Some v" and other: "k \<noteq> v"
  shows "tab s' k = tab s k"
proof -
  obtain sets' p' rows where rows: "updateLower u (Some sch) = Inr (sets', p')"
    and tab': "tab s' = fold (\<lambda>r t. t(cell r pk \<mapsto> stored r)) (map (\<lambda>r. assignedRow sets' \<lparr>hitId = [], hitSource = r\<rparr>) rows) (tab s)"
    by (rule update_rows[OF assms(1-4)])
  from rows lower(1) have sets: "sets' = sets" by simp
  have "distinct (map fst sets)"
    using lower(1) by (auto simp: updateLower_def Let_def bindE_eq_Inr distinct_assignAll)
  then have "cell (assignedRow sets h) pk = v" for h using lower(2) by (simp add: cell_def map_of_assigned_last)
  with other show ?thesis unfolding tab' sets by (intro fold_put_other) auto
qed

text \<open>Which errors are typed.\<close>

lemma coded_errors [simp]:
  "failed (writeWireError can) e = PgError (Code c) msg \<longleftrightarrow>
     (\<exists>we. e = WriteFail (Rejected we) \<and> c = sqlstateOf (weClass we) \<and> msg = weReason we)"
  "failed (\<lambda>e. wireError can (OfStore e)) e \<noteq> PgError (Code c) msg"
  "schemaError gw name e \<noteq> PgError (Code c) msg"
  "wireError can (OfTranslate te) = PgError (Code c) msg \<longleftrightarrow> c = Type te \<and> msg = Reason te"
  "writeParams \<noteq> PgError (Code c) msg"
  by (auto simp: failed_def writeWireError_def wireError_def recoveredError_def schemaError_def relationMissing_def
      writeParams_def storePanics_def split: storeError.splits writeFail.splits)

lemma insert_refused:
  assumes "writeInsertStatement gw cl ins params s = Some (ans, s')" "anEnd ans = Inl (PgError (Code c) msg)"
  shows "\<exists>sch s1. clSchema cl (insTable ins) s = (Inr sch, s1) \<and>
    ((\<exists>e. insertRows ins (Some sch) = Inl e \<and> c = Type e \<and> s' = s1) \<or>
     (\<exists>rows we. clInsert cl (insTable ins) rows s1 = (Inl (WriteFail (Rejected we)), s') \<and> c = sqlstateOf (weClass we)))"
  using assms
  by (auto simp: writeInsertStatement_def stopped_def completed_def split: if_splits sum.splits prod.splits) blast

lemma update_refused:
  assumes "writeUpdateStatement gw cl u params s = Some (ans, s')" "anEnd ans = Inl (PgError (Code c) msg)"
  shows "\<exists>sch s1. clSchema cl (updTable u) s = (Inr sch, s1) \<and>
    ((\<exists>e. updateLower u (Some sch) = Inl e \<and> c = Type e \<and> s' = s1) \<or>
     (\<exists>p found s2 rows we. clSearch cl (updTable u) p s1 = Some (Inr found, s2) \<and>
        clUpsert cl (updTable u) rows s2 = (Inl (WriteFail (Rejected we)), s') \<and> c = sqlstateOf (weClass we)))"
  using assms
  by (auto simp: writeUpdateStatement_def stopped_def completed_def split: if_splits sum.splits prod.splits option.splits) blast


text \<open>C16. An INSERT that completes has sent exactly the lowered rows of its VALUES groups in one
  insert, and reports their number.\<close>

theorem insert_sends:
  assumes "write_contract cl" "writeInsertStatement gw cl ins params s = Some (ans, s')" "anEnd ans = Inr tag"
  shows "\<exists>sch s1 rows wrote. clSchema cl (insTable ins) s = (Inr sch, s1) \<and> insertRows ins (Some sch) = Inr rows \<and>
    clInsert cl (insTable ins) rows s1 = (Inr wrote, s') \<and> length rows = length (insRows ins) \<and>
    tag = countTag ''INSERT 0'' (int (length (insRows ins)))"
  using assms(2,3)
  by (auto simp: writeInsertStatement_def stopped_def completed_def insertRows_def Let_def
      write_contract.counted_insert[OF assms(1)] dest!: mapE_Inr_length
      split: if_splits sum.splits prod.splits)

subsection \<open>Instances\<close>

text \<open>A cluster whose state is a list of rows, the latest one of a key first.\<close>

definition listTable :: "row list \<Rightarrow> gval \<rightharpoonup> row" where
  "listTable rows = map_of (map (\<lambda>r. (cell r ''id'', r)) rows)"

definition holdsTrue :: "expr \<Rightarrow> gval \<Rightarrow> bool" where
  "holdsTrue e v \<longleftrightarrow>
     (case e of
        Compare Eq _ (IntValue n) \<Rightarrow> v = GInt64 n
      | Compare Eq _ (StringValue x) \<Rightarrow> v = GStr x
      | _ \<Rightarrow> v = GBool True)"

definition listSearch :: "plan \<Rightarrow> row list \<Rightarrow> row list" where
  "listSearch p rows = take (nat (pLimit p))
     (filter (\<lambda>r. listTable rows (cell r ''id'') = Some r \<and> planAdmits holdsTrue (map_of r) p) (remdups rows))"

text \<open>It refuses every INSERT that has rows, as a strict check would.\<close>

definition listCluster :: "row list cluster" where
  "listCluster = logCluster\<lparr>
     clSearch := (\<lambda>name p rows. Some (Inr \<lparr>srTotal = 0, srHits = map (\<lambda>r. \<lparr>hitId = [], hitSource = r\<rparr>) (listSearch p rows)\<rparr>, rows)),
     clInsert := (\<lambda>name new rows. if new = [] then (Inr \<lparr>wrCount = 0, wrIDs = []\<rparr>, rows)
       else (Inl (WriteFail (Rejected (writeErrf ClassNull ''k'' []))), rows)),
     clUpsert := (\<lambda>name new rows. (Inr \<lparr>wrCount = int (length new), wrIDs = []\<rparr>, rev new @ rows))\<rparr>"

lemma listCluster_contract: "write_contract listCluster"
  by unfold_locales (auto simp: listCluster_def split: if_splits)

lemma listTable_key: "listTable rows k = Some r \<Longrightarrow> cell r ''id'' = k"
  by (auto simp: listTable_def dest: map_of_SomeD)

lemma listTable_put: "listTable (rev new @ rows) = fold (\<lambda>r t. t(cell r ''id'' \<mapsto> r)) new (listTable rows)"
  by (induction new arbitrary: rows rule: rev_induct) (auto simp: listTable_def fun_eq_iff)

lemma listTable_in: "listTable rows k = Some r \<Longrightarrow> r \<in> set rows"
  by (auto simp: listTable_def dest: map_of_SomeD)

lemma ran_listTable: "r \<in> ran (listTable rows) \<longleftrightarrow> r \<in> set rows \<and> listTable rows (cell r ''id'') = Some r"
proof
  assume "r \<in> ran (listTable rows)"
  then obtain k where k: "listTable rows k = Some r" by (auto simp: ran_def)
  from listTable_key[OF this] listTable_in[OF this] k show "r \<in> set rows \<and> listTable rows (cell r ''id'') = Some r" by simp
qed (auto intro: ranI)

lemma listSearch_answers:
  "answersPlan holdsTrue map_of (listTable rows) p \<lparr>srTotal = n, srHits = map (\<lambda>r. \<lparr>hitId = [], hitSource = r\<rparr>) (listSearch p rows)\<rparr>"
proof -
  let ?all = "filter (\<lambda>r. listTable rows (cell r ''id'') = Some r \<and> planAdmits holdsTrue (map_of r) p) (remdups rows)"
  let ?out = "listSearch p rows"
  have all: "set ?all = {r \<in> ran (listTable rows). planAdmits holdsTrue (map_of r) p}" by (auto simp: ran_listTable)
  have "?out = take (nat (pLimit p)) ?all" by (simp add: listSearch_def)
  then have "set ?out \<subseteq> set ?all" "distinct ?out" "length ?out \<le> nat (pLimit p)" "length ?out < nat (pLimit p) \<Longrightarrow> ?out = ?all"
    by (auto dest: in_set_takeD)
  moreover have "list_all2 (\<lambda>h r. if Includes (pSource p) = [] then hitSource h = r
      else \<forall>f \<in> set (Includes (pSource p)). cell (hitSource h) f = cell r f)
      (map (\<lambda>r. \<lparr>hitId = [], hitSource = r\<rparr>) ?out) ?out" by (simp add: list_all2_conv_all_nth)
  ultimately show ?thesis unfolding answersPlan_def all[symmetric] by (intro exI[of _ ?out]) simp
qed

lemma listCluster_ops:
  "clSchema listCluster name rows = (Inr (MapSchema []), rows)"
  "clSearch listCluster name p rows =
     Some (Inr \<lparr>srTotal = 0, srHits = map (\<lambda>r. \<lparr>hitId = [], hitSource = r\<rparr>) (listSearch p rows)\<rparr>, rows)"
  "clUpsert listCluster name new rows = (Inr \<lparr>wrCount = int (length new), wrIDs = []\<rparr>, rev new @ rows)"
  by (simp_all add: listCluster_def logCluster_def returnS_def)

lemma listCluster_serves:
  "servesTable holdsTrue map_of listCluster name (MapSchema []) ''id'' listTable (\<lambda>r. r)"
  unfolding servesTable_def by (simp add: listCluster_ops listTable_put listSearch_answers) (blast dest: listTable_key)

definition sampleGateway :: "row list gateway" where
  "sampleGateway = \<lparr>gwLib = asciiLib, gwDatabase = (\<lambda>db. returnS listCluster), gwDefault = ''default'',
     gwProvider = \<lparr>prDatabases = returnS [''default''], prListCollections = (\<lambda>_. returnS []),
       prCollection = (\<lambda>_ name. failS (CollectionNotFound name))\<rparr>,
     gwCanceled = (\<lambda>_. False), gwEncode = (\<lambda>_ _. None), gwMarshal = (\<lambda>_. None)\<rparr>"

definition servedRows :: "row list" where
  "servedRows = [[(''id'', GInt64 1), (''b'', GBool True), (''a'', GInt64 5)], [(''id'', GInt64 2), (''b'', GBool False)]]"

definition sampleUpdate :: updateStmt where
  "sampleUpdate = \<lparr>updTable = ''t'', updSets = [(''a'', mkLit LitNull [])], updWhere = WCol ''b''\<rparr>"

lemma sampleUpdate_run:
  "writeUpdateStatement sampleGateway listCluster sampleUpdate [] servedRows =
     Some (completed ''UPDATE 1'', [(''id'', GInt64 1), (''b'', GBool True), (''a'', GNil)] # servedRows)"
proof -
  have lower: "updateLower sampleUpdate (Some (MapSchema [])) =
    Inr ([(''a'', GNil)], emptyPlan\<lparr>pSource := \<lparr>FetchSource = True, Includes = [], Excludes = []\<rparr>,
       pExpr := Compare Eq ''b'' (BoolValue True)\<rparr>)"
    by (simp add: sampleUpdate_def updateLower_def writeLiteral_def mkLit_def whereFilter_def isFalse_def Let_def assignAll_def)
  have one: "countTag ''UPDATE'' 1 = ''UPDATE 1''" by code_simp
  have "listSearch (emptyPlan\<lparr>pLimit := updateScanLimit, pSource := \<lparr>FetchSource = True, Includes = [], Excludes = []\<rparr>,
       pExpr := Compare Eq ''b'' (BoolValue True)\<rparr>) servedRows = [hd servedRows]"
    by (simp add: listSearch_def servedRows_def listTable_def cell_def planAdmits_def emptyPlan_def updateScanLimit_def
        leafVerdict_def holdsTrue_def passes_def)
  then show ?thesis
    by (simp add: writeUpdateStatement_def listCluster_ops lower one emptyPlan_def assignedRow_def) (simp add: servedRows_def)
qed


lemma sampleSelect_lowered:
  "selectPlan sampleSelect (Some (MapSchema [])) = Inr (emptyPlan\<lparr>pExpr := NotNull ''b'', pOffset := 7, pLimit := 2,
     pSource := \<lparr>FetchSource = True, Includes = [''a''], Excludes = []\<rparr>\<rparr>)"
  using sampleSelect_plan by (simp add: selectPlan_def schemaOrEmpty_def)


lemma sampleInsert_lowered: "insertRows sampleInsert (Some (MapSchema [])) = Inr [[(''k'', GNum ''-5''), (''v'', GNil)]]"
  by (simp add: insertRows_def sampleInsert_def schemaOrEmpty_def insertRow_def writeLiteral_def mkLit_def assignAll_def)


theorem insert_sends_witness:
  "writeInsertStatement sampleGateway logCluster sampleInsert [] servedRows = Some (completed ''INSERT 0 1'', servedRows) \<and>
   length (insRows sampleInsert) = 1"
proof -
  have "countTag ''INSERT 0'' 1 = ''INSERT 0 1''" by code_simp
  then have run: "writeInsertStatement sampleGateway logCluster sampleInsert [] servedRows = Some (completed ''INSERT 0 1'', servedRows)"
    by (simp add: writeInsertStatement_def logCluster_def returnS_def sampleInsert_lowered logWrite_def)
  from insert_sends[OF logging.write_contract_axioms run, of "''INSERT 0 1''"] run
  show ?thesis by (simp add: completed_def sampleInsert_def)
qed

lemma sampleGateway_steady: "steadyGateway sampleGateway"
  by (simp add: steadyGateway_def sampleGateway_def returnS_def listCluster_ops)

lemma operator_query:
  "SplitStatements ''SELECT a OPERATOR()'' = [''SELECT a OPERATOR()'']" "firstWord asciiLib ''SELECT a OPERATOR()'' = ''SELECT''"
  "Prepareable ''SELECT a OPERATOR()''"
  by code_simp+

lemma operator_not_special: "matchSpecial ''SELECT a OPERATOR()'' = None"
proof -
  have "list_all (\<lambda>m. \<not> m ''SELECT a OPERATOR()'')
    [matchGetColumns, matchGetPrimaryKeys, matchGetPrimaryUniqueKeys, matchGetBestRowIdentifier,
     matchGetImportedExportedKeys, matchGetTypeInfo, matchGetUDTs, matchGetIndexInfo, matchGetFunctionColumns]"
    by code_simp
  then show ?thesis by (simp add: matchSpecial_def specialCases_def)
qed

text \<open>One query brings the gateway down.\<close>

lemma gateway_down: "gatewayParse sampleGateway db ''SELECT a OPERATOR()'' s = (Inl GatewayDown, s)"
proof -
  have "cat_Prepare ''SELECT a OPERATOR()'' = (Inl CatPanic :: catError + row list statement)"
    by (simp add: cat_Prepare_def operator_not_special parse_empty_operator)
  then show ?thesis
    by (simp add: gatewayParse_def operator_query parseOne_def sampleGateway_def isSessionStatement_def)
qed


lemma version_query:
  "SplitStatements ''SELECT version()'' = [''SELECT version()'']" "firstWord asciiLib ''SELECT version()'' = ''SELECT''"
  "Prepareable ''SELECT version()''"
  by code_simp+

theorem answers_fit_witness:
  "\<exists>st ans. gatewayParse sampleGateway [] ''SELECT version()'' [] = (Inr [st], []) \<and> ppBody st [] [] = Some (ans, []) \<and>
     anRows ans = [[WText VersionString]] \<and> length (ppColumns st) = 1"
proof -
  let ?st = "catalogStatement sampleGateway [] \<lparr>smCols = [(''version'', 25)], smStmt = versionStmt, smSpecial = None\<rparr>"
  let ?ans = "sentRows ([[WText VersionString]], None)"
  have parse: "gatewayParse sampleGateway [] ''SELECT version()'' [] = (Inr [?st], [])"
    by (simp add: gatewayParse_def version_query parseOne_def sampleGateway_def isSessionStatement_def prepared_version)
  have "Coerce OIDText (CStr VersionString) = WText VersionString" by (simp add: Coerce_def)
  then have run: "ppBody ?st [] [] = Some (?ans, [])"
    by (simp add: catalogStatement_def execCatalog_def executed_version coerceRow_def sampleGateway_def Let_def)
  from answers_fit[OF parse _ run] have "length (ppColumns ?st) = 1" by simp
  with parse run show ?thesis by (intro exI[of _ ?st] exI[of _ ?ans]) simp
qed

lemma begin_query:
  "Words ''BEGIN'' = Inr [''BEGIN'']" "glUpper asciiLib ''BEGIN'' = ''BEGIN''" "SplitStatements ''BEGIN'' = [''BEGIN'']"
  by code_simp+

lemma begin_prepared: "parseOne sampleGateway db ''BEGIN'' s = (Inr [ackStatement ''BEGIN''], s)"
  by (simp add: parseOne_def firstWord_def begin_query isSessionStatement_def sampleGateway_def sessionStatement_def Let_def)

theorem session_untouched_witness: "\<exists>ans. ppBody (ackStatement ''BEGIN'') [] servedRows = Some (ans, servedRows)"
proof -
  have "isSessionStatement (firstWord (gwLib sampleGateway) ''BEGIN'')"
    by (simp add: firstWord_def begin_query isSessionStatement_def sampleGateway_def)
  from session_untouched[OF this begin_prepared] show ?thesis by simp
qed

theorem preparing_keeps_witness: "snd (gatewayParse sampleGateway [] ''BEGIN'' servedRows) = servedRows"
proof -
  have run: "gatewayParse sampleGateway [] ''BEGIN'' servedRows = (Inr [ackStatement ''BEGIN''], snd (gatewayParse sampleGateway [] ''BEGIN'' servedRows))"
    by (simp add: gatewayParse_def begin_query begin_prepared)
  show ?thesis
    by (rule preparing_keeps[where content = "\<lambda>rows. rows" and gw = sampleGateway, OF _ _ run])
      (auto simp: sampleGateway_def returnS_def listCluster_ops)
qed

text \<open>Words behind the name of a setting are not looked at.\<close>

lemma show_extra_words: "showSetting asciiLib [''SHOW'', ''TimeZone'', ''garbage''] = showSetting asciiLib [''SHOW'', ''TimeZone'']"
  by code_simp

end
