(* ===== verification/EsExpr.thy ===== *)
theory EsExpr
  imports EsQuery
begin

text \<open>
  Lowering of the folded query tree: \<open>internal/translate/es/expr.go\<close>, with value coercion and the
  complement of a must_not clause.

  A row satisfies a clause when the clause's lowered filter is true on it. The theorems state
  that \<open>negated\<close> is the complement of a filter on every row that fits the schema's nullability,
  and that the filter of a whole query is true exactly on the rows the query matches.
\<close>

subsection \<open>Coercion\<close>

definition es_dateLayouts :: "chunk list list" where
  "es_dateLayouts = [RFC3339Nano, layoutDateTime, layoutDate]"

definition es_dateValue :: "string \<Rightarrow> string \<Rightarrow> terror + val" where
  "es_dateValue f s =
     (if containsStr s ''||''
      then Inl (es_unsupportedErrf [T ''date math ['', S s, T ''] on field ['', S f, T ''] is not supported''])
      else case firstTime es_dateLayouts s of
        Some ms \<Rightarrow> Inr (IntValue ms)
      | None \<Rightarrow> Inl (es_illegalErrf [T ''cannot parse date ['', S s, T ''] for field ['', S f,
          T '']; supported forms: RFC-3339 or yyyy-MM-dd (epoch-millis numbers pass through)'']))"

definition es_notNumeric :: "string \<Rightarrow> string \<Rightarrow> terror" where
  "es_notNumeric f t = es_illegalErrf [T ''field ['', S f, T ''] is numeric but value ['', S t,
     T ''] does not parse as a number'']"

fun es_coerceValue :: "string \<Rightarrow> scalar \<Rightarrow> schema \<Rightarrow> terror + val" where
  "es_coerceValue f (SNum x) sch =
     (if FieldType sch f = TypeKeyword then Inr (StringValue x)
      else case ParseInt x of
        Some i \<Rightarrow> Inr (IntValue i)
      | None \<Rightarrow> (case ParseFloat64 x of Some y \<Rightarrow> Inr (FloatValue y) | None \<Rightarrow> Inl (es_notNumeric f x)))"
| "es_coerceValue f (SStr x) sch =
     (case FieldType sch f of
        TypeDate \<Rightarrow> es_dateValue f x
      | TypeNumber \<Rightarrow> (case ParseFloat64 x of Some y \<Rightarrow> Inr (FloatValue y) | None \<Rightarrow> Inl (es_notNumeric f x))
      | TypeBool \<Rightarrow>
          if x \<noteq> ''true'' \<and> x \<noteq> ''false''
          then Inl (es_illegalErrf [T ''field ['', S f, T ''] is boolean but value ['', S x, T ''] is not true/false''])
          else Inr (BoolValue (x = ''true''))
      | _ \<Rightarrow> Inr (StringValue x))"
| "es_coerceValue f (SBool x) sch =
     (case FieldType sch f of
        TypeNumber \<Rightarrow> Inr (IntValue (if x then 1 else 0))
      | TypeKeyword \<Rightarrow> Inr (StringValue (FormatBool x))
      | TypeText \<Rightarrow> Inr (StringValue (FormatBool x))
      | _ \<Rightarrow> Inr (BoolValue x))"

fun scalarText :: "scalar \<Rightarrow> string" where
  "scalarText (SStr x) = x"
| "scalarText (SNum x) = x"
| "scalarText (SBool x) = FormatBool x"

definition tokenize :: "string \<Rightarrow> string list" where
  "tokenize s = fieldsSpace s"

subsection \<open>Lowering\<close>

definition matchExpr :: "string \<Rightarrow> scalar \<Rightarrow> string \<Rightarrow> schema \<Rightarrow> terror + expr" where
  "matchExpr f v op sch =
     (if FieldType sch f = TypeKeyword \<or> FieldType sch f = TypeNumber \<or> FieldType sch f = TypeBool
      then bindE (es_coerceValue f v sch) (\<lambda>x. Inr (Compare Eq f x))
      else let tokens = tokenize (scalarText v) in
        if tokens = [] then Inr Never
        else if op = ''and'' then Inr (AndE (map (TextMatch f) tokens))
        else Inr (TextMatch f (joinStr '' '' tokens)))"

definition nullableField :: "schema \<Rightarrow> string \<Rightarrow> bool" where
  "nullableField sch f = (case NullableExt sch of None \<Rightarrow> False | Some nullable \<Rightarrow> nullable f)"

definition fieldOf :: "expr \<Rightarrow> string" where
  "fieldOf e = (case e of Compare op f v \<Rightarrow> f | InList f vs \<Rightarrow> f | TextMatch f q \<Rightarrow> f | _ \<Rightarrow> [])"

definition negatedLeaf :: "schema \<Rightarrow> expr \<Rightarrow> expr" where
  "negatedLeaf sch e =
     (let f = fieldOf e in
      if f \<noteq> [] \<and> nullableField sch f then OrE [IsNull f, NotE e] else NotE e)"

fun negated :: "schema \<Rightarrow> expr \<Rightarrow> expr" where
  "negated sch (NotNull f) = IsNull f"
| "negated sch (IsNull f) = NotNull f"
| "negated sch (NotE c) = c"
| "negated sch (AndE cs) = (if cs = [] then Never else OrE (map (negated sch) cs))"
| "negated sch (OrE cs) = (if cs = [] then Never else AndE (map (negated sch) cs))"
| "negated sch e = negatedLeaf sch e"

text \<open>A group of children: nothing, the only child, or the connective.\<close>

definition groupE :: "(expr list \<Rightarrow> expr) \<Rightarrow> expr list \<Rightarrow> expr list" where
  "groupE mk es = (case es of [] \<Rightarrow> [] | [e] \<Rightarrow> [e] | _ \<Rightarrow> [mk es])"

definition notNil :: "expr list \<Rightarrow> expr list" where
  "notNil es = filter (\<lambda>e. e \<noteq> NilE) es"

definition joinBool :: "schema \<Rightarrow> expr list \<Rightarrow> expr list \<Rightarrow> expr list \<Rightarrow> expr" where
  "joinBool sch ands ors nots =
     (let children = groupE AndE (notNil ands) @ groupE OrE (notNil ors) @ map (negated sch) (notNil nots)
      in case children of [] \<Rightarrow> NilE | [e] \<Rightarrow> e | _ \<Rightarrow> AndE children)"

fun buildExpr :: "schema \<Rightarrow> queryNode \<Rightarrow> terror + expr" where
  "buildExpr sch MatchAll = Inr NilE"
| "buildExpr sch MatchNone = Inr Never"
| "buildExpr sch (BoolQ must flt should mustNot msm) =
     bindE (mapE (buildExpr sch) must) (\<lambda>m.
     bindE (mapE (buildExpr sch) flt) (\<lambda>f.
     bindE (mapE (buildExpr sch) should) (\<lambda>s.
     bindE (mapE (buildExpr sch) mustNot) (\<lambda>n.
       Inr (joinBool sch (m @ f) s n)))))"
| "buildExpr sch (TermQ f v) = bindE (es_coerceValue f v sch) (\<lambda>x. Inr (Compare Eq f x))"
| "buildExpr sch (TermsQ f vs) =
     bindE (mapE (\<lambda>v. es_coerceValue f v sch) vs) (\<lambda>xs. Inr (InList f xs))"
| "buildExpr sch (MatchQ f v op) = matchExpr f v op sch"
| "buildExpr sch (RangeQ f bs) =
     bindE (mapE (\<lambda>(op, v). bindE (es_coerceValue f v sch) (\<lambda>x. Inr (Compare op f x))) bs) (\<lambda>cs.
       Inr (case cs of [c] \<Rightarrow> c | _ \<Rightarrow> AndE cs))"
| "buildExpr sch (ExistsQ f) = Inr (NotNull f)"

subsection \<open>Rows\<close>

text \<open>The fields a filter compares, and the rows on which its comparisons over fields the
  schema calls non-nullable have a verdict.\<close>

fun comparedFields :: "expr \<Rightarrow> string set" where
  "comparedFields (Compare op f v) = {f}"
| "comparedFields (InList f vs) = {f}"
| "comparedFields (TextMatch f q) = {f}"
| "comparedFields (NotE c) = comparedFields c"
| "comparedFields (AndE cs) = (\<Union>c \<in> set cs. comparedFields c)"
| "comparedFields (OrE cs) = (\<Union>c \<in> set cs. comparedFields c)"
| "comparedFields _ = {}"

definition fitsRow :: "schema \<Rightarrow> (string \<Rightarrow> 'c option) \<Rightarrow> string set \<Rightarrow> bool" where
  "fitsRow sch row F \<longleftrightarrow> (\<forall>f \<in> F. row f = None \<longrightarrow> f \<noteq> [] \<and> nullableField sch f)"

fun isLeaf :: "expr \<Rightarrow> bool" where
  "isLeaf (Compare op f v) = True"
| "isLeaf (InList f vs) = True"
| "isLeaf (TextMatch f q) = True"
| "isLeaf _ = False"

text \<open>The filters lowering produces, on a row.\<close>

fun built :: "(string \<Rightarrow> 'c option) \<Rightarrow> expr \<Rightarrow> bool" where
  "built row NilE = False"
| "built row (NotE c) = (c = Never \<or> isLeaf c \<and> row (leafField c) \<noteq> None)"
| "built row (AndE cs) = (cs \<noteq> [] \<and> (\<forall>c \<in> set cs. built row c))"
| "built row (OrE cs) = (cs \<noteq> [] \<and> (\<forall>c \<in> set cs. built row c) \<or>
     (\<exists>leaf. isLeaf leaf \<and> cs = [IsNull (leafField leaf), NotE leaf]))"
| "built row e = True"

lemma leaf_cases: "isLeaf e \<Longrightarrow> (\<And>op f v. e = Compare op f v \<Longrightarrow> P) \<Longrightarrow>
    (\<And>f vs. e = InList f vs \<Longrightarrow> P) \<Longrightarrow> (\<And>f q. e = TextMatch f q \<Longrightarrow> P) \<Longrightarrow> P"
  by (cases e) auto

lemma meval_leaf: "isLeaf e \<Longrightarrow> meval atom row e = leafVerdict atom row e"
  by (erule leaf_cases) auto

lemma leafVerdict_None: "leafVerdict atom row e = None \<longleftrightarrow> row (leafField e) = None"
  by (simp add: leafVerdict_def)

lemma isLeaf_built: "isLeaf e \<Longrightarrow> built row e"
  by (erule leaf_cases) auto

lemma isLeaf_field: "isLeaf e \<Longrightarrow> fieldOf e = leafField e \<and> comparedFields e = {leafField e}"
  by (erule leaf_cases) (auto simp: fieldOf_def)

lemma isLeaf_negated: "isLeaf e \<Longrightarrow> negated sch e = negatedLeaf sch e"
  by (erule leaf_cases) auto

lemma passes_And: "passes atom row (AndE cs) \<longleftrightarrow> (\<forall>c \<in> set cs. passes atom row c)"
  by (auto simp: passes_def tri_all_True)

lemma passes_Or: "cs \<noteq> [] \<Longrightarrow> passes atom row (OrE cs) \<longleftrightarrow> (\<exists>c \<in> set cs. passes atom row c)"
  by (force simp: passes_def tri_any_True image_iff)

lemma passes_simps [simp]:
  "passes atom row NilE" "\<not> passes atom row Never"
  "passes atom row (NotNull f) \<longleftrightarrow> row f \<noteq> None" "passes atom row (IsNull f) \<longleftrightarrow> row f = None"
  by (simp_all add: passes_def)

text \<open>\<open>negated\<close> is the complement, and produces filters of the same kind.\<close>

lemma negated_leaf:
  assumes "isLeaf e" "fitsRow sch row (comparedFields e)"
  shows "(passes atom row (negated sch e) \<longleftrightarrow> \<not> passes atom row e) \<and> built row (negated sch e)"
proof (cases "leafField e \<noteq> [] \<and> nullableField sch (leafField e)")
  case True
  then have "negated sch e = OrE [IsNull (leafField e), NotE e]"
    using assms(1) by (simp add: isLeaf_negated negatedLeaf_def isLeaf_field Let_def)
  then show ?thesis
    using assms(1) leafVerdict_None[of atom row e]
    by (cases "leafVerdict atom row e") (auto simp: passes_def meval_leaf tri_or_def)
next
  case False
  then have "negated sch e = NotE e"
    using assms(1) by (auto simp: isLeaf_negated negatedLeaf_def isLeaf_field Let_def)
  moreover have "row (leafField e) \<noteq> None"
    using assms False by (auto simp: fitsRow_def isLeaf_field)
  ultimately show ?thesis
    using assms(1) leafVerdict_None[of atom row e]
    by (cases "leafVerdict atom row e") (auto simp: passes_def meval_leaf)
qed

lemma fitsRow_mono: "fitsRow sch row G \<Longrightarrow> F \<subseteq> G \<Longrightarrow> fitsRow sch row F"
  by (auto simp: fitsRow_def)

lemma negated_complement:
  "built row e \<Longrightarrow> fitsRow sch row (comparedFields e) \<Longrightarrow>
   (passes atom row (negated sch e) \<longleftrightarrow> \<not> passes atom row e) \<and> built row (negated sch e)"
proof (induction e)
  case (NotE c)
  show ?case
  proof (cases "c = Never")
    case True
    then show ?thesis by (simp add: passes_def)
  next
    case False
    with NotE.prems have leaf: "isLeaf c" "row (leafField c) \<noteq> None" by auto
    then show ?thesis
      using leafVerdict_None[of atom row c]
      by (cases "leafVerdict atom row c") (auto simp: passes_def meval_leaf isLeaf_built)
  qed
next
  case (AndE cs)
  have "passes atom row (negated sch c) \<longleftrightarrow> \<not> passes atom row c" "built row (negated sch c)"
    if "c \<in> set cs" for c
    using AndE.IH[OF that] AndE.prems that fitsRow_mono[of sch row "comparedFields (AndE cs)" "comparedFields c"]
    by auto
  with AndE.prems show ?case by (auto simp: passes_And passes_Or)
next
  case (OrE cs)
  show ?case
  proof (cases "\<exists>leaf. isLeaf leaf \<and> cs = [IsNull (leafField leaf), NotE leaf]")
    case True
    then obtain leaf where leaf: "isLeaf leaf" "cs = [IsNull (leafField leaf), NotE leaf]" by blast
    then show ?thesis
      using leafVerdict_None[of atom row leaf]
      by (cases "leafVerdict atom row leaf")
        (auto simp: passes_def meval_leaf tri_or_def tri_and_def isLeaf_built)
  next
    case False
    with OrE.prems have ne: "cs \<noteq> []" and parts: "\<forall>c \<in> set cs. built row c" by auto
    have "passes atom row (negated sch c) \<longleftrightarrow> \<not> passes atom row c" "built row (negated sch c)"
      if "c \<in> set cs" for c
      using OrE.IH[OF that] parts OrE.prems(2) that
        fitsRow_mono[of sch row "comparedFields (OrE cs)" "comparedFields c"]
      by auto
    with ne show ?thesis by (auto simp: passes_And passes_Or)
  qed
next
  case (Compare op f v)
  then show ?case using negated_leaf[of "Compare op f v"] by simp
next
  case (InList f vs)
  then show ?case using negated_leaf[of "InList f vs"] by simp
next
  case (TextMatch f q)
  then show ?case using negated_leaf[of "TextMatch f q"] by simp
qed (auto simp: passes_def negatedLeaf_def fieldOf_def)

lemma comparedFields_negated: "comparedFields (negated sch e) = comparedFields e"
  by (induction e) (auto simp: negatedLeaf_def Let_def)

subsection \<open>The filter of a query\<close>

lemma groupE_cases:
  obtains "es = []" "groupE mk es = []"
  | e where "es = [e]" "groupE mk es = [e]"
  | "es \<noteq> []" "groupE mk es = [mk es]"
proof (cases es)
  case (Cons a r)
  then show ?thesis using that by (cases r) (auto simp: groupE_def)
qed (use that in \<open>simp add: groupE_def\<close>)

lemma groupE_And: "(\<forall>c \<in> set (groupE AndE es). passes atom row c) \<longleftrightarrow> (\<forall>e \<in> set es. passes atom row e)"
  by (cases rule: groupE_cases[of es AndE]) (auto simp: passes_And)

lemma groupE_Or: "(\<forall>c \<in> set (groupE OrE es). passes atom row c) \<longleftrightarrow> es = [] \<or> (\<exists>e \<in> set es. passes atom row e)"
  by (cases rule: groupE_cases[of es OrE]) (auto simp: passes_Or)

lemma groupE_set: "set (groupE mk es) \<subseteq> insert (mk es) (set es)" "groupE mk [] = []"
  by (cases rule: groupE_cases[of es mk]) (auto simp: groupE_def)

lemma groupE_built_And: "(\<And>e. e \<in> set es \<Longrightarrow> built row e) \<Longrightarrow> c \<in> set (groupE AndE es) \<Longrightarrow> built row c"
  by (cases rule: groupE_cases[of es AndE]) auto

lemma groupE_built_Or: "(\<And>e. e \<in> set es \<Longrightarrow> built row e) \<Longrightarrow> c \<in> set (groupE OrE es) \<Longrightarrow> built row c"
  by (cases rule: groupE_cases[of es OrE]) auto

lemma groupE_fields_And:
  "(\<Union>c \<in> set (groupE AndE es). comparedFields c) = (\<Union>e \<in> set es. comparedFields e)"
  by (cases rule: groupE_cases[of es AndE]) auto

lemma groupE_fields_Or:
  "(\<Union>c \<in> set (groupE OrE es). comparedFields c) = (\<Union>e \<in> set es. comparedFields e)"
  by (cases rule: groupE_cases[of es OrE]) auto

lemma groupE_empty [simp]: "groupE mk es = [] \<longleftrightarrow> es = []"
  by (cases rule: groupE_cases[of es mk]) auto

lemma notNil_id: "(\<And>e. e \<in> set es \<Longrightarrow> built row e) \<Longrightarrow> notNil es = es"
  by (fastforce simp: notNil_def filter_id_conv)

definition conjoin :: "expr list \<Rightarrow> expr" where
  "conjoin es = (case groupE AndE es of [] \<Rightarrow> NilE | e # _ \<Rightarrow> e)"

lemma conjoin_simp: "conjoin es = (case es of [] \<Rightarrow> NilE | [e] \<Rightarrow> e | _ \<Rightarrow> AndE es)"
  by (simp add: conjoin_def groupE_def split: list.split)

lemma conjoin_passes: "passes atom row (conjoin es) \<longleftrightarrow> (\<forall>e \<in> set es. passes atom row e)"
  by (cases rule: groupE_cases[of es AndE]) (auto simp: conjoin_def passes_And groupE_set)

lemma conjoin_built: "es \<noteq> [] \<Longrightarrow> (\<And>e. e \<in> set es \<Longrightarrow> built row e) \<Longrightarrow> built row (conjoin es)"
  by (cases rule: groupE_cases[of es AndE]) (auto simp: conjoin_def groupE_set)

lemma conjoin_fields: "comparedFields (conjoin es) = (\<Union>e \<in> set es. comparedFields e)"
  by (cases rule: groupE_cases[of es AndE]) (auto simp: conjoin_def groupE_set)

lemma joinBool_conjoin:
  "joinBool sch ands ors nots =
     conjoin (groupE AndE (notNil ands) @ groupE OrE (notNil ors) @ map (negated sch) (notNil nots))"
  by (simp add: joinBool_def conjoin_simp Let_def)

lemma joinBool_fields:
  "comparedFields (joinBool sch ands ors nots) = (\<Union>e \<in> set (ands @ ors @ nots). comparedFields e)"
  unfolding joinBool_conjoin conjoin_fields set_append UN_Un groupE_fields_And groupE_fields_Or
  by (auto simp: comparedFields_negated notNil_def)

lemma joinBool_exact:
  assumes parts: "\<forall>e \<in> set (ands @ ors @ nots). built row e" "ands @ ors @ nots \<noteq> []"
    and fits: "fitsRow sch row (comparedFields (joinBool sch ands ors nots))"
  shows "built row (joinBool sch ands ors nots) \<and>
    (passes atom row (joinBool sch ands ors nots) \<longleftrightarrow>
      (\<forall>e \<in> set ands. passes atom row e) \<and> (ors = [] \<or> (\<exists>e \<in> set ors. passes atom row e)) \<and>
      (\<forall>e \<in> set nots. \<not> passes atom row e))"
proof -
  have nil: "notNil ands = ands" "notNil ors = ors" "notNil nots = nots"
    using parts(1) by (auto intro!: notNil_id)
  have neg: "(passes atom row (negated sch e) \<longleftrightarrow> \<not> passes atom row e) \<and> built row (negated sch e)"
    if "e \<in> set nots" for e
  proof (rule negated_complement)
    show "built row e" using parts(1) that by simp
    show "fitsRow sch row (comparedFields e)"
      using fits by (rule fitsRow_mono) (use that in \<open>auto simp: joinBool_fields\<close>)
  qed
  have "built row c" if "c \<in> set (groupE AndE ands @ groupE OrE ors @ map (negated sch) nots)" for c
    using that neg groupE_built_And[of ands row c] groupE_built_Or[of ors row c] parts(1) by auto
  moreover have "groupE AndE ands @ groupE OrE ors @ map (negated sch) nots \<noteq> []"
    using parts(2) by auto
  ultimately have "built row (joinBool sch ands ors nots)"
    unfolding joinBool_conjoin nil by (intro conjoin_built)
  moreover have "passes atom row (joinBool sch ands ors nots) \<longleftrightarrow>
      (\<forall>e \<in> set ands. passes atom row e) \<and> (ors = [] \<or> (\<exists>e \<in> set ors. passes atom row e)) \<and>
      (\<forall>e \<in> set nots. \<not> passes atom row e)"
    unfolding joinBool_conjoin nil conjoin_passes set_append ball_Un groupE_And groupE_Or
    using neg by auto
  ultimately show ?thesis by blast
qed

text \<open>A row matches a leaf query when the filter of the query is true on it.\<close>

definition leafHolds :: "(expr \<Rightarrow> 'c \<Rightarrow> bool) \<Rightarrow> (string \<Rightarrow> 'c option) \<Rightarrow> schema \<Rightarrow> queryNode \<Rightarrow> bool" where
  "leafHolds atom row sch q = (case buildExpr sch q of Inl _ \<Rightarrow> False | Inr e \<Rightarrow> passes atom row e)"

lemma matchExpr_built: "matchExpr f v op sch = Inr e \<Longrightarrow> built row e"
  by (auto simp: matchExpr_def bindE_eq_Inr Let_def split: if_splits)

lemma rangeExpr_built:
  assumes "buildExpr sch (RangeQ f bs) = Inr e" "bs \<noteq> []"
  shows "built row e"
proof -
  from assms(1) obtain cs
    where cs: "mapE (\<lambda>(op, v). bindE (es_coerceValue f v sch) (\<lambda>x. Inr (Compare op f x))) bs = Inr cs"
      and e: "e = (case cs of [c] \<Rightarrow> c | _ \<Rightarrow> AndE cs)"
    by (auto simp: bindE_eq_Inr)
  have "built row c" if "c \<in> set cs" for c
    using mapE_set[OF cs that] by (auto simp: bindE_eq_Inr)
  moreover have "cs \<noteq> []" using mapE_Inr_length[OF cs] assms(2) by auto
  moreover from this have "e = conjoin cs" by (auto simp: e conjoin_simp split: list.split)
  ultimately show ?thesis by (simp add: conjoin_built)
qed

lemma buildExpr_exact:
  "esPart q \<Longrightarrow> buildExpr sch q = Inr e \<Longrightarrow> fitsRow sch row (comparedFields e) \<Longrightarrow>
   built row e \<and> (passes atom row e \<longleftrightarrow> foldedMatch (leafHolds atom row sch) q)"
proof (induction q arbitrary: e)
  case (BoolQ must flt should mustNot msm)
  from BoolQ.prems(2) obtain m f s n
    where lists: "mapE (buildExpr sch) must = Inr m" "mapE (buildExpr sch) flt = Inr f"
        "mapE (buildExpr sch) should = Inr s" "mapE (buildExpr sch) mustNot = Inr n"
      and e: "e = joinBool sch (m @ f) s n"
    by (auto simp: bindE_eq_Inr)
  have fields: "fitsRow sch row (comparedFields d)" if "d \<in> set ((m @ f) @ s @ n)" for d
    using BoolQ.prems(3) unfolding e
    by (rule fitsRow_mono) (use that in \<open>auto simp: joinBool_fields\<close>)
  have all2: "list_all2 (\<lambda>c d. built row d \<and> (passes atom row d \<longleftrightarrow> foldedMatch (leafHolds atom row sch) c)) cs ds"
    if "mapE (buildExpr sch) cs = Inr ds" "set cs \<subseteq> set must \<union> set flt \<union> set should \<union> set mustNot"
      "set ds \<subseteq> set ((m @ f) @ s @ n)" for cs ds
    using that(1) unfolding mapE_eq_Inr
  proof (rule list.rel_mono_strong)
    fix c d
    assume "c \<in> set cs" "d \<in> set ds" "buildExpr sch c = Inr d"
    with that BoolQ.prems(1) fields[of d] BoolQ.IH
    show "built row d \<and> (passes atom row d \<longleftrightarrow> foldedMatch (leafHolds atom row sch) c)"
      by (auto dest!: subsetD)
  qed
  have sets: "(\<forall>d \<in> set ds. built row d) \<and>
      (\<forall>d \<in> set ds. passes atom row d) = (\<forall>c \<in> set cs. foldedMatch (leafHolds atom row sch) c) \<and>
      (\<forall>d \<in> set ds. \<not> passes atom row d) = (\<forall>c \<in> set cs. \<not> foldedMatch (leafHolds atom row sch) c) \<and>
      (\<exists>d \<in> set ds. passes atom row d) = (\<exists>c \<in> set cs. foldedMatch (leafHolds atom row sch) c) \<and>
      (ds = [] \<longleftrightarrow> cs = [])"
    if "list_all2 (\<lambda>c d. built row d \<and> (passes atom row d \<longleftrightarrow> foldedMatch (leafHolds atom row sch) c)) cs ds" for cs ds
    using that by (induction cs ds rule: list_all2_induct) auto
  have subs: "set must \<subseteq> set must \<union> set flt \<union> set should \<union> set mustNot"
    "set flt \<subseteq> set must \<union> set flt \<union> set should \<union> set mustNot"
    "set should \<subseteq> set must \<union> set flt \<union> set should \<union> set mustNot"
    "set mustNot \<subseteq> set must \<union> set flt \<union> set should \<union> set mustNot"
    "set m \<subseteq> set ((m @ f) @ s @ n)" "set f \<subseteq> set ((m @ f) @ s @ n)"
    "set s \<subseteq> set ((m @ f) @ s @ n)" "set n \<subseteq> set ((m @ f) @ s @ n)"
    by auto
  note S = sets[OF all2[OF lists(1) subs(1,5)]] sets[OF all2[OF lists(2) subs(2,6)]]
    sets[OF all2[OF lists(3) subs(3,7)]] sets[OF all2[OF lists(4) subs(4,8)]]
  note B = S(1)[THEN conjunct1] S(2)[THEN conjunct1] S(3)[THEN conjunct1] S(4)[THEN conjunct1]
  have built_all: "\<forall>d \<in> set ((m @ f) @ s @ n). built row d"
    unfolding set_append ball_Un by (intro conjI B)
  have ne: "(m @ f) @ s @ n \<noteq> []" using BoolQ.prems(1) S by simp
  have fits: "fitsRow sch row (comparedFields (joinBool sch (m @ f) s n))"
    using BoolQ.prems(3) by (simp add: e)
  note exact = joinBool_exact[OF built_all ne fits, of atom]
  have "foldedMatch (leafHolds atom row sch) (BoolQ must flt should mustNot msm) \<longleftrightarrow>
      (\<forall>e \<in> set (m @ f). passes atom row e) \<and> (s = [] \<or> (\<exists>e \<in> set s. passes atom row e)) \<and>
      (\<forall>e \<in> set n. \<not> passes atom row e)"
    unfolding foldedMatch.simps set_append ball_Un using S by argo
  with exact show ?case unfolding e by argo
next
  case (RangeQ f bs)
  then show ?case using rangeExpr_built[of sch f bs e row] by (simp add: leafHolds_def)
next
  case (MatchQ f v op)
  then show ?case by (auto simp: leafHolds_def intro: matchExpr_built)
qed (auto simp: leafHolds_def bindE_eq_Inr)


subsection \<open>What a leaf query means\<close>

text \<open>A leaf query holds of a row whose cell satisfies the comparison with the coerced value; a
  match on a text field asks for every word, or for the words as one text match.\<close>

definition cellHolds :: "(string \<Rightarrow> 'c option) \<Rightarrow> string \<Rightarrow> ('c \<Rightarrow> bool) \<Rightarrow> bool" where
  "cellHolds row f P = (case row f of None \<Rightarrow> False | Some c \<Rightarrow> P c)"

definition coercedHolds :: "terror + val \<Rightarrow> (val \<Rightarrow> bool) \<Rightarrow> bool" where
  "coercedHolds v P = (case v of Inl _ \<Rightarrow> False | Inr x \<Rightarrow> P x)"

fun leafMatch :: "(expr \<Rightarrow> 'c \<Rightarrow> bool) \<Rightarrow> (string \<Rightarrow> 'c option) \<Rightarrow> schema \<Rightarrow> queryNode \<Rightarrow> bool" where
  "leafMatch atom row sch (TermQ f v) =
     coercedHolds (es_coerceValue f v sch) (\<lambda>x. cellHolds row f (atom (Compare Eq f x)))"
| "leafMatch atom row sch (TermsQ f vs) =
     (case mapE (\<lambda>v. es_coerceValue f v sch) vs of
        Inl _ \<Rightarrow> False
      | Inr xs \<Rightarrow> cellHolds row f (atom (InList f xs)))"
| "leafMatch atom row sch (MatchQ f v op) =
     (if FieldType sch f \<in> {TypeKeyword, TypeNumber, TypeBool}
      then coercedHolds (es_coerceValue f v sch) (\<lambda>x. cellHolds row f (atom (Compare Eq f x)))
      else cellHolds row f (\<lambda>c. tokenize (scalarText v) \<noteq> [] \<and>
        (if op = ''and'' then \<forall>t \<in> set (tokenize (scalarText v)). atom (TextMatch f t) c
         else atom (TextMatch f (joinStr '' '' (tokenize (scalarText v)))) c)))"
| "leafMatch atom row sch (RangeQ f bs) =
     (\<forall>(op, v) \<in> set bs. coercedHolds (es_coerceValue f v sch) (\<lambda>x. cellHolds row f (atom (Compare op f x))))"
| "leafMatch atom row sch (ExistsQ f) = (row f \<noteq> None)"
| "leafMatch atom row sch q = False"

lemma passes_leaf:
  "passes atom row (Compare op f v) = cellHolds row f (atom (Compare op f v))"
  "passes atom row (InList f vs) = cellHolds row f (atom (InList f vs))"
  "passes atom row (TextMatch f t) = cellHolds row f (atom (TextMatch f t))"
  by (auto simp: passes_def leafVerdict_def cellHolds_def split: option.split)

lemma rangeBounds_match:
  "(case mapE (\<lambda>(op, v). bindE (es_coerceValue f v sch) (\<lambda>x. Inr (Compare op f x))) bs of
      Inl _ \<Rightarrow> False | Inr cs \<Rightarrow> \<forall>c \<in> set cs. passes atom row c) \<longleftrightarrow>
   (\<forall>(op, v) \<in> set bs. coercedHolds (es_coerceValue f v sch) (\<lambda>x. cellHolds row f (atom (Compare op f x))))"
proof (induction bs)
  case (Cons b bs)
  obtain op v where b: "b = (op, v)" by force
  show ?case
    unfolding list.set ball_simps(7) Cons[symmetric]
    by (cases "es_coerceValue f v sch")
      (auto simp: b coercedHolds_def passes_leaf bindE_def split: sum.split)
qed simp

fun queryLeaf :: "queryNode \<Rightarrow> bool" where
  "queryLeaf MatchAll = False"
| "queryLeaf MatchNone = False"
| "queryLeaf (BoolQ must flt should mustNot msm) = False"
| "queryLeaf q = True"

lemma leafHolds_match:
  "queryLeaf q \<Longrightarrow> queryShape q \<Longrightarrow> leafHolds atom row sch q = leafMatch atom row sch q"
proof (induction q)
  case (RangeQ f bs)
  have "leafHolds atom row sch (RangeQ f bs) \<longleftrightarrow>
    (case mapE (\<lambda>(op, v). bindE (es_coerceValue f v sch) (\<lambda>x. Inr (Compare op f x))) bs of
      Inl _ \<Rightarrow> False | Inr cs \<Rightarrow> \<forall>c \<in> set cs. passes atom row c)"
    by (auto simp: leafHolds_def bindE_def passes_And split: sum.splits list.splits)
  then show ?case by (simp only: rangeBounds_match leafMatch.simps)
next
  case (MatchQ f v op)
  have "tokenize (scalarText v) = [] \<or> tokenize (scalarText v) \<noteq> []" by blast
  then show ?case
    by (cases "es_coerceValue f v sch"; cases "row f")
      (auto simp: leafHolds_def matchExpr_def coercedHolds_def passes_leaf passes_And cellHolds_def Let_def)
qed (auto simp: leafHolds_def coercedHolds_def passes_leaf bindE_def split: sum.split)

lemma esMatch_cong:
  "queryShape q \<Longrightarrow> (\<And>c. queryLeaf c \<Longrightarrow> queryShape c \<Longrightarrow> leaf c = leaf' c) \<Longrightarrow>
   esMatch leaf q = esMatch leaf' q"
proof (induction q)
  case (BoolQ must flt should mustNot msm)
  then have each: "esMatch leaf c = esMatch leaf' c"
    if "c \<in> set must \<union> set flt \<union> set should \<union> set mustNot" for c
    using that by auto
  have "filter (esMatch leaf) should = filter (esMatch leaf') should"
    using each by (intro filter_cong) auto
  with each show ?case by simp
qed auto

lemma esMatch_leafHolds:
  "queryShape q \<Longrightarrow> esMatch (leafHolds atom row sch) q = esMatch (leafMatch atom row sch) q"
  by (rule esMatch_cong) (simp_all add: leafHolds_match)

subsection \<open>Errors and kinds\<close>

lemma es_coerce_classified: "es_coerceValue f v sch = Inl e \<Longrightarrow> es_classified e"
  by (cases v; cases "FieldType sch f")
    (auto simp: es_dateValue_def es_notNumeric_def split: if_splits option.splits)

lemma buildExpr_classified: "buildExpr sch q = Inl e \<Longrightarrow> es_classified e"
proof (induction q arbitrary: e)
  case (BoolQ must flt should mustNot msm)
  then show ?case by (auto simp: bindE_eq_Inl dest!: mapE_eq_Inl)
qed (auto simp: bindE_eq_Inl matchExpr_def Let_def split: if_splits prod.splits
    dest!: mapE_eq_Inl intro: es_coerce_classified)

lemma es_coerce_kind:
  "es_coerceValue f v sch = Inr x \<Longrightarrow>
   (case FieldType sch f of
      TypeKeyword \<Rightarrow> \<exists>s. x = StringValue s
    | TypeNumber \<Rightarrow> (\<exists>i. x = IntValue i) \<or> (\<exists>y. x = FloatValue y)
    | TypeBool \<Rightarrow> v \<notin> range SNum \<longrightarrow> (\<exists>b. x = BoolValue b)
    | TypeDate \<Rightarrow> v \<in> range SStr \<longrightarrow> (\<exists>i. x = IntValue i)
    | TypeText \<Rightarrow> v \<notin> range SNum \<longrightarrow> (\<exists>s. x = StringValue s)
    | _ \<Rightarrow> x \<noteq> InvalidValue)"
  by (cases v; cases "FieldType sch f")
    (auto simp: es_dateValue_def split: if_splits option.splits)

subsection \<open>Properties\<close>

text \<open>C35. A must_not clause is the complement: on every row that is null only in nullable fields,
  the negation of a lowered query is true exactly where the lowered query is not, so a row the
  query has no verdict on is admitted.\<close>

theorem negated_is_complement:
  assumes "buildExpr sch q = Inr e" "esPart q" "fitsRow sch row (comparedFields e)"
  shows "passes atom row (negated sch e) \<longleftrightarrow> \<not> passes atom row e"
  using buildExpr_exact[OF assms(2,1,3), of atom] negated_complement[of row e sch atom] assms(3) by blast

text \<open>A coerced query value is in the storage kind of its field: a keyword compares with a
  string, a number field with a number, a text string stays a string, a boolean field takes
  booleans but lets JSON numbers through, and a date written as a string becomes epoch
  milliseconds.\<close>

theorem es_coerceValue_kind:
  assumes "es_coerceValue f v sch = Inr x"
  shows "case FieldType sch f of
      TypeKeyword \<Rightarrow> \<exists>s. x = StringValue s
    | TypeNumber \<Rightarrow> (\<exists>i. x = IntValue i) \<or> (\<exists>y. x = FloatValue y)
    | TypeBool \<Rightarrow> v \<notin> range SNum \<longrightarrow> (\<exists>b. x = BoolValue b)
    | TypeDate \<Rightarrow> v \<in> range SStr \<longrightarrow> (\<exists>i. x = IntValue i)
    | TypeText \<Rightarrow> v \<notin> range SNum \<longrightarrow> (\<exists>s. x = StringValue s)
    | _ \<Rightarrow> x \<noteq> InvalidValue"
  using assms by (rule es_coerce_kind)

definition nullableSchema :: schema where
  "nullableSchema = \<lparr>FieldType = (\<lambda>f. if f = ''a'' then TypeKeyword else TypeUnknown), Fields = [''a''],
     NullableExt = Some (\<lambda>f. f = ''a'')\<rparr>"

lemma negated_is_complement_witness:
  "passes (\<lambda>_ c. c) (\<lambda>_. None) (negated nullableSchema (Compare Eq ''a'' (StringValue ''12'')))"
proof -
  have "buildExpr nullableSchema (TermQ ''a'' (SNum ''12'')) = Inr (Compare Eq ''a'' (StringValue ''12''))"
    by (simp add: nullableSchema_def)
  from negated_is_complement[OF this, of "\<lambda>_. None" "\<lambda>_ c. c"] show ?thesis
    by (simp add: fitsRow_def nullableSchema_def nullableField_def passes_leaf cellHolds_def)
qed

lemma es_coerceValue_kind_witness: "\<exists>s. StringValue ''12'' = StringValue s"
proof -
  have "es_coerceValue ''a'' (SNum ''12'') nullableSchema = Inr (StringValue ''12'')"
    by (simp add: nullableSchema_def)
  from es_coerceValue_kind[OF this] show ?thesis by (simp add: nullableSchema_def)
qed

end
