(* ===== verification/EsRequest.thy ===== *)
theory EsRequest
  imports EsExpr
begin

text \<open>
  Whole requests: \<open>internal/translate/es/request.go\<close> (paging, sorting, source filter, \<open>Translate\<close>),
  \<open>internal/translate/es/knn.go\<close> and the document decoder of \<open>internal/translate/es/write.go\<close>.

  The body is given decoded, as \<open>encoding/json\<close> leaves it for the source: nothing but white
  space, not JSON, \<open>null\<close>, an object with its members in iteration order, or another value. An
  absent member is absent from the list. A member of a document keeps its raw bytes next to
  its decoded value, since arrays and objects are stored as sent. Messages that print a raw
  value or a decoder error name it in a \<open>V\<close> piece.
\<close>

subsection \<open>The body\<close>

datatype 'm requestBody =
    EmptyBody
  | InvalidBody
  | NullBody
  | ObjectBody "'m list"
  | OtherBody

fun decodeBody :: "'m requestBody \<Rightarrow> terror + 'm list" where
  "decodeBody EmptyBody = Inr []"
| "decodeBody NullBody = Inr []"
| "decodeBody (ObjectBody ms) = Inr ms"
| "decodeBody _ = Inl (es_parseErrf [T ''request body is not valid JSON: '', V ''err''])"

definition unsupportedFeatures :: "string list" where
  "unsupportedFeatures =
    [''aggs'', ''aggregations'', ''suggest'', ''collapse'', ''rescore'',
     ''post_filter'', ''search_after'', ''scroll'', ''pit'', ''slice'', ''min_score'',
     ''indices_boost'', ''script_fields'', ''runtime_mappings'', ''highlight'',
     ''stored_fields'', ''docvalue_fields'', ''fields'', ''terminate_after'']"

fun rejectFeatures :: "members \<Rightarrow> string list \<Rightarrow> terror + unit" where
  "rejectFeatures req [] = Inr ()"
| "rejectFeatures req (feat # feats) =
     (if map_of req feat \<noteq> None
      then Inl (es_unsupportedErrf [T ''['', S feat, T ''] is beyond lyrebird'', sq,
             T ''s Phase 1 surface; drop it or query Milvus directly''])
      else rejectFeatures req feats)"

subsection \<open>Paging\<close>

definition defaultSize :: int where "defaultSize = 10"
definition es_maxResultWindow :: int where "es_maxResultWindow = 10000"

definition windowMember :: "string \<Rightarrow> int \<Rightarrow> members \<Rightarrow> terror + int" where
  "windowMember name dflt req =
     (case map_of req name of
        None \<Rightarrow> Inr dflt
      | Some raw \<Rightarrow>
          (case decodeInt raw of
             Some n \<Rightarrow>
               if n < 0
               then Inl (es_illegalErrf [T ''['', T name, T ''] must be a non-negative integer, got '', V ''raw''])
               else Inr n
           | None \<Rightarrow> Inl (es_illegalErrf [T ''['', T name, T ''] must be a non-negative integer, got '', V ''raw''])))"

definition es_parsePaging :: "members \<Rightarrow> terror + int \<times> int" where
  "es_parsePaging req =
     bindE (windowMember ''from'' 0 req) (\<lambda>start.
     bindE (windowMember ''size'' defaultSize req) (\<lambda>size.
       if wrap64 (start + size) > es_maxResultWindow
       then Inl (es_illegalErrf [T ''Result window is too large, from + size must be less than or equal to: ['',
              D es_maxResultWindow, T ''] but was ['', D (wrap64 (start + size)),
              T '']. See the max_result_window parameter; search_after is not available in lyrebird yet.''])
       else Inr (start, size)))"

subsection \<open>Sorting\<close>

text \<open>A kept clause is \<open>Some\<close>; sorting by score or index order is dropped.\<close>

definition es_sortClause :: "string \<Rightarrow> string \<Rightarrow> terror + sortClause option" where
  "es_sortClause field order =
     (if field = ''_score'' \<or> field = ''_doc'' then Inr None
      else if field = ''_geo_distance'' \<or> field = ''_script''
      then Inl (es_unsupportedErrf [T ''[sort] '', S field, T '' is not supported''])
      else if order \<noteq> ''asc'' \<and> order \<noteq> ''desc''
      then Inl (es_parseErrf [T ''[sort] order must be \"asc\" or \"desc\", got '', Q order])
      else Inr (Some \<lparr>scField = field, scDesc = (order = ''desc'')\<rparr>))"

fun sortOptions :: "string \<Rightarrow> members \<Rightarrow> terror + string" where
  "sortOptions order [] = Inr order"
| "sortOptions order ((k, v) # opts) =
     (if k = ''order'' then
        (case unmarshalString order v of
           Some w \<Rightarrow>
             if w \<noteq> ''asc'' \<and> w \<noteq> ''desc''
             then Inl (es_parseErrf [T ''[sort] order must be \"asc\" or \"desc\"''])
             else sortOptions w opts
         | None \<Rightarrow> Inl (es_parseErrf [T ''[sort] order must be \"asc\" or \"desc\"'']))
      else if k = ''missing'' then
        (let missing = (case unmarshalString [] v of Some w \<Rightarrow> w | None \<Rightarrow> []) in
         if missing \<noteq> ''_last''
         then Inl (es_unsupportedErrf [T ''[sort] missing='', S missing, T '' is not supported (null-aware ordering)''])
         else sortOptions order opts)
      else if k = ''_name'' then sortOptions order opts
      else Inl (es_unsupportedErrf [T ''[sort] option ['', S k, T ''] is not supported'']))"

definition parseSortObject :: "members \<Rightarrow> terror + sortClause option" where
  "parseSortObject obj =
     (case obj of
        [(field, spec)] \<Rightarrow>
          (case spec of
             JStr order \<Rightarrow> es_sortClause field order
           | JObj opts \<Rightarrow> bindE (sortOptions ''asc'' opts) (\<lambda>order. es_sortClause field order)
           | _ \<Rightarrow> Inl (es_parseErrf [T ''[sort] value for ['', S field,
               T ''] must be \"asc\"/\"desc\" or an options object'']))
      | _ \<Rightarrow> Inl (es_parseErrf [T ''[sort] each clause must target exactly one field, got '', D (int (length obj))]))"

definition sortItem :: "json \<Rightarrow> terror + sortClause option" where
  "sortItem item =
     (case item of
        JStr field \<Rightarrow> es_sortClause field ''asc''
      | JObj obj \<Rightarrow> parseSortObject obj
      | _ \<Rightarrow> Inl (es_parseErrf [T ''[sort] clauses must be strings or objects'']))"

definition keepClauses :: "'a option list \<Rightarrow> 'a list" where
  "keepClauses cs = concat (map (\<lambda>c. case c of None \<Rightarrow> [] | Some x \<Rightarrow> [x]) cs)"

definition parseSort :: "json option \<Rightarrow> terror + sortClause list" where
  "parseSort raw =
     (case raw of
        None \<Rightarrow> Inr []
      | Some JNull \<Rightarrow> Inr []
      | Some (JArr items) \<Rightarrow> bindE (mapE sortItem items) (\<lambda>cs. Inr (keepClauses cs))
      | Some item \<Rightarrow> bindE (mapE sortItem [item]) (\<lambda>cs. Inr (keepClauses cs)))"

subsection \<open>Source filter\<close>

text \<open>\<open>json.Unmarshal\<close> into a slice of strings: a \<open>null\<close> element is the empty string.\<close>

definition unmarshalStrings :: "json \<Rightarrow> string list option" where
  "unmarshalStrings j =
     (case j of
        JArr js \<Rightarrow>
          if list_all (\<lambda>j. unmarshalString [] j \<noteq> None) js
          then Some (map (\<lambda>j. the (unmarshalString [] j)) js) else None
      | JNull \<Rightarrow> Some []
      | _ \<Rightarrow> None)"

definition sourceList :: "json \<Rightarrow> terror + string list" where
  "sourceList j =
     (case j of
        JStr one \<Rightarrow> Inr [one]
      | _ \<Rightarrow>
          (case unmarshalStrings j of
             Some ss \<Rightarrow> Inr ss
           | None \<Rightarrow> Inl (es_parseErrf [T ''[_source] must be a string or an array of strings''])))"

definition containsAny :: "string \<Rightarrow> string \<Rightarrow> bool" where
  "containsAny s cs = list_ex (\<lambda>c. c \<in> set cs) s"

fun cleanPatterns :: "string \<Rightarrow> string list \<Rightarrow> terror + string list" where
  "cleanPatterns what [] = Inr []"
| "cleanPatterns what (p # ps) =
     (if p = ''*'' then cleanPatterns what ps
      else if hasSuffix p ''.*'' \<and> \<not> containsAny (trimSuffix p ''.*'') ''*?''
      then bindE (cleanPatterns what ps) (\<lambda>out. Inr (p # out))
      else if containsAny p ''*?''
      then Inl (es_unsupportedErrf [T ''[_source] pattern ['', S p, T ''] in '', S what,
             T '' is not supported: only \"*\" and \"prefix.*\"''])
      else bindE (cleanPatterns what ps) (\<lambda>out. Inr (p # out)))"

definition filterSourcePatterns :: "sourceFilter \<Rightarrow> terror + sourceFilter" where
  "filterSourcePatterns src =
     bindE (cleanPatterns ''includes'' (Includes src)) (\<lambda>inc.
     bindE (cleanPatterns ''excludes'' (Excludes src)) (\<lambda>exc.
       Inr (src\<lparr>Includes := inc, Excludes := exc\<rparr>)))"

fun sourceOptions :: "sourceFilter \<Rightarrow> members \<Rightarrow> terror + sourceFilter" where
  "sourceOptions src [] = Inr src"
| "sourceOptions src ((k, v) # obj) =
     (if k = ''includes'' \<or> k = ''include''
      then bindE (sourceList v) (\<lambda>ss. sourceOptions (src\<lparr>Includes := ss\<rparr>) obj)
      else if k = ''excludes'' \<or> k = ''exclude''
      then bindE (sourceList v) (\<lambda>ss. sourceOptions (src\<lparr>Excludes := ss\<rparr>) obj)
      else Inl (es_unsupportedErrf [T ''[_source] option ['', S k, T ''] is not supported'']))"

definition allSource :: sourceFilter where
  "allSource = emptySource\<lparr>FetchSource := True\<rparr>"

definition parseSource :: "json option \<Rightarrow> terror + sourceFilter" where
  "parseSource raw =
     (case raw of
        None \<Rightarrow> Inr allSource
      | Some JNull \<Rightarrow> Inr allSource
      | Some (JBool fetch) \<Rightarrow> Inr (allSource\<lparr>FetchSource := fetch\<rparr>)
      | Some (JStr one) \<Rightarrow> filterSourcePatterns (allSource\<lparr>Includes := [one]\<rparr>)
      | Some (JArr js) \<Rightarrow>
          (case unmarshalStrings (JArr js) of
             Some ss \<Rightarrow> filterSourcePatterns (allSource\<lparr>Includes := ss\<rparr>)
           | None \<Rightarrow> Inl (es_parseErrf [T ''[_source] array form must contain field names'']))
      | Some (JObj obj) \<Rightarrow> bindE (sourceOptions allSource obj) filterSourcePatterns
      | Some (JNum _) \<Rightarrow> Inl (es_parseErrf [T ''[_source] must be a boolean, string, array or object'']))"

subsection \<open>The knn clause\<close>

record knnClause =
  knField :: string
  knVector :: "gofloat list option"
  knK :: "int option"     \<comment> \<open>\<open>k\<close> and \<open>kSet\<close>\<close>
  knFilter :: "queryNode list"

definition emptyKnn :: knnClause where
  "emptyKnn = \<lparr>knField = [], knVector = None, knK = None, knFilter = []\<rparr>"

definition decodeNumber :: "json \<Rightarrow> string option" where
  "decodeNumber j = (case j of JNum n \<Rightarrow> Some n | _ \<Rightarrow> None)"

fun vectorItems :: "nat \<Rightarrow> json list \<Rightarrow> terror + gofloat list" where
  "vectorItems i [] = Inr []"
| "vectorItems i (item # items) =
     (case decodeNumber item of
        None \<Rightarrow> Inl (es_illegalErrf [T ''[knn] query_vector element '', D (int i), T '' must be a number, got '', V ''item''])
      | Some n \<Rightarrow>
          (case ParseFloat64 n of
             None \<Rightarrow> Inl (es_illegalErrf [T ''[knn] query_vector element '', D (int i), T '' does not parse as a number''])
           | Some f \<Rightarrow> bindE (vectorItems (i + 1) items) (\<lambda>fs. Inr (toFloat32 f # fs))))"

definition parseQueryVector :: "json \<Rightarrow> terror + gofloat list" where
  "parseQueryVector j =
     (case j of
        JArr items \<Rightarrow>
          bindE (vectorItems 0 items) (\<lambda>vec.
            if vec = [] then Inl (es_illegalErrf [T ''[knn] query_vector must not be empty'']) else Inr vec)
      | _ \<Rightarrow> Inl (es_parseErrf [T ''[knn] query_vector must be an array of numbers'']))"

definition positiveInt :: "json \<Rightarrow> string \<Rightarrow> terror + int" where
  "positiveInt j what =
     (case decodeInt j of
        Some n \<Rightarrow>
          if n < 1 then Inl (es_illegalErrf [T ''[knn] '', T what, T '' must be a positive integer, got '', V ''body''])
          else Inr n
      | None \<Rightarrow> Inl (es_illegalErrf [T ''[knn] '', T what, T '' must be a positive integer, got '', V ''body'']))"

fun knnMembers :: "knnClause \<Rightarrow> members \<Rightarrow> terror + knnClause" where
  "knnMembers c [] = Inr c"
| "knnMembers c ((name, body) # obj) =
     (if name = ''field'' then
        (case unmarshalString (knField c) body of
           Some f \<Rightarrow> knnMembers (c\<lparr>knField := f\<rparr>) obj
         | None \<Rightarrow> Inl (es_parseErrf [T ''[knn] field must be a string'']))
      else if name = ''query_vector'' then
        bindE (parseQueryVector body) (\<lambda>v. knnMembers (c\<lparr>knVector := Some v\<rparr>) obj)
      else if name = ''k'' then bindE (positiveInt body ''k'') (\<lambda>n. knnMembers (c\<lparr>knK := Some n\<rparr>) obj)
      else if name = ''filter'' then
        bindE (parseClauseList body) (\<lambda>qs. knnMembers (c\<lparr>knFilter := qs\<rparr>) obj)
      else if name = ''num_candidates'' then bindE (positiveInt body ''num_candidates'') (\<lambda>_. knnMembers c obj)
      else if name = ''similarity'' then
        Inl (es_unsupportedErrf [T ''[knn] similarity threshold is not supported (needs Milvus range search)''])
      else if name = ''boost'' \<or> name = ''_name'' then knnMembers c obj
      else Inl (es_parseErrf [T ''[knn] unknown parameter ['', S name, T '']'']))"

definition parseKnn :: "json \<Rightarrow> terror + string \<times> gofloat list \<times> int option \<times> queryNode list" where
  "parseKnn raw =
     (case raw of
        JArr _ \<Rightarrow> Inl (es_unsupportedErrf
          [T ''[knn] array form (multiple knn clauses with score fusion) is not supported; send one knn clause per search''])
      | _ \<Rightarrow>
          bindE (expectObject raw ''knn'') (\<lambda>obj.
          bindE (knnMembers emptyKnn obj) (\<lambda>c.
            if knField c = [] then Inl (es_parseErrf [T ''[knn] query requires a [field]''])
            else case knVector c of
                None \<Rightarrow> Inl (es_parseErrf [T ''[knn] query requires a [query_vector]''])
              | Some v \<Rightarrow> Inr (knField c, v, knK c, knFilter c))))"

subsection \<open>Translate\<close>

definition queryMember :: "members \<Rightarrow> terror + queryNode" where
  "queryMember req = (case map_of req ''query'' of None \<Rightarrow> Inr MatchAll | Some raw \<Rightarrow> parseQueryNode raw)"

definition filterPlan :: "schema \<Rightarrow> queryNode \<Rightarrow> plan \<Rightarrow> terror + plan" where
  "filterPlan sch root p =
     (if isMatchNone root then Inr (p\<lparr>pNoMatch := True\<rparr>)
      else bindE (buildExpr sch root) (\<lambda>e. Inr (p\<lparr>pExpr := e\<rparr>)))"

definition knnPlan :: "schema \<Rightarrow> members \<Rightarrow> json \<Rightarrow> plan \<Rightarrow> terror + plan" where
  "knnPlan sch req raw p =
     (if map_of req ''query'' \<noteq> None
      then Inl (es_unsupportedErrf [T ''[knn] cannot be combined with [query]: fusing their scores is beyond lyrebird'', sq,
             T ''s surface; send one or the other''])
      else if pSort p \<noteq> []
      then Inl (es_unsupportedErrf [T ''[knn] cannot be combined with [sort]: the ordering is the ANN nearest-first order''])
      else bindE (parseKnn raw) (\<lambda>(field, vector, k, flt).
        filterPlan sch (BoolQ [] flt [] [] 0)
          (p\<lparr>pLimit := (case k of None \<Rightarrow> pLimit p | Some n \<Rightarrow> n),
             pSearch := Some \<lparr>ssField = field, ssVector = vector, ssMetric = None\<rparr>\<rparr>)))"

definition es_Translate :: "(string \<times> json) requestBody \<Rightarrow> schema option \<Rightarrow> terror + plan" where
  "es_Translate body schema =
     bindE (decodeBody body) (\<lambda>req.
     bindE (rejectFeatures req unsupportedFeatures) (\<lambda>_.
     bindE (es_parsePaging req) (\<lambda>(start, size).
     bindE (parseSort (map_of req ''sort'')) (\<lambda>sorts.
     bindE (parseSource (map_of req ''_source'')) (\<lambda>source.
     bindE (queryMember req) (\<lambda>q.
     bindE (es_fold q) (\<lambda>root.
       let p = emptyPlan\<lparr>pOffset := start, pLimit := size, pSort := sorts, pSource := source\<rparr> in
       case map_of req ''knn'' of
         None \<Rightarrow> filterPlan (schemaOrEmpty schema) root p
       | Some raw \<Rightarrow> knnPlan (schemaOrEmpty schema) req raw p)))))))"

subsection \<open>Documents\<close>

text \<open>A member of a document: its name, its raw bytes and its decoded value, \<open>None\<close> when the raw
  bytes do not decode.\<close>

type_synonym docMember = "string \<times> string \<times> json option"

fun docVector :: "string \<Rightarrow> nat \<Rightarrow> json list \<Rightarrow> terror + gofloat list" where
  "docVector name i [] = Inr []"
| "docVector name i (item # items) =
     (case item of
        JNum n \<Rightarrow>
          (case ParseFloat64 n of
             None \<Rightarrow> Inl (es_illegalErrf [T ''failed to parse field ['', S name, T ''] of type [dense_vector]: entry '',
               D (int i + 1), T '' (['', S n, T '']) is not a number''])
           | Some f \<Rightarrow> bindE (docVector name (i + 1) items) (\<lambda>fs. Inr (toFloat32 f # fs)))
      | _ \<Rightarrow> Inl (es_illegalErrf [T ''failed to parse field ['', S name, T ''] of type [dense_vector]: entry '',
               D (int i + 1), T '' is not a number'']))"

definition decodeWriteValue :: "string \<Rightarrow> string \<Rightarrow> json option \<Rightarrow> schema \<Rightarrow> terror + gval" where
  "decodeWriteValue name raw v sch =
     (let raw = trimSpace raw in
      if raw = [] then Inl (es_parseErrf [T ''field ['', S name, T ''] has an empty value''])
      else case v of
        None \<Rightarrow> Inl (es_parseErrf [T ''field ['', S name, T ''] is not valid JSON: '', V ''err''])
      | Some JNull \<Rightarrow> Inr GNil
      | Some (JStr x) \<Rightarrow> Inr (GStr x)
      | Some (JBool b) \<Rightarrow> Inr (GBool b)
      | Some (JNum n) \<Rightarrow> Inr (GNum n)
      | Some (JArr items) \<Rightarrow>
          if FieldType sch name \<noteq> TypeVector then Inr (GRaw raw)
          else bindE (docVector name 0 items) (\<lambda>vec. Inr (GVec vec))
      | Some (JObj _) \<Rightarrow>
          if FieldType sch name = TypeVector
          then Inl (es_illegalErrf [T ''failed to parse field ['', S name,
                 T ''] of type [dense_vector]: expected an array of numbers''])
          else Inr (GRaw raw))"

fun docRow :: "schema \<Rightarrow> docMember list \<Rightarrow> writeRow \<Rightarrow> terror + writeRow" where
  "docRow sch [] row = Inr row"
| "docRow sch ((name, raw, v) # ms) row =
     bindE (decodeWriteValue name raw v sch) (\<lambda>x. docRow sch ms (setKey name x row))"

definition DecodeDocument :: "docMember requestBody \<Rightarrow> schema option \<Rightarrow> terror + writeRow" where
  "DecodeDocument body schema =
     bindE (decodeBody body) (\<lambda>req. docRow (schemaOrEmpty schema) req [])"


subsection \<open>What the request parsers guarantee\<close>

lemma okQuery_mono: "okQuery P m \<Longrightarrow> (\<And>x. P x \<Longrightarrow> R x) \<Longrightarrow> okQuery R m"
  by (cases m) auto

lemma okQuery_mapE:
  "(\<And>x. x \<in> set xs \<Longrightarrow> okQuery P (f x)) \<Longrightarrow> okQuery (\<lambda>ys. \<forall>y \<in> set ys. P y) (mapE f xs)"
proof (induction xs)
  case (Cons x xs)
  then have "okQuery P (f x)" "okQuery (\<lambda>ys. \<forall>y \<in> set ys. P y) (mapE f xs)" by simp_all
  then show ?case by (auto intro!: okQuery_bind)
qed simp

lemma windowMember_ok: "0 \<le> d \<Longrightarrow> okQuery (\<lambda>n. 0 \<le> n) (windowMember name d req)"
  by (auto simp: windowMember_def split: option.split)

lemma windowMember_in64: "in64 d \<Longrightarrow> windowMember name d req = Inr n \<Longrightarrow> in64 n"
  by (auto simp: windowMember_def decodeInt_def ParseInt_in64
      split: option.splits if_splits json.splits)

definition windowBound :: "int \<Rightarrow> int \<Rightarrow> bool" where
  "windowBound start lim \<longleftrightarrow> 0 \<le> start \<and> 0 \<le> lim \<and>
     (start + lim \<le> es_maxResultWindow \<or> maxInt64 < start + lim)"

lemma windowBoundI:
  "0 \<le> start \<Longrightarrow> 0 \<le> lim \<Longrightarrow> wrap64 (start + lim) \<le> es_maxResultWindow \<Longrightarrow> windowBound start lim"
  using wrap64_id[of "start + lim"] by (auto simp: windowBound_def in64_def minInt64_def)

lemma es_parsePaging_ok: "okQuery (\<lambda>(start, lim). windowBound start lim) (es_parsePaging req)"
proof -
  have d: "0 \<le> (0::int)" "0 \<le> defaultSize" by (simp_all add: defaultSize_def)
  show ?thesis
    unfolding es_parsePaging_def
    by (rule okQuery_bind[OF windowMember_ok[OF d(1)]], rule okQuery_bind[OF windowMember_ok[OF d(2)]])
      (auto intro: windowBoundI)
qed

definition sortable :: "sortClause \<Rightarrow> bool" where
  "sortable c \<longleftrightarrow> scField c \<notin> {''_score'', ''_doc'', ''_geo_distance'', ''_script''}"

lemma es_sortClause_ok: "okQuery (\<lambda>r. \<forall>c. r = Some c \<longrightarrow> sortable c) (es_sortClause f order)"
  by (auto simp: es_sortClause_def sortable_def)

lemma sortOptions_ok: "okQuery (\<lambda>_. True) (sortOptions order opts)"
  by (induction order opts rule: sortOptions.induct) (auto simp: Let_def split: option.splits)

lemma parseSortObject_ok: "okQuery (\<lambda>r. \<forall>c. r = Some c \<longrightarrow> sortable c) (parseSortObject obj)"
  by (auto simp: parseSortObject_def intro!: es_sortClause_ok okQuery_bind[OF sortOptions_ok]
      split: list.split json.split)

lemma sortItem_ok: "okQuery (\<lambda>r. \<forall>c. r = Some c \<longrightarrow> sortable c) (sortItem item)"
  by (auto simp: sortItem_def intro!: es_sortClause_ok parseSortObject_ok split: json.split)

lemma keepClauses_set: "set (keepClauses cs) = {c. Some c \<in> set cs}"
  by (force simp: keepClauses_def split: option.splits)

lemma sortItems_ok:
  "okQuery (\<lambda>cs. \<forall>c \<in> set cs. sortable c) (bindE (mapE sortItem items) (\<lambda>cs. Inr (keepClauses cs)))"
  by (rule okQuery_bind[OF okQuery_mapE[OF sortItem_ok]]) (auto simp: keepClauses_set)

lemma parseSort_ok: "okQuery (\<lambda>cs. \<forall>c \<in> set cs. sortable c) (parseSort raw)"
  unfolding parseSort_def
  by (auto intro!: sortItems_ok split: option.split json.split simp del: mapE.simps)

definition supportedPattern :: "string \<Rightarrow> bool" where
  "supportedPattern p \<longleftrightarrow> p \<noteq> ''*'' \<and>
     (\<not> containsAny p ''*?'' \<or> hasSuffix p ''.*'' \<and> \<not> containsAny (trimSuffix p ''.*'') ''*?'')"

lemma cleanPatterns_ok: "okQuery (list_all supportedPattern) (cleanPatterns what ps)"
proof (induction ps)
  case (Cons p ps)
  then show ?case by (auto simp: supportedPattern_def intro!: okQuery_bind[OF Cons])
qed simp

definition supportedSource :: "sourceFilter \<Rightarrow> bool" where
  "supportedSource s \<longleftrightarrow> list_all supportedPattern (Includes s) \<and> list_all supportedPattern (Excludes s)"

lemma filterSourcePatterns_ok: "okQuery supportedSource (filterSourcePatterns s)"
  by (auto simp: filterSourcePatterns_def supportedSource_def intro!: okQuery_bind[OF cleanPatterns_ok])

lemma sourceList_ok: "okQuery (\<lambda>_. True) (sourceList j)"
  by (auto simp: sourceList_def split: json.split option.split)

lemma sourceOptions_ok: "okQuery (\<lambda>_. True) (sourceOptions s obj)"
  by (induction s obj rule: sourceOptions.induct) (auto intro!: okQuery_bind[OF sourceList_ok])

lemma parseSource_ok: "okQuery supportedSource (parseSource raw)"
  by (auto simp: parseSource_def supportedSource_def allSource_def emptySource_def
      intro!: filterSourcePatterns_ok okQuery_bind[OF sourceOptions_ok]
      split: option.split json.split)

lemma vectorItems_ok: "okQuery (\<lambda>_. True) (vectorItems i items)"
  by (induction i items rule: vectorItems.induct) (auto split: option.split intro!: okQuery_bind[of "\<lambda>_. True"])

lemma parseQueryVector_ok: "okQuery (\<lambda>v. v \<noteq> []) (parseQueryVector j)"
  by (auto simp: parseQueryVector_def intro!: okQuery_bind[OF vectorItems_ok] split: json.split)

lemma positiveInt_ok: "okQuery (\<lambda>n. 1 \<le> n) (positiveInt j what)"
  by (auto simp: positiveInt_def split: option.split)

definition knnShape :: "knnClause \<Rightarrow> bool" where
  "knnShape c \<longleftrightarrow> knVector c \<noteq> Some [] \<and> (\<forall>n. knK c = Some n \<longrightarrow> 1 \<le> n) \<and>
     (\<forall>q \<in> set (knFilter c). queryShape q)"

lemma knnMembers_ok: "knnShape c \<Longrightarrow> okQuery knnShape (knnMembers c obj)"
proof (induction c obj rule: knnMembers.induct)
  case (2 c name body obj)
  consider "name = ''field''" | "name = ''query_vector''" | "name = ''k''" | "name = ''filter''"
    | "name = ''num_candidates''"
    | "name \<notin> {''field'', ''query_vector'', ''k'', ''filter'', ''num_candidates''}"
    by blast
  then show ?case
    by cases (use 2 in \<open>auto simp: knnShape_def intro!: okQuery_bind[OF parseQueryVector_ok]
        okQuery_bind[OF positiveInt_ok] okQuery_bind[OF query_ok(4)] split: option.split\<close>)
qed simp

lemma parseKnn_ok:
  "okQuery (\<lambda>(field, vector, k, flt). field \<noteq> [] \<and> vector \<noteq> [] \<and> (\<forall>n. k = Some n \<longrightarrow> 1 \<le> n) \<and>
     (\<forall>q \<in> set flt. queryShape q)) (parseKnn raw)"
proof -
  have "knnShape emptyKnn" by (simp add: knnShape_def emptyKnn_def)
  note ok = knnMembers_ok[OF this]
  have "okQuery (\<lambda>(field, vector, k, flt). field \<noteq> [] \<and> vector \<noteq> [] \<and> (\<forall>n. k = Some n \<longrightarrow> 1 \<le> n) \<and>
      (\<forall>q \<in> set flt. queryShape q))
    (bindE (expectObject raw ''knn'') (\<lambda>obj.
     bindE (knnMembers emptyKnn obj) (\<lambda>c.
       if knField c = [] then Inl (es_parseErrf [T ''[knn] query requires a [field]''])
       else case knVector c of
           None \<Rightarrow> Inl (es_parseErrf [T ''[knn] query requires a [query_vector]''])
         | Some v \<Rightarrow> Inr (knField c, v, knK c, knFilter c))))"
    by (rule okQuery_bind[OF expectObject_ok], rule okQuery_bind[OF ok])
      (auto simp: knnShape_def split: option.split)
  then show ?thesis unfolding parseKnn_def by (auto split: json.split)
qed

lemma queryMember_ok: "okQuery queryShape (queryMember req)"
  by (auto simp: queryMember_def query_ok split: option.split)

lemma rejectFeatures_ok: "okQuery (\<lambda>_. True) (rejectFeatures req feats)"
  by (induction req feats rule: rejectFeatures.induct) auto

lemma decodeBody_ok: "okQuery (\<lambda>_. True) (decodeBody body)"
  by (cases body) auto

lemma es_fold_ok: "okQuery (\<lambda>_. True) (es_fold q)"
  using es_fold_classified by (cases "es_fold q") auto

lemma buildExpr_ok: "okQuery (\<lambda>_. True) (buildExpr sch q)"
  using buildExpr_classified by (cases "buildExpr sch q") auto

subsection \<open>The plan\<close>

definition esPlanShape :: "plan \<Rightarrow> bool" where
  "esPlanShape p \<longleftrightarrow> 0 \<le> pOffset p \<and> 0 \<le> pLimit p \<and> (\<forall>c \<in> set (pSort p). sortable c) \<and>
     supportedSource (pSource p) \<and>
     (case pSearch p of
        None \<Rightarrow> windowBound (pOffset p) (pLimit p)
      | Some s \<Rightarrow> ssField s \<noteq> [] \<and> ssVector s \<noteq> [] \<and> ssMetric s = None \<and> pSort p = [])"

lemma filterPlan_ok:
  "(\<And>e. esPlanShape (p\<lparr>pExpr := e\<rparr>)) \<Longrightarrow> esPlanShape (p\<lparr>pNoMatch := True\<rparr>) \<Longrightarrow>
   okQuery esPlanShape (filterPlan sch root p)"
  by (auto simp: filterPlan_def intro!: okQuery_bind[OF buildExpr_ok])

lemma knnPlan_ok:
  assumes "esPlanShape p"
  shows "okQuery esPlanShape (knnPlan sch req raw p)"
proof -
  have "okQuery esPlanShape (filterPlan sch (BoolQ [] flt [] [] 0)
      (p\<lparr>pLimit := (case k of None \<Rightarrow> pLimit p | Some n \<Rightarrow> n),
         pSearch := Some \<lparr>ssField = field, ssVector = vector, ssMetric = None\<rparr>\<rparr>))"
    if "field \<noteq> []" "vector \<noteq> []" "\<forall>n. k = Some n \<longrightarrow> 1 \<le> n" "pSort p = []" for field vector k flt
    using that assms by (intro filterPlan_ok) (auto simp: esPlanShape_def split: option.splits)
  then show ?thesis
    unfolding knnPlan_def by (auto intro!: okQuery_bind[OF parseKnn_ok])
qed

lemma es_Translate_ok: "okQuery esPlanShape (es_Translate body schema)"
proof -
  have "okQuery esPlanShape (case map_of req ''knn'' of
         None \<Rightarrow> filterPlan (schemaOrEmpty schema) root p
       | Some raw \<Rightarrow> knnPlan (schemaOrEmpty schema) req raw p)"
    if "p = emptyPlan\<lparr>pOffset := start, pLimit := size, pSort := sorts, pSource := source\<rparr>"
      "windowBound start size" "\<forall>c \<in> set sorts. sortable c" "supportedSource source"
    for req root p start size sorts source
  proof -
    have "esPlanShape p" using that by (auto simp: esPlanShape_def windowBound_def emptyPlan_def)
    moreover have "esPlanShape (p\<lparr>pExpr := e\<rparr>)" "esPlanShape (p\<lparr>pNoMatch := True\<rparr>)" for e
      using that by (auto simp: esPlanShape_def windowBound_def emptyPlan_def)
    ultimately show ?thesis by (auto intro: filterPlan_ok knnPlan_ok split: option.split)
  qed
  note final = this
  show ?thesis
    unfolding es_Translate_def Let_def
    apply (rule okQuery_bind[OF decodeBody_ok])
    apply (rule okQuery_bind[OF rejectFeatures_ok])
    apply (rule okQuery_bind[OF es_parsePaging_ok], clarsimp)
    apply (rule okQuery_bind[OF parseSort_ok])
    apply (rule okQuery_bind[OF parseSource_ok])
    apply (rule okQuery_bind[OF queryMember_ok])
    apply (rule okQuery_bind[OF es_fold_ok])
    apply (rule final[OF refl])
    by assumption+
qed


subsection \<open>What a plan admits\<close>

lemma filterPlan_cases:
  assumes "filterPlan sch root p0 = Inr p"
  obtains "root = MatchNone" "p = p0\<lparr>pNoMatch := True\<rparr>"
  | e where "root \<noteq> MatchNone" "buildExpr sch root = Inr e" "p = p0\<lparr>pExpr := e\<rparr>"
  using assms by (auto simp: filterPlan_def isMatchNone_def bindE_eq_Inr split: if_splits)

lemma filterPlan_exact:
  assumes plan: "filterPlan sch root p0 = Inr p" "\<not> pNoMatch p0"
    and root: "esFolded root" and fits: "fitsRow sch row (comparedFields (pExpr p))"
  shows "planAdmits atom row p \<longleftrightarrow> foldedMatch (leafHolds atom row sch) root"
  using plan(1)
proof (cases rule: filterPlan_cases)
  case 1
  then show ?thesis by (simp add: planAdmits_def)
next
  case (2 e)
  show ?thesis
  proof (cases "root = MatchAll")
    case True
    with 2 plan(2) show ?thesis by (simp add: planAdmits_def)
  next
    case False
    with 2 root have "esPart root" by (simp add: esFolded_def)
    from buildExpr_exact[OF this 2(2), of row atom] 2(3) fits plan(2)
    show ?thesis by (simp add: planAdmits_def)
  qed
qed

lemma filterClauses_exact:
  assumes build: "buildExpr sch (BoolQ [] flt [] [] 0) = Inr e" and clauses: "\<forall>c \<in> set flt. esFolded c"
    and fits: "fitsRow sch row (comparedFields e)"
  shows "passes atom row e \<longleftrightarrow> (\<forall>c \<in> set flt. foldedMatch (leafHolds atom row sch) c)"
proof -
  from build obtain f where f: "mapE (buildExpr sch) flt = Inr f" and e: "e = joinBool sch f [] []"
    by (auto simp: bindE_eq_Inr)
  have "passes atom row d \<longleftrightarrow> foldedMatch (leafHolds atom row sch) c"
    if c: "c \<in> set flt" and d: "d \<in> set f" and b: "buildExpr sch c = Inr d" for c d
  proof (cases "c = MatchAll \<or> c = MatchNone")
    case True
    with b show ?thesis by auto
  next
    case False
    with clauses c have "esPart c" by (auto simp: esFolded_def)
    moreover have "fitsRow sch row (comparedFields d)"
      using fits by (rule fitsRow_mono) (use d in \<open>auto simp: e joinBool_fields\<close>)
    ultimately show ?thesis using buildExpr_exact[OF _ b] by blast
  qed
  then have "list_all2 (\<lambda>c d. passes atom row d \<longleftrightarrow> foldedMatch (leafHolds atom row sch) c) flt f"
    using f unfolding mapE_eq_Inr by (auto intro: list.rel_mono_strong)
  then have "(\<forall>d \<in> set f. passes atom row d) \<longleftrightarrow> (\<forall>c \<in> set flt. foldedMatch (leafHolds atom row sch) c)"
    by (induction flt f rule: list_all2_induct) auto
  moreover have "passes atom row e \<longleftrightarrow> (\<forall>d \<in> set f. passes atom row d)"
    unfolding e joinBool_conjoin conjoin_passes set_append ball_Un groupE_And
    by (auto simp: notNil_def groupE_def)
  ultimately show ?thesis by simp
qed

definition pagedPlan :: "int \<Rightarrow> int \<Rightarrow> sortClause list \<Rightarrow> sourceFilter \<Rightarrow> plan" where
  "pagedPlan start lim sorts source =
     emptyPlan\<lparr>pOffset := start, pLimit := lim, pSort := sorts, pSource := source\<rparr>"

lemma pagedPlan_simps [simp]:
  "pExpr (pagedPlan start lim sorts source) = NilE" "pOffset (pagedPlan start lim sorts source) = start"
  "pLimit (pagedPlan start lim sorts source) = lim" "pSort (pagedPlan start lim sorts source) = sorts"
  "pSource (pagedPlan start lim sorts source) = source" "\<not> pNoMatch (pagedPlan start lim sorts source)"
  "pSearch (pagedPlan start lim sorts source) = None"
  by (simp_all add: pagedPlan_def emptyPlan_def)

lemma es_Translate_cases:
  assumes "es_Translate body schema = Inr p"
  obtains req start lim sorts source q root where "decodeBody body = Inr req"
    "es_parsePaging req = Inr (start, lim)" "parseSort (map_of req ''sort'') = Inr sorts"
    "parseSource (map_of req ''_source'') = Inr source" "queryMember req = Inr q" "es_fold q = Inr root"
    "case map_of req ''knn'' of
       None \<Rightarrow> filterPlan (schemaOrEmpty schema) root (pagedPlan start lim sorts source) = Inr p
     | Some raw \<Rightarrow> knnPlan (schemaOrEmpty schema) req raw (pagedPlan start lim sorts source) = Inr p"
  using assms unfolding es_Translate_def bindE_eq_Inr Let_def pagedPlan_def[symmetric]
  by (auto simp: bindE_eq_Inr split: option.splits)

lemma filterPlan_window:
  assumes "filterPlan sch root p0 = Inr p"
  shows "pOffset p = pOffset p0 \<and> pLimit p = pLimit p0 \<and> pSort p = pSort p0 \<and> pSource p = pSource p0 \<and>
    pSearch p = pSearch p0"
  using assms by (cases rule: filterPlan_cases) auto

lemma knnPlan_cases:
  assumes "knnPlan sch req raw p0 = Inr p"
  obtains field vector k flt where "map_of req ''query'' = None" "pSort p0 = []"
    "parseKnn raw = Inr (field, vector, k, flt)"
    "filterPlan sch (BoolQ [] flt [] [] 0)
       (p0\<lparr>pLimit := (case k of None \<Rightarrow> pLimit p0 | Some n \<Rightarrow> n),
          pSearch := Some \<lparr>ssField = field, ssVector = vector, ssMetric = None\<rparr>\<rparr>) = Inr p"
  using assms unfolding knnPlan_def by (auto simp: bindE_eq_Inr split: if_splits)

subsection \<open>What a document row holds\<close>

text \<open>The value stored for a member stands for exactly the value sent.\<close>

definition keepsValue :: "string \<Rightarrow> json option \<Rightarrow> gval \<Rightarrow> bool" where
  "keepsValue raw v x =
     (case x of
        GNil \<Rightarrow> v = Some JNull
      | GStr s \<Rightarrow> v = Some (JStr s)
      | GNum n \<Rightarrow> v = Some (JNum n)
      | GBool b \<Rightarrow> v = Some (JBool b)
      | GRaw r \<Rightarrow> r = trimSpace raw \<and> ((\<exists>js. v = Some (JArr js)) \<or> (\<exists>obj. v = Some (JObj obj)))
      | GVec fs \<Rightarrow> (\<exists>ns. v = Some (JArr (map JNum ns)) \<and>
          list_all2 (\<lambda>n f. \<exists>y. ParseFloat64 n = Some y \<and> f = toFloat32 y) ns fs)
      | _ \<Rightarrow> False)"

lemma docVector_Inr:
  "docVector name i items = Inr fs \<Longrightarrow>
   \<exists>ns. items = map JNum ns \<and> list_all2 (\<lambda>n f. \<exists>y. ParseFloat64 n = Some y \<and> f = toFloat32 y) ns fs"
proof (induction name i items arbitrary: fs rule: docVector.induct)
  case (2 name i item items)
  from 2(2) obtain n y gs where n: "item = JNum n" "ParseFloat64 n = Some y"
    and gs: "docVector name (i + 1) items = Inr gs" "fs = toFloat32 y # gs"
    by (auto simp: bindE_eq_Inr split: json.splits option.splits)
  from 2(1)[OF n gs(1)] obtain ns where ns: "items = map JNum ns"
    "list_all2 (\<lambda>n f. \<exists>y. ParseFloat64 n = Some y \<and> f = toFloat32 y) ns gs" by blast
  have "item # items = map JNum (n # ns)" using n ns by simp
  moreover have "list_all2 (\<lambda>n f. \<exists>y. ParseFloat64 n = Some y \<and> f = toFloat32 y) (n # ns) fs"
    using n ns gs by simp
  ultimately show ?case by (intro exI[of _ "n # ns"] conjI)
qed simp

lemma docVector_ok: "okQuery (\<lambda>_. True) (docVector name i items)"
proof (induction name i items rule: docVector.induct)
  case (2 name i item items)
  show ?case
  proof (cases item)
    case (JNum n)
    show ?thesis
    proof (cases "ParseFloat64 n")
      case (Some y)
      with 2[OF JNum] JNum show ?thesis by (simp add: okQuery_bind)
    qed (simp add: JNum)
  qed simp_all
qed simp

definition vectorOnly :: "schema \<Rightarrow> string \<Rightarrow> gval \<Rightarrow> bool" where
  "vectorOnly sch name x \<longleftrightarrow> (FieldType sch name = TypeVector \<longrightarrow> (\<forall>r. x \<noteq> GRaw r)) \<and>
     ((\<exists>fs. x = GVec fs) \<longrightarrow> FieldType sch name = TypeVector)"

lemma decodeWriteValue_Inr:
  "decodeWriteValue name raw v sch = Inr x \<Longrightarrow> keepsValue raw v x \<and> vectorOnly sch name x"
  by (auto simp: decodeWriteValue_def Let_def keepsValue_def vectorOnly_def bindE_eq_Inr dest!: docVector_Inr
      split: if_splits option.splits json.splits)

lemma decodeWriteValue_ok: "okQuery (\<lambda>_. True) (decodeWriteValue name raw v sch)"
  by (auto simp: decodeWriteValue_def Let_def intro!: okQuery_bind[OF docVector_ok]
      split: option.split json.split)

lemma docRow_ok: "okQuery (\<lambda>_. True) (docRow sch ms row)"
  by (induction sch ms row rule: docRow.induct) (auto intro!: okQuery_bind[OF decodeWriteValue_ok])

lemma docRow_Inr:
  "docRow sch ms row0 = Inr row \<Longrightarrow> distinct (map fst ms) \<Longrightarrow>
   fst ` set row = fst ` set row0 \<union> fst ` set ms \<and>
   (distinct (map fst row0) \<longrightarrow> distinct (map fst row)) \<and>
   (\<forall>name. name \<notin> fst ` set ms \<longrightarrow> map_of row name = map_of row0 name) \<and>
   (\<forall>(name, raw, v) \<in> set ms. \<exists>x. map_of row name = Some x \<and> keepsValue raw v x \<and> vectorOnly sch name x)"
proof (induction sch ms row0 rule: docRow.induct)
  case (2 sch name raw v ms row0)
  from 2(2) obtain x where x: "decodeWriteValue name raw v sch = Inr x"
    "docRow sch ms (setKey name x row0) = Inr row"
    by (auto simp: bindE_eq_Inr)
  from 2(3) have "name \<notin> fst ` set ms" "distinct (map fst ms)" by simp_all
  with 2(1)[OF x(1) x(2)] decodeWriteValue_Inr[OF x(1)]
  show ?case by (auto simp: fst_setKey distinct_setKey)
qed auto


subsection \<open>Properties\<close>



text \<open>Every plan of an \<open>_search\<close> body is well formed: offset and limit are non-negative, a plan
  without a vector clause stays within the first 10000 rows unless the machine sum of \<open>from\<close> and
  \<open>size\<close> overflows, sort terms are fields, source patterns are of the two supported forms, and a
  vector search has a field, a non-empty vector, no metric of its own and no sort.\<close>

theorem es_Translate_wf:
  assumes "es_Translate body schema = Inr p"
  shows "esPlanShape p"
  using es_Translate_ok[of body schema] assms by simp

text \<open>C40. Whatever a client sends as a search body or a document, translation ends with a result or
  with an error of one of the three exception types with status 400.\<close>

theorem es_errors_classified:
  "(es_Translate body schema = Inl e \<longrightarrow> es_classified e) \<and>
   (DecodeDocument doc schema' = Inl e' \<longrightarrow> es_classified e')"
proof -
  have "okQuery (\<lambda>_. True) (DecodeDocument doc schema')"
    unfolding DecodeDocument_def by (rule okQuery_bind[OF decodeBody_ok]) (rule docRow_ok)
  with es_Translate_ok[of body schema] show ?thesis by (auto simp: okQuery_def split: sum.splits)
qed

text \<open>C38. Decoding a document loses nothing: the row has exactly the document's members, each value
  is the value sent (numbers as written, arrays and objects as their raw bytes), and only a
  vector field's array is turned into 32-bit floats, entry by entry.\<close>

theorem DecodeDocument_lossless:
  assumes "DecodeDocument (ObjectBody ms) schema = Inr row" "distinct (map fst ms)"
  shows "distinct (map fst row) \<and> fst ` set row = fst ` set ms \<and>
    (\<forall>(name, raw, v) \<in> set ms. \<exists>x. map_of row name = Some x \<and> keepsValue raw v x \<and>
       vectorOnly (schemaOrEmpty schema) name x)"
  using docRow_Inr[of "schemaOrEmpty schema" ms "[]" row] assms
  by (simp add: DecodeDocument_def del: map_of_eq_Some_iff)

text \<open>A \<open>minimum_should_match\<close> without should clauses can match nothing, but folding keeps the
  query; and the filter of a vector clause, which is not folded, turns an optional should
  clause into a required one and drops a must_not of everything.\<close>

lemma es_msm_without_should:
  "(case queryMember [(''query'', JObj [(''bool'', JObj [(''minimum_should_match'', JNum ''1'')])])] of
      Inl _ \<Rightarrow> False
    | Inr q \<Rightarrow> \<not> esMatch (\<lambda>_. True) q \<and> es_fold q = Inr MatchAll)"
  by code_simp

lemma es_knn_filter_unfolded:
  "(let c = BoolQ [TermQ ''a'' (SBool True)] [] [TermQ ''b'' (SBool True)] [] 0 in
    es_fold c = Inr (BoolQ [TermQ ''a'' (SBool True)] [] [] [] 0) \<and>
    buildExpr (MapSchema []) (BoolQ [] [c] [] [] 0) =
      Inr (AndE [Compare Eq ''a'' (BoolValue True), Compare Eq ''b'' (BoolValue True)]) \<and>
    es_fold (BoolQ [] [] [] [MatchAll] 0) = Inr MatchNone \<and>
    buildExpr (MapSchema []) (BoolQ [] [BoolQ [] [] [] [MatchAll] 0] [] [] 0) = Inr NilE)"
  by code_simp

subsection \<open>Witnesses\<close>

definition sampleSearch :: members where
  "sampleSearch = [(''query'', JObj [(''bool'', JObj [(''must_not'', JObj [(''term'', JObj [(''a'', JBool True)])])])]),
     (''size'', JNum ''3'')]"

lemma sampleSearch_plan:
  "es_Translate (ObjectBody sampleSearch) None =
     Inr (emptyPlan\<lparr>pExpr := NotE (Compare Eq ''a'' (BoolValue True)), pLimit := 3, pSource := allSource\<rparr>)"
proof -
  have "(case es_Translate (ObjectBody sampleSearch) None of Inl _ \<Rightarrow> False
     | Inr p \<Rightarrow> pExpr p = NotE (Compare Eq ''a'' (BoolValue True)) \<and> pOffset p = 0 \<and> pLimit p = 3 \<and>
        pSort p = [] \<and> FetchSource (pSource p) \<and> Includes (pSource p) = [] \<and> Excludes (pSource p) = [] \<and>
        \<not> pNoMatch p \<and> pSearch p = None)"
    by code_simp
  then show ?thesis
    by (auto simp: emptyPlan_def allSource_def emptySource_def split: sum.splits)
qed

lemma sampleSearch_query:
  "queryMember sampleSearch = Inr (BoolQ [] [] [] [TermQ ''a'' (SBool True)] 0)"
  by code_simp


lemma es_Translate_wf_witness:
  "esPlanShape (emptyPlan\<lparr>pExpr := NotE (Compare Eq ''a'' (BoolValue True)), pLimit := 3, pSource := allSource\<rparr>)"
  by (rule es_Translate_wf[OF sampleSearch_plan])

lemma es_errors_classified_witness: "es_classified (es_parseErrf [T ''request body is not valid JSON: '', V ''err''])"
  using es_errors_classified[of "InvalidBody" None "es_parseErrf [T ''request body is not valid JSON: '', V ''err'']"]
  by (simp add: es_Translate_def)

lemma DecodeDocument_lossless_witness:
  "\<exists>x. map_of [(''a'', GNum ''12''), (''b'', GRaw ''[1]'')] ''b'' = Some x \<and>
     keepsValue '' [1] '' (Some (JArr [JNum ''1''])) x"
proof -
  have "DecodeDocument (ObjectBody [(''a'', ''12'', Some (JNum ''12'')), (''b'', '' [1] '', Some (JArr [JNum ''1'']))]) None
    = Inr [(''a'', GNum ''12''), (''b'', GRaw ''[1]'')]"
    by code_simp
  from DecodeDocument_lossless[OF this] show ?thesis by auto
qed

definition sampleKnn :: json where
  "sampleKnn = JObj [(''field'', JStr ''v''), (''query_vector'', JArr [JNum ''0'']), (''k'', JNum ''2''),
     (''filter'', JObj [(''exists'', JObj [(''field'', JStr ''a'')])])]"

lemma ParseFloat64_zero: "ParseFloat64 ''0'' = Some (Fin False 0)"
proof -
  have "special ''0'' = None" "readFloat ''0'' = Some (False, 0, 1)" by code_simp+
  then show ?thesis
    by (simp add: ParseFloat64_def round64_def roundUnits_def roundHalfEven_def bitLen.simps[of 0])
qed

lemma sampleKnn_parse: "parseKnn sampleKnn = Inr (''v'', [Fin False 0], Some 2, [ExistsQ ''a''])"
proof -
  have vec: "parseQueryVector (JArr [JNum ''0'']) = Inr [Fin False 0]"
    by (simp add: parseQueryVector_def decodeNumber_def ParseFloat64_zero round32_def roundUnits_def
        roundHalfEven_def bitLen.simps[of 0])
  have "positiveInt (JNum ''2'') ''k'' = Inr 2"
    "parseClauseList (JObj [(''exists'', JObj [(''field'', JStr ''a'')])]) = Inr [ExistsQ ''a'']"
    by code_simp+
  with vec show ?thesis
    by (simp add: parseKnn_def sampleKnn_def expectObject_def unmarshalString_def emptyKnn_def)
qed


end
