(* ===== verification/EsHandler.thy ===== *)
theory EsHandler
  imports Cluster EsRequest
begin

text \<open>
  The Elasticsearch server's frame, \<open>internal/esserver/server.go\<close> and \<open>search.go\<close>: responses, error
  envelopes, panic recovery and the \<open>_search\<close> handler.

  A handler is a function of the cluster's state. It ends with a response, early (\<open>Inl\<close>) or at
  its end, or does not return (\<open>None\<close>) when a search of the cluster does not. A panic below is
  answered by the recovery of \<open>ServeHTTP\<close>. A request is given parsed: path values, the keys and
  first values of its query string, and its body read and decoded, or the message of a failed
  read. The body of an error names type, reason and index, which the envelope repeats as its
  root cause.
\<close>

subsection \<open>Responses\<close>

record searchItem =
  siIndex :: string
  siId :: string
  siScored :: bool          \<comment> \<open>\<open>_score\<close> is 1, or \<open>null\<close>\<close>
  siSource :: row

datatype esBody =
    ErrorBody string reason string
  | IndexBody string string string
  | SearchBody int bool "searchItem list"  \<comment> \<open>total, whether \<open>max_score\<close> is 1, hits\<close>
  | JsonBody json
  | TextBody string

record esResponse =
  esStatus :: int
  esBody :: esBody

definition writeJSON :: "int \<Rightarrow> esBody \<Rightarrow> esResponse" where
  "writeJSON status body = \<lparr>esStatus = status, esBody = body\<rparr>"

definition writeErrorEnvelope :: "int \<Rightarrow> string \<Rightarrow> reason \<Rightarrow> string \<Rightarrow> esResponse" where
  "writeErrorEnvelope status ty r index = writeJSON status (ErrorBody ty r index)"

definition es_writeError :: "int \<Rightarrow> reason \<Rightarrow> esResponse" where
  "es_writeError status r = writeErrorEnvelope status ''lyrebird_error'' r []"

definition writeUnsupported :: "reason \<Rightarrow> esResponse" where
  "writeUnsupported what =
     writeErrorEnvelope 400 ''unsupported_exception'' (what @ [T '' is beyond lyrebird's Phase 1 surface'']) []"

definition writeTranslateError :: "terror \<Rightarrow> esResponse" where
  "writeTranslateError e = writeErrorEnvelope (Status e) (Type e) (Reason e) []"

definition panicResponse :: esResponse where
  "panicResponse = es_writeError 500 [T ''internal error while handling the request'']"

definition isPanic :: "storeError \<Rightarrow> bool" where
  "isPanic e \<longleftrightarrow> e = StorePanic \<or> e = WriteFail Panicked"

definition writeExecError :: "string \<Rightarrow> storeError \<Rightarrow> esResponse" where
  "writeExecError index e =
     (case e of
        CollectionNotFound _ \<Rightarrow>
          writeErrorEnvelope 404 ''index_not_found_exception'' [T ''no such index ['', S index, T '']''] index
      | _ \<Rightarrow> writeErrorEnvelope 500 ''search_phase_execution_exception''
               [T ''search against milvus failed: '', V ''err''] index)"

subsection \<open>Handlers\<close>

type_synonym ('s, 'a) handler = "'s \<Rightarrow> ((esResponse + 'a) \<times> 's) option"

definition bindH :: "('s, 'a) handler \<Rightarrow> ('a \<Rightarrow> ('s, 'b) handler) \<Rightarrow> ('s, 'b) handler" where
  "bindH m f = (\<lambda>s. case m s of
     None \<Rightarrow> None | Some (Inl r, s') \<Rightarrow> Some (Inl r, s') | Some (Inr x, s') \<Rightarrow> f x s')"

definition returnH :: "'a \<Rightarrow> ('s, 'a) handler" where
  "returnH x = (\<lambda>s. Some (Inr x, s))"

definition stopH :: "esResponse \<Rightarrow> ('s, 'a) handler" where
  "stopH r = (\<lambda>s. Some (Inl r, s))"

text \<open>A check before any call, and a call of the cluster; \<open>render\<close> answers the error.\<close>

definition checkH :: "('e \<Rightarrow> esResponse) \<Rightarrow> 'e + 'a \<Rightarrow> ('s, 'a) handler" where
  "checkH render r = (\<lambda>s. Some (case r of Inl e \<Rightarrow> Inl (render e) | Inr x \<Rightarrow> Inr x, s))"

definition answered :: "(storeError \<Rightarrow> esResponse) \<Rightarrow> storeError + 'a \<Rightarrow> esResponse + 'a" where
  "answered render res = (case res of
     Inl e \<Rightarrow> Inl (if isPanic e then panicResponse else render e) | Inr x \<Rightarrow> Inr x)"

definition callH :: "(storeError \<Rightarrow> esResponse) \<Rightarrow> ('s, 'a) call \<Rightarrow> ('s, 'a) handler" where
  "callH render m = (\<lambda>s. case m s of (res, s') \<Rightarrow> Some (answered render res, s'))"

definition searchH ::
  "(storeError \<Rightarrow> esResponse) \<Rightarrow> ('s \<Rightarrow> ((storeError + 'a) \<times> 's) option) \<Rightarrow> ('s, 'a) handler" where
  "searchH render m = (\<lambda>s. case m s of None \<Rightarrow> None | Some (res, s') \<Rightarrow> Some (answered render res, s'))"

definition respond :: "('s, esResponse) handler \<Rightarrow> 's \<Rightarrow> (esResponse \<times> 's) option" where
  "respond m s = (case m s of
     None \<Rightarrow> None | Some (Inl r, s') \<Rightarrow> Some (r, s') | Some (Inr r, s') \<Rightarrow> Some (r, s'))"

named_theorems handler \<open>running a handler\<close>

lemma bindH_Some [handler]:
  "bindH m f s = Some (r, s') \<longleftrightarrow>
   (\<exists>e. m s = Some (Inl e, s') \<and> r = Inl e) \<or> (\<exists>x t. m s = Some (Inr x, t) \<and> f x t = Some (r, s'))"
  by (auto simp: bindH_def split: option.splits sum.splits)

lemma returnH_Some [handler]: "returnH x s = Some (r, s') \<longleftrightarrow> r = Inr x \<and> s' = s"
  by (auto simp: returnH_def)

lemma stopH_Some [handler]: "stopH e s = Some (r, s') \<longleftrightarrow> r = Inl e \<and> s' = s"
  by (auto simp: stopH_def)

lemma checkH_Some [handler]:
  "checkH render m s = Some (r, s') \<longleftrightarrow>
   s' = s \<and> ((\<exists>e. m = Inl e \<and> r = Inl (render e)) \<or> (\<exists>x. m = Inr x \<and> r = Inr x))"
  by (auto simp: checkH_def split: sum.splits)

lemma answered_Inr [handler]: "answered render res = Inr x \<longleftrightarrow> res = Inr x"
  by (auto simp: answered_def split: sum.splits)

lemma answered_Inl [handler]:
  "answered render res = Inl r \<longleftrightarrow>
   (\<exists>e. res = Inl e \<and> r = (if isPanic e then panicResponse else render e))"
  by (auto simp: answered_def split: sum.splits)

lemma callH_Some [handler]:
  "callH render m s = Some (r, s') \<longleftrightarrow> (\<exists>res. m s = (res, s') \<and> answered render res = r)"
  by (auto simp: callH_def split: prod.splits)

lemma searchH_Some [handler]:
  "searchH render m s = Some (r, s') \<longleftrightarrow> (\<exists>res. m s = Some (res, s') \<and> answered render res = r)"
  by (auto simp: searchH_def split: option.splits prod.splits)

lemma respond_Some [handler]:
  "respond m s = Some (r, s') \<longleftrightarrow> m s = Some (Inl r, s') \<or> m s = Some (Inr r, s')"
  by (auto simp: respond_def split: option.splits sum.splits)

subsection \<open>The search handler\<close>

definition containsComma :: "string \<Rightarrow> bool" where
  "containsComma s \<longleftrightarrow> list_ex (\<lambda>c. c = CHR '','') s"

text \<open>The parameters of a search that matter: \<open>q\<close> present, the \<open>source\<close> parameter (empty when
  absent), whether the request announces an empty body, and the two candidate bodies.\<close>

record searchRequest =
  sqIndex :: string
  sqHasQ :: bool
  sqSource :: string
  sqNoBody :: bool
  sqSourceBody :: "(string \<times> json) requestBody"
  sqBody :: "(string \<times> json) requestBody"

definition requestBodyOf :: "searchRequest \<Rightarrow> reason + (string \<times> json) requestBody" where
  "requestBodyOf r =
     (if sqHasQ r then Inl [T ''the q parameter (query-string query syntax)'']
      else if sqSource r \<noteq> [] \<and> sqNoBody r then Inr (sqSourceBody r)
      else Inr (sqBody r))"

definition writeSearchResult :: "string \<Rightarrow> plan \<Rightarrow> searchResult \<Rightarrow> esResponse" where
  "writeSearchResult index p result =
     (let sorted = pSort p \<noteq> [];
          items = map (\<lambda>h. \<lparr>siIndex = index, siId = hitId h, siScored = \<not> sorted, siSource = hitSource h\<rparr>) (srHits result)
      in writeJSON 200 (SearchBody (srTotal result) (\<not> sorted \<and> items \<noteq> []) items))"

definition searchHandler :: "'s cluster \<Rightarrow> searchRequest \<Rightarrow> 's \<Rightarrow> (esResponse \<times> 's) option" where
  "searchHandler cl r =
     (let index = sqIndex r in
      respond
       (if index = ''_all'' \<or> containsComma index
        then stopH (writeUnsupported [T ''_all / multi-index search''])
        else bindH (checkH writeUnsupported (requestBodyOf r)) (\<lambda>body.
          bindH (callH (writeExecError index) (clSchema cl index)) (\<lambda>sch.
          bindH (checkH writeTranslateError (es_Translate body (Some sch))) (\<lambda>p.
          bindH (searchH (writeExecError index) (clSearch cl index p)) (\<lambda>result.
            returnH (writeSearchResult index p result)))))))"

end
