(* ===== verification/EsWrite.thy ===== *)
theory EsWrite
  imports EsHandler GoJsonDecode GoArith
begin

text \<open>
  The document write APIs, \<open>internal/esserver/write.go\<close>: index and create (\<open>_doc\<close>, \<open>_create\<close>) and
  partial update (\<open>_update\<close>), with the reconciliation of the document id and the comparison that
  detects an update without effect.

  The sixteen-byte randomness of a generated id is an argument. A document body is decoded, and
  the body of an update has, under each member, the decoding of that member's raw bytes.
\<close>

subsection \<open>Classification of errors\<close>

definition illegalArgf :: "reason \<Rightarrow> terror" where
  "illegalArgf r = mkError ''illegal_argument_exception'' r"

definition parseArgf :: "reason \<Rightarrow> terror" where
  "parseArgf r = mkError ''parsing_exception'' r"

definition writeRequestError :: "string \<Rightarrow> terror \<Rightarrow> esResponse" where
  "writeRequestError index e = writeErrorEnvelope (Status e) (Type e) (Reason e) index"

fun esExceptionOf :: "writeClass \<Rightarrow> string \<times> int" where
  "esExceptionOf ClassUnknownField = (''strict_dynamic_mapping_exception'', 400)"
| "esExceptionOf ClassType = (''document_parsing_exception'', 400)"
| "esExceptionOf ClassRange = (''document_parsing_exception'', 400)"
| "esExceptionOf ClassNull = (''document_parsing_exception'', 400)"
| "esExceptionOf ClassDim = (''illegal_argument_exception'', 400)"
| "esExceptionOf ClassLength = (''illegal_argument_exception'', 400)"
| "esExceptionOf ClassMissing = (''illegal_argument_exception'', 400)"
| "esExceptionOf ClassAutoID = (''illegal_argument_exception'', 400)"
| "esExceptionOf ClassFunctionField = (''illegal_argument_exception'', 400)"
| "esExceptionOf _ = (''unsupported_exception'', 400)"

definition writeWriteError :: "string \<Rightarrow> storeError \<Rightarrow> esResponse" where
  "writeWriteError index e =
     (case e of
        WriteFail (Rejected we) \<Rightarrow>
          (case esExceptionOf (weClass we) of (ty, status) \<Rightarrow> writeErrorEnvelope status ty (weReason we) index)
      | _ \<Rightarrow> writeErrorEnvelope 500 ''internal_error_exception'' [T ''write against milvus failed: '', V ''err''] index)"

text \<open>The members of the answer besides these are constant, and its status is repeated in it.\<close>

definition writeIndexResponse :: "string \<Rightarrow> string \<Rightarrow> string \<Rightarrow> esResponse" where
  "writeIndexResponse index i result =
     writeJSON (if result = ''created'' then 201 else 200) (IndexBody index i result)"

subsection \<open>Document ids\<close>

text \<open>The zero \<open>FieldMeta\<close>; its type, the empty string, is read by nobody.\<close>

definition noField :: fieldMeta where
  "noField = \<lparr>fmName = [], fmType = TypeUnknown, fmPrimary = False, fmNullable = False, fmDim = 0,
     fmMaxLength = 0, fmNative = [], fmAutoID = False, fmElement = []\<rparr>"

definition primaryKeyOf :: "collectionMeta \<Rightarrow> fieldMeta" where
  "primaryKeyOf meta = (case find fmPrimary (cmFields meta) of Some f \<Rightarrow> f | None \<Rightarrow> noField)"

definition schemaOf :: "collectionMeta \<Rightarrow> schema" where
  "schemaOf meta = MapSchema (fold (\<lambda>f m. setKey (fmName f) (fmType f) m) (cmFields meta) [])"

definition base64Url :: string where
  "base64Url = ''ABCDEFGHIJKLMNOPQRSTUVWXYZabcdefghijklmnopqrstuvwxyz0123456789-_''"

text \<open>\<open>base64.RawURLEncoding\<close>: no padding.\<close>

fun rawURLEncode :: "nat list \<Rightarrow> string" where
  "rawURLEncode (a # b # c # r) =
     [base64Url ! (a div 4 mod 64), base64Url ! (a mod 4 * 16 + b div 16 mod 16),
      base64Url ! (b mod 16 * 4 + c div 64 mod 4), base64Url ! (c mod 64)] @ rawURLEncode r"
| "rawURLEncode [a, b] =
     [base64Url ! (a div 4 mod 64), base64Url ! (a mod 4 * 16 + b div 16 mod 16), base64Url ! (b mod 16 * 4)]"
| "rawURLEncode [a] = [base64Url ! (a div 4 mod 64), base64Url ! (a mod 4 * 16)]"
| "rawURLEncode [] = []"

text \<open>Fifteen random bytes, or the nanosecond clock when there is no randomness.\<close>

definition generateDocumentID :: "int + nat list \<Rightarrow> string" where
  "generateDocumentID random =
     (case random of Inr bs \<Rightarrow> rawURLEncode bs | Inl nano \<Rightarrow> ''lyrebird-'' @ FormatInt nano)"

definition mismatchErrf :: "string \<Rightarrow> gval \<Rightarrow> string \<Rightarrow> terror" where
  "mismatchErrf index got want =
     illegalArgf [T ''document primary key value ['', S (if got = GNil then ''<null>'' else showV got),
       T ''] disagrees with the URL id ['', S want, T ''] of index ['', S index, T '']'']"

definition docNumber :: "gval \<Rightarrow> gofloat option" where
  "docNumber v = (case v of
     GNum x \<Rightarrow> ParseFloat64 x | GInt64 n \<Rightarrow> Some (floatOfInt n) | GFloat64 y \<Rightarrow> Some y | _ \<Rightarrow> None)"

definition parseDocumentID :: "fieldMeta \<Rightarrow> string \<Rightarrow> terror + gval" where
  "parseDocumentID pk i =
     (if fmNative pk \<noteq> ''string'' then
        (case ParseInt i of
           None \<Rightarrow> Inl (illegalArgf [T ''['', S i, T ''] does not parse as the numeric primary key of the index''])
         | Some n \<Rightarrow> Inr (GInt64 n))
      else Inr (GStr i))"

definition resolveDocumentID :: "int + nat list \<Rightarrow> collectionMeta \<Rightarrow> writeRow \<Rightarrow> string \<Rightarrow> terror + gval" where
  "resolveDocumentID random meta row urlID =
     (let pk = primaryKeyOf meta; inDoc = map_of row (fmName pk) in
      if fmAutoID pk then
        (if urlID \<noteq> []
         then Inl (illegalArgf [T ''document id ['', S urlID, T ''] given for index ['', S (cmName meta),
                T ''] whose primary key is auto-generated: POST without an id''])
         else Inr GNil)
      else if fmNative pk = ''string'' then
        (let urlID = (if urlID = [] then generateDocumentID random else urlID) in
         case inDoc of
           Some v \<Rightarrow> if v = GStr urlID then Inr (GStr urlID) else Inl (mismatchErrf (cmName meta) v urlID)
         | None \<Rightarrow> Inr (GStr urlID))
      else if urlID = [] then
        Inl (illegalArgf [T ''index ['', S (cmName meta),
          T ''] primary key is numeric: PUT with an explicit id (the generated ES id is not a number)''])
      else (case ParseInt urlID of
          None \<Rightarrow> Inl (illegalArgf [T ''['', S urlID, T ''] does not parse as the numeric primary key of index ['',
            S (cmName meta), T '']''])
        | Some n \<Rightarrow>
            (case inDoc of
               None \<Rightarrow> Inr (GInt64 n)
             | Some v \<Rightarrow>
                 (case docNumber v of
                    Some d \<Rightarrow> if intOfFloat d = n then Inr (GInt64 n) else Inl (mismatchErrf (cmName meta) v urlID)
                  | None \<Rightarrow> Inl (mismatchErrf (cmName meta) v urlID)))))"

definition pkValue :: "gval \<Rightarrow> val" where
  "pkValue i = (case i of GInt64 n \<Rightarrow> IntValue n | GStr x \<Rightarrow> StringValue x | _ \<Rightarrow> StringValue [])"

definition idString :: "gval \<Rightarrow> string" where
  "idString i = (case i of GInt64 n \<Rightarrow> FormatInt n | GStr x \<Rightarrow> x | _ \<Rightarrow> [])"

subsection \<open>Comparing rows\<close>

fun jsonValueEqual :: "json \<Rightarrow> json \<Rightarrow> bool"
and jsonListEqual :: "json list \<Rightarrow> json list \<Rightarrow> bool"
and jsonMembersEqual :: "(string \<times> json) list \<Rightarrow> (string \<times> json) list \<Rightarrow> bool" where
  "jsonValueEqual JNull b = (b = JNull)"
| "jsonValueEqual (JBool x) b = (b = JBool x)"
| "jsonValueEqual (JStr x) b = (b = JStr x)"
| "jsonValueEqual (JNum x) b = (b = JNum x)"
| "jsonValueEqual (JArr xs) b = (case b of JArr ys \<Rightarrow> length xs = length ys \<and> jsonListEqual xs ys | _ \<Rightarrow> False)"
| "jsonValueEqual (JObj m) b = (case b of JObj m' \<Rightarrow> length m = length m' \<and> jsonMembersEqual m m' | _ \<Rightarrow> False)"
| "jsonListEqual (x # xs) (y # ys) = (jsonValueEqual x y \<and> jsonListEqual xs ys)"
| "jsonListEqual _ _ = True"
| "jsonMembersEqual [] m' = True"
| "jsonMembersEqual ((k, v) # m) m' =
     (case map_of m' k of None \<Rightarrow> False | Some w \<Rightarrow> jsonValueEqual v w \<and> jsonMembersEqual m m')"

definition jsonBytesOf :: "gval \<Rightarrow> string" where
  "jsonBytesOf v = (case v of GBytes x \<Rightarrow> x | GRaw x \<Rightarrow> x | _ \<Rightarrow> [])"

definition jsonEqual :: "string \<Rightarrow> gval \<Rightarrow> bool" where
  "jsonEqual a b =
     (case decodeJson a of
        None \<Rightarrow> False
      | Some pa \<Rightarrow> (case decodeJson (jsonBytesOf b) of None \<Rightarrow> False | Some pb \<Rightarrow> jsonValueEqual pa pb))"

definition numberEqual :: "string \<Rightarrow> gval \<Rightarrow> bool" where
  "numberEqual a b =
     (case ParseFloat64 a of
        None \<Rightarrow> False
      | Some af \<Rightarrow>
          (case b of
             GNum y \<Rightarrow> (case ParseFloat64 y of None \<Rightarrow> False | Some bf \<Rightarrow> feq af bf)
           | GInt64 n \<Rightarrow> feq af (floatOfInt n)
           | GFloat64 y \<Rightarrow> feq af y
           | _ \<Rightarrow> False))"

definition plainVector :: "gval \<Rightarrow> gval" where
  "plainVector v = (case v of GFloatVector x \<Rightarrow> GVec x | _ \<Rightarrow> v)"

definition valuesEqual :: "gval \<Rightarrow> gval \<Rightarrow> bool" where
  "valuesEqual a0 b0 =
     (let b = plainVector b0 in
      case plainVector a0 of
        GNil \<Rightarrow> b = GNil
      | GStr x \<Rightarrow> b = GStr x
      | GBool x \<Rightarrow> b = GBool x
      | GNum x \<Rightarrow> numberEqual x b
      | GInt64 n \<Rightarrow> numberEqual (FormatInt n) b
      | GFloat64 y \<Rightarrow> numberEqual (formatG round64 y) b
      | GVec xs \<Rightarrow> b = GVec xs
      | GBytes x \<Rightarrow> jsonEqual x b
      | GRaw x \<Rightarrow> jsonEqual x b
      | _ \<Rightarrow> False)"

definition rowsEqual :: "writeRow \<Rightarrow> writeRow \<Rightarrow> bool" where
  "rowsEqual a b \<longleftrightarrow> length a = length b \<and>
     list_all (\<lambda>(k, va). case map_of b k of None \<Rightarrow> False | Some vb \<Rightarrow> valuesEqual va vb) a"

subsection \<open>Requests\<close>

type_synonym docBody = "docMember requestBody"

record docRequest =
  dqIndex :: string
  dqId :: string                  \<comment> \<open>the path value, empty on a route without one\<close>
  dqParams :: "string list"       \<comment> \<open>the keys of the query string\<close>
  dqOpType :: string              \<comment> \<open>the first value of \<open>op_type\<close>, empty when absent\<close>
  dqBody :: "string + docBody"

record updateRequest =
  uqIndex :: string
  uqId :: string
  uqBody :: "string + (string \<times> docBody) requestBody"

record writePlan =
  wpId :: string
  wpCreate :: bool

definition rejectWriteParams :: "string list \<Rightarrow> reason + unit" where
  "rejectWriteParams params =
     (case find (\<lambda>p. p \<in> set params) [''version'', ''if_seq_no'', ''if_primary_term''] of
        Some p \<Rightarrow> Inl [T ''the '', S p, T '' parameter (optimistic concurrency control)'']
      | None \<Rightarrow> Inr ())"

definition readBody :: "string + 'b \<Rightarrow> esResponse + 'b" where
  "readBody b = (case b of
     Inl msg \<Rightarrow> Inl (es_writeError 400 [T ''failed to read the request body: '', S msg]) | Inr x \<Rightarrow> Inr x)"

definition topMembers :: "'m requestBody \<Rightarrow> terror + 'm list" where
  "topMembers b = (case b of
     ObjectBody ms \<Rightarrow> Inr ms
   | NullBody \<Rightarrow> Inr []
   | _ \<Rightarrow> Inl (parseArgf [T ''the _update body is not valid JSON: '', V ''err'']))"

definition parseUpdateBody :: "(string \<times> docBody) requestBody \<Rightarrow> terror + docBody" where
  "parseUpdateBody b = bindE (topMembers b) (\<lambda>t.
     if map_of t ''script'' \<noteq> None
     then Inl (illegalArgf [T ''[script] updates are beyond lyrebird's surface: send the fields to merge under [doc]''])
     else if map_of t ''scripted_upsert'' \<noteq> None
     then Inl (illegalArgf [T ''[scripted_upsert] is beyond lyrebird's surface: it only matters with [script]''])
     else if map_of t ''doc_as_upsert'' \<noteq> None
     then Inl (illegalArgf [T ''[doc_as_upsert] is not supported: a missing document is a 404, create it first''])
     else case map_of t ''doc'' of
         None \<Rightarrow> Inl (parseArgf [T ''the _update body needs a [doc] member naming the fields to merge''])
       | Some doc \<Rightarrow> Inr doc)"

subsection \<open>The handlers\<close>

definition keyPlan :: "string \<Rightarrow> val \<Rightarrow> plan" where
  "keyPlan pk i = emptyPlan\<lparr>pLimit := 1, pSource := allSource, pExpr := Compare Eq pk i\<rparr>"

definition fetchDocument :: "'s cluster \<Rightarrow> string \<Rightarrow> fieldMeta \<Rightarrow> val \<Rightarrow> 's \<Rightarrow> ((storeError + row option) \<times> 's) option" where
  "fetchDocument cl index pk i s =
     (case clSearch cl index (keyPlan (fmName pk) i) s of
        None \<Rightarrow> None
      | Some (Inl e, s') \<Rightarrow> Some (Inl e, s')
      | Some (Inr result, s') \<Rightarrow>
          Some (Inr (case srHits result of [] \<Rightarrow> None | h # _ \<Rightarrow> Some (hitSource h)), s'))"

definition documentExists :: "'s cluster \<Rightarrow> string \<Rightarrow> fieldMeta \<Rightarrow> gval \<Rightarrow> 's \<Rightarrow> ((storeError + bool) \<times> 's) option" where
  "documentExists cl index pk i s =
     (case fetchDocument cl index pk (pkValue i) s of
        None \<Rightarrow> None
      | Some (Inl e, s') \<Rightarrow> Some (Inl e, s')
      | Some (Inr found, s') \<Rightarrow> Some (Inr (found \<noteq> None), s'))"

text \<open>Does the id already have a row: never for a key the store generates.\<close>

text \<open>\<open>%s\<close> of an id that is not a string.\<close>

definition percentS :: "gval \<Rightarrow> string" where
  "percentS i = (case i of GStr x \<Rightarrow> x | GInt64 n \<Rightarrow> ''%!s(int64='' @ FormatInt n @ '')'' | _ \<Rightarrow> ''%!s(<nil>)'')"

definition checkExisting :: "'s cluster \<Rightarrow> string \<Rightarrow> fieldMeta \<Rightarrow> gval \<Rightarrow> bool \<Rightarrow> ('s, bool) handler" where
  "checkExisting cl index pk i create =
     (if fmAutoID pk then returnH False
      else bindH (searchH (writeExecError index) (documentExists cl index pk i)) (\<lambda>there.
        if create \<and> there
        then stopH (writeErrorEnvelope 409 ''version_conflict_exception''
               [T ''['', S index, T '']['', S (percentS i), T '']: version conflict, document already exists''] index)
        else returnH there))"

definition reportedID :: "gval \<Rightarrow> writeResult \<Rightarrow> string" where
  "reportedID i wrote =
     (if idString i = [] then (case wrIDs wrote of [] \<Rightarrow> [] | x # _ \<Rightarrow> x) else idString i)"

text \<open>The write itself and its answer; then the part of the handler behind the decoded document.\<close>

definition storeDocument ::
  "'s cluster \<Rightarrow> string \<Rightarrow> fieldMeta \<Rightarrow> gval \<Rightarrow> bool \<Rightarrow> writeRow \<Rightarrow> ('s, esResponse) handler" where
  "storeDocument cl index pk i there row =
     (let row = (if fmAutoID pk then row else setKey (fmName pk) i row) in
      bindH (callH (writeWriteError index) (if there then clUpsert cl index [row] else clInsert cl index [row])) (\<lambda>wrote.
        returnH (writeIndexResponse index (reportedID i wrote) (if there then ''updated'' else ''created''))))"

definition placeDocument ::
  "'s cluster \<Rightarrow> int + nat list \<Rightarrow> string \<Rightarrow> writePlan \<Rightarrow> collectionMeta \<Rightarrow> writeRow \<Rightarrow> ('s, esResponse) handler" where
  "placeDocument cl random index wp meta row =
     (let pk = primaryKeyOf meta in
      bindH (checkH (writeRequestError index) (resolveDocumentID random meta row (wpId wp))) (\<lambda>i.
      bindH (checkExisting cl index pk i (wpCreate wp)) (\<lambda>there. storeDocument cl index pk i there row)))"

definition writeDocument ::
  "'s cluster \<Rightarrow> int + nat list \<Rightarrow> docRequest \<Rightarrow> writePlan \<Rightarrow> 's \<Rightarrow> (esResponse \<times> 's) option" where
  "writeDocument cl random r wp =
     (let index = dqIndex r in
      respond
       (bindH (checkH writeUnsupported (rejectWriteParams (dqParams r))) (\<lambda>_.
        bindH (callH (writeExecError index) (clCollection cl index)) (\<lambda>meta.
        bindH (checkH id (readBody (dqBody r))) (\<lambda>body.
        bindH (checkH writeTranslateError (DecodeDocument body (Some (schemaOf meta)))) (\<lambda>row.
          placeDocument cl random index wp meta row))))))"

definition indexDocument :: "'s cluster \<Rightarrow> int + nat list \<Rightarrow> docRequest \<Rightarrow> 's \<Rightarrow> (esResponse \<times> 's) option" where
  "indexDocument cl random r =
     writeDocument cl random r \<lparr>wpId = dqId r, wpCreate = (dqOpType r = ''create'')\<rparr>"

definition createDocument :: "'s cluster \<Rightarrow> int + nat list \<Rightarrow> docRequest \<Rightarrow> 's \<Rightarrow> (esResponse \<times> 's) option" where
  "createDocument cl random r = writeDocument cl random r \<lparr>wpId = dqId r, wpCreate = True\<rparr>"

definition mergeRow :: "writeRow \<Rightarrow> writeRow \<Rightarrow> writeRow" where
  "mergeRow old doc = fold (\<lambda>(k, v) m. setKey k v m) doc old"

definition checkKeyMember :: "fieldMeta \<Rightarrow> gval \<Rightarrow> string \<Rightarrow> writeRow \<Rightarrow> terror + unit" where
  "checkKeyMember pk parsed i doc =
     (case map_of doc (fmName pk) of
        None \<Rightarrow> Inr ()
      | Some v \<Rightarrow>
          if valuesEqual parsed v then Inr ()
          else Inl (illegalArgf [T ''the document's primary key value ['', S (showV v),
                 T ''] disagrees with the URL id ['', S i, T '']'']))"

text \<open>The part of an update behind the merged document, and the handler.\<close>

definition mergeDocument ::
  "'s cluster \<Rightarrow> string \<Rightarrow> string \<Rightarrow> writeRow \<Rightarrow> row option \<Rightarrow> ('s, esResponse) handler" where
  "mergeDocument cl index i doc found =
     (case found of
        None \<Rightarrow> stopH (writeErrorEnvelope 404 ''document_missing_exception''
                  [T ''['', S index, T '']['', S i, T '']: document missing''] index)
      | Some old \<Rightarrow>
          (let merged = mergeRow old doc in
           if rowsEqual old merged then returnH (writeIndexResponse index i ''noop'')
           else bindH (callH (writeWriteError index) (clUpsert cl index [merged])) (\<lambda>_.
             returnH (writeIndexResponse index i ''updated''))))"

definition updateDocument :: "'s cluster \<Rightarrow> updateRequest \<Rightarrow> 's \<Rightarrow> (esResponse \<times> 's) option" where
  "updateDocument cl r =
     (let index = uqIndex r; i = uqId r in
      respond
       (bindH (callH (writeExecError index) (clCollection cl index)) (\<lambda>meta.
        bindH (checkH id (readBody (uqBody r))) (\<lambda>body.
        bindH (checkH (writeRequestError index) (parseUpdateBody body)) (\<lambda>doc.
        bindH (checkH writeTranslateError (DecodeDocument doc (Some (schemaOf meta)))) (\<lambda>row.
        let pk = primaryKeyOf meta in
        bindH (checkH (writeRequestError index) (parseDocumentID pk i)) (\<lambda>parsed.
        bindH (checkH (writeRequestError index) (checkKeyMember pk parsed i row)) (\<lambda>_.
        bindH (searchH (writeExecError index) (fetchDocument cl index pk (pkValue parsed)))
          (mergeDocument cl index i row)))))))))"

subsection \<open>Equality of JSON values\<close>

lemma jsonListEqual_iff: "length xs = length ys \<Longrightarrow> jsonListEqual xs ys \<longleftrightarrow> list_all2 jsonValueEqual xs ys"
  by (induction xs ys rule: list_induct2) auto

lemma jsonMembersEqual_iff:
  "jsonMembersEqual m m' \<longleftrightarrow> (\<forall>(k, v) \<in> set m. \<exists>w. map_of m' k = Some w \<and> jsonValueEqual v w)"
  by (induction m) (auto split: option.splits)

lemma jsonValueEqual_arr:
  "jsonValueEqual (JArr xs) b \<longleftrightarrow> (\<exists>ys. b = JArr ys \<and> list_all2 jsonValueEqual xs ys)"
  by (cases b) (auto simp: jsonListEqual_iff dest: list_all2_lengthD, metis jsonListEqual_iff list_all2_lengthD)

lemma jsonValueEqual_obj:
  "jsonValueEqual (JObj m) b \<longleftrightarrow> (\<exists>m'. b = JObj m' \<and> length m = length m' \<and>
     (\<forall>(k, v) \<in> set m. \<exists>w. map_of m' k = Some w \<and> jsonValueEqual v w))"
  by (cases b) (auto simp: jsonMembersEqual_iff)

declare jsonValueEqual.simps(5,6) [simp del]

lemmas jsonValueEqual_nested = jsonValueEqual_arr jsonValueEqual_obj

lemma jsonValueEqual_refl: "keysDistinct a \<Longrightarrow> jsonValueEqual a a"
proof (induction a)
  case (JArr xs)
  then show ?case by (auto simp: jsonValueEqual_nested intro: list_all2_refl list.rel_refl_strong)
next
  case (JObj m)
  then show ?case by (fastforce simp: jsonValueEqual_nested)
qed simp_all

lemma jsonValueEqual_trans: "jsonValueEqual a b \<Longrightarrow> jsonValueEqual b c \<Longrightarrow> jsonValueEqual a c"
proof (induction a arbitrary: b c)
  case (JArr xs)
  then obtain ys zs where l: "c = JArr zs" "list_all2 jsonValueEqual xs ys" "list_all2 jsonValueEqual ys zs"
    by (auto simp: jsonValueEqual_nested)
  have "jsonValueEqual (xs ! i) (zs ! i)" if i: "i < length xs" for i
  proof -
    from l i have "jsonValueEqual (xs ! i) (ys ! i)" "jsonValueEqual (ys ! i) (zs ! i)"
      by (auto simp: list_all2_conv_all_nth)
    with JArr(1) nth_mem[OF i] show ?thesis by blast
  qed
  moreover have "length xs = length zs" using l by (auto simp: list_all2_conv_all_nth)
  ultimately show ?case using l(1) by (simp add: jsonValueEqual_nested list_all2_conv_all_nth)
next
  case (JObj m)
  then obtain m' m'' where m: "b = JObj m'" "c = JObj m''" "length m = length m''"
    and eq: "\<forall>(k, v) \<in> set m. \<exists>w. map_of m' k = Some w \<and> jsonValueEqual v w"
      "\<forall>(k, v) \<in> set m'. \<exists>w. map_of m'' k = Some w \<and> jsonValueEqual v w"
    by (auto simp: jsonValueEqual_nested)
  have "\<exists>u. map_of m'' k = Some u \<and> jsonValueEqual v u" if kv: "(k, v) \<in> set m" for k v
  proof -
    obtain w where w: "map_of m' k = Some w" "jsonValueEqual v w" using eq(1) kv by auto
    then obtain u where "map_of m'' k = Some u" "jsonValueEqual w u" using eq(2) map_of_SomeD by fastforce
    with JObj(1)[OF kv, of v w u] w(2) show ?thesis by auto
  qed
  then show ?case unfolding m jsonValueEqual_obj using m by auto
qed simp_all

lemma jsonValueEqual_sym: "jsonValueEqual a b \<Longrightarrow> keysDistinct a \<Longrightarrow> keysDistinct b \<Longrightarrow> jsonValueEqual b a"
proof (induction a arbitrary: b)
  case (JArr xs)
  then show ?case
    by (auto simp: jsonValueEqual_nested list_all2_conv_all_nth)
next
  case (JObj m)
  then obtain m' where m: "b = JObj m'" "length m = length m'"
    and eq: "\<forall>(k, v) \<in> set m. \<exists>w. map_of m' k = Some w \<and> jsonValueEqual v w"
    by (auto simp: jsonValueEqual_nested)
  from JObj m have d: "distinct (map fst m)" "distinct (map fst m')" by auto
  have sub: "fst ` set m \<subseteq> fst ` set m'" 
  proof
    fix k assume "k \<in> fst ` set m"
    then obtain v where "(k, v) \<in> set m" by auto
    with eq obtain w where "map_of m' k = Some w" by auto
    then have "(k, w) \<in> set m'" by (rule map_of_SomeD)
    then show "k \<in> fst ` set m'" by force
  qed
  have "card (fst ` set m) = card (fst ` set m')" using d m(2) by (metis distinct_card length_map set_map)
  with sub have keys: "fst ` set m = fst ` set m'" by (simp add: card_subset_eq)
  have "\<exists>v. map_of m k = Some v \<and> jsonValueEqual w v" if kw: "(k, w) \<in> set m'" for k w
  proof -
    from kw keys have "k \<in> fst ` set m" by force
    then obtain v where v: "(k, v) \<in> set m" by auto
    with eq obtain w' where w': "map_of m' k = Some w'" "jsonValueEqual v w'" by auto
    with d(2) kw have "jsonValueEqual v w" by simp
    moreover have "keysDistinct v" "keysDistinct w" using JObj(3,4) v kw m(1) by force+
    ultimately have "jsonValueEqual w v" using JObj(1)[OF v, of v] by simp
    with v d(1) show ?thesis by simp
  qed
  then show ?case unfolding m jsonValueEqual_obj using m(2) by auto
qed simp_all

subsection \<open>Documents as a table\<close>

text \<open>
  What the writes rely on of the cluster: one primary key, a lookup by key that answers with the
  row of the key, and a successful write of one row that stores it under its key, as the strict
  write path encodes that key. Reads leave the documents as they are.
\<close>

definition servesDocuments ::
  "'s cluster \<Rightarrow> string \<Rightarrow> fieldMeta \<Rightarrow> ('s \<Rightarrow> gval \<Rightarrow> row option) \<Rightarrow> (row \<Rightarrow> row) \<Rightarrow> bool" where
  "servesDocuments cl index pk table stored \<longleftrightarrow>
     (\<forall>s res s'. clCollection cl index s = (res, s') \<longrightarrow>
        table s' = table s \<and> (\<forall>meta. res = Inr meta \<longrightarrow> primaryKeyOf meta = pk)) \<and>
     (\<forall>i s res s'. isKey i \<longrightarrow> clSearch cl index (keyPlan (fmName pk) (pkValue i)) s = Some (res, s') \<longrightarrow>
        table s' = table s \<and>
        (\<forall>found. res = Inr found \<longrightarrow> table s i = (case srHits found of [] \<Rightarrow> None | h # _ \<Rightarrow> Some (hitSource h)))) \<and>
     (\<forall>row s w s'. clInsert cl index [row] s = (Inr w, s') \<or> clUpsert cl index [row] s = (Inr w, s') \<longrightarrow>
        (\<exists>k. writeValue pk (cell row (fmName pk)) = Inr k \<and> table s' = (table s)(k \<mapsto> stored row)))"

definition firstSource :: "searchResult \<Rightarrow> row option" where
  "firstSource found = (case srHits found of [] \<Rightarrow> None | h # _ \<Rightarrow> Some (hitSource h))"

lemma fetchDocument_Some:
  "fetchDocument cl index pk i s = Some (res, s') \<longleftrightarrow>
   (\<exists>e. clSearch cl index (keyPlan (fmName pk) i) s = Some (Inl e, s') \<and> res = Inl e) \<or>
   (\<exists>found. clSearch cl index (keyPlan (fmName pk) i) s = Some (Inr found, s') \<and> res = Inr (firstSource found))"
  unfolding fetchDocument_def firstSource_def by (auto split: option.splits prod.splits sum.splits)

lemma servesDocumentsD:
  assumes "servesDocuments cl index pk table stored"
  shows "clCollection cl index s = (res, s') \<Longrightarrow> table s' = table s"
    and "clCollection cl index s = (Inr meta, s') \<Longrightarrow> primaryKeyOf meta = pk"
    and "isKey i \<Longrightarrow> fetchDocument cl index pk (pkValue i) s = Some (res', s') \<Longrightarrow>
      table s' = table s \<and> (\<forall>found. res' = Inr found \<longrightarrow> found = table s i)"
    and "clInsert cl index [row] s = (Inr w, s') \<Longrightarrow>
      \<exists>k. writeValue pk (cell row (fmName pk)) = Inr k \<and> table s' = (table s)(k \<mapsto> stored row)"
    and "clUpsert cl index [row] s = (Inr w, s') \<Longrightarrow>
      \<exists>k. writeValue pk (cell row (fmName pk)) = Inr k \<and> table s' = (table s)(k \<mapsto> stored row)"
proof -
  note d = assms[unfolded servesDocuments_def]
  show "clCollection cl index s = (res, s') \<Longrightarrow> table s' = table s"
    "clCollection cl index s = (Inr meta, s') \<Longrightarrow> primaryKeyOf meta = pk"
    using d[THEN conjunct1, rule_format, of s] by simp_all
  show "table s' = table s \<and> (\<forall>found. res' = Inr found \<longrightarrow> found = table s i)"
    if key: "isKey i" and fetch: "fetchDocument cl index pk (pkValue i) s = Some (res', s')"
  proof -
    note law = d[THEN conjunct2, THEN conjunct1, rule_format, OF key]
    from fetch consider e where "clSearch cl index (keyPlan (fmName pk) (pkValue i)) s = Some (Inl e, s')" "res' = Inl e"
      | found where "clSearch cl index (keyPlan (fmName pk) (pkValue i)) s = Some (Inr found, s')"
          "res' = Inr (firstSource found)"
      unfolding fetchDocument_Some by blast
    then show ?thesis
    proof cases
      case 1
      with law[OF 1(1)] show ?thesis by simp
    next
      case 2
      with law[OF 2(1)] show ?thesis by (simp add: firstSource_def)
    qed
  qed
  show "clInsert cl index [row] s = (Inr w, s') \<Longrightarrow>
      \<exists>k. writeValue pk (cell row (fmName pk)) = Inr k \<and> table s' = (table s)(k \<mapsto> stored row)"
    "clUpsert cl index [row] s = (Inr w, s') \<Longrightarrow>
      \<exists>k. writeValue pk (cell row (fmName pk)) = Inr k \<and> table s' = (table s)(k \<mapsto> stored row)"
    using d[THEN conjunct2, THEN conjunct2, rule_format, of row s w s'] by simp_all
qed

text \<open>A key the client assigns goes to the store unchanged.\<close>

definition clientKey :: "fieldMeta \<Rightarrow> bool" where
  "clientKey pk \<longleftrightarrow> \<not> fmAutoID pk \<and> fmNative pk \<in> {''string'', ''int64''}"

lemma resolveDocumentID_Inr:
  assumes "resolveDocumentID random meta row urlID = Inr i" "primaryKeyOf meta = pk" "clientKey pk"
  shows "isKey i \<and> (urlID \<noteq> [] \<longrightarrow> parseDocumentID pk urlID = Inr i)"
  using assms
  by (auto simp: resolveDocumentID_def Let_def clientKey_def parseDocumentID_def isKey_def
      split: if_splits option.splits)

lemma writeValue_key:
  assumes "isKey i" "writeValue pk i = Inr k" "clientKey pk"
  shows "k = i"
  using assms
  by (auto simp: writeValue_def writeString_def writeInt_def toInt64_def intCell_def isKey_def clientKey_def
      split: gval.splits if_splits prod.splits)

lemma parseDocumentID_key: "parseDocumentID pk i = Inr k \<Longrightarrow> isKey k"
  by (auto simp: parseDocumentID_def isKey_def split: if_splits option.splits)

lemma decode_status: "DecodeDocument doc sch = Inl e \<Longrightarrow> Status e = 400"
proof -
  have "okQuery (\<lambda>_. True) (DecodeDocument doc sch)"
    unfolding DecodeDocument_def by (rule okQuery_bind[OF decodeBody_ok]) (rule docRow_ok)
  then show "DecodeDocument doc sch = Inl e \<Longrightarrow> Status e = 400"
    by (auto simp: okQuery_def es_classified_def)
qed

subsection \<open>What the handlers do to the documents\<close>

lemma rejected_status:
  "esStatus (writeUnsupported w) = 400" "esStatus (es_writeError n w) = n"
  "esStatus panicResponse = 500" "esStatus (writeErrorEnvelope n t w x) = n"
  "DecodeDocument doc sch = Inl e \<Longrightarrow> esStatus (writeTranslateError e) = 400"
  by (simp_all add: writeUnsupported_def es_writeError_def panicResponse_def writeErrorEnvelope_def writeJSON_def
      writeTranslateError_def decode_status)

lemma writeExecError_status: "esStatus (writeExecError index e) \<in> {404, 500}"
  by (cases e) (simp_all add: writeExecError_def rejected_status)

lemma exec_status: "answered (writeExecError index) res = Inl r \<Longrightarrow> esStatus r \<in> {404, 500}"
  using writeExecError_status by (auto simp: answered_Inl rejected_status split: if_splits)

lemma resolve_status: "resolveDocumentID random meta row urlID = Inl e \<Longrightarrow> Status e = 400"
  by (auto simp: resolveDocumentID_def Let_def illegalArgf_def mkError_def mismatchErrf_def
      split: if_splits option.splits)

lemma request_status: "Status e = 400 \<Longrightarrow> esStatus (writeRequestError index e) = 400"
  by (simp add: writeRequestError_def rejected_status)

lemma writeWriteError_status:
  "esStatus (writeWriteError index e) = 500 \<or> (\<exists>we. e = WriteFail (Rejected we) \<and> esStatus (writeWriteError index e) = 400)"
proof (cases e)
  case (WriteFail f)
  show ?thesis
  proof (cases f)
    case (Rejected we)
    with WriteFail show ?thesis
      by (cases "weClass we") (simp_all add: writeWriteError_def rejected_status)
  qed (simp add: writeWriteError_def rejected_status WriteFail)
qed (simp_all add: writeWriteError_def rejected_status)

text \<open>What one write does: it stores the row, is rejected without effect, or fails with 500.\<close>

lemma write_outcome:
  assumes "write_contract cl" "servesDocuments cl index pk table stored"
    and "(if upd then clUpsert cl index [row] s else clInsert cl index [row] s) = (res, s')"
  shows "(\<exists>w k. res = Inr w \<and> writeValue pk (cell row (fmName pk)) = Inr k \<and> table s' = (table s)(k \<mapsto> stored row)) \<or>
    (\<exists>r. answered (writeWriteError index) res = Inl r \<and> (esStatus r = 500 \<or> esStatus r = 400 \<and> table s' = table s))"
proof (cases res)
  case (Inr w)
  note laws = servesDocumentsD(4,5)[OF assms(2), of row s w s']
  have "\<exists>k. writeValue pk (cell row (fmName pk)) = Inr k \<and> table s' = (table s)(k \<mapsto> stored row)"
  proof (cases upd)
    case True
    with assms(3) Inr show ?thesis by (intro laws(2)) simp
  next
    case False
    with assms(3) Inr show ?thesis by (intro laws(1)) simp
  qed
  with Inr show ?thesis by blast
next
  case (Inl e)
  let ?r = "if isPanic e then panicResponse else writeWriteError index e"
  have r: "answered (writeWriteError index) res = Inl ?r" using Inl by (simp add: answered_def)
  have "s' = s" if "e = WriteFail f" for f
    using assms(3) Inl that write_contract.rejected_insert[OF assms(1), of index "[row]" s f s']
      write_contract.rejected_upsert[OF assms(1), of index "[row]" s f s'] by (simp split: if_splits)
  then show ?thesis using writeWriteError_status[of index e] r by (auto simp: rejected_status)
qed

lemma checkExisting_outcome:
  assumes "servesDocuments cl index pk table stored" "clientKey pk" "isKey i"
    and "checkExisting cl index pk i create s = Some (res, s')"
  shows "table s' = table s \<and>
    ((\<exists>r. res = Inl r \<and> esStatus r \<in> {404, 409, 500}) \<or>
     (res = Inr (table s i \<noteq> None) \<and> (create \<longrightarrow> table s i = None)))"
proof -
  note fetch = servesDocumentsD(3)[OF assms(1,3)]
  have there: "table t = table s \<and> (\<forall>b. r = Inr b \<longrightarrow> b = (table s i \<noteq> None))"
    if "documentExists cl index pk i s = Some (r, t)" for r t
    using that fetch[of s _ t] unfolding documentExists_def by (auto split: option.splits prod.splits sum.splits)
  from assms(2,4) obtain t r where t: "documentExists cl index pk i s = Some (r, t)"
    and rest: "(\<exists>e. answered (writeExecError index) r = Inl e \<and> res = Inl e \<and> s' = t) \<or>
      (r = Inr True \<and> s' = t \<and> create \<and> (\<exists>e. res = Inl e \<and> esStatus e = 409)) \<or>
      (\<exists>b. r = Inr b \<and> s' = t \<and> \<not> (create \<and> b) \<and> res = Inr b)"
    unfolding checkExisting_def clientKey_def
    by (auto simp: handler rejected_status split: if_splits)
  from rest there[OF t] show ?thesis
    by (auto dest: exec_status split: if_splits)
qed

lemma respond_bindH:
  "respond (bindH m f) s = Some (resp, s') \<longleftrightarrow>
   m s = Some (Inl resp, s') \<or> (\<exists>x t. m s = Some (Inr x, t) \<and> respond (f x) t = Some (resp, s'))"
  by (auto simp: respond_Some bindH_Some)

lemma respond_simps:
  "respond (returnH r) s = Some (r, s)" "respond (stopH r) s = Some (r, s)"
  by (simp_all add: respond_def returnH_def stopH_def)

lemma checkH_Inr: "checkH render m s = Some (Inr x, s') \<longleftrightarrow> m = Inr x \<and> s' = s"
  by (auto simp: checkH_Some)

lemma readBody_Inr: "readBody b = Inr x \<longleftrightarrow> b = Inr x"
  by (simp add: readBody_def split: sum.splits)

lemma storeDocument_outcome:
  assumes "write_contract cl" "servesDocuments cl index pk table stored" "clientKey pk" "isKey i"
    and "respond (storeDocument cl index pk i there doc) s = Some (resp, s')"
  shows "esStatus resp = 500 \<or> esStatus resp = 400 \<and> table s' = table s \<or>
    (\<exists>w. resp = writeIndexResponse index (reportedID i w) (if there then ''updated'' else ''created'')) \<and>
      table s' = (table s)(i \<mapsto> stored (setKey (fmName pk) i doc))"
proof -
  let ?row = "setKey (fmName pk) i doc"
  have auto: "\<not> fmAutoID pk" using assms(3) by (simp add: clientKey_def)
  from assms(5) obtain res t where call: "(if there then clUpsert cl index [?row] s else clInsert cl index [?row] s) = (res, t)"
    and rest: "answered (writeWriteError index) res = Inl resp \<and> s' = t \<or>
      (\<exists>w. res = Inr w \<and> resp = writeIndexResponse index (reportedID i w) (if there then ''updated'' else ''created'') \<and> s' = t)"
    unfolding storeDocument_def Let_def respond_bindH respond_simps
    by (auto simp: auto callH_Some answered_Inr split: if_splits)
  have key: "k = i" if "writeValue pk (cell ?row (fmName pk)) = Inr k" for k
    using writeValue_key[OF assms(4) _ assms(3)] that by (simp add: cell_def)
  from write_outcome[OF assms(1,2) call] rest show ?thesis
    by (auto simp: answered_Inl dest!: key)
qed

lemma placeDocument_outcome:
  assumes "write_contract cl" "servesDocuments cl index pk table stored" "clientKey pk" "primaryKeyOf meta = pk"
    and "respond (placeDocument cl random index wp meta doc) s = Some (resp, s')"
  shows "esStatus resp = 500 \<or> esStatus resp \<in> {400, 404, 409} \<and> table s' = table s \<or>
    (\<exists>i w. resolveDocumentID random meta doc (wpId wp) = Inr i \<and> (wpCreate wp \<longrightarrow> table s i = None) \<and>
      resp = writeIndexResponse index (reportedID i w) (if table s i = None then ''created'' else ''updated'') \<and>
      table s' = (table s)(i \<mapsto> stored (setKey (fmName pk) i doc)))"
proof -
  from assms(5) consider (id) "checkH (writeRequestError index) (resolveDocumentID random meta doc (wpId wp)) s = Some (Inl resp, s')"
    | (there) i where "resolveDocumentID random meta doc (wpId wp) = Inr i"
        "checkExisting cl index pk i (wpCreate wp) s = Some (Inl resp, s')"
    | (go) i b t where "resolveDocumentID random meta doc (wpId wp) = Inr i"
        "checkExisting cl index pk i (wpCreate wp) s = Some (Inr b, t)"
        "respond (storeDocument cl index pk i b doc) t = Some (resp, s')"
    unfolding placeDocument_def Let_def respond_bindH checkH_Inr assms(4) by blast
  then show ?thesis
  proof cases
    case id
    then show ?thesis by (auto simp: checkH_Some request_status resolve_status)
  next
    case there
    from resolveDocumentID_Inr[OF there(1) assms(4,3)] checkExisting_outcome[OF assms(2,3) _ there(2)]
    show ?thesis by auto
  next
    case go
    from resolveDocumentID_Inr[OF go(1) assms(4,3)] have i: "isKey i" by simp
    from checkExisting_outcome[OF assms(2,3) i go(2)]
    have b: "table t = table s" "b = (table s i \<noteq> None)" "wpCreate wp \<longrightarrow> table s i = None" by auto
    from storeDocument_outcome[OF assms(1-3) i go(3)] b go(1) show ?thesis by auto
  qed
qed

lemma writeDocument_outcome:
  assumes "write_contract cl" "servesDocuments cl index pk table stored" "clientKey pk" "dqIndex r = index"
    and "writeDocument cl random r wp s = Some (resp, s')"
  shows "esStatus resp = 500 \<or> esStatus resp \<in> {400, 404, 409} \<and> table s' = table s \<or>
    (\<exists>meta body doc i w. dqBody r = Inr body \<and> primaryKeyOf meta = pk \<and>
      DecodeDocument body (Some (schemaOf meta)) = Inr doc \<and>
      resolveDocumentID random meta doc (wpId wp) = Inr i \<and> (wpCreate wp \<longrightarrow> table s i = None) \<and>
      resp = writeIndexResponse index (reportedID i w) (if table s i = None then ''created'' else ''updated'') \<and>
      table s' = (table s)(i \<mapsto> stored (setKey (fmName pk) i doc)))"
proof -
  note laws = servesDocumentsD(1,2)[OF assms(2)]
  from assms(5) consider (params) "checkH writeUnsupported (rejectWriteParams (dqParams r)) s = Some (Inl resp, s')"
    | (coll) "callH (writeExecError index) (clCollection cl index) s = Some (Inl resp, s')"
    | (body) meta s1 where "clCollection cl index s = (Inr meta, s1)"
        "checkH id (readBody (dqBody r)) s1 = Some (Inl resp, s')"
    | (doc) meta s1 body where "clCollection cl index s = (Inr meta, s1)" "dqBody r = Inr body"
        "checkH writeTranslateError (DecodeDocument body (Some (schemaOf meta))) s1 = Some (Inl resp, s')"
    | (go) meta s1 body doc where "clCollection cl index s = (Inr meta, s1)" "dqBody r = Inr body"
        "DecodeDocument body (Some (schemaOf meta)) = Inr doc"
        "respond (placeDocument cl random index wp meta doc) s1 = Some (resp, s')"
    unfolding writeDocument_def Let_def respond_bindH checkH_Inr readBody_Inr assms(4)
    by (auto simp: callH_Some answered_Inr)
  then show ?thesis
  proof cases
    case params
    then show ?thesis by (auto simp: checkH_Some rejected_status)
  next
    case coll
    then obtain res where "clCollection cl index s = (res, s')" "esStatus resp \<in> {404, 500}"
      using exec_status by (auto simp: callH_Some)
    with laws(1) show ?thesis by auto
  next
    case body
    with laws(1) show ?thesis by (auto simp: checkH_Some readBody_def rejected_status split: sum.splits)
  next
    case doc
    with laws(1) show ?thesis by (auto simp: checkH_Some rejected_status)
  next
    case go
    have t: "table s1 = table s" "primaryKeyOf meta = pk" using laws go(1) by blast+
    from placeDocument_outcome[OF assms(1-3) t(2) go(4), unfolded t(1)] t(2) go(2,3) show ?thesis by metis
  qed
qed

lemma map_of_mergeRow: "map_of doc f = None \<Longrightarrow> map_of (mergeRow old doc) f = map_of old f"
  by (induction doc arbitrary: old) (auto simp: mergeRow_def split: if_splits)

lemma mergeDocument_outcome:
  assumes "write_contract cl" "servesDocuments cl index pk table stored"
    and "respond (mergeDocument cl index i doc found) s = Some (resp, s')"
  shows "esStatus resp = 500 \<or> esStatus resp \<in> {400, 404} \<and> table s' = table s \<or>
    (\<exists>old. found = Some old \<and>
      (resp = writeIndexResponse index i ''noop'' \<and> rowsEqual old (mergeRow old doc) \<and> table s' = table s \<or>
       resp = writeIndexResponse index i ''updated'' \<and>
       (\<exists>k. writeValue pk (cell (mergeRow old doc) (fmName pk)) = Inr k \<and>
          table s' = (table s)(k \<mapsto> stored (mergeRow old doc)))))"
proof (cases found)
  case None
  with assms(3) show ?thesis by (auto simp: mergeDocument_def respond_simps rejected_status)
next
  case (Some old)
  let ?row = "mergeRow old doc"
  show ?thesis
  proof (cases "rowsEqual old ?row")
    case True
    with Some assms(3) show ?thesis by (auto simp: mergeDocument_def respond_simps)
  next
    case False
    with Some assms(3) obtain res t where call: "clUpsert cl index [?row] s = (res, t)"
      and rest: "answered (writeWriteError index) res = Inl resp \<and> s' = t \<or>
        (\<exists>w. res = Inr w \<and> resp = writeIndexResponse index i ''updated'' \<and> s' = t)"
      by (auto simp: mergeDocument_def respond_bindH respond_simps callH_Some answered_Inr)
    have "(if True then clUpsert cl index [?row] s else clInsert cl index [?row] s) = (res, t)" using call by simp
    from write_outcome[OF assms(1,2) this] rest Some show ?thesis by (auto simp: answered_Inl)
  qed
qed

lemma update_check_status:
  "parseUpdateBody b = Inl e \<Longrightarrow> Status e = 400" "parseDocumentID pk i = Inl e \<Longrightarrow> Status e = 400"
  "checkKeyMember pk p i doc = Inl e \<Longrightarrow> Status e = 400"
  by (auto simp: parseUpdateBody_def topMembers_def parseDocumentID_def checkKeyMember_def illegalArgf_def parseArgf_def
      mkError_def bindE_eq_Inl split: if_splits option.splits requestBody.splits)

lemma updateDocument_outcome:
  assumes "write_contract cl" "servesDocuments cl index pk table stored" "uqIndex r = index"
    and "updateDocument cl r s = Some (resp, s')"
  shows "esStatus resp = 500 \<or> esStatus resp \<in> {400, 404} \<and> table s' = table s \<or>
    (\<exists>meta body sent doc i old. uqBody r = Inr body \<and> parseUpdateBody body = Inr sent \<and> primaryKeyOf meta = pk \<and>
      DecodeDocument sent (Some (schemaOf meta)) = Inr doc \<and> parseDocumentID pk (uqId r) = Inr i \<and>
      checkKeyMember pk i (uqId r) doc = Inr () \<and> table s i = Some old \<and>
      (resp = writeIndexResponse index (uqId r) ''noop'' \<and> rowsEqual old (mergeRow old doc) \<and> table s' = table s \<or>
       resp = writeIndexResponse index (uqId r) ''updated'' \<and>
       (\<exists>k. writeValue pk (cell (mergeRow old doc) (fmName pk)) = Inr k \<and>
          table s' = (table s)(k \<mapsto> stored (mergeRow old doc)))))"
proof -
  note laws = servesDocumentsD(1,2)[OF assms(2)]
  from assms(4) consider (coll) "callH (writeExecError index) (clCollection cl index) s = Some (Inl resp, s')"
    | (early) meta s1 where "clCollection cl index s = (Inr meta, s1)" "s' = s1" "esStatus resp = 400"
    | (go) meta s1 body sent doc i res t where "clCollection cl index s = (Inr meta, s1)" "uqBody r = Inr body"
        "parseUpdateBody body = Inr sent" "DecodeDocument sent (Some (schemaOf meta)) = Inr doc"
        "parseDocumentID (primaryKeyOf meta) (uqId r) = Inr i" "checkKeyMember (primaryKeyOf meta) i (uqId r) doc = Inr ()"
        "fetchDocument cl index (primaryKeyOf meta) (pkValue i) s1 = Some (res, t)"
        "answered (writeExecError index) res = Inl resp \<and> s' = t \<or>
         (\<exists>found. res = Inr found \<and> respond (mergeDocument cl index (uqId r) doc found) t = Some (resp, s'))"
    unfolding updateDocument_def Let_def respond_bindH checkH_Inr readBody_Inr assms(3)
    by (auto simp: callH_Some searchH_Some answered_Inr checkH_Some readBody_def rejected_status request_status
        update_check_status split: sum.splits)
  then show ?thesis
  proof cases
    case coll
    then obtain res where "clCollection cl index s = (res, s')" "esStatus resp \<in> {404, 500}"
      using exec_status by (auto simp: callH_Some)
    with laws(1) show ?thesis by auto
  next
    case early
    with laws(1) show ?thesis by auto
  next
    case go
    have t: "table s1 = table s" "primaryKeyOf meta = pk" using laws go(1) by blast+
    from parseDocumentID_key[OF go(5)] have key: "isKey i" .
    from servesDocumentsD(3)[OF assms(2) key go(7)[unfolded t(2)]]
    have found: "table t = table s" "\<forall>found. res = Inr found \<longrightarrow> found = table s i" by (simp_all add: t(1))
    from go(8) show ?thesis
    proof
      assume "answered (writeExecError index) res = Inl resp \<and> s' = t"
      with found(1) show ?thesis using exec_status[of index res resp] by auto
    next
      assume "\<exists>found. res = Inr found \<and> respond (mergeDocument cl index (uqId r) doc found) t = Some (resp, s')"
      then have "respond (mergeDocument cl index (uqId r) doc (table s i)) t = Some (resp, s')" using found(2) by auto
      from mergeDocument_outcome[OF assms(1,2) this] found(1) go(2-6) t(2) show ?thesis by metis
    qed
  qed
qed

subsection \<open>Properties\<close>



text \<open>A row fetched whole cannot be written back when its key is generated by the store: every
  upsert of a row that has a field the store fills is refused before anything is sent, so a
  partial update, like an SQL \<open>UPDATE\<close>, of such a collection fails.\<close>

theorem upsert_autoid_refused:
  assumes "wcDescribe cli name = Inr coll" "distinct (map efName (storedFields coll))"
    and "f \<in> set (storedFields coll)" "efAutoID f" "row \<in> set rows" "efName f \<in> fst ` set row"
    and "\<forall>row \<in> set rows. distinct (map fst row)"
  shows "\<exists>e. storeUpsert cli name rows = (Inl (WriteFail (Rejected e)), [])"
proof -
  let ?meta = "catalogMeta coll"
  have names: "distinct (map fmName (cmFields ?meta))"
    using assms(2) by (simp add: catalogMeta_def metaOf_def comp_def)
  obtain v where v: "(efName f, v) \<in> set row" using assms(6) by auto
  have field: "metaOf f \<in> set (cmFields ?meta)" "fmName (metaOf f) = efName f" "fmAutoID (metaOf f)"
    using assms(3,4) by (auto simp: catalogMeta_def metaOf_def)
  have same: "g = metaOf f" if "g \<in> set (cmFields ?meta)" "fmName g = efName f" for g
    using names[unfolded distinct_map, THEN conjunct2, THEN inj_onD, OF _ that(1) field(1)] that(2) field(2) by simp
  have "\<not> entryConforms ?meta (efName f) v"
    unfolding entryConforms_def using same field(3) by auto
  moreover have "entryConforms ?meta (efName f) v"
    if "fillRows ?meta 0 rows (emptyTable (length (cmFields ?meta)) (length rows)) = Inr t" for t
    using fillRows_table(3)[OF names assms(7) that] assms(5) v by fastforce
  ultimately obtain e where "fillRows ?meta 0 rows (emptyTable (length (cmFields ?meta)) (length rows)) = Inl e"
    by (cases "fillRows ?meta 0 rows (emptyTable (length (cmFields ?meta)) (length rows))") auto
  then have "writeColumns ?meta rows = Inl (Rejected e)"
    by (simp add: writeColumns_def validateWriteCells_def)
  moreover have "rows \<noteq> []" using assms(5) by auto
  ultimately show ?thesis
    using assms(1) by (simp add: storeUpsert_def storeWrite_def writeDescribe_def describeAnswer_def)
qed

text \<open>The comparison of stored and sent JSON is an equivalence of decoded values: every value
  equals itself, and the comparison is symmetric and transitive, whatever the order in which
  objects list their members.\<close>

theorem jsonValueEqual_equivalence:
  assumes "decodeJson x = Some a" "decodeJson y = Some b" "decodeJson z = Some c"
  shows "jsonValueEqual a a \<and> (jsonValueEqual a b \<longrightarrow> jsonValueEqual b a) \<and>
    (jsonValueEqual a b \<longrightarrow> jsonValueEqual b c \<longrightarrow> jsonValueEqual a c)"
  using jsonValueEqual_refl jsonValueEqual_sym jsonValueEqual_trans assms[THEN decodeJson_keysDistinct] by blast

text \<open>The key and a stored number are compared as floats, exactly up to \<open>2 ^ 53\<close>.\<close>

lemma numberEqual_ints:
  assumes "in64 n" "in64 m"
  shows "valuesEqual (GInt64 n) (GNum (FormatInt m)) \<longleftrightarrow> nearestInt n = nearestInt m"
  using assms by (simp add: valuesEqual_def plainVector_def numberEqual_def ParseFloat64_FormatInt feq_floatOfInt)

lemma numberEqual_exact:
  assumes "\<bar>n\<bar> \<le> 2 ^ 53" "\<bar>m\<bar> \<le> 2 ^ 53"
  shows "valuesEqual (GInt64 n) (GNum (FormatInt m)) \<longleftrightarrow> n = m"
proof -
  have "in64 n" "in64 m" using assms by (auto simp: in64_def minInt64_def maxInt64_def)
  with assms show ?thesis by (simp add: numberEqual_ints nearestInt_small)
qed

definition idField :: fieldMeta where
  "idField = noField\<lparr>fmName := ''id'', fmPrimary := True, fmNative := ''int64''\<rparr>"

text \<open>Behind \<open>2 ^ 53\<close> the agreement of the document's key with the URL's id is not exact: an
  update of id 9007199254740993 whose document says 9007199254740992 passes the check and is
  stored under 9007199254740992, another document; and an update that only changes a stored
  9007199254740992 into 9007199254740993 is taken for one without effect.\<close>

theorem update_key_rounded:
  "checkKeyMember idField (GInt64 9007199254740993) ''9007199254740993'' [(''id'', GNum (FormatInt 9007199254740992))] = Inr () \<and>
   writeValue idField (cell (mergeRow old [(''id'', GNum (FormatInt 9007199254740992))]) ''id'') = Inr (GInt64 9007199254740992) \<and>
   rowsEqual [(f, GInt64 9007199254740992)] (mergeRow [(f, GInt64 9007199254740992)] [(f, GNum (FormatInt 9007199254740993))])"
proof -
  have ints: "in64 9007199254740993" "in64 9007199254740992" by (simp_all add: in64_def minInt64_def maxInt64_def)
  have "cell (setKey ''id'' v old) ''id'' = v" for v by (simp add: cell_def)
  then show ?thesis
    using numberEqual_ints[OF ints] numberEqual_ints[OF ints(2,1)] nearestInt_shared
    by (simp add: checkKeyMember_def idField_def noField_def mergeRow_def rowsEqual_def writeValue_def writeInt_def
        toInt64_def ParseInt_FormatInt[OF ints(2)] intBoundaries_def intCell_def minInt64_def maxInt64_def)
qed

subsection \<open>Witnesses\<close>

text \<open>A cluster whose state is a table of rows by their \<open>id\<close>.\<close>

definition tableWrite :: "string \<Rightarrow> writeRow list \<Rightarrow> (gval \<Rightarrow> row option, writeResult) call" where
  "tableWrite name rows = (\<lambda>t.
     case mapE (\<lambda>row. writeValue idField (cell row ''id'')) rows of
       Inl e \<Rightarrow> (Inl (WriteFail (Rejected e)), t)
     | Inr ks \<Rightarrow> (Inr \<lparr>wrCount = int (length rows), wrIDs = []\<rparr>, fold (\<lambda>(k, row) t. t(k \<mapsto> row)) (zip ks rows) t))"

definition tableSearch :: "string \<Rightarrow> plan \<Rightarrow> (gval \<Rightarrow> row option) \<Rightarrow> ((storeError + searchResult) \<times> (gval \<Rightarrow> row option)) option" where
  "tableSearch name p t =
     (let k = (case pExpr p of Compare _ _ (IntValue n) \<Rightarrow> GInt64 n | Compare _ _ (StringValue x) \<Rightarrow> GStr x | _ \<Rightarrow> GNil) in
      Some (Inr (case t k of None \<Rightarrow> emptyResult | Some row \<Rightarrow> \<lparr>srTotal = 1, srHits = [\<lparr>hitId = idText k, hitSource = row\<rparr>]\<rparr>), t))"

definition tableMeta :: collectionMeta where
  "tableMeta = \<lparr>cmName = ''c'', cmFields = [idField], cmFunctionOutputs = []\<rparr>"

definition tableCluster :: "(gval \<Rightarrow> row option) cluster" where
  "tableCluster = logCluster\<lparr>clCollection := (\<lambda>_. returnS tableMeta), clSearch := tableSearch,
     clInsert := tableWrite, clUpsert := tableWrite\<rparr>"

lemma tableCluster_contract: "write_contract tableCluster"
  by unfold_locales (auto simp: tableCluster_def tableWrite_def split: sum.splits)

lemma tableCluster_serves: "servesDocuments tableCluster ''c'' idField (\<lambda>t. t) (\<lambda>row. row)"
proof -
  have "primaryKeyOf tableMeta = idField" by (simp add: primaryKeyOf_def tableMeta_def idField_def noField_def)
  moreover have "fmName idField = ''id''" by (simp add: idField_def)
  ultimately show ?thesis
    unfolding servesDocuments_def
    by (auto simp: tableCluster_def tableWrite_def tableSearch_def returnS_def keyPlan_def emptyPlan_def isKey_def
        pkValue_def emptyResult_def Let_def bindE_eq_Inr bindE_eq_Inl split: option.splits sum.splits gval.splits)
qed

lemma idField_client: "clientKey idField" "fmName idField = ''id''"
  by (simp_all add: clientKey_def idField_def noField_def)

definition putRequest :: docRequest where
  "putRequest = \<lparr>dqIndex = ''c'', dqId = ''7'', dqParams = [], dqOpType = [], dqBody = Inr (ObjectBody [])\<rparr>"

lemma ParseInt_7: "ParseInt ''7'' = Some 7" by code_simp

lemmas run_handler = bindH_def checkH_def callH_def searchH_def answered_def respond_def returnH_def stopH_def Let_def

lemmas run_table = tableCluster_def tableWrite_def tableSearch_def tableMeta_def returnS_def idField_def noField_def

lemmas run_write = rejectWriteParams_def readBody_def placeDocument_def primaryKeyOf_def
  resolveDocumentID_def checkExisting_def documentExists_def fetchDocument_def keyPlan_def pkValue_def storeDocument_def
  cell_def writeValue_def writeInt_def toInt64_def intBoundaries_def intCell_def minInt64_def maxInt64_def
  writeIndexResponse_def writeJSON_def


definition patchRequest :: updateRequest where
  "patchRequest = \<lparr>uqIndex = ''c'', uqId = ''7'',
     uqBody = Inr (ObjectBody [(''doc'', ObjectBody [(''f'', ''true'', Some (JBool True))])])\<rparr>"

definition tableOf :: "row \<Rightarrow> gval \<Rightarrow> row option" where
  "tableOf row k = (if k = GInt64 7 then Some row else None)"

lemma patch_decoded: "DecodeDocument (ObjectBody [(''f'', ''true'', Some (JBool True))]) sch = Inr [(''f'', GBool True)]"
proof -
  have "trimSpace ''true'' = ''true''" by code_simp
  then show ?thesis by (simp add: DecodeDocument_def decodeWriteValue_def)
qed


lemma upsert_autoid_refused_witness:
  "\<exists>e. storeUpsert (sampleClient\<lparr>wcDescribe := (\<lambda>_. Inr \<lparr>collName = ''c'',
       collFields = [\<lparr>efName = ''id'', efType = DtInt64, efPrimary = True, efNullable = False, efAutoID = True,
         efParams = [], efElement = DtOther\<rparr>], collFunctions = []\<rparr>)\<rparr>) ''c'' [[(''id'', GInt64 1)]] =
     (Inl (WriteFail (Rejected e)), [])"
  by (rule upsert_autoid_refused[where row = "[(''id'', GInt64 1)]", OF _ _ _ _ _ _ _])
    (auto simp: storedFields_def functionOutputFields_def isFunctionOutput_def)

lemma jsonValueEqual_equivalence_witness:
  "jsonValueEqual (JObj [(''b'', JNull), (''a'', JArr [])]) (JObj [(''a'', JArr []), (''b'', JNull)])"
proof -
  define q where "q = [CHR 34]"
  have "decodeJson (''{'' @ q @ ''a'' @ q @ '':[],'' @ q @ ''b'' @ q @ '':null}'') = Some (JObj [(''a'', JArr []), (''b'', JNull)])"
    "decodeJson (''{'' @ q @ ''b'' @ q @ '':null,'' @ q @ ''a'' @ q @ '':[]}'') = Some (JObj [(''b'', JNull), (''a'', JArr [])])"
    unfolding q_def by code_simp+
  from jsonValueEqual_equivalence[OF this this(2)] show ?thesis by code_simp
qed

end
