(* ===== verification/EsCatalog.thy ===== *)
theory EsCatalog
  imports EsWrite
begin

text \<open>
  The introspection endpoints of the Elasticsearch server (\<open>internal/esserver/catalog.go\<close>), the
  refused index DDL (\<open>ddl.go\<close>), and the routing of a request to its handler (\<open>server.go\<close> and the
  tables of routes in \<open>catalog.go\<close>, \<open>write.go\<close> and \<open>ddl.go\<close>).

  The handlers are those of \<open>EsHandler\<close>: functions of the cluster's state that answer early, answer
  at their end, or do not return. A JSON object stands for the Go map the handler fills; the
  encoder writes the members of a map by key. A path is the list of its decoded segments, \<open>[[]]\<close>
  for \<open>/\<close>, as \<open>ServeMux\<close> sees a path it does not redirect to a cleaned one.
\<close>

subsection \<open>Parameters and repetition\<close>

definition queryGet :: "(string \<times> string) list \<Rightarrow> string \<Rightarrow> string" where
  "queryGet q k = (case map_of q k of None \<Rightarrow> [] | Some v \<Rightarrow> v)"

definition queryHas :: "(string \<times> string) list \<Rightarrow> string \<Rightarrow> bool" where
  "queryHas q k \<longleftrightarrow> k \<in> fst ` set q"

fun mapH :: "('a \<Rightarrow> ('s, 'b) handler) \<Rightarrow> 'a list \<Rightarrow> ('s, 'b list) handler" where
  "mapH f [] = returnH []"
| "mapH f (x # xs) = bindH (f x) (\<lambda>y. bindH (mapH f xs) (\<lambda>ys. returnH (y # ys)))"

lemma mapH_length: "mapH f xs s = Some (Inr ys, s') \<Longrightarrow> length ys = length xs"
  by (induction xs arbitrary: s ys) (auto simp: handler)

lemma mapH_each:
  assumes "mapH f xs s = Some (Inr ys, s')"
    and "\<And>x y t t'. x \<in> set xs \<Longrightarrow> f x t = Some (Inr y, t') \<Longrightarrow> P x y"
  shows "list_all2 P xs ys"
  using assms by (induction xs arbitrary: s ys) (auto simp: handler)

lemma mapH_keeps:
  assumes "mapH f xs s = Some (r, s')" "\<And>x t y t'. x \<in> set xs \<Longrightarrow> f x t = Some (y, t') \<Longrightarrow> t' = t"
  shows "s' = s"
  using assms
proof (induction xs arbitrary: s r)
  case (Cons x xs)
  have xs: "\<And>y t z t'. y \<in> set xs \<Longrightarrow> f y t = Some (z, t') \<Longrightarrow> t' = t"
    by (erule Cons.prems(2)[OF list.set_intros(2)])
  from Cons.prems(1) consider e where "f x s = Some (Inl e, s')"
    | y t q where "f x s = Some (Inr y, t)" "mapH f xs t = Some (q, s')"
    by (auto simp: handler)
  then show ?case
  proof cases
    case 1
    then show ?thesis by (rule Cons.prems(2)[of x, OF list.set_intros(1)])
  next
    case 2
    have "t = s" by (rule Cons.prems(2)[of x, OF list.set_intros(1) 2(1)])
    moreover have "s' = t" by (rule Cons.IH[OF 2(2) xs])
    ultimately show ?thesis by simp
  qed
qed (simp add: handler)

subsection \<open>Index selection\<close>

text \<open>A path value names indices by a comma list, \<open>_all\<close> or \<open>*\<close>; an unknown name is skipped.\<close>

definition selectNames :: "string \<Rightarrow> string list \<Rightarrow> string list" where
  "selectNames pattern names =
     (if pattern = [] \<or> pattern = ''_all'' \<or> pattern = ''*'' then names
      else concat (map (\<lambda>want. case find (\<lambda>name. name = want) names of Some name \<Rightarrow> [name] | None \<Rightarrow> [])
                     (splitOn (CHR '','') pattern)))"

definition listFailed :: "storeError \<Rightarrow> esResponse" where
  "listFailed e = es_writeError 500 [T ''failed to list indices: '', V ''err'']"

definition indexNames :: "'s cluster \<Rightarrow> string \<Rightarrow> ('s, string list) handler" where
  "indexNames cl pattern =
     bindH (callH listFailed (clListCollections cl)) (\<lambda>names. returnH (selectNames pattern names))"

subsection \<open>_cat\<close>

definition docsCount :: "'s cluster \<Rightarrow> string \<Rightarrow> ('s, string) handler" where
  "docsCount cl name = (\<lambda>s. case clCollectionStats cl name s of
     (Inl e, s') \<Rightarrow> Some (if isPanic e then Inl panicResponse else Inr ''-1'', s')
   | (Inr n, s') \<Rightarrow> Some (Inr (FormatInt n), s'))"

definition catColumns :: "(string \<times> ('s cluster \<Rightarrow> string \<Rightarrow> ('s, string) handler)) list" where
  "catColumns =
     [(''index'', \<lambda>cl name. returnH name),
      (''health'', \<lambda>cl name. returnH ''green''),
      (''status'', \<lambda>cl name. returnH ''open''),
      (''pri'', \<lambda>cl name. returnH ''1''),
      (''rep'', \<lambda>cl name. returnH ''0''),
      (''docs.count'', docsCount),
      (''docs.deleted'', \<lambda>cl name. returnH ''0''),
      (''store.size'', \<lambda>cl name. returnH ''0b''),
      (''pri.store.size'', \<lambda>cl name. returnH ''0b''),
      (''creation.date'', \<lambda>cl name. returnH ''0''),
      (''uuid'', \<lambda>cl name. returnH (''lyrebird-'' @ name))]"

definition selectColumns ::
  "string list \<Rightarrow> (string \<times> ('s cluster \<Rightarrow> string \<Rightarrow> ('s, string) handler)) list" where
  "selectColumns wanted =
     concat (map (\<lambda>w. case find (\<lambda>c. fst c = w) catColumns of Some c \<Rightarrow> [c] | None \<Rightarrow> []) wanted)"

definition catCells ::
  "'s cluster \<Rightarrow> (string \<times> ('s cluster \<Rightarrow> string \<Rightarrow> ('s, string) handler)) list \<Rightarrow> string \<Rightarrow> ('s, string list) handler" where
  "catCells cl columns name = mapH (\<lambda>c. snd c cl name) columns"

definition catRow :: "string list \<Rightarrow> string list \<Rightarrow> json" where
  "catRow names cells = JObj (fold (\<lambda>(k, v) m. setKey k (JStr v) m) (zip names cells) [])"

definition tabLine :: "string list \<Rightarrow> string" where
  "tabLine cells = joinStr [CHR 0x09] cells @ [CHR 0x0A]"

definition catIndices :: "'s cluster \<Rightarrow> string \<Rightarrow> (string \<times> string) list \<Rightarrow> 's \<Rightarrow> (esResponse \<times> 's) option" where
  "catIndices cl pattern q =
     respond (bindH (indexNames cl pattern) (\<lambda>names.
       let columns = (if queryGet q ''h'' = [] then catColumns else selectColumns (splitOn (CHR '','') (queryGet q ''h'')));
           headers = map fst columns
       in bindH (mapH (catCells cl columns) names) (\<lambda>lines.
            returnH
              (if queryGet q ''format'' = ''json'' then writeJSON 200 (JsonBody (JArr (map (catRow headers) lines)))
               else writeJSON 200 (TextBody
                 ((if queryHas q ''v'' then tabLine headers else []) @ concat (map tabLine lines)))))))"

definition catAliases :: "(string \<times> string) list \<Rightarrow> esResponse" where
  "catAliases q =
     (if queryGet q ''format'' = ''json'' then writeJSON 200 (JsonBody (JArr []))
      else writeJSON 200 (TextBody []))"

definition dataStreams :: esResponse where
  "dataStreams = writeJSON 200 (JsonBody (JObj [(''data_streams'', JArr [])]))"

subsection \<open>Cluster probes\<close>

definition clusterInfo :: esResponse where
  "clusterInfo = writeJSON 200 (JsonBody (JObj
     [(''name'', JStr ''lyrebird''), (''cluster_name'', JStr ''milvus''), (''cluster_uuid'', JStr ''lyrebird-dev''),
      (''version'', JObj [(''number'', JStr ''8.11.0''), (''build_flavor'', JStr ''default''),
         (''build_type'', JStr ''docker''), (''lucene_version'', JStr ''9.8.0'')]),
      (''tagline'', JStr ''You Know, for Search (over Milvus)'')]))"

definition healthMembers :: "(string \<times> json) list" where
  "healthMembers =
     [(''cluster_name'', JStr ''milvus''), (''status'', JStr ''green''), (''timed_out'', JBool False),
      (''number_of_nodes'', JNum ''1''), (''number_of_data_nodes'', JNum ''1''),
      (''active_primary_shards'', JNum ''0''), (''active_shards'', JNum ''0''),
      (''relocating_shards'', JNum ''0''), (''initializing_shards'', JNum ''0''),
      (''unassigned_shards'', JNum ''0''), (''delayed_unassigned_shards'', JBool False),
      (''number_of_pending_tasks'', JNum ''0''), (''task_max_waiting_in_queue_millis'', JNum ''0''),
      (''active_shards_percent_as_number'', JNum ''100'')]"

definition noSuchIndex :: "string \<Rightarrow> storeError \<Rightarrow> esResponse" where
  "noSuchIndex name e =
     writeErrorEnvelope 404 ''index_not_found_exception'' [T ''no such index ['', S name, T '']''] name"

definition clusterHealth :: "'s cluster \<Rightarrow> string \<Rightarrow> 's \<Rightarrow> (esResponse \<times> 's) option" where
  "clusterHealth cl name =
     respond
       (if name = [] then returnH (writeJSON 200 (JsonBody (JObj healthMembers)))
        else bindH (callH (noSuchIndex name) (clCollection cl name)) (\<lambda>meta.
          returnH (writeJSON 200 (JsonBody (JObj (setKey ''indices''
            (JObj [(cmName meta, JObj [(''status'', JStr ''green''), (''number_of_shards'', JNum ''1''),
                                       (''number_of_replicas'', JNum ''0'')])]) healthMembers))))))"

subsection \<open>_mapping\<close>

definition esType :: "string \<Rightarrow> json" where
  "esType ty = JObj [(''type'', JStr ty)]"

definition denseVector :: "int \<Rightarrow> json" where
  "denseVector dim = JObj [(''type'', JStr ''dense_vector''), (''dim'', JNum (FormatInt dim))]"

definition fieldMapping :: "fieldMeta \<Rightarrow> json" where
  "fieldMapping f =
     (let native = fmNative f in
      if native \<in> {''int8'', ''int16'', ''int32'', ''int64''} then esType ''long''
      else if native = ''float32'' then esType ''float''
      else if native = ''float64'' then esType ''double''
      else if native = ''bool'' then esType ''boolean''
      else if native = ''string'' then (if fmType f = TypeText then esType ''text'' else esType ''keyword'')
      else if native = ''float_vector'' then denseVector (fmDim f)
      else if native \<in> {''json'', ''array''} then esType ''object''
      else (case fmType f of
          TypeNumber \<Rightarrow> esType ''double''
        | TypeBool \<Rightarrow> esType ''boolean''
        | TypeVector \<Rightarrow> denseVector (fmDim f)
        | TypeText \<Rightarrow> esType ''text''
        | TypeKeyword \<Rightarrow> esType ''keyword''
        | TypeDate \<Rightarrow> esType ''keyword''
        | TypeUnknown \<Rightarrow> esType ''object''))"

definition mappingProperties :: "collectionMeta \<Rightarrow> json" where
  "mappingProperties meta = JObj (fold (\<lambda>f m. setKey (fmName f) (fieldMapping f) m) (cmFields meta) [])"

text \<open>The description of one selected index: a name that vanished in between is skipped.\<close>

definition mappingOf :: "'s cluster \<Rightarrow> string \<Rightarrow> ('s, (string \<times> json) list) handler" where
  "mappingOf cl name = (\<lambda>s. case clCollection cl name s of
     (Inl e, s') \<Rightarrow> Some (if isPanic e then Inl panicResponse else Inr [], s')
   | (Inr meta, s') \<Rightarrow>
       Some (Inr [(name, JObj [(''mappings'', JObj [(''properties'', mappingProperties meta)])])], s'))"

definition es_mapping :: "'s cluster \<Rightarrow> string \<Rightarrow> 's \<Rightarrow> (esResponse \<times> 's) option" where
  "es_mapping cl pathIndex =
     (let pattern = (if pathIndex = [] then ''_all'' else pathIndex) in
      respond (bindH (indexNames cl pattern) (\<lambda>names.
        if names = [] \<and> pattern \<noteq> ''_all'' \<and> pattern \<noteq> ''*'' \<and> pattern \<noteq> []
        then stopH (writeErrorEnvelope 404 ''index_not_found_exception'' [T ''no such index ['', S pattern, T '']''] pattern)
        else bindH (mapH (mappingOf cl) names) (\<lambda>parts.
          returnH (writeJSON 200 (JsonBody (JObj (fold (\<lambda>(k, v) m. setKey k v m) (concat parts) []))))))))"

subsection \<open>Index DDL\<close>

definition ddlRefuse :: "string \<Rightarrow> esResponse" where
  "ddlRefuse what =
     writeErrorEnvelope 400 ''unsupported_exception''
       [S what, T '' is not supported: collections are created through lyrebird's control plane, not through index DDL (Phase 4b)''] []"

definition bulkRefuse :: esResponse where
  "bulkRefuse = writeUnsupported [T ''_bulk (use the per-document APIs)'']"

end
