(* ===== verification/EsServer.thy ===== *)
theory EsServer
  imports EsCatalog
begin

text \<open>
  The Elasticsearch server as a whole: the table of routes that \<open>New\<close> and its \<open>install\<close> functions
  register, how \<open>ServeMux\<close> chooses among them, and the dispatch of a request to its handler.

  A pattern is a list of literal or wildcard segments; \<open>/{$}\<close> is the literal empty segment, and
  the pattern \<open>/\<close> matches every path. A wildcard matches one non-empty segment. A pattern for
  \<open>GET\<close> also serves \<open>HEAD\<close>. The library prefers a pattern of the request's method to one of every
  method, and literals to wildcards from the left; what it documents is that the most specific
  pattern wins, and that two patterns of which neither is more specific than the other may not be
  registered together. Both are proved of this table.
\<close>

subsection \<open>Patterns\<close>

datatype endpoint =
    ClusterInfo | SearchIndex | CatIndices | CatAliases | DataStreams | ClusterHealth | Mapping
  | IndexDocument | CreateDocument | UpdateDocument | Bulk | Ddl string | NoEndpoint

datatype pathSeg = Lit string | Wild string

record route =
  rtMethod :: "string option"
  rtSegs :: "pathSeg list"
  rtRest :: bool
  rtEndpoint :: endpoint

abbreviation onPath :: "string \<Rightarrow> pathSeg list \<Rightarrow> endpoint \<Rightarrow> route" where
  "onPath m segs e \<equiv> \<lparr>rtMethod = Some m, rtSegs = segs, rtRest = False, rtEndpoint = e\<rparr>"

definition catalogRoutes :: "route list" where
  "catalogRoutes =
     [onPath ''GET'' [Lit ''_cat'', Lit ''indices''] CatIndices,
      onPath ''GET'' [Lit ''_cat'', Lit ''indices'', Wild ''index''] CatIndices,
      onPath ''GET'' [Lit ''_cat'', Lit ''aliases''] CatAliases,
      onPath ''GET'' [Lit ''_data_stream''] DataStreams,
      onPath ''GET'' [Lit ''_cluster'', Lit ''health''] ClusterHealth,
      onPath ''GET'' [Lit ''_cluster'', Lit ''health'', Wild ''index''] ClusterHealth,
      onPath ''GET'' [Lit ''_mapping''] Mapping,
      onPath ''GET'' [Lit ''_mappings''] Mapping,
      onPath ''GET'' [Lit ''_all'', Lit ''_mapping''] Mapping,
      onPath ''GET'' [Lit ''_all'', Lit ''_mappings''] Mapping,
      onPath ''GET'' [Wild ''index'', Lit ''_mapping''] Mapping,
      onPath ''GET'' [Wild ''index'', Lit ''_mappings''] Mapping]"

definition writeRoutes :: "route list" where
  "writeRoutes =
     [onPath ''PUT'' [Wild ''index'', Lit ''_doc''] IndexDocument,
      onPath ''POST'' [Wild ''index'', Lit ''_doc''] IndexDocument,
      onPath ''PUT'' [Wild ''index'', Lit ''_doc'', Wild ''id''] IndexDocument,
      onPath ''POST'' [Wild ''index'', Lit ''_doc'', Wild ''id''] IndexDocument,
      onPath ''PUT'' [Wild ''index'', Lit ''_create'', Wild ''id''] CreateDocument,
      onPath ''POST'' [Wild ''index'', Lit ''_create'', Wild ''id''] CreateDocument,
      onPath ''PUT'' [Wild ''index'', Lit ''_update'', Wild ''id''] UpdateDocument,
      onPath ''POST'' [Wild ''index'', Lit ''_update'', Wild ''id''] UpdateDocument,
      onPath ''POST'' [Lit ''_bulk''] Bulk,
      onPath ''POST'' [Wild ''index'', Lit ''_bulk''] Bulk]"

definition ddlRoutes :: "route list" where
  "ddlRoutes =
     [onPath ''PUT'' [Wild ''index''] (Ddl ''index creation''),
      onPath ''DELETE'' [Wild ''index''] (Ddl ''index deletion''),
      onPath ''PUT'' [Wild ''index'', Lit ''_mapping''] (Ddl ''mapping updates''),
      onPath ''PUT'' [Wild ''index'', Lit ''_settings''] (Ddl ''settings updates'')]"

definition esRoutes :: "route list" where
  "esRoutes =
     [onPath ''GET'' [Lit []] ClusterInfo,
      onPath ''POST'' [Wild ''index'', Lit ''_search''] SearchIndex,
      onPath ''GET'' [Wild ''index'', Lit ''_search''] SearchIndex]
     @ catalogRoutes @ writeRoutes @ ddlRoutes
     @ [\<lparr>rtMethod = None, rtSegs = [], rtRest = True, rtEndpoint = NoEndpoint\<rparr>]"

subsection \<open>Matching and choice\<close>

fun matchPath :: "pathSeg list \<Rightarrow> bool \<Rightarrow> string list \<Rightarrow> (string \<times> string) list option" where
  "matchPath [] wide path = (if path = [] \<or> wide then Some [] else None)"
| "matchPath (_ # _) wide [] = None"
| "matchPath (Lit l # segs) wide (x # path) = (if x = l then matchPath segs wide path else None)"
| "matchPath (Wild n # segs) wide (x # path) =
     (if x = [] then None else map_option (\<lambda>vs. (n, x) # vs) (matchPath segs wide path))"

definition servesMethod :: "route \<Rightarrow> string \<Rightarrow> bool" where
  "servesMethod rt m \<longleftrightarrow>
     (case rtMethod rt of None \<Rightarrow> True | Some w \<Rightarrow> w = m \<or> (w = ''GET'' \<and> m = ''HEAD''))"

definition servesRequest :: "route \<Rightarrow> string \<Rightarrow> string list \<Rightarrow> bool" where
  "servesRequest rt m path \<longleftrightarrow> servesMethod rt m \<and> matchPath (rtSegs rt) (rtRest rt) path \<noteq> None"

text \<open>The preference of the library's decision tree: methods first, then literals before wildcards,
  and the pattern of every path last.\<close>

fun segRank :: "pathSeg \<Rightarrow> nat" where
  "segRank (Lit _) = 0"
| "segRank (Wild _) = 1"

definition routeRank :: "route \<Rightarrow> string \<Rightarrow> nat list" where
  "routeRank rt m =
     (if rtMethod rt = Some m then 0 else if rtMethod rt \<noteq> None then 1 else 2)
       # map segRank (rtSegs rt) @ [if rtRest rt then 2 else 0]"

fun rankLess :: "nat list \<Rightarrow> nat list \<Rightarrow> bool" where
  "rankLess (a # as) (b # bs) \<longleftrightarrow> a < b \<or> a = b \<and> rankLess as bs"
| "rankLess _ _ \<longleftrightarrow> False"

definition preferRoute :: "string \<Rightarrow> route option \<Rightarrow> route \<Rightarrow> route option" where
  "preferRoute m best rt =
     (case best of None \<Rightarrow> Some rt
      | Some b \<Rightarrow> if rankLess (routeRank rt m) (routeRank b m) then Some rt else Some b)"

definition chooseRoute :: "route list \<Rightarrow> string \<Rightarrow> string list \<Rightarrow> route option" where
  "chooseRoute routes m path = foldl (preferRoute m) None (filter (\<lambda>rt. servesRequest rt m path) routes)"

subsection \<open>Dispatch\<close>

text \<open>A request with its body in the decodings the handlers ask for.\<close>

record esRequest =
  rqMethod :: string
  rqPath :: "string list"
  rqParams :: "(string \<times> string) list"
  rqNoBody :: bool
  rqSourceBody :: "(string \<times> json) requestBody"
  rqBody :: "(string \<times> json) requestBody"
  rqDocument :: "string + docBody"
  rqUpdate :: "string + (string \<times> docBody) requestBody"

definition noEndpoint :: "string \<Rightarrow> string list \<Rightarrow> esResponse" where
  "noEndpoint m path = es_writeError 404 [T ''no such endpoint: '', S m, T '' '', S (''/'' @ joinStr ''/'' path)]"

fun serveEndpoint ::
  "'s cluster \<Rightarrow> int + nat list \<Rightarrow> esRequest \<Rightarrow> endpoint \<Rightarrow> string \<Rightarrow> string \<Rightarrow> 's \<Rightarrow> (esResponse \<times> 's) option" where
  "serveEndpoint cl random r ClusterInfo index i s = Some (clusterInfo, s)"
| "serveEndpoint cl random r SearchIndex index i s =
     searchHandler cl
       \<lparr>sqIndex = index, sqHasQ = queryHas (rqParams r) ''q'', sqSource = queryGet (rqParams r) ''source'',
        sqNoBody = rqNoBody r, sqSourceBody = rqSourceBody r, sqBody = rqBody r\<rparr> s"
| "serveEndpoint cl random r CatIndices index i s = catIndices cl index (rqParams r) s"
| "serveEndpoint cl random r CatAliases index i s = Some (catAliases (rqParams r), s)"
| "serveEndpoint cl random r DataStreams index i s = Some (dataStreams, s)"
| "serveEndpoint cl random r ClusterHealth index i s = clusterHealth cl index s"
| "serveEndpoint cl random r Mapping index i s = es_mapping cl index s"
| "serveEndpoint cl random r IndexDocument index i s =
     indexDocument cl random
       \<lparr>dqIndex = index, dqId = i, dqParams = map fst (rqParams r),
        dqOpType = queryGet (rqParams r) ''op_type'', dqBody = rqDocument r\<rparr> s"
| "serveEndpoint cl random r CreateDocument index i s =
     createDocument cl random
       \<lparr>dqIndex = index, dqId = i, dqParams = map fst (rqParams r),
        dqOpType = queryGet (rqParams r) ''op_type'', dqBody = rqDocument r\<rparr> s"
| "serveEndpoint cl random r UpdateDocument index i s =
     updateDocument cl \<lparr>uqIndex = index, uqId = i, uqBody = rqUpdate r\<rparr> s"
| "serveEndpoint cl random r Bulk index i s = Some (bulkRefuse, s)"
| "serveEndpoint cl random r (Ddl what) index i s = Some (ddlRefuse what, s)"
| "serveEndpoint cl random r NoEndpoint index i s = Some (noEndpoint (rqMethod r) (rqPath r), s)"

definition serveHTTP :: "'s cluster \<Rightarrow> int + nat list \<Rightarrow> esRequest \<Rightarrow> 's \<Rightarrow> (esResponse \<times> 's) option" where
  "serveHTTP cl random r s =
     (case chooseRoute esRoutes (rqMethod r) (rqPath r) of
        None \<Rightarrow> Some (noEndpoint (rqMethod r) (rqPath r), s)
      | Some rt \<Rightarrow>
          (case matchPath (rtSegs rt) (rtRest rt) (rqPath r) of
             None \<Rightarrow> Some (noEndpoint (rqMethod r) (rqPath r), s)
           | Some vs \<Rightarrow> serveEndpoint cl random r (rtEndpoint rt) (queryGet vs ''index'') (queryGet vs ''id'') s))"

subsection \<open>The table has no conflict\<close>

text \<open>Every request one pattern serves, another serves too; decided on the patterns.\<close>

fun segsCover :: "pathSeg list \<Rightarrow> bool \<Rightarrow> pathSeg list \<Rightarrow> bool \<Rightarrow> bool" where
  "segsCover [] True _ _ \<longleftrightarrow> True"
| "segsCover [] False [] False \<longleftrightarrow> True"
| "segsCover (Lit a # p) wide (Lit b # q) wide' \<longleftrightarrow> a = b \<and> segsCover p wide q wide'"
| "segsCover (Wild _ # p) wide (Lit b # q) wide' \<longleftrightarrow> b \<noteq> [] \<and> segsCover p wide q wide'"
| "segsCover (Wild _ # p) wide (Wild _ # q) wide' \<longleftrightarrow> segsCover p wide q wide'"
| "segsCover _ _ _ _ \<longleftrightarrow> False"

fun segsApart :: "pathSeg list \<Rightarrow> bool \<Rightarrow> pathSeg list \<Rightarrow> bool \<Rightarrow> bool" where
  "segsApart [] wide [] wide' \<longleftrightarrow> False"
| "segsApart [] wide (_ # _) _ \<longleftrightarrow> \<not> wide"
| "segsApart (_ # _) _ [] wide' \<longleftrightarrow> \<not> wide'"
| "segsApart (Lit a # p) wide (Lit b # q) wide' \<longleftrightarrow> a \<noteq> b \<or> segsApart p wide q wide'"
| "segsApart (Lit a # p) wide (Wild _ # q) wide' \<longleftrightarrow> a = [] \<or> segsApart p wide q wide'"
| "segsApart (Wild _ # p) wide (Lit b # q) wide' \<longleftrightarrow> b = [] \<or> segsApart p wide q wide'"
| "segsApart (Wild _ # p) wide (Wild _ # q) wide' \<longleftrightarrow> segsApart p wide q wide'"

definition covers :: "route \<Rightarrow> route \<Rightarrow> bool" where
  "covers a b \<longleftrightarrow> (rtMethod a = None \<or> rtMethod a = rtMethod b) \<and> segsCover (rtSegs a) (rtRest a) (rtSegs b) (rtRest b)"

definition apart :: "route \<Rightarrow> route \<Rightarrow> bool" where
  "apart a b \<longleftrightarrow>
     segsApart (rtSegs a) (rtRest a) (rtSegs b) (rtRest b) \<or>
     (case (rtMethod a, rtMethod b) of
        (Some m, Some n) \<Rightarrow> m \<noteq> n \<and> {m, n} \<noteq> {''GET'', ''HEAD''} | _ \<Rightarrow> False)"

lemma segsCover_match:
  "segsCover p wide q wide' \<Longrightarrow> matchPath q wide' path = Some vs \<Longrightarrow> matchPath p wide path \<noteq> None"
  by (induction p wide q wide' arbitrary: path vs rule: segsCover.induct)
    (case_tac path; auto split: if_splits)+

lemma segsApart_match:
  "segsApart p wide q wide' \<Longrightarrow> matchPath q wide' path = Some vs \<Longrightarrow> matchPath p wide path = None"
  by (induction p wide q wide' arbitrary: path vs rule: segsApart.induct)
    (case_tac path; auto split: if_splits)+

lemma covers_serves:
  "covers a b \<Longrightarrow> servesRequest b m path \<Longrightarrow> servesRequest a m path"
  by (cases "matchPath (rtSegs b) (rtRest b) path")
    (auto simp: covers_def servesRequest_def servesMethod_def dest: segsCover_match split: option.splits)

lemma apart_serves:
  "apart a b \<Longrightarrow> servesRequest b m path \<Longrightarrow> \<not> servesRequest a m path"
  by (cases "matchPath (rtSegs b) (rtRest b) path")
    (auto simp: apart_def servesRequest_def servesMethod_def dest: segsApart_match split: option.splits)

text \<open>Where one pattern covers another and not the other way round, the tree prefers the covered one.\<close>

definition coversAll :: "route \<Rightarrow> route \<Rightarrow> bool" where
  "coversAll a b \<longleftrightarrow> (\<forall>m path. servesRequest b m path \<longrightarrow> servesRequest a m path)"

abbreviation pathRank :: "pathSeg list \<Rightarrow> bool \<Rightarrow> nat list" where
  "pathRank segs wide \<equiv> map segRank segs @ [if wide then 2 else 0]"

lemma segsCover_rank:
  "segsCover p wide q wide' \<Longrightarrow> rankLess (pathRank q wide') (pathRank p wide) \<or>
     pathRank q wide' = pathRank p wide \<and> segsCover q wide' p wide"
proof (induction p wide q wide' rule: segsCover.induct)
  case (1 q wide')
  then show ?case by (cases q; cases wide'; cases "hd q") auto
qed auto

lemma rankLess_asym: "rankLess as bs \<Longrightarrow> \<not> rankLess bs as"
  by (induction as bs rule: rankLess.induct) auto

lemma covers_rank:
  assumes "covers a b" "\<not> covers b a" "servesMethod b m"
  shows "rankLess (routeRank b m) (routeRank a m)"
  using assms segsCover_rank[of "rtSegs a" "rtRest a" "rtSegs b" "rtRest b"]
  by (auto simp: covers_def routeRank_def servesMethod_def split: option.splits)

definition oneCovers :: "route \<Rightarrow> route \<Rightarrow> bool" where
  "oneCovers a b \<longleftrightarrow> covers a b \<noteq> covers b a"

fun unambiguous :: "route list \<Rightarrow> bool" where
  "unambiguous [] \<longleftrightarrow> True"
| "unambiguous (a # rs) \<longleftrightarrow> list_all (\<lambda>b. apart a b \<or> oneCovers a b) rs \<and> unambiguous rs"

lemma esRoutes_unambiguous: "unambiguous esRoutes"
  by code_simp

lemma oneCovers_sym: "oneCovers a b \<Longrightarrow> oneCovers b a"
  by (auto simp: oneCovers_def)

lemma unambiguous_pair:
  assumes "unambiguous rs" "a \<in> set rs" "b \<in> set rs" "a \<noteq> b" "servesRequest a m path" "servesRequest b m path"
  shows "oneCovers a b"
  using assms
proof (induction rs)
  case (Cons c rs)
  have head: "oneCovers c x" if "x \<in> set rs" "servesRequest c m path" "servesRequest x m path" for x
    using Cons.prems(1) that(1) apart_serves[OF _ that(3), of c] that(2) by (auto simp: list_all_iff)
  consider "a = c" "b \<in> set rs" | "b = c" "a \<in> set rs" | "a \<in> set rs" "b \<in> set rs" using Cons.prems(2-4) by auto
  then show ?case using Cons head oneCovers_sym by cases auto
qed simp

lemma preferRoute_least:
  assumes "\<And>a b. a \<in> set rs \<Longrightarrow> b \<in> set rs \<Longrightarrow> a \<noteq> b \<Longrightarrow> oneCovers a b"
    and "\<And>a. a \<in> set rs \<Longrightarrow> servesMethod a m" "rs \<noteq> []"
  shows "\<exists>b \<in> set rs. foldl (preferRoute m) None rs = Some b \<and> (\<forall>a \<in> set rs. coversAll a b)"
  using assms
proof (induction rs rule: rev_induct)
  case (snoc c rs)
  show ?case
  proof (cases "rs = []")
    case False
    have "\<exists>b \<in> set rs. foldl (preferRoute m) None rs = Some b \<and> (\<forall>a \<in> set rs. coversAll a b)"
      by (rule snoc.IH) (use snoc.prems False in auto)
    then obtain b where b: "b \<in> set rs" "foldl (preferRoute m) None rs = Some b" "\<forall>a \<in> set rs. coversAll a b" by blast
    have chain: "coversAll a c" if "a \<in> set rs" "covers b c" for a
      using b(3) that covers_serves[OF that(2)] unfolding coversAll_def by blast
    have refl: "coversAll a a" for a by (simp add: coversAll_def)
    consider "b = c" | "covers b c" "\<not> covers c b" | "covers c b" "\<not> covers b c" "b \<noteq> c"
      using snoc.prems(1)[of b c] b(1) by (auto simp: oneCovers_def)
    then show ?thesis
    proof cases
      case 2
      then have "rankLess (routeRank c m) (routeRank b m)" using covers_rank snoc.prems(2) by simp
      then have "foldl (preferRoute m) None (rs @ [c]) = Some c" using b(2) by (simp add: preferRoute_def[of m "Some b"])
      then show ?thesis using chain[OF _ 2(1)] refl by auto
    next
      case 3
      then have "\<not> rankLess (routeRank c m) (routeRank b m)" using covers_rank[OF 3(1,2)] snoc.prems(2) b(1) rankLess_asym by simp
      then have "foldl (preferRoute m) None (rs @ [c]) = Some b" using b(2) by (simp add: preferRoute_def[of m "Some b"])
      then show ?thesis using b covers_serves[OF 3(1)] by (auto simp: coversAll_def)
    next
      case 1
      have "foldl (preferRoute m) None (rs @ [c]) = Some b" using b(2) 1 by (simp add: preferRoute_def[of m "Some c"])
      then show ?thesis using b 1 by auto
    qed
  qed (simp add: preferRoute_def coversAll_def)
qed simp

lemma servesRequest_method: "servesRequest rt m path \<Longrightarrow> servesMethod rt m"
  by (simp add: servesRequest_def)

lemma chooseRoute_least:
  assumes "unambiguous routes" "\<exists>rt \<in> set routes. servesRequest rt m path"
  shows "\<exists>rt \<in> set routes. chooseRoute routes m path = Some rt \<and> servesRequest rt m path \<and>
    (\<forall>a \<in> set routes. servesRequest a m path \<longrightarrow> coversAll a rt)"
proof -
  let ?rs = "filter (\<lambda>rt. servesRequest rt m path) routes"
  have "\<exists>b \<in> set ?rs. foldl (preferRoute m) None ?rs = Some b \<and> (\<forall>a \<in> set ?rs. coversAll a b)"
    by (rule preferRoute_least)
      (use assms(2) unambiguous_pair[OF assms(1), where m = m and path = path] in
        \<open>auto simp: filter_empty_conv dest: servesRequest_method\<close>)
  then show ?thesis unfolding chooseRoute_def by auto
qed

lemma some_route: "\<exists>rt \<in> set esRoutes. servesRequest rt m path"
  by (rule bexI[of _ "last esRoutes"]) (simp_all add: esRoutes_def servesRequest_def servesMethod_def)

text \<open>C29. Routing is total and unambiguous: whatever the method and the path, the server chooses a
  pattern that serves the request, and every other pattern that serves it serves every request the
  chosen one does. So no two registered patterns conflict, and the catch-all of unknown endpoints
  is chosen only when nothing else serves.\<close>

theorem es_routing:
  "\<exists>rt \<in> set esRoutes. chooseRoute esRoutes m path = Some rt \<and> servesRequest rt m path \<and>
     (\<forall>a \<in> set esRoutes. servesRequest a m path \<longrightarrow>
        (\<forall>m' path'. servesRequest rt m' path' \<longrightarrow> servesRequest a m' path'))"
  using chooseRoute_least[OF esRoutes_unambiguous some_route, of m path] unfolding coversAll_def .

lemma es_routing_witness:
  "chooseRoute esRoutes ''GET'' [''_all'', ''_mapping''] = Some (onPath ''GET'' [Lit ''_all'', Lit ''_mapping''] Mapping) \<and>
   servesRequest (onPath ''GET'' [Wild ''index'', Lit ''_mapping''] Mapping) ''GET'' [''_all'', ''_mapping'']"
proof -
  have c: "chooseRoute esRoutes ''GET'' [''_all'', ''_mapping''] = Some (onPath ''GET'' [Lit ''_all'', Lit ''_mapping''] Mapping)"
    by code_simp
  have "servesRequest (onPath ''GET'' [Lit ''_all'', Lit ''_mapping''] Mapping) ''GET'' [''_all'', ''_mapping'']"
    using es_routing[of "''GET''" "[''_all'', ''_mapping'']"] c by auto
  then show ?thesis using c by (simp add: servesRequest_def servesMethod_def)
qed

end
