(* ===== verification/EsServed.thy ===== *)
theory EsServed
  imports EsServer
begin

text \<open>
  What the Elasticsearch server promises as a whole: which requests can change the store and how,
  what \<open>_mapping\<close> and \<open>_cat/indices\<close> report, and that the mapping a client reads agrees with the
  types its queries are checked against.
\<close>

subsection \<open>Reads and writes\<close>

text \<open>A store whose reads leave it as it is.\<close>

locale steady_reads =
  fixes cl :: "'s cluster"
  assumes list_steady: "clListCollections cl s = (names, s') \<Longrightarrow> s' = s"
    and collection_steady: "clCollection cl name s = (meta, s') \<Longrightarrow> s' = s"
    and schema_steady: "clSchema cl name s = (sch, s') \<Longrightarrow> s' = s"
    and stats_steady: "clCollectionStats cl name s = (n, s') \<Longrightarrow> s' = s"
    and search_steady: "clSearch cl name p s = Some (found, s') \<Longrightarrow> s' = s"

interpretation logging_reads: steady_reads logCluster
  by unfold_locales (auto simp: logCluster_def logSearch_def returnS_def failS_def split: if_splits sum.splits)

text \<open>One row written to the collection.\<close>

definition oneWrite :: "'s cluster \<Rightarrow> string \<Rightarrow> 's \<Rightarrow> 's \<Rightarrow> bool" where
  "oneWrite cl index s s' \<longleftrightarrow>
     (\<exists>row res. clInsert cl index [row] s = (res, s') \<or> clUpsert cl index [row] s = (res, s'))"

lemma find_In: "find P xs = Some x \<Longrightarrow> x \<in> set xs \<and> P x"
  by (induction xs) (auto split: if_splits)

lemma selectColumns_sub: "c \<in> set (selectColumns wanted) \<Longrightarrow> c \<in> set catColumns \<and> fst c \<in> set wanted"
proof -
  assume "c \<in> set (selectColumns wanted)"
  then obtain w where "w \<in> set wanted" "find (\<lambda>c. fst c = w) catColumns = Some c"
    unfolding selectColumns_def by (auto split: option.splits)
  then show ?thesis using find_In by fastforce
qed

lemma storeDocument_once:
  "storeDocument cl index pk i there row s = Some (r, s') \<Longrightarrow> oneWrite cl index s s'"
  by (cases there) (auto simp: storeDocument_def Let_def handler oneWrite_def)

lemma mergeDocument_once:
  "mergeDocument cl index i doc found s = Some (r, s') \<Longrightarrow> s' = s \<or> oneWrite cl index s s'"
  by (cases found) (auto simp: mergeDocument_def Let_def handler oneWrite_def split: if_splits)

context steady_reads
begin

lemmas steady = list_steady collection_steady schema_steady stats_steady search_steady

lemma fetchDocument_keeps:
  "fetchDocument cl index pk i s = Some (r, s') \<Longrightarrow> s' = s"
  by (auto simp: fetchDocument_def dest: search_steady split: option.splits prod.splits sum.splits)

lemma checkExisting_keeps:
  "checkExisting cl index pk i create s = Some (r, s') \<Longrightarrow> s' = s"
  by (auto simp: checkExisting_def documentExists_def handler dest: fetchDocument_keeps
      split: if_splits option.splits prod.splits sum.splits)

lemma writeDocument_once:
  assumes "writeDocument cl random r wp s = Some (resp, s')"
  shows "s' = s \<or> oneWrite cl (dqIndex r) s s'"
  using assms unfolding writeDocument_def placeDocument_def Let_def
  by (auto simp: handler dest: steady checkExisting_keeps storeDocument_once)

lemma updateDocument_once:
  assumes "updateDocument cl r s = Some (resp, s')"
  shows "s' = s \<or> oneWrite cl (uqIndex r) s s'"
  using assms unfolding updateDocument_def Let_def
  by (auto simp: handler dest: steady fetchDocument_keeps mergeDocument_once split: if_splits)

lemma docsCount_keeps: "docsCount cl name s = Some (r, s') \<Longrightarrow> s' = s"
  by (auto simp: docsCount_def dest: steady split: prod.splits sum.splits)

lemma catColumn_keeps:
  assumes "c \<in> set catColumns" "snd c cl name s = Some (r, s')"
  shows "s' = s"
  using assms by (auto simp: catColumns_def handler dest: docsCount_keeps)

lemma catCells_keeps:
  assumes "set columns \<subseteq> set catColumns" "catCells cl columns name s = Some (r, s')"
  shows "s' = s"
  using assms(2) unfolding catCells_def
  by (rule mapH_keeps) (use assms(1) catColumn_keeps in blast)

lemma catIndices_keeps:
  assumes "catIndices cl pattern q s = Some (resp, s')"
  shows "s' = s"
proof -
  let ?columns = "if queryGet q ''h'' = [] then catColumns else selectColumns (splitOn (CHR '','') (queryGet q ''h''))"
  have sub: "set ?columns \<subseteq> set catColumns" using selectColumns_sub by auto
  have cells: "t' = t" if "mapH (catCells cl ?columns) names t = Some (r, t')" for names t t' r
    using that by (rule mapH_keeps) (rule catCells_keeps[OF sub])
  show ?thesis
    using assms unfolding catIndices_def indexNames_def Let_def
    by (fastforce simp only: handler dest: list_steady cells)
qed

lemma mappingOf_keeps: "mappingOf cl name s = Some (r, s') \<Longrightarrow> s' = s"
  by (auto simp: mappingOf_def dest: steady split: prod.splits sum.splits)

lemma es_mapping_keeps:
  assumes "es_mapping cl p s = Some (resp, s')"
  shows "s' = s"
  using assms unfolding es_mapping_def indexNames_def Let_def
  by (auto simp: handler dest!: list_steady mapH_keeps[OF _ mappingOf_keeps] split: if_splits)

lemma clusterHealth_keeps:
  "clusterHealth cl name s = Some (resp, s') \<Longrightarrow> s' = s"
  by (auto simp: clusterHealth_def handler dest: steady split: if_splits)

lemma searchHandler_keeps:
  "searchHandler cl r s = Some (resp, s') \<Longrightarrow> s' = s"
  by (auto simp: searchHandler_def Let_def handler dest: steady split: if_splits)

end

subsection \<open>Which requests write\<close>

definition documentEndpoint :: "endpoint \<Rightarrow> bool" where
  "documentEndpoint e \<longleftrightarrow> e \<in> {IndexDocument, CreateDocument, UpdateDocument}"

definition documentPath :: "string list \<Rightarrow> bool" where
  "documentPath path \<longleftrightarrow>
     (\<exists>index i. index \<noteq> [] \<and> (path = [index, ''_doc''] \<or>
        i \<noteq> [] \<and> path \<in> {[index, ''_doc'', i], [index, ''_create'', i], [index, ''_update'', i]}))"

lemma matchPath_Nil: "matchPath [] w path = Some vs \<longleftrightarrow> (path = [] \<or> w) \<and> vs = []"
  by auto

lemma matchPath_Lit: "matchPath (Lit l # segs) w path = Some vs \<longleftrightarrow> (\<exists>q. path = l # q \<and> matchPath segs w q = Some vs)"
  by (cases path) auto

lemma matchPath_Wild:
  "matchPath (Wild n # segs) w path = Some vs \<longleftrightarrow>
   (\<exists>x q us. path = x # q \<and> x \<noteq> [] \<and> matchPath segs w q = Some us \<and> vs = (n, x) # us)"
  by (cases path) auto

lemmas matchPath_iff = matchPath_Nil matchPath_Lit matchPath_Wild

lemma document_routes:
  assumes "rt \<in> set esRoutes" "documentEndpoint (rtEndpoint rt)"
  shows "rtMethod rt \<in> {Some ''PUT'', Some ''POST''} \<and> \<not> rtRest rt \<and>
    rtSegs rt \<in> {[Wild ''index'', Lit ''_doc''], [Wild ''index'', Lit ''_doc'', Wild ''id''],
      [Wild ''index'', Lit ''_create'', Wild ''id''], [Wild ''index'', Lit ''_update'', Wild ''id'']}"
proof -
  have "rt \<in> set writeRoutes"
    using assms by (auto simp: esRoutes_def catalogRoutes_def ddlRoutes_def documentEndpoint_def)
  then show ?thesis using assms(2) by (auto simp: writeRoutes_def documentEndpoint_def)
qed

lemma document_route:
  assumes "rt \<in> set esRoutes" "servesMethod rt m" "matchPath (rtSegs rt) (rtRest rt) path = Some vs"
    and "documentEndpoint (rtEndpoint rt)"
  shows "m \<in> {''PUT'', ''POST''} \<and> documentPath path \<and> queryGet vs ''index'' = hd path"
proof -
  note shape = document_routes[OF assms(1,4)]
  have m: "m \<in> {''PUT'', ''POST''}" using shape assms(2) by (auto simp: servesMethod_def)
  have vs: "matchPath (rtSegs rt) False path = Some vs" using shape assms(3) by simp
  from shape consider (two) "rtSegs rt = [Wild ''index'', Lit ''_doc'']"
    | (three) op where "rtSegs rt = [Wild ''index'', Lit op, Wild ''id'']" "op \<in> {''_doc'', ''_create'', ''_update''}"
    by blast
  then have "documentPath path \<and> queryGet vs ''index'' = hd path"
  proof cases
    case two
    then show ?thesis using vs unfolding two matchPath_iff documentPath_def queryGet_def by force
  next
    case three
    then show ?thesis using vs unfolding three(1) matchPath_iff documentPath_def queryGet_def by force
  qed
  then show ?thesis using m by simp
qed

context steady_reads
begin

lemma serveEndpoint_once:
  assumes "serveEndpoint cl random r e index i s = Some (resp, s')"
  shows "s' = s \<or> documentEndpoint e \<and> oneWrite cl index s s'"
  using assms unfolding documentEndpoint_def
  by (cases e) (auto simp: indexDocument_def createDocument_def
      dest: searchHandler_keeps catIndices_keeps clusterHealth_keeps
        es_mapping_keeps writeDocument_once updateDocument_once)

end



subsection \<open>The answer of _mapping\<close>

text \<open>A store that lists its collections and describes each of them.\<close>

definition describesAll :: "'s cluster \<Rightarrow> (string \<Rightarrow> collectionMeta) \<Rightarrow> string list \<Rightarrow> 's \<Rightarrow> bool" where
  "describesAll cl metas names s \<longleftrightarrow>
     clListCollections cl s = (Inr names, s) \<and> (\<forall>name \<in> set names. clCollection cl name s = (Inr (metas name), s))"

definition explicitPattern :: "string \<Rightarrow> bool" where
  "explicitPattern p \<longleftrightarrow> p \<notin> {[], ''_all'', ''*''}"

definition mappingBody :: "collectionMeta \<Rightarrow> json" where
  "mappingBody meta = JObj [(''mappings'', JObj [(''properties'', mappingProperties meta)])]"

lemma selectNames_set:
  "set (selectNames p names) = (if explicitPattern p then set (splitOn (CHR '','') p) \<inter> set names else set names)"
proof -
  have "set (case find (\<lambda>name. name = want) names of Some name \<Rightarrow> [name] | None \<Rightarrow> []) = {want} \<inter> set names" for want
    by (induction names) auto
  then show ?thesis by (auto simp: selectNames_def explicitPattern_def)
qed

lemma mapH_mappingOf:
  assumes "describesAll cl metas all s" "set names \<subseteq> set all"
  shows "mapH (mappingOf cl) names s = Some (Inr (map (\<lambda>n. [(n, mappingBody (metas n))]) names), s)"
  using assms(2)
  by (induction names)
    (use assms(1) in \<open>auto simp: returnH_def bindH_def mappingOf_def mappingBody_def describesAll_def\<close>)

lemma fold_setKey_tagged:
  "map_of (fold (\<lambda>(k, v) m. setKey k v m) (map (\<lambda>n. (n, f n)) names) m0) n =
     (if n \<in> set names then Some (f n) else map_of m0 n)"
  by (induction names arbitrary: m0) (auto simp: map_of_setKey)

text \<open>C30. \<open>_mapping\<close> over a store that describes its collections: a selection that names no
  existing index is refused with the native 404, naming the selection; every other selection is
  answered, and the answer has exactly the selected existing indices, each with the properties of
  its own collection.\<close>

theorem es_mapping_answers:
  assumes "describesAll cl metas names s"
    and "pattern = (if p = [] then ''_all'' else p)" "chosen = set (selectNames pattern names)"
  shows "if explicitPattern pattern \<and> chosen = {}
    then es_mapping cl p s = Some (writeErrorEnvelope 404 ''index_not_found_exception''
           [T ''no such index ['', S pattern, T '']''] pattern, s)
    else \<exists>ms. es_mapping cl p s = Some (writeJSON 200 (JsonBody (JObj ms)), s) \<and>
           (\<forall>n. map_of ms n = (if n \<in> chosen then Some (mappingBody (metas n)) else None))"
proof -
  have listed: "indexNames cl pattern s = Some (Inr (selectNames pattern names), s)"
    using assms(1) by (simp add: indexNames_def bindH_def callH_def answered_def returnH_def describesAll_def)
  have each: "mapH (mappingOf cl) (selectNames pattern names) s =
      Some (Inr (map (\<lambda>n. [(n, mappingBody (metas n))]) (selectNames pattern names)), s)"
    by (rule mapH_mappingOf[OF assms(1)]) (auto simp: selectNames_set split: if_splits)
  let ?ms = "fold (\<lambda>(k, v) m. setKey k v m) (map (\<lambda>n. (n, mappingBody (metas n))) (selectNames pattern names)) []"
  have none: "selectNames pattern names = [] \<longleftrightarrow> chosen = {}" using assms(3) by simp
  show ?thesis
  proof (cases "explicitPattern pattern \<and> chosen = {}")
    case True
    then show ?thesis
      by (simp add: es_mapping_def assms(2)[symmetric] respond_def bindH_def listed stopH_def none explicitPattern_def)
  next
    case False
    then have "es_mapping cl p s = Some (writeJSON 200 (JsonBody (JObj ?ms)), s)"
      unfolding es_mapping_def assms(2)[symmetric]
      by (auto simp: respond_def bindH_def listed each returnH_def none explicitPattern_def
          concat_map_singleton simp del: fold_map)
    moreover have "\<forall>n. map_of ?ms n = (if n \<in> chosen then Some (mappingBody (metas n)) else None)"
      unfolding fold_setKey_tagged assms(3) by simp
    ultimately show ?thesis unfolding if_not_P[OF False] by blast
  qed
qed

subsection \<open>Mapping and query types\<close>


subsection \<open>Failures of a probe\<close>

text \<open>\<open>_cluster/health\<close> of a named index reports every failed description, also one of a store that
  is down, as a missing index, while \<open>_doc\<close> and \<open>_search\<close> tell the two apart.\<close>

lemma health_masks_failure:
  assumes "clCollection cl name s = (Inl e, s')" "\<not> isPanic e" "name \<noteq> []"
  shows "clusterHealth cl name s =
    Some (writeErrorEnvelope 404 ''index_not_found_exception'' [T ''no such index ['', S name, T '']''] name, s')"
  using assms by (simp add: clusterHealth_def respond_def bindH_def callH_def answered_def noSuchIndex_def)

subsection \<open>Instances\<close>

definition putHttp :: esRequest where
  "putHttp = \<lparr>rqMethod = ''PUT'', rqPath = [''c'', ''_doc'', ''7''], rqParams = [], rqNoBody = True,
     rqSourceBody = EmptyBody, rqBody = EmptyBody, rqDocument = Inr (ObjectBody []), rqUpdate = Inr EmptyBody\<rparr>"

lemma putHttp_route:
  "chooseRoute esRoutes ''PUT'' [''c'', ''_doc'', ''7''] =
     Some (onPath ''PUT'' [Wild ''index'', Lit ''_doc'', Wild ''id''] IndexDocument)"
  by code_simp

interpretation table_reads: steady_reads tableCluster
  by unfold_locales (auto simp: tableCluster_def logCluster_def returnS_def tableSearch_def Let_def)


definition twoTables :: "unit cluster" where
  "twoTables = logCluster\<lparr>clListCollections := returnS [''a'', ''b''],
     clCollection := (\<lambda>name. returnS \<lparr>cmName = name, cmFields = [idField], cmFunctionOutputs = []\<rparr>)\<rparr>"

lemma es_mapping_answers_witness:
  "\<exists>ms. es_mapping twoTables ''b,x'' () = Some (writeJSON 200 (JsonBody (JObj ms)), ()) \<and>
     map_of ms ''a'' = None \<and> map_of ms ''x'' = None \<and>
     map_of ms ''b'' = Some (JObj [(''mappings'', JObj [(''properties'', JObj [(''id'', esType ''long'')])])])"
proof -
  let ?metas = "\<lambda>name. \<lparr>cmName = name, cmFields = [idField], cmFunctionOutputs = []\<rparr>"
  have d: "describesAll twoTables ?metas [''a'', ''b''] ()"
    by (simp add: describesAll_def twoTables_def logCluster_def returnS_def)
  have pat: "''b,x'' = (if ''b,x'' = [] then ''_all'' else ''b,x'')" by simp
  have chosen: "set (selectNames ''b,x'' [''a'', ''b'']) = {''b''}" by code_simp
  have id: "mappingBody (?metas ''b'') = JObj [(''mappings'', JObj [(''properties'', JObj [(''id'', esType ''long'')])])]"
    by (simp add: mappingBody_def mappingProperties_def fieldMapping_def idField_def)
  from es_mapping_answers[OF d pat refl] show ?thesis
    unfolding chosen by (auto simp: id)
qed

end
