(* ===== verification/StorePool.thy ===== *)
theory StorePool
  imports Cluster
begin

text \<open>
  The connections of the Milvus executor (\<open>internal/store/milvus.go\<close> and \<open>cluster.go\<close>): one client for
  the base database, dialed at start, and a pool of clients for the other databases, each dialed
  on first use.

  Dialing is the client library's: a parameter, a function of the configuration and of the world
  it changes. The pool is shared by the views of all databases and guarded by a lock held for the
  whole of \<open>clientFor\<close>, so the calls of concurrent connections are a sequence of steps; between two
  of them the world may change in any way.
\<close>

subsection \<open>Configuration and dialing\<close>

record milvusConfig =
  cfURI :: string
  cfToken :: string
  cfDB :: string

record clientConfig =
  ccAddress :: string
  ccAPIKey :: string
  ccEnableTLSAuth :: bool
  ccDBName :: string

type_synonym ('w, 'c) dialer = "clientConfig \<Rightarrow> 'w \<Rightarrow> (string + 'c) \<times> 'w"

record 'c milvusExecutor =
  exCfg :: milvusConfig
  exCli :: 'c
  exDb :: string

type_synonym ('w, 'c) pooled = "(string \<times> 'c) list \<times> 'w"

definition clientConfigFor :: "milvusConfig \<Rightarrow> string \<Rightarrow> clientConfig" where
  "clientConfigFor cfg db =
     \<lparr>ccAddress = cfURI cfg, ccAPIKey = cfToken cfg, ccEnableTLSAuth = hasPrefix (cfURI cfg) ''https://'', ccDBName = db\<rparr>"

definition NewMilvusExecutor ::
  "('w, 'c) dialer \<Rightarrow> milvusConfig \<Rightarrow> 'w \<Rightarrow> (reason + 'c milvusExecutor) \<times> ('w, 'c) pooled" where
  "NewMilvusExecutor dial cfg w =
     (case dial (clientConfigFor cfg (cfDB cfg)) w of
        (Inl msg, w') \<Rightarrow> (Inl [T ''connect to milvus '', Q (cfURI cfg), T '': '', S msg], ([], w'))
      | (Inr cli, w') \<Rightarrow>
          (Inr \<lparr>exCfg = cfg, exCli = cli, exDb = (if cfDB cfg = [] then ''default'' else cfDB cfg)\<rparr>, ([], w')))"

definition clientFor ::
  "('w, 'c) dialer \<Rightarrow> 'c milvusExecutor \<Rightarrow> string \<Rightarrow> ('w, 'c) pooled \<Rightarrow> (reason + 'c) \<times> ('w, 'c) pooled" where
  "clientFor dial e db st =
     (let (pool, w) = st in
      if db = [] \<or> db = exDb e then (Inr (exCli e), st)
      else case map_of pool db of
          Some cli \<Rightarrow> (Inr cli, st)
        | None \<Rightarrow>
            (case dial (clientConfigFor (exCfg e) db) w of
               (Inl msg, w') \<Rightarrow> (Inl [T ''connect to milvus database '', Q db, T '': '', S msg], (pool, w'))
             | (Inr cli, w') \<Rightarrow> (Inr cli, (setKey db cli pool, w'))))"

definition poolDatabase ::
  "('w, 'c) dialer \<Rightarrow> 'c milvusExecutor \<Rightarrow> string \<Rightarrow> ('w, 'c) pooled \<Rightarrow> (reason + 'c milvusExecutor) \<times> ('w, 'c) pooled" where
  \<comment> \<open>the method \<open>Database\<close>: a view over the same pool\<close>
  "poolDatabase dial e db st =
     (if db = [] \<or> db = exDb e then (Inr e, st)
      else case clientFor dial e db st of
          (Inl err, st') \<Rightarrow> (Inl err, st')
        | (Inr cli, st') \<Rightarrow> (Inr \<lparr>exCfg = exCfg e, exCli = cli, exDb = db\<rparr>, st'))"

definition DefaultDatabase :: "'c milvusExecutor \<Rightarrow> string" where
  "DefaultDatabase e = exDb e"

text \<open>The clients \<open>Close\<close> closes: that of the executor, none of the pool.\<close>

definition closedBy :: "'c milvusExecutor \<Rightarrow> 'c list" where
  "closedBy e = [exCli e]"

subsection \<open>The states of a running gateway\<close>

inductive poolState :: "('w, 'c) dialer \<Rightarrow> 'c milvusExecutor \<Rightarrow> ('w, 'c) pooled \<Rightarrow> ('w, 'c) pooled \<Rightarrow> bool"
  for dial e st where
  now: "poolState dial e st st"
| call: "poolState dial e st st' \<Longrightarrow> poolState dial e st (snd (clientFor dial e db st'))"
| elsewhere: "poolState dial e st (pool, w) \<Longrightarrow> poolState dial e st (pool, w')"

text \<open>A dialer whose clients are bound to the database they were dialed for.\<close>

definition dialsFor :: "('w, 'c) dialer \<Rightarrow> ('c \<Rightarrow> string) \<Rightarrow> bool" where
  "dialsFor dial boundTo \<longleftrightarrow> (\<forall>cfg w c w'. dial cfg w = (Inr c, w') \<longrightarrow> boundTo c = ccDBName cfg)"

definition poolBound :: "('c \<Rightarrow> string) \<Rightarrow> (string \<times> 'c) list \<Rightarrow> bool" where
  "poolBound boundTo pool \<longleftrightarrow> (\<forall>db c. map_of pool db = Some c \<longrightarrow> boundTo c = db)"

lemma dialsForD:
  "dialsFor dial boundTo \<Longrightarrow> dial (clientConfigFor cfg db) w = (Inr c, w') \<Longrightarrow> boundTo c = db"
  unfolding dialsFor_def by (metis clientConfigFor_def clientConfig.select_convs(4))

lemma clientFor_bound:
  assumes "dialsFor dial boundTo" "poolBound boundTo (fst st)" "clientFor dial e db st = (res, st')"
  shows "poolBound boundTo (fst st')"
    and "res = Inr c \<Longrightarrow> db \<noteq> [] \<Longrightarrow> db \<noteq> exDb e \<Longrightarrow> boundTo c = db"
  using assms(2,3)
  by (auto simp: clientFor_def poolBound_def dest: dialsForD[OF assms(1)] split: prod.splits sum.splits option.splits if_splits)

lemma poolState_bound:
  "poolState dial e st st' \<Longrightarrow> dialsFor dial boundTo \<Longrightarrow> poolBound boundTo (fst st) \<Longrightarrow> poolBound boundTo (fst st')"
proof (induction rule: poolState.induct)
  case (call st' db)
  then show ?case by (cases "clientFor dial e db st'") (auto dest: clientFor_bound(1))
qed auto

lemma clientFor_keeps: "map_of (fst st) k = Some c \<Longrightarrow> map_of (fst (snd (clientFor dial e db st))) k = Some c"
  by (auto simp: clientFor_def Let_def split: prod.splits sum.splits option.splits)

lemma poolState_keeps: "poolState dial e st st' \<Longrightarrow> map_of (fst st) k = Some c \<Longrightarrow> map_of (fst st') k = Some c"
  by (induction rule: poolState.induct) (auto simp: clientFor_keeps)

lemma clientFor_pooled:
  "clientFor dial e db st = (Inr c, st') \<Longrightarrow> db \<noteq> [] \<Longrightarrow> db \<noteq> exDb e \<Longrightarrow> map_of (fst st') db = Some c"
  by (auto simp: clientFor_def split: prod.splits sum.splits option.splits)

text \<open>C28. Connections do not mix databases. Whatever sequence of connections a started gateway has
  served, the client it hands out for a database is bound to that database (the base client for
  the default one); and from then on every connection to this database gets the same client,
  without another dial, so each database is dialed at most once with success.\<close>

theorem pool_binds:
  assumes dials: "dialsFor dial boundTo" and start: "NewMilvusExecutor dial cfg w = (Inr e, st0)"
    and served: "poolState dial e st0 st" and got: "clientFor dial e db st = (Inr c, st')"
  shows "boundTo c = (if db = [] \<or> db = DefaultDatabase e then cfDB cfg else db) \<and>
    (\<forall>later. poolState dial e st' later \<longrightarrow> clientFor dial e db later = (Inr c, later))"
proof -
  have base: "boundTo (exCli e) = cfDB cfg" "fst st0 = []"
    using start by (auto simp: NewMilvusExecutor_def dest: dialsForD[OF dials] split: prod.splits sum.splits)
  have bound: "poolBound boundTo (fst st)"
    by (rule poolState_bound[OF served dials]) (simp add: base poolBound_def)
  have "boundTo c = (if db = [] \<or> db = DefaultDatabase e then cfDB cfg else db)"
    using clientFor_bound(2)[OF dials bound got refl] got base(1)
    by (auto simp: DefaultDatabase_def clientFor_def split: prod.splits)
  moreover have "clientFor dial e db later = (Inr c, later)" if later: "poolState dial e st' later" for later
  proof (cases "db = [] \<or> db = exDb e")
    case True
    then show ?thesis using got by (auto simp: clientFor_def split: prod.splits)
  next
    case False
    then have "map_of (fst later) db = Some c"
      using poolState_keeps[OF later] clientFor_pooled[OF got] by simp
    with False show ?thesis by (cases later) (simp add: clientFor_def)
  qed
  ultimately show ?thesis by blast
qed

text \<open>A view stays with its database: its client is that of the pool.\<close>

lemma poolDatabase_view:
  assumes "poolDatabase dial e db st = (Inr v, st')"
  shows "clientFor dial e db st = (Inr (exCli v), st') \<and> exDb v = (if db = [] then exDb e else db)"
  using assms by (auto simp: poolDatabase_def clientFor_def split: prod.splits sum.splits option.splits if_splits)

text \<open>A dialer that counts its calls and names its clients by database and number.\<close>

definition countDial :: "(nat, string \<times> nat) dialer" where
  "countDial cfg n = (Inr (ccDBName cfg, n), Suc n)"

definition localConfig :: milvusConfig where
  "localConfig = \<lparr>cfURI = ''localhost:19530'', cfToken = [], cfDB = []\<rparr>"

lemma pool_binds_witness:
  "\<exists>e st0 st'. NewMilvusExecutor countDial localConfig 0 = (Inr e, st0) \<and>
     clientFor countDial e ''sales'' st0 = (Inr (''sales'', 1), st') \<and>
     clientFor countDial e ''sales'' (snd (clientFor countDial e ''hr'' st')) =
       (Inr (''sales'', 1), snd (clientFor countDial e ''hr'' st'))"
proof -
  let ?e = "\<lparr>exCfg = localConfig, exCli = ([], 0), exDb = ''default''\<rparr>"
  let ?st' = "([(''sales'', (''sales'', 1))], 2)"
  have d: "dialsFor countDial fst" by (auto simp: dialsFor_def countDial_def)
  have start: "NewMilvusExecutor countDial localConfig 0 = (Inr ?e, ([], Suc 0))"
    by (simp add: NewMilvusExecutor_def countDial_def clientConfigFor_def localConfig_def)
  have got: "clientFor countDial ?e ''sales'' ([], Suc 0) = (Inr (''sales'', 1), ?st')"
    by (simp add: clientFor_def countDial_def clientConfigFor_def localConfig_def)
  have later: "poolState countDial ?e ?st' (snd (clientFor countDial ?e ''hr'' ?st'))"
    by (rule poolState.call[OF poolState.now])
  from pool_binds[OF d start poolState.now got] later start got show ?thesis by blast
qed

end
