(* ===== verification/Spec2Isabelle.thy ===== *)
theory Spec2Isabelle
  imports PgTable EsServed StorePool
begin

text \<open>
  Lyrebird is a gateway that serves a Milvus cluster to Elasticsearch clients (HTTP) and to
  PostgreSQL clients (the wire protocol). This development models its own logic, from the bytes
  of a statement or the JSON of a request down to the calls of the Milvus client library, and back
  to the response.

  \<^bold>\<open>The program.\<close> A frontend parses a request, folds it and lowers it against the schema of a
  collection into a protocol-neutral \<^emph>\<open>plan\<close>: a filter tree, a window, sort terms, a projection, an
  optional vector search (\<open>internal/translate\<close>). The store (\<open>internal/store\<close>) renders the filter as a
  Milvus expression and executes the plan; writes go through a strict check against the live
  schema. Two servers (\<open>internal/esserver\<close>, \<open>internal/pgserver\<close>) dispatch requests, call the
  frontend and the store, and render answers and errors. PostgreSQL tools first ask the system
  catalog; \<open>internal/catalog\<close> answers with a small SQL engine over virtual tables.

  \<^bold>\<open>The theories\<close>, bottom up, with the sources they model:

  \<^item> \<open>Prelude\<close>: results as sums, messages as lists of pieces, Go strings as byte strings;
    \<open>Quoting\<close>: the interface of quoted text (a locale, interpreted where a language quotes).
  \<^item> \<open>GoStrconv\<close>, \<open>GoFloat32\<close>, \<open>GoFloat64\<close>, \<open>GoArith\<close>, \<open>GoFmt\<close>, \<open>GoTime\<close>, \<open>GoJson\<close>, \<open>GoJsonDecode\<close>: what
    the source uses of Go's \<open>strconv\<close>, float arithmetic, \<open>fmt\<close>, \<open>time\<close> and \<open>encoding/json\<close>.
  \<^item> \<open>Expr\<close> (\<open>translate/expr.go\<close>), \<open>Plan\<close> (\<open>translate/translate.go\<close>, \<open>write.go\<close>), \<open>Tri\<close>: the expression tree and its
    rendering, the plan and the schema views, and the three-valued meaning of a filter, which the
    source does not have and every lowering is measured against.
  \<^item> \<open>PgLexer\<close>, \<open>PgWhere\<close>, \<open>PgParser\<close>, \<open>PgSelect\<close>, \<open>PgWrite\<close> (\<open>translate/pg\<close>): tokens, the WHERE tree with
    folding and lowering, the grammar, SELECT, and INSERT with UPDATE.
  \<^item> \<open>EsQuery\<close>, \<open>EsExpr\<close>, \<open>EsRequest\<close> (\<open>translate/es\<close>): the query DSL, its lowering, and search bodies,
    vector clauses and documents.
  \<^item> \<open>StoreSchema\<close>, \<open>StoreWrite\<close>, \<open>StoreSort\<close>, \<open>StoreRead\<close>, \<open>StorePool\<close>, \<open>Cluster\<close> (\<open>internal/store\<close>): described
    collections, the strict write path, sorting, plan execution, the pool of connections, and the
    interface \<open>Cluster\<close> with its two implementations.
  \<^item> \<open>EsHandler\<close>, \<open>EsWrite\<close>, \<open>EsCatalog\<close>, \<open>EsServer\<close>, \<open>EsServed\<close> (\<open>internal/esserver\<close>): search, document
    writes, introspection, the route table and dispatch, and what the server promises.
  \<^item> \<open>CatLexer\<close>, \<open>CatParser\<close>, \<open>CatGrammar\<close>, \<open>CatValue\<close>, \<open>CatTables\<close>, \<open>CatFunctions\<close>, \<open>CatEval\<close>, \<open>CatSpecial\<close>,
    \<open>CatApi\<close>, \<open>CatQuery\<close>, \<open>CatOrder\<close> (\<open>internal/catalog\<close>): lexing and splitting, the grammar and its totality,
    values and types, the virtual tables, the functions, evaluation, the recognised driver
    queries, preparation, and the properties of queries.
  \<^item> \<open>PgServer\<close>, \<open>PgServe\<close>, \<open>PgTable\<close> (\<open>internal/pgserver\<close>): dispatch and statement bodies, refusals and
    the shape of answers, and SQL over a table.
  \<^item> This theory: a property of both servers over one store.

  \<^bold>\<open>How state is modelled.\<close> The store and its clients are records of functions of a state of any
  type, so a call is \<open>'s \<Rightarrow> (error + 'a) \<times> 's\<close>, and one that may not return gives an option. An
  Elasticsearch handler and a prepared SQL statement are functions of that state. Errors are
  values; a Go panic is a value too (\<open>StorePanic\<close>, \<open>Panicked\<close>, \<open>CatPanic\<close>), recovered where the source
  recovers it and fatal (\<open>GatewayDown\<close>) where it does not.

  \<^bold>\<open>What the lemmas show\<close>, in groups:

  \<^item> \<^emph>\<open>Meaning\<close>: the plan of a SELECT, an UPDATE, a search body and a vector search admits exactly the
    rows the request asks for (\<open>selectPlan_exact\<close>, \<open>updateLower_exact\<close>, \<open>es_Translate_exact\<close>,
    \<open>es_knn_exact\<close>), through folding and lowering that keep the meaning.
  \<^item> \<^emph>\<open>Execution\<close>: the cursor scan ends with every match once, a sorted search returns its window, the
    strict write path sends nothing unless every row conforms (\<open>StoreRead\<close>, \<open>StoreSort\<close>, \<open>StoreWrite\<close>).
  \<^item> \<^emph>\<open>Servers\<close>: documents are indexed, created and updated under their own keys, only document requests
    write, routing is unambiguous; SELECT shows, UPDATE rewrites and INSERT sends what SQL says,
    refused writes change nothing, every row fits its announced columns, every refusal carries a
    documented code; what one protocol stores the other shows (\<open>indexed_then_selected\<close>).
  \<^item> \<^emph>\<open>Parsing\<close>: every parser ends with a tree or a classified error, accepted trees are well formed,
    no client text changes the structure of a rendered filter.
  \<^item> \<^emph>\<open>Catalog\<close>: prepared queries never meet an unknown function, rows fit, joins, scopes, ORDER BY and
    LIKE mean what they should, and the tables of one execution agree.
  \<^item> \<^emph>\<open>Deviations\<close>: where the code does not do this (NULL under NOT, wrapping windows, float keys, the
    order of small integers, BETWEEN in the catalog and others), a lemma shows it on an instance.

  \<^bold>\<open>Fuel.\<close> Structural recursion is used where the code recurses on a tree. The recursive-descent
  parsers recurse on the token list with fuel: \<open>Suc (length ts)\<close> for lists, \<open>4 * length ts + 4\<close> for the
  levels of a SQL condition (four levels between two tokens), and for the catalog grammar the
  number of tokens and one more for each nesting of statement and expression; the totality lemmas
  show that the fuel never runs out. The JSON reader has \<open>2 * length s + 2\<close>, and more changes
  nothing. The lexers recurse on the text, which every step shortens. The cursor scan is a
  \<open>partial_function\<close>, and its termination is a theorem.

  \<^bold>\<open>Parameters and hypotheses.\<close> The Milvus client library, Unicode case tables and regular
  expressions, the encoding of cells by the wire library and the JSON of opaque values are
  parameters. What is assumed of them is named: \<open>servesByKey\<close> and \<open>answersPlan\<close> (a query returns the
  rows its filter admits), \<open>servesDocuments\<close> and \<open>servesTable\<close> (a write of a row stores it under its key),
  \<open>write_contract\<close> (an empty or rejected write changes nothing; proved of both clusters),
  \<open>steady_reads\<close> and \<open>steadyGateway\<close> (reads do not write, preparation does not panic), \<open>dialsFor\<close> (a client
  stays with the database it was dialed for). Each has an instance in the witnesses. JSON bodies
  are given decoded, with numbers as their text; a float converted to an integer out of range
  gives the smallest integer, as on amd64; \<open>sort.SliceStable\<close> is the insertion sort it uses on blocks
  of up to 20 rows, and on longer inputs agrees with it wherever the comparison is an order.

  \<^bold>\<open>Not modelled\<close>: listening, shutdown and the wire formats of HTTP and PostgreSQL, which are network
  input and output in libraries; the access log and the log adapter; the \<open>took\<close> times; the command
  line (\<open>cmd/gateway/main.go\<close>); the test fixture (\<open>internal/milvustest\<close>) and the tests; documentation files.
  Requests of concurrent clients appear as sequences of steps on the shared state: between the
  calls of one handler nothing else moves it.
\<close>

subsection \<open>Across the protocols\<close>

lemma readStatement_view:
  assumes "databaseView gw db = returnS cl" "pg_Parse q = Inr sel" "readStatement gw db q s = (Inr [st], t)"
  shows "\<exists>v p cols types. clSchema cl (selTable sel) s = (Inr v, t) \<and> selectPlan sel (Some v) = Inr p \<and>
    resultColumns sel v = (cols, types) \<and> st = \<lparr>ppColumns = cols, ppParams = 0, ppBody = selectBody gw cl sel p cols types\<rparr>"
proof -
  from assms(1,3) obtain v u where v: "clSchema cl (selTable sel) s = (Inr v, u)"
    and rest: "(case selectPlan sel (Some v) of Inl e \<Rightarrow> refuse (wireError (gwCanceled gw) (OfTranslate e))
       | Inr p \<Rightarrow> (\<lambda>s. let (cols, types) = resultColumns sel v in
           (Inr [\<lparr>ppColumns = cols, ppParams = 0, ppBody = selectBody gw cl sel p cols types\<rparr>], s))) u = (Inr [st], t)"
    by (auto simp: readStatement_def assms(2) withView_def callP_Inr returnS_def)
  then show ?thesis by (auto simp: refuse_def Let_def split: sum.splits prod.splits)
qed


subsection \<open>An instance\<close>

text \<open>A table of rows with an integer key under both protocols.\<close>

definition sharedWrite :: "string \<Rightarrow> writeRow list \<Rightarrow> (row list, writeResult) call" where
  "sharedWrite name new = (\<lambda>rows.
     if list_all (\<lambda>r. writeValue idField (cell r ''id'') = Inr (cell r ''id'')) new
     then (Inr \<lparr>wrCount = int (length new), wrIDs = []\<rparr>, rev new @ rows)
     else (Inl (WriteFail (Rejected (writeErrf ClassType ''id'' []))), rows))"

definition sharedCluster :: "row list cluster" where
  "sharedCluster = listCluster\<lparr>clCollection := (\<lambda>_. returnS tableMeta), clInsert := sharedWrite, clUpsert := sharedWrite\<rparr>"

lemma sharedCluster_ops:
  "clCollection sharedCluster name rows = (Inr tableMeta, rows)"
  "clSchema sharedCluster name rows = (Inr (MapSchema []), rows)"
  "clSearch sharedCluster name p rows =
     Some (Inr \<lparr>srTotal = 0, srHits = map (\<lambda>r. \<lparr>hitId = [], hitSource = r\<rparr>) (listSearch p rows)\<rparr>, rows)"
  "clInsert sharedCluster = sharedWrite" "clUpsert sharedCluster = sharedWrite"
  by (simp_all add: sharedCluster_def listCluster_ops returnS_def)

lemma sharedCluster_contract: "write_contract sharedCluster"
  by unfold_locales (auto simp: sharedCluster_ops sharedWrite_def split: if_splits)

lemma sharedCluster_table:
  "servesTable holdsTrue map_of sharedCluster name (MapSchema []) (fmName idField) listTable (\<lambda>r. r)"
  unfolding servesTable_def idField_client
  by (simp add: sharedCluster_ops sharedWrite_def listTable_put listSearch_answers) (blast dest: listTable_key)

lemma keyPlan_admits:
  "isKey i \<Longrightarrow> planAdmits holdsTrue (map_of r) (keyPlan ''id'' (pkValue i)) \<longleftrightarrow> cell r ''id'' = i"
  by (auto simp: isKey_def planAdmits_def keyPlan_def emptyPlan_def passes_def leafVerdict_def holdsTrue_def pkValue_def
      cell_def split: gval.splits option.splits)

lemma distinct_one: "distinct xs \<Longrightarrow> set xs = {x} \<Longrightarrow> xs = [x]"
  by (cases xs; cases "tl xs") auto

lemma listSearch_key:
  assumes "isKey i"
  shows "listSearch (keyPlan ''id'' (pkValue i)) rows = (case listTable rows i of None \<Rightarrow> [] | Some r \<Rightarrow> [r])"
proof -
  let ?found = "filter (\<lambda>r. listTable rows i = Some r) (remdups rows)"
  have "?found = (case listTable rows i of None \<Rightarrow> [] | Some r \<Rightarrow> [r])"
  proof (cases "listTable rows i")
    case (Some r)
    have "set ?found = {r}" using listTable_in[OF Some] Some by auto
    then have "?found = [r]" by (intro distinct_one) simp_all
    then show ?thesis using Some by simp
  qed simp
  moreover have "(listTable rows (cell r ''id'') = Some r \<and> planAdmits holdsTrue (map_of r) (keyPlan ''id'' (pkValue i))) \<longleftrightarrow>
      listTable rows i = Some r" for r
    using keyPlan_admits[OF assms] listTable_key by auto
  ultimately show ?thesis
    by (auto simp: listSearch_def keyPlan_def emptyPlan_def split: option.splits)
qed

lemma sharedCluster_documents: "servesDocuments sharedCluster ''c'' idField listTable (\<lambda>r. r)"
proof -
  have "primaryKeyOf tableMeta = idField" by (simp add: primaryKeyOf_def tableMeta_def idField_def noField_def)
  then show ?thesis
    unfolding servesDocuments_def idField_client
    by (auto simp: sharedCluster_ops sharedWrite_def listSearch_key listTable_def split: option.splits if_splits)
qed

definition sharedGateway :: "row list gateway" where
  "sharedGateway = sampleGateway\<lparr>gwDatabase := (\<lambda>db. returnS sharedCluster)\<rparr>"

definition idSelect :: selectStmt where
  "idSelect = emptySelect\<lparr>selTable := ''c'', selColumns := [''id''], selLimit := 5, selHasLimit := True\<rparr>"

lemma idSelect_parse: "pg_Parse ''SELECT id FROM c LIMIT 5'' = Inr idSelect"
proof -
  have "(case pg_Parse ''SELECT id FROM c LIMIT 5'' of Inl _ \<Rightarrow> False
     | Inr s \<Rightarrow> selTable s = ''c'' \<and> selAlias s = [] \<and> selColumns s = [''id''] \<and> \<not> selStar s \<and>
        selWhere s = WNil \<and> selOrder s = [] \<and> selLimit s = 5 \<and> selOffset s = 0 \<and>
        selDistance s = None \<and> selHasLimit s)"
    by code_simp
  then show ?thesis
    by (auto simp: idSelect_def emptySelect_def split: sum.splits)
qed

lemma put_run:
  "\<exists>resp. writeDocument sharedCluster (Inl 0) putRequest \<lparr>wpId = ''7'', wpCreate = False\<rparr> [] =
     Some (resp, [[(''id'', GInt64 7)]]) \<and> esStatus resp \<in> {200, 201}"
  by (simp add: writeDocument_def putRequest_def run_handler sharedCluster_ops sharedWrite_def tableMeta_def idField_def
      noField_def run_write DecodeDocument_def ParseInt_7 emptyResult_def emptyPlan_def listSearch_def)

lemma idSelect_run:
  "\<exists>st ans. readStatement sharedGateway ''db'' ''SELECT id FROM c LIMIT 5'' rows = (Inr [st], rows) \<and>
     ppBody st [] rows = Some (ans, rows) \<and> (\<exists>tag. anEnd ans = Inr tag) \<and> length (anRows ans) \<le> length rows"
proof -
  let ?p = "emptyPlan\<lparr>pLimit := 5, pSource := \<lparr>FetchSource = True, Includes = [''id''], Excludes = []\<rparr>\<rparr>"
  let ?cols = "[\<lparr>wcName = ''id'', wcOid = typeOID TypeUnknown\<rparr>]"
  let ?st = "\<lparr>ppColumns = ?cols, ppParams = 0, ppBody = selectBody sharedGateway sharedCluster idSelect ?p ?cols [TypeUnknown]\<rparr>"
  let ?res = "sendRows (\<lambda>h. Some (hitCells (\<lambda>_. None) ?cols [TypeUnknown] h)) (\<lambda>_. None)
    (map (\<lambda>r. \<lparr>hitId = [], hitSource = r\<rparr>) (listSearch ?p rows))"
  have plan: "selectPlan idSelect (Some (MapSchema [])) = Inr ?p"
    by (simp add: selectPlan_def schemaOrEmpty_def idSelect_def emptySelect_def wrap64_def pg_maxResultWindow_def
        emptyPlan_def whereFilter_def isFalse_def Let_def)
  have cols: "resultColumns idSelect (MapSchema []) = (?cols, [TypeUnknown])"
    by (simp add: resultColumns_def selectedColumns_def idSelect_def emptySelect_def MapSchema_def Let_def)
  have view: "databaseView sharedGateway db s = (Inr sharedCluster, s)" for db s
    by (simp add: databaseView_def sharedGateway_def returnS_def)
  have "readStatement sharedGateway ''db'' ''SELECT id FROM c LIMIT 5'' rows = (Inr [?st], rows)"
    by (simp add: readStatement_def idSelect_parse withView_def callP_def view sharedCluster_ops plan cols)
  moreover have body: "ppBody ?st [] rows = Some (sentRows ?res, rows)"
    by (simp add: selectBody_def sharedCluster_ops sharedGateway_def sampleGateway_def)
  moreover have sent: "snd ?res = None" by (rule sendRows_through) simp
  then have "anEnd (sentRows ?res) = Inr (countTag ''SELECT'' (int (length (fst ?res))))" by (simp add: sentRows_Inr)
  moreover have "length (listSearch ?p rows) \<le> length rows"
    unfolding listSearch_def by (rule order_trans[OF _ length_remdups_leq[of rows]]) (simp add: min.coboundedI1 le_trans[OF length_filter_le])
  with sendRows_all[OF _ sent] have "length (anRows (sentRows ?res)) \<le> length rows" by (simp add: anRows_sent)
  ultimately show ?thesis by blast
qed


end
